(* ===== verification/Prelude.thy ===== *)
theory Prelude
  imports Main "HOL-Library.Word" "HOL-Library.Sublist" "HOL-Library.Multiset"
begin

text \<open>
  Vocabulary shared by all components: machine-integer types at the widths the Go code uses,
  the shape of a stateful operation, the lemma collections of the development, and generic
  lemmas on lists, sorting and words.
\<close>

section \<open>Types\<close>

type_synonym u16 = "16 word"
type_synonym u32 = "32 word"
type_synonym u64 = "64 word"

text \<open>
  An operation that reads and changes its environment takes the environment of type
  \<open>'w\<close> and returns its result with the new environment. Go's \<open>(T, error)\<close> becomes
  \<open>'e + 'a\<close>: \<open>Inl\<close> the error, \<open>Inr\<close> the value.
\<close>

type_synonym ('w, 'a) act = "'w \<Rightarrow> 'a \<times> 'w"

section \<open>Lemma collections\<close>

named_theorems go_string \<open>evaluation of the Go string and strconv functions\<close>
named_theorems go_json \<open>decoding of JSON values\<close>
named_theorems inv_intros \<open>preservation of a component's invariant\<close>

section \<open>Results\<close>

definition is_ok :: "'e + 'a \<Rightarrow> bool" where
  "is_ok r = (case r of Inl _ \<Rightarrow> False | Inr _ \<Rightarrow> True)"

lemma is_ok_simps [simp]: "\<not> is_ok (Inl e)" "is_ok (Inr x)"
  by (simp_all add: is_ok_def)

lemma is_okE: "is_ok r \<Longrightarrow> (\<And>x. r = Inr x \<Longrightarrow> P) \<Longrightarrow> P"
  by (cases r) auto

section \<open>Operations that keep a predicate\<close>

text \<open>
  \<open>keeps P f\<close>: \<open>f\<close> leaves \<open>P\<close> true of the environment. The rules follow the shape of the models
  (sequencing by \<open>case f w of (x, w1) \<Rightarrow> \<dots>\<close>, branching on results), so that
  \<open>intro keeps_intros\<close> walks through a definition.
\<close>

definition after :: "('w \<Rightarrow> bool) \<Rightarrow> 'a \<times> 'w \<Rightarrow> bool" where
  "after P r \<longleftrightarrow> P (snd r)"

definition keeps :: "('w \<Rightarrow> bool) \<Rightarrow> ('w, 'a) act \<Rightarrow> bool" where
  "keeps P f \<longleftrightarrow> (\<forall>w. P w \<longrightarrow> after P (f w))"

lemma keepsI: "(\<And>w. P w \<Longrightarrow> after P (f w)) \<Longrightarrow> keeps P f"
  by (simp add: keeps_def)

lemma keepsD: "keeps P f \<Longrightarrow> P w \<Longrightarrow> f w = (r, w') \<Longrightarrow> P w'"
  by (metis after_def keeps_def snd_conv)

lemma keeps_call: "P w \<Longrightarrow> keeps P f \<Longrightarrow> after P (f w)"
  by (simp add: keeps_def)

lemma after_bind:
  "P w \<Longrightarrow> keeps P f \<Longrightarrow> (\<And>x w1. P w1 \<Longrightarrow> after P (g x w1)) \<Longrightarrow>
     after P (case f w of (x, w1) \<Rightarrow> g x w1)"
  by (cases "f w") (auto dest: keepsD)

lemma after_ret: "P w \<Longrightarrow> after P (x, w)"
  by (simp add: after_def)

lemma after_sum:
  "(\<And>e. after P (f e)) \<Longrightarrow> (\<And>y. after P (g y)) \<Longrightarrow>
     after P (case s of Inl e \<Rightarrow> f e | Inr y \<Rightarrow> g y)"
  by (simp split: sum.splits)

lemma after_option:
  "after P f \<Longrightarrow> (\<And>y. after P (g y)) \<Longrightarrow> after P (case s of None \<Rightarrow> f | Some y \<Rightarrow> g y)"
  by (simp split: option.splits)

lemma after_if: "after P x \<Longrightarrow> after P y \<Longrightarrow> after P (if c then x else y)"
  by simp

lemmas keeps_intros = after_ret after_bind after_sum after_option after_if

section \<open>Lists\<close>

text \<open>Order-preserving removal of duplicates, first occurrences kept: the \<open>seen\<close>-set loop.\<close>

fun keep_first :: "'a list \<Rightarrow> 'a list \<Rightarrow> 'a list" where
  "keep_first seen [] = []"
| "keep_first seen (x # xs) =
     (if x \<in> set seen then keep_first seen xs else x # keep_first (x # seen) xs)"

lemma set_keep_first: "set (keep_first seen xs) = set xs - set seen"
  by (induction xs arbitrary: seen) auto

lemma distinct_keep_first: "distinct (keep_first seen xs)"
  by (induction xs arbitrary: seen) (auto simp: set_keep_first)

lemma sorted_key_unique:
  assumes "mset xs = mset ys" "distinct (map f xs)" "sorted (map f xs)" "sorted (map f ys)"
  shows "xs = ys"
proof -
  have "xs = sort_key f xs" using assms(3) by (simp add: sort_key_id_if_sorted)
  moreover have "ys = sort_key f ys" using assms(4) by (simp add: sort_key_id_if_sorted)
  moreover have "sort_key f xs = sort_key f ys"
    using assms(1,2) by (intro sort_key_eq_sort_key) (auto simp: distinct_map)
  ultimately show ?thesis by simp
qed

section \<open>Words\<close>

lemma unat_bounds [simp]:
  "unat (x :: u16) < 65536" "unat (y :: u32) < 4294967296"
  "unat (z :: u64) < 18446744073709551616"
proof -
  have "unat x < 2 ^ LENGTH(16)" "unat y < 2 ^ LENGTH(32)" "unat z < 2 ^ LENGTH(64)"
    by (rule unsigned_less)+
  then show "unat x < 65536" "unat y < 4294967296" "unat z < 18446744073709551616"
    by simp_all
qed

lemma unat_u16_lt [simp]: "unat (x :: u16) < 4294967296"
  using unat_bounds(1) [of x] by linarith

lemma unat_of_nat_small [simp]:
  "n < 65536 \<Longrightarrow> unat (word_of_nat n :: u16) = n"
  "n < 4294967296 \<Longrightarrow> unat (word_of_nat n :: u32) = n"
  "n < 18446744073709551616 \<Longrightarrow> unat (word_of_nat n :: u64) = n"
  by (simp_all add: unsigned_of_nat take_bit_nat_eq_self)

lemma unat_ucast_32_64 [simp]: "unat (ucast (x :: u32) :: u64) = unat x"
  using unat_bounds(2) [of x] by (simp add: unsigned_ucast_eq take_bit_nat_eq_self del: unat_bounds)

lemma unat_ucast_16_32 [simp]: "unat (ucast (x :: u16) :: u32) = unat x"
  using unat_bounds(1) [of x] by (simp add: unsigned_ucast_eq take_bit_nat_eq_self del: unat_bounds)

lemma unat_add_small:
  fixes a b :: u64
  shows "unat a + unat b < 18446744073709551616 \<Longrightarrow> unat (a + b) = unat a + unat b"
  by (simp add: unat_word_ariths)

lemma u64_less_Suc:
  fixes m :: u64
  assumes "m \<noteq> - 1"
  shows "m < m + 1"
proof -
  have "unat (- 1 :: u64) = 18446744073709551615"
    by (simp add: unsigned_minus_1_eq_mask mask_eq_exp_minus_1)
  then have "unat m \<noteq> 18446744073709551615" using assms by (metis word_unat_eq_iff)
  then have "unat m + 1 < 18446744073709551616" using unat_bounds(3) [of m] by linarith
  then have "unat (m + 1) = unat m + 1" by (subst unat_add_small) simp_all
  then show ?thesis by (simp add: word_less_nat_alt)
qed

end
