(* ===== verification/CoreRuntime.thy ===== *)
theory CoreRuntime
  imports GoStrings "HOL-Library.AList"
begin

text \<open>
  \<open>internal/core/runtime\<close>: the substrate-agnostic seam. Its data types (sandbox status,
  references, specifications, mounts, network rules, exec requests) and the three port-list
  functions of \<open>publish.go\<close>.
\<close>

section \<open>Data\<close>

text \<open>\<open>StNone\<close> is the empty string, the zero value of the string type.\<close>

datatype SandboxStatus = StNone | StCreated | StRunning | StPaused | StStopped

record SandboxRef =
  ref_id :: string
  ref_project :: string
  ref_name :: string
  ref_status :: SandboxStatus

datatype NetAction = NetAllow | NetDeny

record NetRule =
  rule_action :: NetAction
  rule_host :: string
  rule_port :: u16

record Mount =
  mnt_host :: string
  mnt_guest :: string
  mnt_readonly :: bool
  mnt_noexec :: bool
  mnt_nosuid :: bool
  mnt_nodev :: bool

text \<open>
  A Go map is an association list with distinct keys, read by \<open>map_of\<close>;
  \<open>m[k] = v\<close> is \<open>AList.update k v m\<close>. \<open>spec_portmap = None\<close> is Go's nil map.
\<close>

record SandboxSpec =
  spec_project :: string
  spec_name :: string
  spec_image :: string
  spec_vcpus :: u32
  spec_memory :: u32
  spec_motive :: string
  spec_remove_on_exit :: bool
  spec_mounts :: "Mount list"
  spec_netrules :: "NetRule list"
  spec_ports :: "u16 list"
  spec_portmap :: "(u16 \<times> u16) list option"

definition empty_spec :: SandboxSpec where
  "empty_spec = \<lparr>spec_project = [], spec_name = [], spec_image = [], spec_vcpus = 0,
     spec_memory = 0, spec_motive = [], spec_remove_on_exit = False, spec_mounts = [],
     spec_netrules = [], spec_ports = [], spec_portmap = None\<rparr>"

section \<open>Port lists (publish.go)\<close>

definition SamePortMap :: "u16 list \<Rightarrow> (u16 \<times> u16) list" where
  "SamePortMap ports = fold (\<lambda>p m. AList.update p p m) ports []"

datatype port_error = PortZero | DuplicatePort u16

text \<open>The loop of \<open>ValidatePorts\<close>, with its \<open>seen\<close> set as a list.\<close>

fun validate_from :: "u16 list \<Rightarrow> u16 list \<Rightarrow> port_error option" where
  "validate_from seen [] = None"
| "validate_from seen (p # ps) =
     (if p = 0 then Some PortZero
      else if p \<in> set seen then Some (DuplicatePort p)
      else validate_from (p # seen) ps)"

definition ValidatePorts :: "u16 list \<Rightarrow> port_error option" where
  "ValidatePorts ports = validate_from [] ports"

definition MergePorts :: "u16 list \<Rightarrow> u16 list \<Rightarrow> u16 list" where
  "MergePorts existing extra = sort (keep_first [] (existing @ extra))"

section \<open>Lemmas\<close>

lemma fold_update_same:
  "map_of (fold (\<lambda>p m. AList.update p p m) ps m) p = (if p \<in> set ps then Some p else map_of m p)"
  by (induction ps arbitrary: m) (auto simp: update_conv')

lemma SamePortMap_apply: "map_of (SamePortMap ps) p = (if p \<in> set ps then Some p else None)"
  by (simp add: SamePortMap_def fold_update_same)

lemma SamePortMap_keys: "distinct (map fst (SamePortMap ps)) \<and> fst ` set (SamePortMap ps) = set ps"
proof -
  have "distinct (map fst (fold (\<lambda>p m. AList.update p p m) ps m))
        \<and> fst ` set (fold (\<lambda>p m. AList.update p p m) ps m) = set ps \<union> fst ` set m"
    if "distinct (map fst m)" for m :: "(u16 \<times> u16) list"
    using that by (induction ps arbitrary: m) (auto simp: distinct_update dom_update)
  from this [of "[]"] show ?thesis by (simp add: SamePortMap_def)
qed

lemma validate_from_None:
  "validate_from seen ps = None \<longleftrightarrow> 0 \<notin> set ps \<and> distinct ps \<and> set ps \<inter> set seen = {}"
  by (induction ps arbitrary: seen) auto

lemma ValidatePorts_None: "ValidatePorts ps = None \<longleftrightarrow> 0 \<notin> set ps \<and> distinct ps"
  by (simp add: ValidatePorts_def validate_from_None)

lemma validate_from_Duplicate:
  "validate_from seen ps = Some (DuplicatePort p) \<Longrightarrow>
     p \<noteq> 0 \<and> p \<in> set ps \<and> (p \<in> set seen \<or> \<not> distinct ps)"
proof (induction ps arbitrary: seen)
  case (Cons a ps)
  then show ?case using Cons.IH [of "a # seen"] by (auto split: if_splits)
qed simp

lemma set_MergePorts [simp]: "set (MergePorts xs ys) = set xs \<union> set ys"
  by (simp add: MergePorts_def set_keep_first)

lemma distinct_MergePorts [simp]: "distinct (MergePorts xs ys)"
  by (simp add: MergePorts_def distinct_keep_first)

lemma sorted_MergePorts [simp]: "sorted (MergePorts xs ys)"
  by (simp add: MergePorts_def)

lemma MergePorts_canonical: "MergePorts xs ys = sorted_list_of_set (set xs \<union> set ys)"
  by (rule sorted_distinct_set_unique) auto

text \<open>
  the port list that \<open>Publish\<close> gives the runtime. Merging the published ports into the
  ports a sandbox already has yields the one strictly increasing list of their union, so the
  order and the duplicates of the inputs do not matter; validated extra ports on an already
  valid list give a valid list again.
\<close>

theorem merge_ports_canonical:
  "MergePorts xs ys = sorted_list_of_set (set xs \<union> set ys)
   \<and> MergePorts xs ys = MergePorts ys xs
   \<and> (ValidatePorts (MergePorts xs ys) = None \<longleftrightarrow> 0 \<notin> set xs \<union> set ys)"
  by (simp add: MergePorts_canonical ValidatePorts_None Un_commute)

end
