(* ===== verification/NetProfile.thy ===== *)
theory NetProfile
  imports CoreRuntime
begin

text \<open>
  \<open>internal/core/netprofile\<close>: the shipped egress profile. \<open>Rules\<close> turns an allow list
  into runtime rules and refuses an empty one; \<open>Shipped\<close> is the default allow list and
  panics only if that list were invalid, written as the \<open>Inl\<close> branch of \<open>shipped_or_panic\<close>.
\<close>

record Entry =
  ent_host :: string
  ent_port :: u16

record Config =
  cfg_allow :: "Entry list"

datatype profile_error = ErrEmptyConfig

definition DefaultConfig :: Config where
  "DefaultConfig = \<lparr>cfg_allow = [\<lparr>ent_host = ''api.anthropic.com'', ent_port = 443\<rparr>]\<rparr>"

definition Rules :: "Config \<Rightarrow> profile_error + NetRule list" where
  "Rules c =
     (if cfg_allow c = [] then Inl ErrEmptyConfig
      else Inr (map (\<lambda>e. \<lparr>rule_action = NetAllow, rule_host = ent_host e,
                          rule_port = ent_port e\<rparr>) (cfg_allow c)))"

definition shipped_or_panic :: "profile_error + NetRule list" where
  "shipped_or_panic = Rules DefaultConfig"

definition Shipped :: "NetRule list" where
  "Shipped = (case shipped_or_panic of Inl _ \<Rightarrow> [] | Inr rules \<Rightarrow> rules)"

definition Apply_profile :: "SandboxSpec \<Rightarrow> SandboxSpec" where
  "Apply_profile spec = spec\<lparr>spec_netrules := Shipped\<rparr>"

definition Closed :: "NetRule list" where
  "Closed = [\<lparr>rule_action = NetDeny, rule_host = ''public'', rule_port = 0\<rparr>]"

lemma shipped_no_panic: "shipped_or_panic = Inr Shipped"
  by (simp add: Shipped_def shipped_or_panic_def Rules_def DefaultConfig_def)

lemma Shipped_eq:
  "Shipped = [\<lparr>rule_action = NetAllow, rule_host = ''api.anthropic.com'', rule_port = 443\<rparr>]"
  by (simp add: Shipped_def shipped_or_panic_def Rules_def DefaultConfig_def)

lemma Rules_all_allow: "Rules c = Inr rs \<Longrightarrow> r \<in> set rs \<Longrightarrow> rule_action r = NetAllow"
  by (auto simp: Rules_def split: if_splits)

lemma Rules_nonempty: "Rules c = Inr rs \<Longrightarrow> rs \<noteq> []"
  by (auto simp: Rules_def split: if_splits)

end
