(* ===== verification/GoJson.thy ===== *)
theory GoJson
  imports GoStrings
begin

text \<open>
  What the program uses of \<open>encoding/json\<close>: decoding a JSON value into a Go value. A raw text
  is known by its syntax class: empty, malformed, or the text of a JSON value. Numbers keep
  their literal, since Go parses the literal at the width of the destination.

  A decoder takes the JSON value and the destination and returns whether no type error occurred
  together with the new destination: as in Go, a mismatch leaves that destination unchanged,
  decoding goes on, and \<open>Unmarshal\<close> reports the error at the end. \<open>null\<close> leaves scalars and
  structs alone and clears pointers and slices. Keys match fields without regard to ASCII case,
  and a repeated key is decoded again over the earlier result. (Two array-valued occurrences of
  one key, whose elements Go would merge index by index, are decoded afresh here.)
\<close>

datatype json =
    JNull
  | JBool bool
  | JNum string
  | JStr string
  | JArr "json list"
  | JObj "(string \<times> json) list"

datatype jtext = JEmpty | JMalformed | JDoc json

type_synonym 'a decoder = "json \<Rightarrow> 'a \<Rightarrow> bool \<times> 'a"

definition lower_char :: "char \<Rightarrow> char" where
  "lower_char c = (let n = (of_char c :: nat) in if 65 \<le> n \<and> n \<le> 90 then char_of (n + 32) else c)"

definition key_is :: "string \<Rightarrow> string \<Rightarrow> bool" where
  "key_is field key \<longleftrightarrow> key = field \<or> map lower_char key = map lower_char field"

definition dec_string :: "string decoder" where
  "dec_string j v = (case j of JNull \<Rightarrow> (True, v) | JStr s \<Rightarrow> (True, s) | _ \<Rightarrow> (False, v))"

definition dec_bool :: "bool decoder" where
  "dec_bool j v = (case j of JNull \<Rightarrow> (True, v) | JBool b \<Rightarrow> (True, b) | _ \<Rightarrow> (False, v))"

definition dec_uint :: "nat \<Rightarrow> 'n::len word decoder" where
  "dec_uint bits j v =
     (case j of
        JNull \<Rightarrow> (True, v)
      | JNum s \<Rightarrow> (case parse_uint 10 bits s of
                    None \<Rightarrow> (False, v)
                  | Some n \<Rightarrow> (True, word_of_nat n))
      | _ \<Rightarrow> (False, v))"

text \<open>A struct: \<open>field k j s\<close> decodes the value \<open>j\<close> of key \<open>k\<close>; unknown keys are skipped.\<close>

fun dec_pairs :: "(string \<Rightarrow> 's decoder) \<Rightarrow> (string \<times> json) list \<Rightarrow> 's \<Rightarrow> bool \<times> 's" where
  "dec_pairs field [] s = (True, s)"
| "dec_pairs field ((k, j) # kvs) s =
     (let (ok, s') = field k j s; (ok', s'') = dec_pairs field kvs s' in (ok \<and> ok', s''))"

definition dec_struct :: "(string \<Rightarrow> 's decoder) \<Rightarrow> 's decoder" where
  "dec_struct field j s =
     (case j of JNull \<Rightarrow> (True, s) | JObj kvs \<Rightarrow> dec_pairs field kvs s | _ \<Rightarrow> (False, s))"

text \<open>A pointer to a struct: allocated on the first non-null value, cleared by \<open>null\<close>.\<close>

definition dec_ptr :: "'s decoder \<Rightarrow> 's \<Rightarrow> 's option decoder" where
  "dec_ptr dec zero j p =
     (case j of
        JNull \<Rightarrow> (True, None)
      | _ \<Rightarrow> (let (ok, v) = dec j (case p of None \<Rightarrow> zero | Some v \<Rightarrow> v) in (ok, Some v)))"

fun dec_elems :: "'a decoder \<Rightarrow> 'a \<Rightarrow> json list \<Rightarrow> bool \<times> 'a list" where
  "dec_elems dec zero [] = (True, [])"
| "dec_elems dec zero (j # js) =
     (let (ok, v) = dec j zero; (ok', vs) = dec_elems dec zero js in (ok \<and> ok', v # vs))"

definition dec_slice :: "'a decoder \<Rightarrow> 'a \<Rightarrow> 'a list decoder" where
  "dec_slice dec zero j vs =
     (case j of JNull \<Rightarrow> (True, []) | JArr js \<Rightarrow> dec_elems dec zero js | _ \<Rightarrow> (False, vs))"

text \<open>\<open>map[string]json.RawMessage\<close>: the pairs, a later occurrence of a key replacing an earlier one.\<close>

definition dec_rawmap :: "json \<Rightarrow> (string \<rightharpoonup> json) option" where
  "dec_rawmap j =
     (case j of JNull \<Rightarrow> Some Map.empty | JObj kvs \<Rightarrow> Some (map_of (rev kvs)) | _ \<Rightarrow> None)"

text \<open>\<open>json.Unmarshal(text, &v)\<close> with \<open>v\<close> initially \<open>zero\<close>: \<open>None\<close> for any error.\<close>

definition unmarshal :: "'a decoder \<Rightarrow> 'a \<Rightarrow> jtext \<Rightarrow> 'a option" where
  "unmarshal dec zero t =
     (case t of
        JDoc j \<Rightarrow> (let (ok, v) = dec j zero in if ok then Some v else None)
      | _ \<Rightarrow> None)"

text \<open>The same call with its error ignored: the destination afterwards.\<close>

definition unmarshal_lax :: "'a decoder \<Rightarrow> 'a \<Rightarrow> jtext \<Rightarrow> 'a" where
  "unmarshal_lax dec v t = (case t of JDoc j \<Rightarrow> snd (dec j v) | _ \<Rightarrow> v)"

lemma key_is_refl [simp]: "key_is k k"
  by (simp add: key_is_def)

lemma unmarshal_simps [simp]:
  "unmarshal dec z JEmpty = None" "unmarshal dec z JMalformed = None"
  by (simp_all add: unmarshal_def)

lemma dec_elems_ok:
  "\<forall>j \<in> set js. fst (dec j zero) \<Longrightarrow> dec_elems dec zero js = (True, map (\<lambda>j. snd (dec j zero)) js)"
  by (induction js) (auto simp: case_prod_beta Let_def)

end
