(* ===== verification/MsbSdk.thy ===== *)
theory MsbSdk
  imports CoreRuntime GoJson
begin

text \<open>
  The microsandbox Go SDK is not part of the repository: everything the program asks of it is
  the record \<open>'w sdk\<close> of operations on an unknown daemon state \<open>'w\<close>, an argument of every
  definition that calls it. \<open>sdk_ctx\<close> is \<open>ctx.Err()\<close>. The rest of the theory is the data
  that crosses the boundary, and one concrete daemon (a list of sandboxes) that has the
  documented behaviour and instantiates the parameter where a theorem needs an example.
\<close>

section \<open>Data of the SDK\<close>

datatype sdk_status =
  SdkCreated | SdkStarting | SdkRunning | SdkDraining | SdkPaused | SdkStopped | SdkCrashed

datatype policy_action = PolicyAllow | PolicyDeny

text \<open>\<open>AllowDNS\<close> is the SDK's ready-made rule; the others are written out field by field:
  action, destination, port text.\<close>

datatype policy_rule = RuleAllowDNS | RuleEgressTCP policy_action string string

record network_config =
  net_default_egress :: policy_action
  net_rules :: "policy_rule list"

record mount_config =
  mc_host :: string
  mc_readonly :: bool
  mc_noexec :: bool
  mc_nosuid :: bool
  mc_nodev :: bool
  mc_stat_relaxed :: bool
  mc_perm_mirror :: bool

datatype sandbox_option =
    OptQuietLogs
  | OptImage string
  | OptCPUs "8 word"
  | OptMaxCPUs "8 word"
  | OptMemory u32
  | OptMaxMemory u32
  | OptLabels "(string \<times> string) list"
  | OptMounts "(string \<times> mount_config) list"
  | OptPorts "(u16 \<times> u16) list"
  | OptNetwork network_config
  | OptEphemeral bool
  | OptDetached

text \<open>A sandbox handle is a snapshot; \<open>hd_labels = None\<close> when \<open>Config()\<close> fails or is nil.\<close>

record sdk_handle =
  hd_id :: string
  hd_name :: string
  hd_status :: sdk_status
  hd_labels :: "(string \<times> string) list option"
  hd_config :: jtext

type_synonym page = "sdk_handle list \<times> string option"

record 'w sdk =
  sdk_ctx :: "'w \<Rightarrow> string option"
  sdk_List :: "string option \<Rightarrow> ('w, string + page) act"
  sdk_Get :: "string \<Rightarrow> ('w, string + sdk_handle) act"
  sdk_Create :: "string \<Rightarrow> sandbox_option list \<Rightarrow> ('w, string option) act"
  sdk_Detach :: "string \<Rightarrow> ('w, string option) act"
  sdk_Destroy :: "string \<Rightarrow> ('w, string option) act"
  sdk_Connect :: "string \<Rightarrow> ('w, string option) act"
  sdk_StartDetached :: "string \<Rightarrow> ('w, string option) act"
  sdk_Stop :: "string \<Rightarrow> ('w, string option) act"
  sdk_Kill :: "string \<Rightarrow> ('w, string option) act"
  sdk_Remove :: "string \<Rightarrow> ('w, string option) act"
  sdk_Refresh :: "string \<Rightarrow> ('w, string + sdk_handle) act"

section \<open>A concrete daemon\<close>

text \<open>The JSON record the daemon keeps for a sandbox created with the given options.\<close>

fun opt_memory :: "sandbox_option list \<Rightarrow> u32" where
  "opt_memory [] = 512"
| "opt_memory (OptMemory m # os) = m"
| "opt_memory (_ # os) = opt_memory os"

fun opt_ports :: "sandbox_option list \<Rightarrow> (u16 \<times> u16) list" where
  "opt_ports [] = []"
| "opt_ports (OptPorts m # os) = m"
| "opt_ports (_ # os) = opt_ports os"

fun opt_labels :: "sandbox_option list \<Rightarrow> (string \<times> string) list" where
  "opt_labels [] = []"
| "opt_labels (OptLabels m # os) = m"
| "opt_labels (_ # os) = opt_labels os"

fun opt_egress :: "sandbox_option list \<Rightarrow> policy_action" where
  "opt_egress [] = PolicyAllow"
| "opt_egress (OptNetwork n # os) = net_default_egress n"
| "opt_egress (_ # os) = opt_egress os"

definition config_record :: "u32 \<Rightarrow> policy_action \<Rightarrow> u16 list \<Rightarrow> json" where
  "config_record mem egress ports = JObj
     [(''resources'', JObj [(''memory_mib'', JNum (show_nat (unat mem)))]),
      (''network'', JObj
         [(''enabled'', JBool True),
          (''policy'', JObj [(''default_egress'',
             JStr (case egress of PolicyAllow \<Rightarrow> ''allow'' | PolicyDeny \<Rightarrow> ''deny''))]),
          (''ports'', JArr (map (\<lambda>p. JObj [(''host_port'', JNum (show_nat (unat p)))]) ports))])]"

record daemon =
  dm_boxes :: "sdk_handle list"

definition dm_find :: "string \<Rightarrow> daemon \<Rightarrow> sdk_handle option" where
  "dm_find n d = find (\<lambda>h. hd_name h = n) (dm_boxes d)"

definition dm_set_status :: "string \<Rightarrow> sdk_status \<Rightarrow> daemon \<Rightarrow> daemon" where
  "dm_set_status n st d =
     d\<lparr>dm_boxes := map (\<lambda>h. if hd_name h = n then h\<lparr>hd_status := st\<rparr> else h) (dm_boxes d)\<rparr>"

definition dm_delete :: "string \<Rightarrow> daemon \<Rightarrow> daemon" where
  "dm_delete n d = d\<lparr>dm_boxes := filter (\<lambda>h. hd_name h \<noteq> n) (dm_boxes d)\<rparr>"

text \<open>Listing with a limit of one: the cursor is the name of the last sandbox returned.\<close>

fun after_name :: "string \<Rightarrow> sdk_handle list \<Rightarrow> sdk_handle list" where
  "after_name n [] = []"
| "after_name n (h # hs) = (if hd_name h = n then hs else after_name n hs)"

fun one_page :: "sdk_handle list \<Rightarrow> page" where
  "one_page [] = ([], None)"
| "one_page [h] = ([h], None)"
| "one_page (h # hs) = ([h], Some (hd_name h))"

definition dm_list :: "string option \<Rightarrow> (daemon, string + page) act" where
  "dm_list c d =
     (Inr (one_page (case c of None \<Rightarrow> dm_boxes d | Some n \<Rightarrow> after_name n (dm_boxes d))), d)"

definition dm_get :: "string \<Rightarrow> (daemon, string + sdk_handle) act" where
  "dm_get n d = (case dm_find n d of None \<Rightarrow> (Inl ''not found'', d) | Some h \<Rightarrow> (Inr h, d))"

definition dm_create :: "string \<Rightarrow> sandbox_option list \<Rightarrow> (daemon, string option) act" where
  "dm_create n opts d =
     (case dm_find n d of
        Some _ \<Rightarrow> (Some ''exists'', d)
      | None \<Rightarrow>
          (None, d\<lparr>dm_boxes := dm_boxes d @
             [\<lparr>hd_id = ''id-'' @ n, hd_name = n, hd_status = SdkRunning,
               hd_labels = Some (opt_labels opts),
               hd_config = JDoc (config_record (opt_memory opts) (opt_egress opts)
                                   (map fst (opt_ports opts)))\<rparr>]\<rparr>))"

definition dm_on_existing :: "(daemon \<Rightarrow> daemon) \<Rightarrow> string \<Rightarrow> (daemon, string option) act" where
  "dm_on_existing f n d =
     (case dm_find n d of None \<Rightarrow> (Some ''not found'', d) | Some _ \<Rightarrow> (None, f d))"

definition daemon_sdk :: "daemon sdk" where
  "daemon_sdk =
     \<lparr>sdk_ctx = (\<lambda>_. None),
      sdk_List = dm_list,
      sdk_Get = dm_get,
      sdk_Create = dm_create,
      sdk_Detach = dm_on_existing id,
      sdk_Destroy = (\<lambda>n. dm_on_existing (dm_delete n) n),
      sdk_Connect = dm_on_existing id,
      sdk_StartDetached = (\<lambda>n. dm_on_existing (dm_set_status n SdkRunning) n),
      sdk_Stop = (\<lambda>n. dm_on_existing (dm_set_status n SdkStopped) n),
      sdk_Kill = (\<lambda>n. dm_on_existing (dm_set_status n SdkStopped) n),
      sdk_Remove = (\<lambda>n. dm_on_existing (dm_delete n) n),
      sdk_Refresh = dm_get\<rparr>"

lemma daemon_sdk_simps [simp]:
  "sdk_ctx daemon_sdk d = None" "sdk_List daemon_sdk = dm_list" "sdk_Get daemon_sdk = dm_get"
  "sdk_Create daemon_sdk = dm_create" "sdk_Detach daemon_sdk = dm_on_existing id"
  "sdk_Destroy daemon_sdk = (\<lambda>n. dm_on_existing (dm_delete n) n)"
  "sdk_Connect daemon_sdk = dm_on_existing id"
  "sdk_StartDetached daemon_sdk = (\<lambda>n. dm_on_existing (dm_set_status n SdkRunning) n)"
  "sdk_Stop daemon_sdk = (\<lambda>n. dm_on_existing (dm_set_status n SdkStopped) n)"
  "sdk_Kill daemon_sdk = (\<lambda>n. dm_on_existing (dm_set_status n SdkStopped) n)"
  "sdk_Remove daemon_sdk = (\<lambda>n. dm_on_existing (dm_delete n) n)"
  "sdk_Refresh daemon_sdk = dm_get"
  by (simp_all add: daemon_sdk_def)

lemma after_name_append:
  "n \<notin> hd_name ` set xs \<Longrightarrow> hd_name h = n \<Longrightarrow> after_name n (xs @ h # ys) = ys"
  by (induction xs) auto

end
