(* ===== verification/Admission.thy ===== *)
theory Admission
  imports GoStrings
begin

text \<open>
  \<open>internal/core/admission\<close>: the host RAM budget and the admission decision. The budget is
  the environment override or a quarter of \<open>MemTotal\<close>; a create is refused when committed
  plus requested memory exceeds it, and when committed memory cannot be determined.
\<close>

unbundle bit_operations_syntax

section \<open>Constants and errors\<close>

definition MaxSandboxMemoryMiB :: u32 where "MaxSandboxMemoryMiB = 8192"
definition HostBudgetDivisor :: u64 where "HostBudgetDivisor = 4"
definition FallbackHostBudgetMiB :: u32 where "FallbackHostBudgetMiB = 2048"

datatype adm_error =
    CommittedUnknown string
  | BudgetExceeded u32 u32 u64 u32
  | BudgetInvalid
  | RequestInvalid

section \<open>Reading MemTotal\<close>

text \<open>
  What the scanner over \<open>/proc/meminfo\<close> delivers: the open error, or the lines it returns
  before it stops together with whether \<open>scanner.Err()\<close> is then non-nil.
\<close>

datatype meminfo = OpenFailed | Scanned "string list" bool

datatype mem_error = MemOpen | MalformedLine | Unparsable | Implausible | ScanFailed | NoMemTotal

definition mem_total_of_line :: "string \<Rightarrow> mem_error + u32" where
  "mem_total_of_line line =
     (let fs = fields line in
      if length fs < 2 then Inl MalformedLine
      else (case parse_uint 10 64 (fs ! 1) of
              None \<Rightarrow> Inl Unparsable
            | Some kib \<Rightarrow>
                let mib = kib div 1024 in
                if mib = 0 \<or> mib > unat (NOT (0 :: u32)) then Inl Implausible
                else Inr (word_of_nat mib)))"

fun scan_mem_total :: "string list \<Rightarrow> bool \<Rightarrow> mem_error + u32" where
  "scan_mem_total [] err = Inl (if err then ScanFailed else NoMemTotal)"
| "scan_mem_total (l # ls) err =
     (if \<not> has_prefix l ''MemTotal:'' then scan_mem_total ls err else mem_total_of_line l)"

fun hostMemTotalMiB :: "meminfo \<Rightarrow> mem_error + u32" where
  "hostMemTotalMiB OpenFailed = Inl MemOpen"
| "hostMemTotalMiB (Scanned ls err) = scan_mem_total ls err"

definition DefaultBudgetMiB :: "meminfo \<Rightarrow> u32" where
  "DefaultBudgetMiB m =
     (case hostMemTotalMiB m of
        Inl _ \<Rightarrow> FallbackHostBudgetMiB
      | Inr tot \<Rightarrow> ucast ((ucast tot :: u64) div HostBudgetDivisor))"

text \<open>\<open>Budget\<close>: \<open>env\<close> is the result of \<open>os.LookupEnv\<close> on the override variable.\<close>

definition Budget :: "string option \<Rightarrow> meminfo \<Rightarrow> adm_error + u32" where
  "Budget env m =
     (case env of
        Some (c # cs) \<Rightarrow>
          (case parse_uint 10 32 (c # cs) of
             None \<Rightarrow> Inl BudgetInvalid
           | Some n \<Rightarrow> if n = 0 then Inl BudgetInvalid else Inr (word_of_nat n))
      | _ \<Rightarrow> if DefaultBudgetMiB m = 0 then Inl BudgetInvalid else Inr (DefaultBudgetMiB m))"

section \<open>The decision\<close>

definition Decide :: "u32 \<Rightarrow> u32 \<Rightarrow> u32 \<Rightarrow> adm_error option" where
  "Decide budget committed requested =
     (if budget = 0 then Some BudgetInvalid
      else if requested = 0 then Some RequestInvalid
      else let tot = (ucast committed :: u64) + ucast requested in
           if tot > ucast budget
           then Some (BudgetExceeded committed requested tot budget)
           else None)"

text \<open>
  \<open>Admit\<close>: the accountant is the interface value (\<open>None\<close> for nil); its operation may
  change the environment \<open>'w\<close> it talks to.
\<close>

definition Admit ::
  "string option \<Rightarrow> meminfo \<Rightarrow> ('w, string + u32) act option \<Rightarrow> u32 \<Rightarrow> ('w, adm_error option) act" where
  "Admit env m acct requested w =
     (case Budget env m of
        Inl e \<Rightarrow> (Some e, w)
      | Inr budget \<Rightarrow>
          (case acct of
             None \<Rightarrow> (Some (CommittedUnknown ''runtime exposes no memory accountant''), w)
           | Some committedMiB \<Rightarrow>
               (case committedMiB w of
                  (Inl e, w') \<Rightarrow> (Some (CommittedUnknown e), w')
                | (Inr c, w') \<Rightarrow> (Decide budget c requested, w'))))"

section \<open>Lemmas\<close>

lemma unat_total:
  "unat ((ucast (a :: u32) :: u64) + ucast (b :: u32)) = unat a + unat b"
proof -
  have "unat a + unat b < 18446744073709551616"
    using unat_bounds(2) [of a] unat_bounds(2) [of b] by linarith
  then show ?thesis by (subst unat_add_small) simp_all
qed

lemma u32_nonzero: "n < 4294967296 \<Longrightarrow> n \<noteq> 0 \<Longrightarrow> word_of_nat n \<noteq> (0 :: u32)"
  using unat_of_nat_small(2) [of n] by (metis unsigned_0)

lemma Decide_None:
  "Decide b c r = None \<longleftrightarrow> b \<noteq> 0 \<and> r \<noteq> 0 \<and> unat c + unat r \<le> unat b"
  by (auto simp: Decide_def Let_def word_less_nat_alt unat_total)

lemma Budget_pos: "Budget env m = Inr b \<Longrightarrow> b \<noteq> 0"
  by (auto simp: Budget_def u32_nonzero dest!: parse_uint_bound
      split: option.splits list.splits if_splits)

lemma Admit_None:
  "Admit env m acct r w = (None, w') \<longleftrightarrow>
     (\<exists>b f c. Budget env m = Inr b \<and> acct = Some f \<and> f w = (Inr c, w')
        \<and> r \<noteq> 0 \<and> unat c + unat r \<le> unat b)"
  using Budget_pos [of env m]
  by (auto simp: Admit_def Decide_None split: sum.splits option.splits prod.splits)

lemma mem_total_of_line_pos: "mem_total_of_line l = Inr t \<Longrightarrow> t \<noteq> 0"
proof -
  have "unat (NOT (0 :: u32)) = 4294967295" by (simp add: unsigned_minus_1_eq_mask mask_eq_exp_minus_1)
  then show "mem_total_of_line l = Inr t \<Longrightarrow> t \<noteq> 0"
    by (auto simp: mem_total_of_line_def Let_def u32_nonzero not_less
        split: if_splits option.splits)
qed

lemma scan_mem_total_pos: "scan_mem_total ls err = Inr t \<Longrightarrow> t \<noteq> 0"
  by (induction ls) (auto simp: mem_total_of_line_pos split: if_splits)

lemma hostMemTotalMiB_pos: "hostMemTotalMiB m = Inr t \<Longrightarrow> t \<noteq> 0"
  by (cases m) (auto dest: scan_mem_total_pos)

lemma DefaultBudget_quarter:
  assumes t: "hostMemTotalMiB m = Inr t"
  shows "unat (DefaultBudgetMiB m) = unat t div 4"
proof -
  have d: "unat ((ucast t :: u64) div 4) = unat t div 4"
    by (simp add: unat_div)
  have "unat t div 4 < 4294967296" using unat_bounds(2) [of t] by linarith
  then have "unat (ucast ((ucast t :: u64) div 4) :: u32) = unat t div 4"
    by (simp add: unsigned_ucast_eq d take_bit_nat_eq_self)
  with t show ?thesis by (simp add: DefaultBudgetMiB_def HostBudgetDivisor_def)
qed

section \<open>The accountant interface\<close>

text \<open>
  What \<open>Admit\<close> relies on in an \<open>Accountant\<close>: on states satisfying \<open>inv\<close>, a reported figure is
  at least the memory really committed (\<open>usage\<close>, an unbounded number, so capped at the largest
  32-bit value), and asking does not change what is committed.
\<close>

locale accountant =
  fixes committed :: "('w, string + u32) act"
    and usage :: "'w \<Rightarrow> nat"
    and inv :: "'w \<Rightarrow> bool"
  assumes reports: "inv w \<Longrightarrow> committed w = (Inr c, w') \<Longrightarrow> min 4294967295 (usage w) \<le> unat c"
    and keeps: "inv w \<Longrightarrow> committed w = (r, w') \<Longrightarrow> inv w' \<and> usage w' = usage w"
begin

lemma admitted_within_budget:
  assumes "inv w" "Admit env m (Some committed) r w = (None, w')"
  shows "\<exists>b. Budget env m = Inr b \<and> r \<noteq> 0 \<and> usage w' + unat r \<le> unat b"
proof -
  from assms(2) obtain b c where b: "Budget env m = Inr b" and c: "committed w = (Inr c, w')"
    and le: "r \<noteq> 0" "unat c + unat r \<le> unat b" by (auto simp: Admit_None)
  have "unat r \<noteq> 0" using le(1) by (metis unsigned_0 word_unat_eq_iff)
  then have "unat c < 4294967295" using le(2) unat_bounds(2) [of b] by linarith
  then have "usage w \<le> unat c" using reports [OF assms(1) c] by linarith
  then show ?thesis using b le keeps [OF assms(1) c] by auto
qed

lemma admit_keeps:
  "inv w \<Longrightarrow> Admit env m (Some committed) r w = (e, w') \<Longrightarrow> inv w' \<and> usage w' = usage w"
  by (auto simp: Admit_def split: sum.splits prod.splits dest: keeps)

end

end
