(* ===== verification/MsbPaging.thy ===== *)
theory MsbPaging
  imports MsbSdk Admission
begin

text \<open>
  \<open>internal/runtime/msb/admission.go\<close>: committed guest memory as the sum over the daemon's
  own records, read page by page. The paging loop (context check, page limit, fetch, body over
  the records of the page, end of listing, repeated cursor) is written once; the loops of
  \<open>sumCommittedMiB\<close>, \<open>occupiedBlocksFrom\<close> and \<open>checkCollisionFrom\<close> instantiate it.
\<close>

section \<open>The paging loop\<close>

definition maxCommittedPages :: nat where "maxCommittedPages = 1000"

text \<open>The name and the config record of a listed sandbox: \<open>memRecordRef\<close>, \<open>portRecord\<close>.\<close>

record rec_ref =
  rr_name :: string
  rr_config :: jtext

datatype 'e page_error =
    CtxDone string | TooManyPages | FetchFailed string | InRecord 'e | RepeatedCursor string

type_synonym 'w fetcher = "string option \<Rightarrow> ('w, string + (rec_ref list \<times> string option)) act"

fun fold_records :: "('a \<Rightarrow> rec_ref \<Rightarrow> 'e + 'a) \<Rightarrow> 'a \<Rightarrow> rec_ref list \<Rightarrow> 'e + 'a" where
  "fold_records body a [] = Inr a"
| "fold_records body a (r # rs) =
     (case body a r of Inl e \<Rightarrow> Inl e | Inr a' \<Rightarrow> fold_records body a' rs)"

text \<open>\<open>page_loop n\<close>: \<open>n\<close> pages may still be fetched, so \<open>pages = maxCommittedPages - n\<close>.\<close>

fun page_loop ::
  "nat \<Rightarrow> ('w \<Rightarrow> string option) \<Rightarrow> 'w fetcher \<Rightarrow> ('a \<Rightarrow> rec_ref \<Rightarrow> 'e + 'a)
     \<Rightarrow> string option \<Rightarrow> 'a \<Rightarrow> ('w, 'e page_error + 'a) act" where
  "page_loop n ctx fetch body cursor a w =
     (case ctx w of
        Some e \<Rightarrow> (Inl (CtxDone e), w)
      | None \<Rightarrow>
          (case n of
             0 \<Rightarrow> (Inl TooManyPages, w)
           | Suc k \<Rightarrow>
               (case fetch cursor w of
                  (Inl e, w1) \<Rightarrow> (Inl (FetchFailed e), w1)
                | (Inr (recs, nxt), w1) \<Rightarrow>
                    (case fold_records body a recs of
                       Inl e \<Rightarrow> (Inl (InRecord e), w1)
                     | Inr a1 \<Rightarrow>
                         (case nxt of
                            None \<Rightarrow> (Inr a1, w1)
                          | Some c \<Rightarrow>
                              if cursor = Some c then (Inl (RepeatedCursor c), w1)
                              else page_loop k ctx fetch body (Some c) a1 w1)))))"

declare page_loop.simps [simp del]

text \<open>\<open>listSandboxRecords\<close> and \<open>portFetcherFromSDK\<close>: one page of the SDK's listing.\<close>

definition rec_of :: "sdk_handle \<Rightarrow> rec_ref" where
  "rec_of h = \<lparr>rr_name = hd_name h, rr_config = hd_config h\<rparr>"

definition listSandboxRecords :: "'w sdk \<Rightarrow> 'w fetcher" where
  "listSandboxRecords sdk cursor w =
     (case sdk_List sdk cursor w of
        (Inl e, w') \<Rightarrow> (Inl e, w')
      | (Inr (hs, nxt), w') \<Rightarrow>
(Inr (map rec_of hs, nxt), w'))"

section \<open>Memory of one record\<close>

record mem_record =
  mr_resources :: "u32 option"
  mr_memory :: u32

datatype memrec_error = RecordEmpty | RecordUnparsable | MemoryAbsent

definition dec_resources :: "u32 decoder" where
  "dec_resources = dec_struct (\<lambda>k j m.
     if key_is ''memory_mib'' k then dec_uint 32 j m else (True, m))"

definition dec_memRecord :: "mem_record decoder" where
  "dec_memRecord = dec_struct (\<lambda>k j r.
     if key_is ''resources'' k then
       (let (ok, p) = dec_ptr dec_resources 0 j (mr_resources r) in (ok, r\<lparr>mr_resources := p\<rparr>))
     else if key_is ''memory_mib'' k then
       (let (ok, m) = dec_uint 32 j (mr_memory r) in (ok, r\<lparr>mr_memory := m\<rparr>))
     else (True, r))"

definition memoryMiBFromRecord :: "jtext \<Rightarrow> memrec_error + u32" where
  "memoryMiBFromRecord t =
     (if t = JEmpty then Inl RecordEmpty
      else (case unmarshal dec_memRecord \<lparr>mr_resources = None, mr_memory = 0\<rparr> t of
              None \<Rightarrow> Inl RecordUnparsable
            | Some r \<Rightarrow>
                (case mr_resources r of
                   Some m \<Rightarrow> if m > 0 then Inr m
                             else if mr_memory r > 0 then Inr (mr_memory r) else Inl MemoryAbsent
                 | None \<Rightarrow> if mr_memory r > 0 then Inr (mr_memory r) else Inl MemoryAbsent)))"

section \<open>The sum\<close>

text \<open>\<open>total > math.MaxUint32 - mib\<close> saturates; \<open>- 1\<close> is \<open>math.MaxUint32\<close>.\<close>

definition sat_add :: "u32 \<Rightarrow> u32 \<Rightarrow> u32" where
  "sat_add tot mib = (if tot > (- 1) - mib then - 1 else tot + mib)"

definition add_record :: "u32 \<Rightarrow> rec_ref \<Rightarrow> (string \<times> memrec_error) + u32" where
  "add_record tot r =
     (case memoryMiBFromRecord (rr_config r) of
        Inl e \<Rightarrow> Inl (rr_name r, e)
      | Inr mib \<Rightarrow> Inr (sat_add tot mib))"

definition sumCommittedMiB ::
  "('w \<Rightarrow> string option) \<Rightarrow> 'w fetcher \<Rightarrow> ('w, (string \<times> memrec_error) page_error + u32) act" where
  "sumCommittedMiB ctx fetch w = page_loop maxCommittedPages ctx fetch add_record None 0 w"

text \<open>\<open>(*Runtime).CommittedMemoryMiB\<close>, the accountant that \<open>Admit\<close> asks; the error text is
  not inspected by its caller.\<close>

definition CommittedMemoryMiB :: "'w sdk \<Rightarrow> ('w, string + u32) act" where
  "CommittedMemoryMiB sdk w =
     (case sumCommittedMiB (sdk_ctx sdk) (listSandboxRecords sdk) w of
        (Inl e, w') \<Rightarrow> (Inl ''msb: committed-memory'', w')
      | (Inr m, w') \<Rightarrow> (Inr m, w'))"

section \<open>What a completed paging loop has read\<close>

text \<open>\<open>reads fetch c w ps w'\<close>: from cursor \<open>c\<close>, following cursors gives the pages \<open>ps\<close> to
  the end of the listing, no cursor coming back twice in a row.\<close>

inductive reads ::
  "'w fetcher \<Rightarrow> string option \<Rightarrow> 'w \<Rightarrow> rec_ref list list \<Rightarrow> 'w \<Rightarrow> bool"
  for fetch :: "'w fetcher" where
  last_page: "fetch c w = (Inr (rs, None), w1) \<Longrightarrow> reads fetch c w [rs] w1"
| next_page: "fetch c w = (Inr (rs, Some c1), w1) \<Longrightarrow> c \<noteq> Some c1 \<Longrightarrow>
     reads fetch (Some c1) w1 ps w2 \<Longrightarrow> reads fetch c w (rs # ps) w2"

inductive_cases reads_nil: "reads fetch c w [] w'"

lemma fold_records_append:
  "fold_records body a (xs @ ys) =
     (case fold_records body a xs of Inl e \<Rightarrow> Inl e | Inr a' \<Rightarrow> fold_records body a' ys)"
  by (induction xs arbitrary: a) (auto split: sum.splits)

lemma page_loop_sound:
  "page_loop n ctx fetch body c a w = (Inr r, w') \<Longrightarrow>
     \<exists>ps. reads fetch c w ps w' \<and> length ps \<le> n \<and> fold_records body a (concat ps) = Inr r"
proof (induction n arbitrary: c a w)
  case 0
  then show ?case by (subst (asm) page_loop.simps) (simp split: option.splits)
next
  case (Suc n)
  from Suc.prems obtain recs nxt w1 a1 where
    f: "fetch c w = (Inr (recs, nxt), w1)" and b: "fold_records body a recs = Inr a1"
    by (subst (asm) page_loop.simps) (auto split: option.splits sum.splits prod.splits)
  show ?case
  proof (cases nxt)
    case None
    with Suc.prems f b have "r = a1" "w' = w1"
      by (subst (asm) page_loop.simps, simp split: option.splits)+
    with f b None have "reads fetch c w [recs] w' \<and> length [recs] \<le> Suc n
        \<and> fold_records body a (concat [recs]) = Inr r"
      by (simp add: reads.last_page)
    then show ?thesis by blast
  next
    case (Some c1)
    with Suc.prems f b have ne: "c \<noteq> Some c1"
      and "page_loop n ctx fetch body (Some c1) a1 w1 = (Inr r, w')"
      by (subst (asm) page_loop.simps, simp split: option.splits if_splits)+
    then obtain ps where "reads fetch (Some c1) w1 ps w'" "length ps \<le> n"
      "fold_records body a1 (concat ps) = Inr r"
      using Suc.IH by blast
    with f b ne Some have "reads fetch c w (recs # ps) w' \<and> length (recs # ps) \<le> Suc n
        \<and> fold_records body a (concat (recs # ps)) = Inr r"
      by (simp add: reads.next_page fold_records_append)
    then show ?thesis by blast
  qed
qed

lemma page_loop_complete:
  assumes "reads fetch c w ps w'" "length ps \<le> n" "\<And>v. ctx v = None"
  shows "case fold_records body a (concat ps) of
           Inr r \<Rightarrow> page_loop n ctx fetch body c a w = (Inr r, w')
         | Inl e \<Rightarrow> fst (page_loop n ctx fetch body c a w) = Inl (InRecord e)"
  using assms
proof (induction arbitrary: n a rule: reads.induct)
  case (last_page c w rs w1)
  then show ?case
    by (cases n) (simp_all add: page_loop.simps split: sum.splits)
next
  case (next_page c w rs c1 w1 ps w2)
  then obtain k where n: "n = Suc k" "length ps \<le> k" by (cases n) auto
  show ?case
  proof (cases "fold_records body a rs")
    case (Inl e)
    with next_page n show ?thesis
      by (simp add: fold_records_append page_loop.simps [of "Suc k"])
  next
    case (Inr a1)
    with next_page.hyps next_page.prems(2) n
    have step: "page_loop n ctx fetch body c a w = page_loop k ctx fetch body (Some c1) a1 w1"
      by (simp add: page_loop.simps [of "Suc k"])
    have "fold_records body a (concat (rs # ps)) = fold_records body a1 (concat ps)"
      by (simp add: fold_records_append Inr)
    with step next_page.IH [OF n(2) next_page.prems(2), of a1] show ?thesis
      by (simp split: sum.splits)
  qed
qed

section \<open>The sum is the saturated total\<close>

definition record_mib :: "rec_ref \<Rightarrow> nat" where
  "record_mib r = (case memoryMiBFromRecord (rr_config r) of Inl _ \<Rightarrow> 0 | Inr m \<Rightarrow> unat m)"

definition memory_known :: "rec_ref \<Rightarrow> bool" where
  "memory_known r \<longleftrightarrow> is_ok (memoryMiBFromRecord (rr_config r))"

text \<open>The memory of a list of sandboxes, as an unbounded number.\<close>

definition guest_memory :: "sdk_handle list \<Rightarrow> nat" where
  "guest_memory hs = sum_list (map (record_mib \<circ> rec_of) hs)"

lemma unat_sat_add: "unat (sat_add a b) = min 4294967295 (unat a + unat b)"
proof -
  have m: "unat ((- 1) :: u32) = 4294967295"
    by (simp add: unsigned_minus_1_eq_mask mask_eq_exp_minus_1)
  have "b \<le> - 1" by simp
  then have d: "unat (- 1 - b) = 4294967295 - unat b" by (simp only: unat_sub m)
  show ?thesis
  proof (cases "a > - 1 - b")
    case True
    then have "unat a + unat b > 4294967295"
      using unat_bounds(2) [of b] by (simp add: word_less_nat_alt d)
    with True m show ?thesis by (simp add: sat_add_def)
  next
    case False
    then have "unat a \<le> 4294967295 - unat b"
      by (simp add: word_less_nat_alt d not_less)
    then have "unat a + unat b \<le> 4294967295"
      using unat_bounds(2) [of b] by linarith
    with False show ?thesis by (simp add: sat_add_def unat_word_ariths)
  qed
qed

lemma fold_add_record:
  "fold_records add_record t rs = Inr r \<longleftrightarrow>
     (\<forall>x \<in> set rs. memory_known x) \<and> unat r = min 4294967295 (unat t + sum_list (map record_mib rs))"
proof (induction rs arbitrary: t)
  case Nil
  have "unat t \<le> 4294967295" using unat_bounds(2) [of t] by linarith
  then show ?case by (auto simp: word_unat_eq_iff)
next
  case (Cons x rs)
  show ?case
  proof (cases "memoryMiBFromRecord (rr_config x)")
    case (Inl e)
    then show ?thesis by (simp add: add_record_def memory_known_def)
  next
    case (Inr m)
    then have "memory_known x" "record_mib x = unat m"
      by (simp_all add: memory_known_def record_mib_def)
    with Inr Cons.IH [of "sat_add t m"] show ?thesis
      by (auto simp: add_record_def unat_sat_add)
  qed
qed

section \<open>The SDK listing as an interface, and the accountant it gives\<close>

text \<open>
  The documented behaviour of the SDK's listing that the loops rely on: on states satisfying
  \<open>inv\<close> a listing followed to its end names every sandbox (\<open>boxes\<close>), and listing changes
  nothing.
\<close>

locale sdk_listing =
  fixes sdk :: "'w sdk"
    and boxes :: "'w \<Rightarrow> sdk_handle list"
    and inv :: "'w \<Rightarrow> bool"
  assumes complete: "inv w \<Longrightarrow> reads (listSandboxRecords sdk) None w ps w' \<Longrightarrow>
      concat ps = map rec_of (boxes w)"
    and unchanged: "inv w \<Longrightarrow> sdk_List sdk c w = (r, w') \<Longrightarrow> w' = w"
begin

lemma fetch_unchanged: "inv w \<Longrightarrow> listSandboxRecords sdk c w = (r, w') \<Longrightarrow> w' = w"
  by (auto simp: listSandboxRecords_def split: prod.splits sum.splits dest: unchanged)

lemma loop_unchanged:
  "inv w \<Longrightarrow> page_loop n ctx (listSandboxRecords sdk) body c a w = (r, w') \<Longrightarrow> w' = w"
proof (induction n arbitrary: c a)
  case 0
  then show ?case by (auto simp: page_loop.simps [of 0] split: option.splits)
next
  case (Suc n)
  then show ?case
    by (auto simp: page_loop.simps [of "Suc n"] dest: fetch_unchanged
        split: option.splits prod.splits sum.splits if_splits)
qed

lemma loop_reads_all:
  assumes "inv w" "page_loop n ctx (listSandboxRecords sdk) body None a w = (Inr r, w')"
  shows "fold_records body a (map rec_of (boxes w)) = Inr r"
  using page_loop_sound [OF assms(2)] complete [OF assms(1)] by auto

lemma committed_exact:
  assumes "inv w" "CommittedMemoryMiB sdk w = (Inr c, w')"
  shows "unat c = min 4294967295 (guest_memory (boxes w)) \<and> (\<forall>h \<in> set (boxes w). memory_known (rec_of h))"
proof -
  have "page_loop maxCommittedPages (sdk_ctx sdk) (listSandboxRecords sdk) add_record None 0 w
        = (Inr c, w')"
    using assms(2) by (auto simp: CommittedMemoryMiB_def sumCommittedMiB_def
        split: prod.splits sum.splits)
  from loop_reads_all [OF assms(1) this] show ?thesis
    by (simp add: fold_add_record guest_memory_def)
qed

lemma committed_unchanged: "inv w \<Longrightarrow> CommittedMemoryMiB sdk w = (r, w') \<Longrightarrow> w' = w"
  by (auto simp: CommittedMemoryMiB_def sumCommittedMiB_def dest: loop_unchanged
      split: prod.splits sum.splits)

sublocale accountant "CommittedMemoryMiB sdk" "\<lambda>w. guest_memory (boxes w)" inv
proof
  fix w c w'
  assume "inv w" "CommittedMemoryMiB sdk w = (Inr c, w')"
  from committed_exact [OF this] show "min 4294967295 (guest_memory (boxes w)) \<le> unat c" by simp
next
  fix w r w'
  assume "inv w" "CommittedMemoryMiB sdk w = (r, w')"
  with committed_unchanged [OF this] show "inv w' \<and> guest_memory (boxes w') = guest_memory (boxes w)" by simp
qed

end

section \<open>The concrete daemon lists completely\<close>

definition dm_inv :: "daemon \<Rightarrow> bool" where
  "dm_inv d \<longleftrightarrow> distinct (map hd_name (dm_boxes d))"

lemma daemon_fetch:
  "listSandboxRecords daemon_sdk c d =
     (case one_page (case c of None \<Rightarrow> dm_boxes d | Some n \<Rightarrow> after_name n (dm_boxes d)) of
        (hs, nxt) \<Rightarrow> (Inr (map rec_of hs, nxt), d))"
  by (simp add: listSandboxRecords_def dm_list_def split: prod.splits)

lemma one_page_cases:
  "(case one_page hs of (ps, nxt) \<Rightarrow>
      (nxt = None \<and> ps = hs \<and> length hs \<le> 1)
      \<or> (\<exists>h h' hs'. hs = h # h' # hs' \<and> ps = [h] \<and> nxt = Some (hd_name h)))"
  by (cases hs rule: one_page.cases) auto

text \<open>From the cursor that names the last of \<open>xs\<close>, the listing yields exactly the rest \<open>ys\<close>.\<close>

lemma daemon_reads_rest:
  assumes "reads (listSandboxRecords daemon_sdk) c d ps d'"
    and "dm_inv d" "dm_boxes d = xs @ ys"
    and "c = (if xs = [] then None else Some (hd_name (last xs)))"
  shows "concat ps = map rec_of ys"
  using assms
proof (induction arbitrary: xs ys rule: reads.induct)
  case (last_page c d rs d1)
  have rest: "(case c of None \<Rightarrow> dm_boxes d | Some n \<Rightarrow> after_name n (dm_boxes d)) = ys"
    using last_page.prems by (cases xs rule: rev_cases)
      (auto simp: dm_inv_def intro!: after_name_append)
  with last_page.hyps one_page_cases [of ys] show ?case
    by (auto simp: daemon_fetch split: prod.splits)
next
  case (next_page c d rs c1 d1 ps d2)
  have rest: "(case c of None \<Rightarrow> dm_boxes d | Some n \<Rightarrow> after_name n (dm_boxes d)) = ys"
    using next_page.prems by (cases xs rule: rev_cases)
      (auto simp: dm_inv_def intro!: after_name_append)
  with next_page.hyps(1) one_page_cases [of ys] obtain h ys' where
    ys: "ys = h # ys'" "rs = [rec_of h]" "c1 = hd_name h" "d1 = d"
    by (auto simp: daemon_fetch split: prod.splits)
  then have "concat ps = map rec_of ys'"
    using next_page.prems by (intro next_page.IH [of "xs @ [h]"]) simp_all
  with ys show ?case by simp
qed

interpretation dm: sdk_listing daemon_sdk dm_boxes dm_inv
  by unfold_locales
    (auto simp: dm_list_def intro: daemon_reads_rest [where xs = "[]"])

end
