(* ===== verification/RangeAlloc.thy ===== *)
theory RangeAlloc
  imports MsbPaging
begin

text \<open>
  \<open>internal/runtime/msb/rangealloc.go\<close>: the host-port ranges of sandboxes. Host ports
  5000..64999 form six blocks of 10000; a sandbox's block maps onto guest ports 1024..11023.
  Which blocks are taken is read from the daemon's own records; after a create the block is
  checked again for a concurrent creator (\<open>CheckCollision\<close>).
\<close>

definition rangeAllocBase :: u16 where "rangeAllocBase = 5000"
definition rangeBlockSize :: u16 where "rangeBlockSize = 10000"
definition rangeGuestBase :: u16 where "rangeGuestBase = 1024"
definition rangeMaxBlocks :: nat where "rangeMaxBlocks = 6"

section \<open>Ports of a record\<close>

datatype portrec_error = PortsRecordEmpty | PortsRecordUnparsable

definition dec_host_port :: "u32 decoder" where
  "dec_host_port = dec_struct (\<lambda>k j p. if key_is ''host_port'' k then dec_uint 32 j p else (True, p))"

definition dec_port_network :: "u32 list decoder" where
  "dec_port_network = dec_struct (\<lambda>k j ps.
     if key_is ''ports'' k then dec_slice dec_host_port 0 j ps else (True, ps))"

definition dec_portsConfig :: "u32 list option decoder" where
  "dec_portsConfig = dec_struct (\<lambda>k j n.
     if key_is ''network'' k then dec_ptr dec_port_network [] j n else (True, n))"

definition portsFromConfigJSON :: "jtext \<Rightarrow> portrec_error + u32 list" where
  "portsFromConfigJSON t =
     (if t = JEmpty then Inl PortsRecordEmpty
      else (case unmarshal dec_portsConfig None t of
              None \<Rightarrow> Inl PortsRecordUnparsable
            | Some None \<Rightarrow> Inr []
            | Some (Some ps) \<Rightarrow> Inr ps))"

section \<open>Occupied blocks\<close>

text \<open>The loop's accumulator: the array \<open>occ\<close>, \<open>liveCount\<close> and \<open>portCount\<close>.\<close>

type_synonym occupancy = "bool list \<times> nat \<times> nat"

definition range_lo :: u32 where "range_lo = ucast rangeAllocBase"

definition range_hi :: u32 where
  "range_hi = range_lo + word_of_nat rangeMaxBlocks * ucast rangeBlockSize - 1"

definition occ_port :: "u32 \<Rightarrow> bool list \<times> nat \<Rightarrow> bool list \<times> nat" where
  "occ_port p s =
     (case s of (occ, portCount) \<Rightarrow>
        if p \<ge> range_lo \<and> p \<le> range_hi
        then let idx = (p - range_lo) div ucast rangeBlockSize in
             (if idx < word_of_nat rangeMaxBlocks then occ[unat idx := True] else occ,
              Suc portCount)
        else s)"

definition occ_record :: "occupancy \<Rightarrow> rec_ref \<Rightarrow> (string \<times> portrec_error) + occupancy" where
  "occ_record s r =
     (case s of (occ, live, portCount) \<Rightarrow>
        (case portsFromConfigJSON (rr_config r) of
           Inl e \<Rightarrow> Inl (rr_name r, e)
         | Inr ps \<Rightarrow> (case fold occ_port ps (occ, portCount) of
                       (occ', portCount') \<Rightarrow> Inr (occ', Suc live, portCount'))))"

datatype range_error =
    OccListing "(string \<times> portrec_error) page_error"
  | SchemaDrift nat
  | AllOccupied

definition occupiedBlocksFrom ::
  "('w \<Rightarrow> string option) \<Rightarrow> 'w fetcher \<Rightarrow> ('w, range_error + bool list) act" where
  "occupiedBlocksFrom ctx fetch w =
     (case page_loop maxCommittedPages ctx fetch occ_record None
             (replicate rangeMaxBlocks False, 0, 0) w of
        (Inl e, w') \<Rightarrow> (Inl (OccListing e), w')
      | (Inr (occ, live, portCount), w') \<Rightarrow>
          if live > 0 \<and> portCount = 0 then (Inl (SchemaDrift live), w') else (Inr occ, w'))"

definition daemonOccupiedBlocks :: "'w sdk \<Rightarrow> ('w, range_error + bool list) act" where
  "daemonOccupiedBlocks sdk w = occupiedBlocksFrom (sdk_ctx sdk) (listSandboxRecords sdk) w"

definition block_base :: "nat \<Rightarrow> u16" where
  "block_base i = rangeAllocBase + word_of_nat i * rangeBlockSize"

definition Allocate :: "'w sdk \<Rightarrow> ('w, range_error + u16) act" where
  "Allocate sdk w =
     (case daemonOccupiedBlocks sdk w of
        (Inl e, w') \<Rightarrow> (Inl e, w')
      | (Inr occupied, w') \<Rightarrow>
          (case find (\<lambda>i. \<not> occupied ! i) [0..<rangeMaxBlocks] of
             Some i \<Rightarrow> (Inr (block_base i), w')
           | None \<Rightarrow> (Inl AllOccupied, w')))"

section \<open>Collision check\<close>

datatype collision = BadRecord string portrec_error | PortInBlock string u32

definition collision_record ::
  "string \<Rightarrow> u32 \<Rightarrow> u32 \<Rightarrow> unit \<Rightarrow> rec_ref \<Rightarrow> collision + unit" where
  "collision_record name lo hi u r =
     (if rr_name r = name then Inr ()
      else (case portsFromConfigJSON (rr_config r) of
              Inl e \<Rightarrow> Inl (BadRecord (rr_name r) e)
            | Inr ps \<Rightarrow> (case find (\<lambda>p. p \<ge> lo \<and> p \<le> hi) ps of
                          Some p \<Rightarrow> Inl (PortInBlock (rr_name r) p)
                        | None \<Rightarrow> Inr ())))"

definition checkCollisionFrom ::
  "string \<Rightarrow> u16 \<Rightarrow> 'w fetcher \<Rightarrow> ('w, collision page_error option) act" where
  "checkCollisionFrom name base fetch w =
     (let lo = ucast base; hi = lo + ucast rangeBlockSize - 1 in
      case page_loop maxCommittedPages (\<lambda>_. None) fetch (collision_record name lo hi) None () w of
        (Inl e, w') \<Rightarrow> (Some e, w')
      | (Inr _, w') \<Rightarrow> (None, w'))"

definition CheckCollision :: "'w sdk \<Rightarrow> string \<Rightarrow> u16 \<Rightarrow> ('w, collision page_error option) act" where
  "CheckCollision sdk name base w = checkCollisionFrom name base (listSandboxRecords sdk) w"

text \<open>\<open>Free\<close> does nothing: the daemon's records are the only state.\<close>

definition Free :: "string \<Rightarrow> 'w \<Rightarrow> 'w" where
  "Free name w = w"

definition blockPortMap :: "u16 \<Rightarrow> (u16 \<times> u16) list" where
  "blockPortMap hostBase =
     map (\<lambda>i. (hostBase + word_of_nat i, rangeGuestBase + word_of_nat i)) [0..<unat rangeBlockSize]"

section \<open>Lemmas\<close>

lemma range_consts:
  "unat rangeAllocBase = 5000" "unat rangeBlockSize = 10000" "unat rangeGuestBase = 1024"
  "unat range_lo = 5000" "unat range_hi = 64999" "rangeMaxBlocks = 6"
  by (simp_all add: rangeAllocBase_def rangeBlockSize_def rangeGuestBase_def range_lo_def
      range_hi_def rangeMaxBlocks_def)

definition in_block :: "nat \<Rightarrow> u32 \<Rightarrow> bool" where
  "in_block i p \<longleftrightarrow> 5000 + 10000 * i \<le> unat p \<and> unat p < 5000 + 10000 * Suc i"

definition in_range :: "u32 \<Rightarrow> bool" where
  "in_range p \<longleftrightarrow> 5000 \<le> unat p \<and> unat p \<le> 64999"

lemma block_base_val: "i < 6 \<Longrightarrow> unat (block_base i) = 5000 + 10000 * i"
proof -
  assume i: "i < 6"
  then have "i = 0 \<or> i = 1 \<or> i = 2 \<or> i = 3 \<or> i = 4 \<or> i = 5" by arith
  then show ?thesis
    by (auto simp: block_base_def rangeAllocBase_def rangeBlockSize_def)
qed

lemma block_index: "in_range p \<Longrightarrow> (unat p - 5000) div 10000 < 6"
  unfolding in_range_def by linarith

lemma occ_port_spec:
  assumes "length occ = 6"
  shows "occ_port p (occ, k) =
    (if in_range p then (occ[(unat p - 5000) div 10000 := True], Suc k) else (occ, k))"
proof (cases "in_range p")
  case True
  then have r: "range_lo \<le> p" "p \<le> range_hi"
    by (simp_all add: in_range_def word_le_nat_alt range_consts)
  have "unat (ucast rangeBlockSize :: u32) = 10000" by (simp add: range_consts)
  then have idx: "unat ((p - range_lo) div ucast rangeBlockSize) = (unat p - 5000) div 10000"
    using r by (simp add: unat_div unat_sub range_consts)
  have "(p - range_lo) div ucast rangeBlockSize < word_of_nat rangeMaxBlocks"
    using block_index [OF True] by (simp add: word_less_nat_alt idx range_consts)
  with True r idx show ?thesis by (simp add: occ_port_def)
next
  case False
  then show ?thesis
    by (auto simp: occ_port_def in_range_def word_le_nat_alt range_consts)
qed

lemma block_of_port: "in_range p \<Longrightarrow> in_block i p \<longleftrightarrow> (unat p - 5000) div 10000 = i"
  by (auto simp: in_range_def in_block_def)

lemma in_block_range: "i < 6 \<Longrightarrow> in_block i p \<Longrightarrow> in_range p"
  by (auto simp: in_range_def in_block_def)

lemma fold_occ_port:
  "length occ = 6 \<Longrightarrow>
     (let (occ', k') = fold occ_port ps (occ, k) in
        length occ' = 6 \<and> k' = k + length (filter in_range ps)
        \<and> (\<forall>i < 6. occ' ! i \<longleftrightarrow> occ ! i \<or> (\<exists>p \<in> set ps. in_block i p)))"
proof (induction ps arbitrary: occ k)
  case Nil
  then show ?case by simp
next
  case (Cons p ps)
  show ?case
  proof (cases "in_range p")
    case True
    let ?occ = "occ[(unat p - 5000) div 10000 := True]"
    have l: "length ?occ = 6" using Cons.prems by simp
    have "\<forall>i < 6. ?occ ! i \<longleftrightarrow> occ ! i \<or> in_block i p"
      using Cons.prems True block_index [OF True] by (auto simp: nth_list_update block_of_port)
    with Cons.IH [OF l, of "Suc k"] True Cons.prems show ?thesis
      by (auto simp: occ_port_spec Let_def split: prod.splits)
  next
    case False
    then have "\<forall>i < 6. \<not> in_block i p" using in_block_range by blast
    with Cons.IH [OF Cons.prems, of k] False Cons.prems show ?thesis
      by (auto simp: occ_port_spec Let_def split: prod.splits)
  qed
qed

definition ports_of :: "rec_ref \<Rightarrow> u32 list" where
  "ports_of r = (case portsFromConfigJSON (rr_config r) of Inl _ \<Rightarrow> [] | Inr ps \<Rightarrow> ps)"

lemma fold_occ_record:
  assumes "length occ = 6" "fold_records occ_record (occ, l, k) rs = Inr (occ', l', k')"
  shows "length occ' = 6 \<and> l' = l + length rs
     \<and> k' = k + length (filter in_range (concat (map ports_of rs)))
     \<and> (\<forall>r \<in> set rs. is_ok (portsFromConfigJSON (rr_config r)))
     \<and> (\<forall>i < 6. occ' ! i \<longleftrightarrow> occ ! i \<or> (\<exists>r \<in> set rs. \<exists>p \<in> set (ports_of r). in_block i p))"
  using assms
proof (induction rs arbitrary: occ l k)
  case Nil
  then show ?case by simp
next
  case (Cons r rs)
  obtain ps where ps: "portsFromConfigJSON (rr_config r) = Inr ps"
    using Cons.prems(2) by (auto simp: occ_record_def split: sum.splits)
  obtain occ1 k1 where f: "fold occ_port ps (occ, k) = (occ1, k1)" by fastforce
  have one: "length occ1 = 6" "k1 = k + length (filter in_range ps)"
    "\<forall>i < 6. occ1 ! i \<longleftrightarrow> occ ! i \<or> (\<exists>p \<in> set ps. in_block i p)"
    using fold_occ_port [OF Cons.prems(1), of ps k] f by simp_all
  have rest: "fold_records occ_record (occ1, Suc l, k1) rs = Inr (occ', l', k')"
    using Cons.prems(2) ps f by (simp add: occ_record_def [of "(occ, l, k)"])
  have "ports_of r = ps" by (simp add: ports_of_def ps)
  with Cons.IH [OF one(1) rest] one(2,3) ps show ?case by auto
qed

lemma find_upt_SomeD: "find P [0..<n] = Some i \<Longrightarrow> i < n \<and> P i \<and> (\<forall>j < i. \<not> P j)"
  by (auto simp: find_Some_iff)

lemma fold_collision_ok:
  "fold_records (collision_record name lo hi) () rs = Inr u \<longleftrightarrow>
     (\<forall>r \<in> set rs. rr_name r \<noteq> name \<longrightarrow>
        is_ok (portsFromConfigJSON (rr_config r)) \<and> (\<forall>p \<in> set (ports_of r). \<not> (lo \<le> p \<and> p \<le> hi)))"
proof (induction rs)
  case (Cons r rs)
  then show ?case
    by (auto simp: collision_record_def ports_of_def find_None_iff find_Some_iff
        split: sum.splits option.splits)
qed simp

lemma block_hi: "unat (ucast (b :: u16) + ucast rangeBlockSize - 1 :: u32) = unat b + 9999"
proof -
  have "unat (ucast b + ucast rangeBlockSize :: u32) = unat b + 10000"
  proof -
    have "unat b + 10000 < 4294967296" using unat_bounds(1) [of b] by linarith
    then show ?thesis by (simp add: unat_word_ariths range_consts)
  qed
  then show ?thesis
    by (subst unat_sub) (simp_all add: word_le_nat_alt)
qed

definition block_has :: "u16 \<Rightarrow> u32 \<Rightarrow> bool" where
  "block_has b p \<longleftrightarrow> unat b \<le> unat p \<and> unat p \<le> unat b + 9999"

lemma block_has_in_block: "i < 6 \<Longrightarrow> block_has (block_base i) p \<longleftrightarrow> in_block i p"
  by (auto simp: block_has_def in_block_def block_base_val)

context sdk_listing
begin

lemma occupied_reads_all:
  assumes "inv w" "daemonOccupiedBlocks sdk w = (Inr occ, w')"
  shows "length occ = 6
    \<and> (\<forall>i < 6. occ ! i \<longleftrightarrow> (\<exists>h \<in> set (boxes w). \<exists>p \<in> set (ports_of (rec_of h)). in_block i p))"
proof -
  obtain l k where loop: "page_loop maxCommittedPages (sdk_ctx sdk) (listSandboxRecords sdk) occ_record None
      (replicate rangeMaxBlocks False, 0, 0) w = (Inr (occ, l, k), w')"
    using assms(2) by (auto simp: daemonOccupiedBlocks_def occupiedBlocksFrom_def
        split: prod.splits sum.splits if_splits)
  from fold_occ_record [OF _ loop_reads_all [OF assms(1) loop]] show ?thesis
    by (simp add: range_consts)
qed

lemma allocated_block_free:
  assumes "inv w" "Allocate sdk w = (Inr b, w')"
  shows "\<exists>i < 6. b = block_base i
    \<and> (\<forall>h \<in> set (boxes w). \<forall>p \<in> set (ports_of (rec_of h)). \<not> block_has b p)
    \<and> (\<forall>j < i. \<exists>h \<in> set (boxes w). \<exists>p \<in> set (ports_of (rec_of h)). in_block j p)"
proof -
  obtain occ i where o: "daemonOccupiedBlocks sdk w = (Inr occ, w')"
    and f: "find (\<lambda>i. \<not> occ ! i) [0..<rangeMaxBlocks] = Some i" and b: "b = block_base i"
    using assms(2) by (auto simp: Allocate_def split: prod.splits sum.splits option.splits)
  from find_upt_SomeD [OF f] occupied_reads_all [OF assms(1) o] b show ?thesis
    by (auto simp: range_consts block_has_in_block intro!: exI [of _ i])
qed

lemma collision_free:
  assumes "inv w" "CheckCollision sdk name b w = (None, w')" "h \<in> set (boxes w)"
    "hd_name h \<noteq> name" "p \<in> set (ports_of (rec_of h))"
  shows "\<not> block_has b p"
proof -
  let ?hi = "ucast b + ucast rangeBlockSize - 1 :: u32"
  obtain u where "page_loop maxCommittedPages (\<lambda>_. None) (listSandboxRecords sdk)
      (collision_record name (ucast b) ?hi) None () w = (Inr u, w')"
    using assms(2) by (auto simp: CheckCollision_def checkCollisionFrom_def Let_def
        split: prod.splits sum.splits)
  from loop_reads_all [OF assms(1) this]
  have "\<not> (ucast b \<le> p \<and> p \<le> ?hi)"
    using assms(3-5) by (auto simp: fold_collision_ok rec_of_def)
  then show ?thesis by (simp add: word_le_nat_alt block_hi block_has_def)
qed

lemma check_unchanged: "inv w \<Longrightarrow> CheckCollision sdk n b w = (r, w') \<Longrightarrow> w' = w"
  by (auto simp: CheckCollision_def checkCollisionFrom_def Let_def
      split: prod.splits sum.splits dest: loop_unchanged)

lemma allocate_unchanged: "inv w \<Longrightarrow> Allocate sdk w = (r, w') \<Longrightarrow> w' = w"
  by (auto simp: Allocate_def daemonOccupiedBlocks_def occupiedBlocksFrom_def
      split: prod.splits sum.splits option.splits if_splits dest: loop_unchanged)

end

section \<open>Port maps and records of a block\<close>

lemma blockPortMap_entry:
  fixes b :: u16
  assumes "i < 10000" "unat b + 9999 \<le> 65535"
  shows "unat (b + word_of_nat i) = unat b + i" "unat (rangeGuestBase + word_of_nat i) = 1024 + i"
  using assms by (simp_all add: unat_word_ariths range_consts)

lemma blockPortMap_keys:
  assumes "unat b + 9999 \<le> 65535"
  shows "distinct (map fst (blockPortMap b))"
    "set (map (unat \<circ> fst) (blockPortMap b)) = {unat b ..< unat b + 10000}"
proof -
  have "inj_on (\<lambda>i. b + word_of_nat i) {0..<10000}"
    by (rule inj_onI) (metis add_left_cancel assms atLeastLessThan_iff blockPortMap_entry(1))
  then show "distinct (map fst (blockPortMap b))"
    by (simp add: blockPortMap_def range_consts comp_def distinct_map)
  have "set (map (unat \<circ> fst) (blockPortMap b)) = (\<lambda>i. unat b + i) ` {0..<10000}"
    using assms by (auto simp: blockPortMap_def range_consts blockPortMap_entry image_iff)
  then show "set (map (unat \<circ> fst) (blockPortMap b)) = {unat b ..< unat b + 10000}"
    by (simp add: add.commute)
qed

lemma dec_elems_ports:
  "dec_elems dec_host_port 0 (map (\<lambda>p :: u16. JObj [(''host_port'', JNum (show_nat (unat p)))]) ps)
     = (True, map ucast ps)"
proof (induction ps)
  case (Cons p ps)
  have "parse_uint 10 32 (show_nat (unat p)) = Some (unat p)"
    by (intro parse_uint_show_nat) simp
  then show ?case using Cons by (simp add: dec_host_port_def dec_struct_def dec_uint_def)
qed simp

lemma ports_of_config_record:
  "portsFromConfigJSON (JDoc (config_record m e ps)) = Inr (map ucast ps)"
proof -
  have k: "\<not> key_is ''network'' ''resources''" "\<not> key_is ''ports'' ''enabled''"
    "\<not> key_is ''ports'' ''policy''" by (simp_all add: key_is_def)
  show ?thesis
    by (simp add: portsFromConfigJSON_def config_record_def unmarshal_def dec_portsConfig_def
        dec_port_network_def dec_struct_def dec_ptr_def dec_slice_def k dec_elems_ports)
qed

end
