(* ===== verification/MsbRuntime.thy ===== *)
theory MsbRuntime
  imports RangeAlloc NetProfile
begin

text \<open>
  \<open>internal/runtime/msb\<close>: the one implementation of the runtime seam, over the SDK
  (\<open>runtime.go\<close>, \<open>lifecycle.go\<close>, \<open>netpolicy_assert.go\<close>, \<open>publish.go\<close>). Every operation
  is written with its SDK calls in the order of the code, threading the daemon state.
\<close>

section \<open>Errors and the runtime value\<close>

datatype policy_error =
    PolicyRefresh string
  | PolicyRecordEmpty
  | PolicyUnparsable
  | PolicyAbsent bool
  | PolicyEgress string
  | PolicyGet string

datatype msb_error =
    NoName
  | GetFailed string string
  | ConnectFailed string
  | StopFailed string
  | RefreshFailed string
  | RemoveFailed string
  | StartFailed string
  | ListFailed string
  | AdmissionRefused adm_error
  | RangeFailed range_error
  | CreateFailed string
  | DetachFailed string
  | PolicyFailed policy_error
  | CollisionFailed "collision page_error"
  | TeardownFailed string
  | Joined msb_error "msb_error option"
  | Unsupported
  | PublishPorts port_error
  | PublishRemove string
  | PublishCreate msb_error
  | EmptyArgv
  | ExecFailed string
  | DestroyFailed string

record 'w Runtime =
  rt_sdk :: "'w sdk"
  rt_env :: "string option"
  rt_meminfo :: meminfo
  rt_acct :: "('w, string + u32) act option"
  rt_alloc :: bool

definition New_runtime :: "'w sdk \<Rightarrow> string option \<Rightarrow> meminfo \<Rightarrow> 'w Runtime" where
  "New_runtime sdk env m =
     \<lparr>rt_sdk = sdk, rt_env = env, rt_meminfo = m, rt_acct = None, rt_alloc = False\<rparr>"

definition runtime_accountant :: "'w Runtime \<Rightarrow> ('w, string + u32) act" where
  "runtime_accountant rt =
     (case rt_acct rt of Some a \<Rightarrow> a | None \<Rightarrow> CommittedMemoryMiB (rt_sdk rt))"

definition runtime_admit :: "'w Runtime \<Rightarrow> u32 \<Rightarrow> ('w, adm_error option) act" where
  "runtime_admit rt mem w = Admit (rt_env rt) (rt_meminfo rt) (Some (runtime_accountant rt)) mem w"

section \<open>Names, status and references\<close>

definition LabelProject :: string where "LabelProject = ''herdr.project''"
definition LabelMotive :: string where "LabelMotive = ''herdr.motive''"
definition nameSep :: string where "nameSep = ''--''"

definition SDKName :: "string \<Rightarrow> string \<Rightarrow> string" where
  "SDKName project name = (if project = [] then name else project @ nameSep @ name)"

fun statusFrom :: "sdk_status \<Rightarrow> SandboxStatus" where
  "statusFrom SdkRunning = StRunning"
| "statusFrom SdkStarting = StRunning"
| "statusFrom SdkDraining = StRunning"
| "statusFrom SdkPaused = StPaused"
| "statusFrom SdkCreated = StCreated"
| "statusFrom _ = StStopped"

definition label_of :: "(string \<times> string) list \<Rightarrow> string \<Rightarrow> string" where
  "label_of labels k = (case map_of labels k of None \<Rightarrow> [] | Some v \<Rightarrow> v)"

definition refFromHandle :: "sdk_handle \<Rightarrow> SandboxRef" where
  "refFromHandle h =
     (let ref = \<lparr>ref_id = hd_id h, ref_project = [], ref_name = hd_name h,
                 ref_status = statusFrom (hd_status h)\<rparr>;
          ref1 = (case hd_labels h of
                    Some ls \<Rightarrow> ref\<lparr>ref_project := label_of ls LabelProject\<rparr>
                  | None \<Rightarrow> ref)
      in if ref_project ref1 = [] then
           (case str_cut (hd_name h) nameSep of
              Some (project, name) \<Rightarrow> ref1\<lparr>ref_project := project, ref_name := name\<rparr>
            | None \<Rightarrow> ref1)
         else ref1\<lparr>ref_name := trim_prefix (hd_name h) (ref_project ref1 @ nameSep)\<rparr>)"

section \<open>Sandbox options\<close>

definition mount_of :: "Mount \<Rightarrow> mount_config" where
  "mount_of m = \<lparr>mc_host = mnt_host m, mc_readonly = mnt_readonly m, mc_noexec = mnt_noexec m,
     mc_nosuid = mnt_nosuid m, mc_nodev = mnt_nodev m, mc_stat_relaxed = True,
     mc_perm_mirror = True\<rparr>"

definition policy_rule_of :: "NetRule \<Rightarrow> policy_rule" where
  "policy_rule_of r =
     RuleEgressTCP (if rule_action r = NetDeny then PolicyDeny else PolicyAllow) (rule_host r)
       (if rule_port r > 0 then show_nat (unat (rule_port r)) else [])"

definition networkConfig :: "NetRule list \<Rightarrow> network_config" where
  "networkConfig rules =
     (let rules' = (if rules = [] then Shipped else rules) in
      \<lparr>net_default_egress = PolicyDeny, net_rules = RuleAllowDNS # map policy_rule_of rules'\<rparr>)"

definition SandboxOptions :: "SandboxSpec \<Rightarrow> sandbox_option list" where
  "SandboxOptions spec =
     (let labels =
            (if spec_project spec \<noteq> [] then [(LabelProject, spec_project spec)] else [])
            @ (if spec_motive spec \<noteq> [] then [(LabelMotive, spec_motive spec)] else [])
      in [OptQuietLogs]
       @ (if spec_image spec \<noteq> [] then [OptImage (spec_image spec)] else [])
       @ (if spec_vcpus spec > 0
          then [OptCPUs (ucast (spec_vcpus spec)), OptMaxCPUs (ucast (spec_vcpus spec))] else [])
       @ (if spec_memory spec > 0
          then [OptMemory (spec_memory spec), OptMaxMemory (spec_memory spec)] else [])
       @ (if labels \<noteq> [] then [OptLabels labels] else [])
       @ (if spec_mounts spec \<noteq> []
          then [OptMounts (fold (\<lambda>m. AList.update (mnt_guest m) (mount_of m)) (spec_mounts spec) [])]
          else [])
       @ (case spec_portmap spec of
            Some pm \<Rightarrow> [OptPorts pm]
          | None \<Rightarrow> if spec_ports spec \<noteq> [] then [OptPorts (SamePortMap (spec_ports spec))] else [])
       @ [OptNetwork (networkConfig (spec_netrules spec))]
       @ (if spec_remove_on_exit spec then [OptEphemeral True] else []))"

section \<open>The network-policy assertion\<close>

definition dec_policy :: "string decoder" where
  "dec_policy = dec_struct (\<lambda>k j s. if key_is ''default_egress'' k then dec_string j s else (True, s))"

text \<open>\<open>network\<close>: the flag \<open>enabled\<close> and the pointer \<open>policy\<close>.\<close>

definition dec_net :: "(bool \<times> string option) decoder" where
  "dec_net = dec_struct (\<lambda>k j (en, pol).
     if key_is ''enabled'' k then (let (ok, b) = dec_bool j en in (ok, (b, pol)))
     else if key_is ''policy'' k then (let (ok, p) = dec_ptr dec_policy [] j pol in (ok, (en, p)))
     else (True, (en, pol)))"

definition dec_netPolicyRecord :: "(bool \<times> string option) option decoder" where
  "dec_netPolicyRecord = dec_struct (\<lambda>k j n.
     if key_is ''network'' k then dec_ptr dec_net (False, None) j n else (True, n))"

definition checkNetworkPolicy :: "jtext \<Rightarrow> policy_error option" where
  "checkNetworkPolicy raw =
     (if raw = JEmpty then Some PolicyRecordEmpty
      else (case unmarshal dec_netPolicyRecord None raw of
              None \<Rightarrow> Some PolicyUnparsable
            | Some None \<Rightarrow> Some (PolicyAbsent False)
            | Some (Some (en, None)) \<Rightarrow> Some (PolicyAbsent True)
            | Some (Some (en, Some egress)) \<Rightarrow>
                if egress \<noteq> ''deny'' then Some (PolicyEgress egress) else None))"

definition assertNetworkPolicy :: "'w sdk \<Rightarrow> sdk_handle \<Rightarrow> ('w, policy_error option) act" where
  "assertNetworkPolicy sdk h w =
     (if hd_config h = JEmpty then
        (case sdk_Refresh sdk (hd_name h) w of
           (Inl e, w1) \<Rightarrow> (Some (PolicyRefresh e), w1)
         | (Inr fresh, w1) \<Rightarrow> (checkNetworkPolicy (hd_config fresh), w1))
      else (checkNetworkPolicy (hd_config h), w))"

definition assertNetworkPolicyByName :: "'w sdk \<Rightarrow> string \<Rightarrow> ('w, policy_error option) act" where
  "assertNetworkPolicyByName sdk name w =
     (case sdk_Get sdk name w of
        (Inl e, w1) \<Rightarrow> (Some (PolicyGet e), w1)
      | (Inr h, w1) \<Rightarrow> assertNetworkPolicy sdk h w1)"

definition teardownHandle :: "'w sdk \<Rightarrow> sdk_handle \<Rightarrow> ('w, msb_error option) act" where
  "teardownHandle sdk h w =
     (case sdk_Kill sdk (hd_name h) w of
        (_, w1) \<Rightarrow>
          (case sdk_Remove sdk (hd_name h) w1 of
             (Some e, w2) \<Rightarrow> (Some (TeardownFailed e), w2)
           | (None, w2) \<Rightarrow> (None, w2)))"

section \<open>Handles and connections\<close>

definition rt_handle :: "'w Runtime \<Rightarrow> SandboxRef \<Rightarrow> ('w, msb_error + sdk_handle) act" where
  "rt_handle rt ref w =
     (let name = (if ref_project ref \<noteq> [] then SDKName (ref_project ref) (ref_name ref)
                  else ref_name ref) in
      if name = [] then (Inl NoName, w)
      else (case sdk_Get (rt_sdk rt) name w of
              (Inl e, w1) \<Rightarrow> (Inl (GetFailed name e), w1)
            | (Inr h, w1) \<Rightarrow> (Inr h, w1)))"

definition rt_connect :: "'w Runtime \<Rightarrow> SandboxRef \<Rightarrow> ('w, msb_error + string) act" where
  "rt_connect rt ref w =
     (case rt_handle rt ref w of
        (Inl e, w1) \<Rightarrow> (Inl e, w1)
      | (Inr h, w1) \<Rightarrow>
          (case sdk_Connect (rt_sdk rt) (hd_name h) w1 of
             (Some e, w2) \<Rightarrow> (Inl (ConnectFailed e), w2)
           | (None, w2) \<Rightarrow> (Inr (hd_name h), w2)))"

section \<open>Create, stop, start, remove, publish\<close>

text \<open>The calls of \<open>CreateAndBoot\<close> from \<open>GetSandbox\<close> on: the sandbox exists and is checked
  before a reference to it is handed out.\<close>

definition after_create ::
  "'w Runtime \<Rightarrow> string \<Rightarrow> u16 \<Rightarrow> ('w, msb_error + SandboxRef) act" where
  "after_create rt name allocatedBase w =
     (case sdk_Get (rt_sdk rt) name w of
        (Inl e, w1) \<Rightarrow> (Inl (GetFailed name e), w1)
      | (Inr h, w1) \<Rightarrow>
          (case assertNetworkPolicy (rt_sdk rt) h w1 of
             (Some perr, w2) \<Rightarrow>
               (case teardownHandle (rt_sdk rt) h w2 of
                  (terr, w3) \<Rightarrow> (Inl (Joined (PolicyFailed perr) terr), w3))
           | (None, w2) \<Rightarrow>
               if rt_alloc rt \<and> allocatedBase > 0 then
                 (case CheckCollision (rt_sdk rt) name allocatedBase w2 of
                    (Some cerr, w3) \<Rightarrow>
                      (case teardownHandle (rt_sdk rt) h w3 of
                         (terr, w4) \<Rightarrow> (Inl (Joined (CollisionFailed cerr) terr), w4))
                  | (None, w3) \<Rightarrow> (Inr (refFromHandle h), w3))
               else (Inr (refFromHandle h), w2)))"

definition create_sandbox ::
  "'w Runtime \<Rightarrow> SandboxSpec \<Rightarrow> string \<Rightarrow> u16 \<Rightarrow> ('w, msb_error + SandboxRef) act" where
  "create_sandbox rt spec name allocatedBase w =
     (case sdk_Create (rt_sdk rt) name (SandboxOptions spec @ [OptDetached]) w of
        (Some e, w1) \<Rightarrow> (Inl (CreateFailed e), w1)
      | (None, w1) \<Rightarrow>
          (case sdk_Detach (rt_sdk rt) name w1 of
             (Some e, w2) \<Rightarrow> (Inl (DetachFailed e), w2)
           | (None, w2) \<Rightarrow> after_create rt name allocatedBase w2))"

definition CreateAndBoot :: "'w Runtime \<Rightarrow> SandboxSpec \<Rightarrow> ('w, msb_error + SandboxRef) act" where
  "CreateAndBoot rt spec w =
     (let name = SDKName (spec_project spec) (spec_name spec) in
      if name = [] then (Inl NoName, w)
      else (case runtime_admit rt (spec_memory spec) w of
              (Some e, w1) \<Rightarrow> (Inl (AdmissionRefused e), w1)
            | (None, w1) \<Rightarrow>
                if rt_alloc rt then
                  (case Allocate (rt_sdk rt) w1 of
                     (Inl e, w2) \<Rightarrow> (Inl (RangeFailed e), w2)
                   | (Inr base, w2) \<Rightarrow>
                       create_sandbox rt (spec\<lparr>spec_portmap := Some (blockPortMap base)\<rparr>) name base w2)
                else create_sandbox rt spec name 0 w1))"

definition stop_and_refresh :: "'w Runtime \<Rightarrow> sdk_handle \<Rightarrow> ('w, msb_error + SandboxRef) act" where
  "stop_and_refresh rt h w =
     (case sdk_Stop (rt_sdk rt) (hd_name h) w of
        (Some e, w1) \<Rightarrow> (Inl (StopFailed e), w1)
      | (None, w1) \<Rightarrow>
          (case sdk_Refresh (rt_sdk rt) (hd_name h) w1 of
             (Inl e, w2) \<Rightarrow> (Inl (RefreshFailed e), w2)
           | (Inr fresh, w2) \<Rightarrow> (Inr (refFromHandle fresh), w2)))"

definition rt_Create :: "'w Runtime \<Rightarrow> SandboxSpec \<Rightarrow> ('w, msb_error + SandboxRef) act" where
  "rt_Create rt spec w =
     (case CreateAndBoot rt spec w of
        (Inl e, w1) \<Rightarrow> (Inl e, w1)
      | (Inr ref, w1) \<Rightarrow>
          (case rt_handle rt ref w1 of
             (Inl e, w2) \<Rightarrow> (Inl e, w2)
           | (Inr h, w2) \<Rightarrow> stop_and_refresh rt h w2))"

definition rt_Stop :: "'w Runtime \<Rightarrow> SandboxRef \<Rightarrow> ('w, msb_error + SandboxRef) act" where
  "rt_Stop rt ref w =
     (case rt_handle rt ref w of
        (Inl e, w1) \<Rightarrow> (Inl e, w1)
      | (Inr h, w1) \<Rightarrow> stop_and_refresh rt h w1)"

definition rt_Start :: "'w Runtime \<Rightarrow> SandboxRef \<Rightarrow> ('w, msb_error + SandboxRef) act" where
  "rt_Start rt ref w =
     (case rt_handle rt ref w of
        (Inl e, w1) \<Rightarrow> (Inl e, w1)
      | (Inr h, w1) \<Rightarrow>
          (case sdk_StartDetached (rt_sdk rt) (hd_name h) w1 of
             (Some e, w2) \<Rightarrow> (Inl (StartFailed e), w2)
           | (None, w2) \<Rightarrow>
               (case sdk_Detach (rt_sdk rt) (hd_name h) w2 of
                  (Some e, w3) \<Rightarrow> (Inl (DetachFailed e), w3)
                | (None, w3) \<Rightarrow>
                    (case sdk_Refresh (rt_sdk rt) (hd_name h) w3 of
                       (Inl e, w4) \<Rightarrow> (Inl (RefreshFailed e), w4)
                     | (Inr fresh, w4) \<Rightarrow> (Inr (refFromHandle fresh), w4)))))"

definition rt_Pause :: "'w Runtime \<Rightarrow> SandboxRef \<Rightarrow> ('w, msb_error + SandboxRef) act" where
  "rt_Pause rt ref w = (Inl Unsupported, w)"

definition rt_Resume :: "'w Runtime \<Rightarrow> SandboxRef \<Rightarrow> ('w, msb_error + SandboxRef) act" where
  "rt_Resume rt ref w = (Inl Unsupported, w)"

definition rt_Remove :: "'w Runtime \<Rightarrow> SandboxRef \<Rightarrow> ('w, msb_error option) act" where
  "rt_Remove rt ref w =
     (case rt_handle rt ref w of
        (Inl e, w1) \<Rightarrow> (Some e, w1)
      | (Inr h, w1) \<Rightarrow>
          (case sdk_Remove (rt_sdk rt) (hd_name h) w1 of
             (Some e, w2) \<Rightarrow> (Some (RemoveFailed e), w2)
           | (None, w2) \<Rightarrow> (None, if rt_alloc rt then Free (hd_name h) w2 else w2)))"

text \<open>
  \<open>List\<close> follows the cursor with no page limit and no check for a repeated cursor, so the loop
  may not return: \<open>None\<close> is "does not return".
\<close>

partial_function (option) list_more ::
  "'w sdk \<Rightarrow> SandboxRef list \<Rightarrow> string option \<Rightarrow> 'w \<Rightarrow> ((msb_error + SandboxRef list) \<times> 'w) option"
where
  "list_more sdk refs cursor w =
     (case cursor of
        None \<Rightarrow> Some (Inr refs, w)
      | Some c \<Rightarrow>
          (case sdk_List sdk (Some c) w of
             (Inl e, w1) \<Rightarrow> Some (Inl (ListFailed e), w1)
           | (Inr (hs, nxt), w1) \<Rightarrow> list_more sdk (refs @ map refFromHandle hs) nxt w1))"

definition rt_List :: "'w Runtime \<Rightarrow> 'w \<Rightarrow> ((msb_error + SandboxRef list) \<times> 'w) option" where
  "rt_List rt w =
     (case sdk_List (rt_sdk rt) None w of
        (Inl e, w1) \<Rightarrow> Some (Inl (ListFailed e), w1)
      | (Inr (hs, nxt), w1) \<Rightarrow> list_more (rt_sdk rt) (map refFromHandle hs) nxt w1)"

definition remove_existing :: "'w Runtime \<Rightarrow> SandboxRef \<Rightarrow> ('w, msb_error option) act" where
  "remove_existing rt ref w =
     (case rt_handle rt ref w of
        (Inl _, w1) \<Rightarrow> (None, w1)
      | (Inr h, w1) \<Rightarrow>
          (case sdk_Kill (rt_sdk rt) (hd_name h) w1 of
             (_, w2) \<Rightarrow>
               (case sdk_Remove (rt_sdk rt) (hd_name h) w2 of
                  (Some e, w3) \<Rightarrow> (Some (PublishRemove e), w3)
                | (None, w3) \<Rightarrow> (None, w3))))"

definition Publish ::
  "'w Runtime \<Rightarrow> SandboxSpec \<Rightarrow> u16 list \<Rightarrow> ('w, msb_error + SandboxRef) act" where
  "Publish rt spec ports w =
     (case ValidatePorts ports of
        Some e \<Rightarrow> (Inl (PublishPorts e), w)
      | None \<Rightarrow>
          (let specWithPorts = spec\<lparr>spec_ports := MergePorts (spec_ports spec) ports\<rparr>;
               ref = \<lparr>ref_id = [], ref_project = spec_project spec, ref_name = spec_name spec,
                      ref_status = StNone\<rparr>
           in case remove_existing rt ref w of
                (Some e, w1) \<Rightarrow> (Inl e, w1)
              | (None, w1) \<Rightarrow>
                  (case CreateAndBoot rt specWithPorts w1 of
                     (Inl e, w2) \<Rightarrow> (Inl (PublishCreate e), w2)
                   | (Inr result, w2) \<Rightarrow> (Inr result, w2))))"

section \<open>Lemmas on names\<close>

lemma refFromHandle_labelled:
  assumes "hd_labels h = Some ls" "label_of ls LabelProject = p" "p \<noteq> []"
    "hd_name h = SDKName p n"
  shows "ref_project (refFromHandle h) = p \<and> ref_name (refFromHandle h) = n"
proof -
  have "trim_prefix (p @ nameSep @ n) (p @ nameSep) = n"
    using trim_prefix_append [of "p @ nameSep" n] by simp
  with assms show ?thesis by (simp add: refFromHandle_def Let_def SDKName_def)
qed

lemma str_cut_join: "str_cut s sep = Some (a, b) \<Longrightarrow> s = a @ sep @ b"
proof -
  assume "str_cut s sep = Some (a, b)"
  then obtain i where i: "sub_index sep s = Some i" "a = take i s" "b = drop (i + length sep) s"
    by (auto simp: str_cut_def split: option.splits)
  then have "drop i s = sep @ drop (length sep) (drop i s)"
    using sub_index_SomeD [OF i(1)] by (metis append_eq_conv_conj prefixE)
  then show ?thesis using i by (metis append_take_drop_id drop_drop add.commute)
qed

text \<open>The name the runtime looks a reference up by.\<close>

definition lookup_name :: "SandboxRef \<Rightarrow> string" where
  "lookup_name ref = (if ref_project ref \<noteq> [] then SDKName (ref_project ref) (ref_name ref)
                      else ref_name ref)"

lemma lookup_name_ref:
  assumes "\<And>ls p. hd_labels h = Some ls \<Longrightarrow> label_of ls LabelProject = p \<Longrightarrow> p \<noteq> [] \<Longrightarrow>
      has_prefix (hd_name h) (p @ nameSep)"
    and "\<not> has_prefix (hd_name h) nameSep"
  shows "lookup_name (refFromHandle h) = hd_name h"
proof -
  define p where "p = (case hd_labels h of Some ls \<Rightarrow> label_of ls LabelProject | None \<Rightarrow> [])"
  have ref: "ref_project (refFromHandle h) = (if p = [] then
        (case str_cut (hd_name h) nameSep of Some (a, b) \<Rightarrow> a | None \<Rightarrow> []) else p)"
    "ref_name (refFromHandle h) = (if p = [] then
        (case str_cut (hd_name h) nameSep of Some (a, b) \<Rightarrow> b | None \<Rightarrow> hd_name h)
      else trim_prefix (hd_name h) (p @ nameSep))"
    by (auto simp: refFromHandle_def Let_def p_def split: option.splits)
  show ?thesis
  proof (cases "p = []")
    case True
    have "a \<noteq> []" if "str_cut (hd_name h) nameSep = Some (a, b)" for a b
      using str_cut_join [OF that] assms(2) by auto
    with True show ?thesis
      by (auto simp: ref lookup_name_def SDKName_def dest: str_cut_join split: option.splits)
  next
    case False
    then obtain ls where "hd_labels h = Some ls" "label_of ls LabelProject = p"
      by (auto simp: p_def split: option.splits)
    with False have "has_prefix (hd_name h) (p @ nameSep)" using assms(1) by blast
    then obtain s where "hd_name h = p @ nameSep @ s" by (auto elim: prefixE)
    moreover have "trim_prefix (p @ nameSep @ s) (p @ nameSep) = s"
      using trim_prefix_append [of "p @ nameSep" s] by simp
    ultimately show ?thesis using False
      by (simp add: ref lookup_name_def SDKName_def)
  qed
qed

end
