(* ===== verification/MsbExec.thy ===== *)
theory MsbExec
  imports MsbRuntime
begin

text \<open>
  \<open>internal/runtime/msb/exec.go\<close>: running a command in a sandbox and streaming its events.
  The SDK's exec session is a second record of operations. The two goroutines of a TTY session
  (the stdin copy and \<open>pumpResize\<close>) run beside the event loop and touch only the session's
  stdin and terminal size; \<open>pumpResize\<close> is modelled as a function of what its channels deliver
  and the stdin copy is left out.
\<close>

section \<open>Requests, events, the exec session\<close>

record WinSize =
  ws_rows :: u16
  ws_cols :: u16

record ExecRequest =
  rq_argv :: "string list"
  rq_env :: "(string \<times> string) list"
  rq_cwd :: string
  rq_stdin :: string
  rq_has_reader :: bool
  rq_tty :: bool
  rq_rows :: u16
  rq_cols :: u16

datatype exec_event =
  EvStdout string | EvStderr string | EvExited int | EvFailed string | EvDone | EvOther

datatype exec_option = ExecEnv "(string \<times> string) list" | ExecCwd string | ExecTTY bool | ExecStdinPipe

text \<open>\<open>ex_CloseStdin\<close> is the close of the session's stdin sink, a no-op when there is none.
  \<open>ex_stdout\<close> and \<open>ex_stderr\<close> are the request's writers; a nil writer is \<open>io.Discard\<close>.\<close>

record 'w exec_sdk =
  ex_Stream :: "string \<Rightarrow> string \<Rightarrow> string list \<Rightarrow> exec_option list \<Rightarrow> ('w, string option) act"
  ex_Resize :: "u16 \<Rightarrow> u16 \<Rightarrow> ('w, string option) act"
  ex_WriteStdin :: "string \<Rightarrow> ('w, string option) act"
  ex_CloseStdin :: "('w, string option) act"
  ex_Recv :: "('w, string + exec_event) act"
  ex_Close :: "'w \<Rightarrow> 'w"
  ex_stdout :: "string \<Rightarrow> ('w, string option) act"
  ex_stderr :: "string \<Rightarrow> ('w, string option) act"

datatype exec_error =
    ExecStreamErr string | ResizeErr string | StdinWriteErr string | StdinCloseErr string
  | RecvErr string | StdoutErr string | StderrErr string | GuestFailed string

section \<open>The event loop\<close>

text \<open>The loop returns at \<open>Done\<close>, at a failure or at an error, so it may wait for ever:
  \<open>None\<close>. \<open>int32(exitCode)\<close> keeps the low 32 bits, read as a signed number.\<close>

definition to_int32 :: "int \<Rightarrow> int" where
  "to_int32 n = sint (word_of_int n :: 32 word)"

partial_function (option) recv_loop ::
  "'w exec_sdk \<Rightarrow> int \<Rightarrow> 'w \<Rightarrow> ((exec_error + int) \<times> 'w) option" where
  "recv_loop ex exitCode w =
     (case ex_Recv ex w of
        (Inl e, w1) \<Rightarrow> Some (Inl (RecvErr e), w1)
      | (Inr ev, w1) \<Rightarrow>
          (case ev of
             EvStdout d \<Rightarrow> (case ex_stdout ex d w1 of
                              (Some e, w2) \<Rightarrow> Some (Inl (StdoutErr e), w2)
                            | (None, w2) \<Rightarrow> recv_loop ex exitCode w2)
           | EvStderr d \<Rightarrow> (case ex_stderr ex d w1 of
                              (Some e, w2) \<Rightarrow> Some (Inl (StderrErr e), w2)
                            | (None, w2) \<Rightarrow> recv_loop ex exitCode w2)
           | EvExited c \<Rightarrow> recv_loop ex c w1
           | EvFailed e \<Rightarrow> Some (Inl (GuestFailed e), w1)
           | EvDone \<Rightarrow> Some (Inr (to_int32 exitCode), w1)
           | EvOther \<Rightarrow> recv_loop ex exitCode w1))"

definition exec_options :: "ExecRequest \<Rightarrow> exec_option list" where
  "exec_options req =
     (if rq_env req \<noteq> [] then [ExecEnv (rq_env req)] else [])
     @ (if rq_cwd req \<noteq> [] then [ExecCwd (rq_cwd req)] else [])
     @ (if rq_tty req then [ExecTTY True, ExecStdinPipe]
        else if rq_stdin req \<noteq> [] then [ExecStdinPipe] else [])"

definition initial_resize :: "'w exec_sdk \<Rightarrow> ExecRequest \<Rightarrow> ('w, exec_error option) act" where
  "initial_resize ex req w =
     (if rq_tty req \<and> (rq_rows req > 0 \<or> rq_cols req > 0) then
        (case ex_Resize ex (rq_rows req) (rq_cols req) w of
           (Some e, w1) \<Rightarrow> (Some (ResizeErr e), w1)
         | (None, w1) \<Rightarrow> (None, w1))
      else (None, w))"

definition feed_stdin :: "'w exec_sdk \<Rightarrow> ExecRequest \<Rightarrow> ('w, exec_error option) act" where
  "feed_stdin ex req w =
     (if rq_tty req then
        (None, if rq_has_reader req then w else snd (ex_CloseStdin ex w))
      else if rq_stdin req \<noteq> [] then
        (case ex_WriteStdin ex (rq_stdin req) w of
           (Some e, w1) \<Rightarrow> (Some (StdinWriteErr e), w1)
         | (None, w1) \<Rightarrow>
             (case ex_CloseStdin ex w1 of
                (Some e, w2) \<Rightarrow> (Some (StdinCloseErr e), w2)
              | (None, w2) \<Rightarrow> (None, w2)))
      else (None, w))"

text \<open>The deferred \<open>handle.Close()\<close> runs on every return after the stream is open. The
  argument vector is not empty: both callers check it first.\<close>

definition close_after :: "'w exec_sdk \<Rightarrow> 'a \<times> 'w \<Rightarrow> 'a \<times> 'w" where
  "close_after ex r = (case r of (x, w) \<Rightarrow> (x, ex_Close ex w))"

definition streamExec ::
  "'w exec_sdk \<Rightarrow> string \<Rightarrow> ExecRequest \<Rightarrow> 'w \<Rightarrow> ((exec_error + int) \<times> 'w) option" where
  "streamExec ex sb req w =
     (case ex_Stream ex sb (hd (rq_argv req)) (tl (rq_argv req)) (exec_options req) w of
        (Some e, w1) \<Rightarrow> Some (Inl (ExecStreamErr e), w1)
      | (None, w1) \<Rightarrow>
          map_option (close_after ex)
            (case initial_resize ex req w1 of
               (Some e, w2) \<Rightarrow> Some (Inl e, w2)
             | (None, w2) \<Rightarrow>
                 (case feed_stdin ex req w2 of
                    (Some e, w3) \<Rightarrow> Some (Inl e, w3)
                  | (None, w3) \<Rightarrow> recv_loop ex 0 w3)))"

section \<open>Exec and RunEphemeral\<close>

datatype run_error = RunMsb msb_error | RunExec exec_error | RunNoArgv | RunDestroy string

text \<open>The deferred, time-bounded detach ignores its result: it only changes the daemon state.\<close>

definition rt_Exec ::
  "'w Runtime \<Rightarrow> 'w exec_sdk \<Rightarrow> SandboxRef \<Rightarrow> ExecRequest \<Rightarrow> 'w \<Rightarrow> ((run_error + int) \<times> 'w) option" where
  "rt_Exec rt ex ref req w =
     (if rq_argv req = [] then Some (Inl RunNoArgv, w)
      else (case rt_connect rt ref w of
              (Inl e, w1) \<Rightarrow> Some (Inl (RunMsb e), w1)
            | (Inr sb, w1) \<Rightarrow>
                (case streamExec ex sb req w1 of
                   None \<Rightarrow> None
                 | Some (r, w2) \<Rightarrow>
                     Some (map_sum RunExec id r, snd (sdk_Detach (rt_sdk rt) sb w2)))))"

text \<open>
  \<open>RunEphemeral\<close>: create, assert the network policy, run, destroy. The result value that Go
  returns beside a destroy error is dropped by its type here: callers see the error.
\<close>

definition run_and_destroy ::
  "'w Runtime \<Rightarrow> 'w exec_sdk \<Rightarrow> string \<Rightarrow> ExecRequest \<Rightarrow> 'w \<Rightarrow> ((run_error + int) \<times> 'w) option" where
  "run_and_destroy rt ex name req w =
     (case streamExec ex name req w of
        None \<Rightarrow> None
      | Some (r, w1) \<Rightarrow>
          (case sdk_Destroy (rt_sdk rt) name w1 of
             (derr, w2) \<Rightarrow>
               Some (case r of
                       Inl e \<Rightarrow> Inl (RunExec e)
                     | Inr code \<Rightarrow> (case derr of Some e \<Rightarrow> Inl (RunDestroy e) | None \<Rightarrow> Inr code),
                     w2)))"

definition RunEphemeral ::
  "'w Runtime \<Rightarrow> 'w exec_sdk \<Rightarrow> SandboxSpec \<Rightarrow> ExecRequest \<Rightarrow> 'w
     \<Rightarrow> ((run_error + int) \<times> 'w) option" where
  "RunEphemeral rt ex spec req w =
     (if rq_argv req = [] then Some (Inl RunNoArgv, w)
      else (case runtime_admit rt (spec_memory spec) w of
              (Some e, w1) \<Rightarrow> Some (Inl (RunMsb (AdmissionRefused e)), w1)
            | (None, w1) \<Rightarrow>
                (let name = SDKName (spec_project spec) (spec_name spec) in
                 if name = [] then Some (Inl (RunMsb NoName), w1)
                 else (case sdk_Create (rt_sdk rt) name
                              (SandboxOptions spec @ [OptDetached, OptEphemeral True]) w1 of
                         (Some e, w2) \<Rightarrow> Some (Inl (RunMsb (CreateFailed e)), w2)
                       | (None, w2) \<Rightarrow>
                           (case assertNetworkPolicyByName (rt_sdk rt) name w2 of
                              (Some perr, w3) \<Rightarrow>
                                (case sdk_Destroy (rt_sdk rt) name w3 of
                                   (derr, w4) \<Rightarrow>
                                     Some (Inl (RunMsb (Joined (PolicyFailed perr)
                                             (map_option DestroyFailed derr))), w4))
                            | (None, w3) \<Rightarrow> run_and_destroy rt ex name req w3)))))"

section \<open>pumpResize\<close>

text \<open>
  What the \<open>select\<close> of \<open>pumpResize\<close> delivers, one item per iteration: the done channel or the
  context, the closed resize channel, or a size. The result is the list of resize calls; the
  error of a call is dropped by the code.
\<close>

datatype resize_item = PumpStop | PumpClosed | PumpSize WinSize

fun pumpResize :: "resize_item list \<Rightarrow> (u16 \<times> u16) list" where
  "pumpResize [] = []"
| "pumpResize (PumpStop # _) = []"
| "pumpResize (PumpClosed # _) = []"
| "pumpResize (PumpSize ws # is) =
     (if ws_rows ws = 0 \<and> ws_cols ws = 0 then pumpResize is
      else (ws_rows ws, ws_cols ws) # pumpResize is)"

lemma pumpResize_nonzero: "(r, c) \<in> set (pumpResize is) \<Longrightarrow> r \<noteq> 0 \<or> c \<noteq> 0"
  by (induction "is" rule: pumpResize.induct) (auto split: if_splits)

section \<open>What the event loop returns\<close>

text \<open>The exit code after a list of events: that of the last \<open>Exited\<close>, initially \<open>c\<close>.\<close>

fun last_exit :: "int \<Rightarrow> exec_event list \<Rightarrow> int" where
  "last_exit c [] = c"
| "last_exit c (EvExited d # es) = last_exit d es"
| "last_exit c (_ # es) = last_exit c es"

definition benign :: "exec_event \<Rightarrow> bool" where
  "benign ev \<longleftrightarrow> (\<forall>e. ev \<noteq> EvFailed e) \<and> ev \<noteq> EvDone"

text \<open>
  A session that delivers a given list of events in order, and whose writers append to two
  buffers: the state is the events left and what was written to stdout and stderr.
\<close>

record session =
  se_events :: "exec_event list"
  se_out :: string
  se_err :: string

definition session_recv :: "(session, string + exec_event) act" where
  "session_recv s = (case se_events s of
      [] \<Rightarrow> (Inl ''eof'', s) | ev # evs \<Rightarrow> (Inr ev, s\<lparr>se_events := evs\<rparr>))"

definition session_exec :: "session exec_sdk" where
  "session_exec =
     \<lparr>ex_Stream = (\<lambda>_ _ _ _ s. (None, s)), ex_Resize = (\<lambda>_ _ s. (None, s)),
      ex_WriteStdin = (\<lambda>_ s. (None, s)), ex_CloseStdin = (\<lambda>s. (None, s)),
      ex_Recv = session_recv, ex_Close = id,
      ex_stdout = (\<lambda>d s. (None, s\<lparr>se_out := se_out s @ d\<rparr>)),
      ex_stderr = (\<lambda>d s. (None, s\<lparr>se_err := se_err s @ d\<rparr>))\<rparr>"

definition out_data :: "exec_event list \<Rightarrow> string" where
  "out_data evs = concat (map (\<lambda>ev. case ev of EvStdout d \<Rightarrow> d | _ \<Rightarrow> []) evs)"

definition err_data :: "exec_event list \<Rightarrow> string" where
  "err_data evs = concat (map (\<lambda>ev. case ev of EvStderr d \<Rightarrow> d | _ \<Rightarrow> []) evs)"

lemma recv_loop_session:
  "\<forall>ev \<in> set evs. benign ev \<Longrightarrow>
     recv_loop session_exec c \<lparr>se_events = evs @ EvDone # rest, se_out = o', se_err = e'\<rparr>
     = Some (Inr (to_int32 (last_exit c evs)),
             \<lparr>se_events = rest, se_out = o' @ out_data evs, se_err = e' @ err_data evs\<rparr>)"
proof (induction evs arbitrary: c o' e')
  case Nil
  show ?case
    by (subst recv_loop.simps) (simp add: session_exec_def session_recv_def out_data_def err_data_def)
next
  case (Cons ev evs)
  then show ?case
    by (subst recv_loop.simps, cases ev)
      (simp_all add: session_exec_def session_recv_def out_data_def err_data_def benign_def)
qed

end
