(* ===== verification/RuntimeSafety.thy ===== *)
theory RuntimeSafety
  imports MsbExec
begin

text \<open>
  What the runtime guarantees over any daemon that keeps the laws of \<open>sdk_daemon\<close>: guest memory
  stays within the host budget whatever operations run, and every sandbox handed back has been
  confirmed to deny egress by default. The laws are discharged for the concrete daemon.
\<close>

section \<open>Options of a created sandbox\<close>

lemma opt_memory_append:
  "(\<forall>m. OptMemory m \<notin> set xs) \<Longrightarrow> opt_memory (xs @ ys) = opt_memory ys"
  by (induction xs rule: opt_memory.induct) auto

lemma opt_memory_SandboxOptions:
  assumes "spec_memory spec \<noteq> 0"
  shows "opt_memory (SandboxOptions spec @ xs) = spec_memory spec"
proof -
  have pos: "spec_memory spec > 0" using assms by (simp add: word_gt_0)
  show ?thesis
    by (simp add: SandboxOptions_def Let_def pos opt_memory_append del: append_assoc append_Cons
        flip: append_assoc) (simp add: opt_memory_append)
qed

lemma network_option_unique:
  "OptNetwork n \<in> set (SandboxOptions spec) \<longleftrightarrow> n = networkConfig (spec_netrules spec)"
  by (auto simp: SandboxOptions_def Let_def split: option.splits if_splits)

lemma networkConfig_deny: "net_default_egress (networkConfig rules) = PolicyDeny"
  by (simp add: networkConfig_def Let_def)

section \<open>Sequences of runtime operations\<close>

datatype rt_op =
    OpCreate SandboxSpec
  | OpCreateAndBoot SandboxSpec
  | OpStart SandboxRef
  | OpStop SandboxRef
  | OpRemove SandboxRef
  | OpPublish SandboxSpec "u16 list"
  | OpList
  | OpExec SandboxRef ExecRequest
  | OpEphemeral SandboxSpec ExecRequest

fun rt_step :: "'w Runtime \<Rightarrow> 'w exec_sdk \<Rightarrow> rt_op \<Rightarrow> 'w \<Rightarrow> 'w option" where
  "rt_step rt ex (OpCreate spec) w = Some (snd (rt_Create rt spec w))"
| "rt_step rt ex (OpCreateAndBoot spec) w = Some (snd (CreateAndBoot rt spec w))"
| "rt_step rt ex (OpStart ref) w = Some (snd (rt_Start rt ref w))"
| "rt_step rt ex (OpStop ref) w = Some (snd (rt_Stop rt ref w))"
| "rt_step rt ex (OpRemove ref) w = Some (snd (rt_Remove rt ref w))"
| "rt_step rt ex (OpPublish spec ports) w = Some (snd (Publish rt spec ports w))"
| "rt_step rt ex OpList w = map_option snd (rt_List rt w)"
| "rt_step rt ex (OpExec ref req) w = map_option snd (rt_Exec rt ex ref req w)"
| "rt_step rt ex (OpEphemeral spec req) w = map_option snd (RunEphemeral rt ex spec req w)"

fun rt_run :: "'w Runtime \<Rightarrow> 'w exec_sdk \<Rightarrow> rt_op list \<Rightarrow> 'w \<Rightarrow> 'w option" where
  "rt_run rt ex [] w = Some w"
| "rt_run rt ex (op # ops) w =
     (case rt_step rt ex op w of None \<Rightarrow> None | Some w1 \<Rightarrow> rt_run rt ex ops w1)"

section \<open>The laws of the daemon\<close>

text \<open>
  Beyond the listing: creating a sandbox adds at most the memory of its options (nothing when it
  fails), every other call adds none, look-ups change nothing, and running a command neither
  creates nor resizes a sandbox.
\<close>

locale sdk_daemon = sdk_listing sdk boxes inv
  for sdk :: "'w sdk" and boxes :: "'w \<Rightarrow> sdk_handle list" and inv :: "'w \<Rightarrow> bool" +
  fixes ex :: "'w exec_sdk"
  assumes create_law: "inv w \<Longrightarrow> sdk_Create sdk n opts w = (r, w') \<Longrightarrow>
      inv w' \<and> guest_memory (boxes w')
        \<le> guest_memory (boxes w) + (if r = None then unat (opt_memory opts) else 0)"
    and op_law: "inv w \<Longrightarrow> op \<in> {sdk_Detach sdk, sdk_Destroy sdk, sdk_Connect sdk,
        sdk_StartDetached sdk, sdk_Stop sdk, sdk_Kill sdk, sdk_Remove sdk} \<Longrightarrow>
      op n w = (r, w') \<Longrightarrow> inv w' \<and> guest_memory (boxes w') \<le> guest_memory (boxes w)"
    and lookup_law: "inv w \<Longrightarrow> lookup \<in> {sdk_Get sdk, sdk_Refresh sdk} \<Longrightarrow>
      lookup n w = (g, w') \<Longrightarrow> w' = w"
    and exec_law: "inv w \<Longrightarrow> streamExec ex n req w = Some (q, w') \<Longrightarrow>
      inv w' \<and> guest_memory (boxes w') \<le> guest_memory (boxes w)"
begin

definition within :: "nat \<Rightarrow> 'w \<Rightarrow> bool" where
  "within b w \<longleftrightarrow> inv w \<and> guest_memory (boxes w) \<le> b"

lemma within_inv: "within b w \<Longrightarrow> inv w"
  by (simp add: within_def)

lemma keeps_op:
  "op \<in> {sdk_Detach sdk, sdk_Destroy sdk, sdk_Connect sdk,
        sdk_StartDetached sdk, sdk_Stop sdk, sdk_Kill sdk, sdk_Remove sdk} \<Longrightarrow> keeps (within b) (op n)"
  proof (rule keepsI)
  fix w
  assume "op \<in> {sdk_Detach sdk, sdk_Destroy sdk, sdk_Connect sdk,
        sdk_StartDetached sdk, sdk_Stop sdk, sdk_Kill sdk, sdk_Remove sdk}" "within b w"
  then show "after (within b) (op n w)"
    using op_law [of w op n "fst (op n w)" "snd (op n w)"] by (auto simp: after_def within_def)
qed

lemma keeps_lookup: "f \<in> {sdk_Get sdk, sdk_Refresh sdk} \<Longrightarrow> keeps (within b) (f n)"
  by (rule keepsI) (metis after_def lookup_law within_inv prod.collapse)

lemma keeps_calls:
  "keeps (within b) (sdk_Detach sdk n)" "keeps (within b) (sdk_Destroy sdk n)"
  "keeps (within b) (sdk_Connect sdk n)" "keeps (within b) (sdk_StartDetached sdk n)"
  "keeps (within b) (sdk_Stop sdk n)" "keeps (within b) (sdk_Kill sdk n)"
  "keeps (within b) (sdk_Remove sdk n)" "keeps (within b) (sdk_Get sdk n)"
  "keeps (within b) (sdk_Refresh sdk n)" "keeps (within b) (sdk_List sdk c)"
  "keeps (within b) (Allocate sdk)" "keeps (within b) (CheckCollision sdk n base)"
proof -
  show "keeps (within b) (sdk_List sdk c)"
    by (rule keepsI) (metis after_def unchanged within_inv prod.collapse)
  show "keeps (within b) (Allocate sdk)"
    by (rule keepsI) (metis after_def allocate_unchanged within_inv prod.collapse)
  show "keeps (within b) (CheckCollision sdk n base)"
    by (rule keepsI) (metis after_def check_unchanged within_inv prod.collapse)
qed (simp_all add: keeps_op keeps_lookup)

lemma keeps_exec: "within b w \<Longrightarrow> streamExec ex n req w = Some (q, w') \<Longrightarrow> within b w'"
  using exec_law [of w n req q w'] by (simp add: within_def)

lemma keeps_policy: "keeps (within b) (assertNetworkPolicy sdk h)"
  unfolding assertNetworkPolicy_def by (rule keepsI) (assumption | intro keeps_intros keeps_calls)+

lemma keeps_policy_name: "keeps (within b) (assertNetworkPolicyByName sdk n)"
  unfolding assertNetworkPolicyByName_def
  by (rule keepsI) (assumption | intro keeps_intros keeps_calls keeps_policy | rule keeps_call)+

lemma keeps_teardown: "keeps (within b) (teardownHandle sdk h)"
  unfolding teardownHandle_def by (rule keepsI) (assumption | intro keeps_intros keeps_calls)+

lemmas keeps_steps = keeps_calls keeps_policy keeps_policy_name keeps_teardown

lemma keeps_handles:
  assumes "rt_sdk rt = sdk"
  shows "keeps (within b) (rt_handle rt ref)" "keeps (within b) (rt_connect rt ref)"
    "keeps (within b) (stop_and_refresh rt h)" "keeps (within b) (after_create rt n base)"
    "keeps (within b) (remove_existing rt ref)"
proof -
  show 1: "keeps (within b) (rt_handle rt ref)"
    unfolding rt_handle_def assms Let_def by (rule keepsI) (assumption | intro keeps_intros keeps_steps)+
  show "keeps (within b) (rt_connect rt ref)"
    unfolding rt_connect_def assms by (rule keepsI) (assumption | intro keeps_intros keeps_steps 1)+
  show "keeps (within b) (stop_and_refresh rt h)"
    unfolding stop_and_refresh_def assms by (rule keepsI) (assumption | intro keeps_intros keeps_steps)+
  show "keeps (within b) (after_create rt n base)"
    unfolding after_create_def assms by (rule keepsI) (assumption | intro keeps_intros keeps_steps)+
  show "keeps (within b) (remove_existing rt ref)"
    unfolding remove_existing_def assms by (rule keepsI) (assumption | intro keeps_intros keeps_steps 1)+
qed

lemma admit_room:
  assumes "rt_sdk rt = sdk" "rt_acct rt = None" "inv w"
  shows "runtime_admit rt mem w = (None, w1) \<Longrightarrow> Budget (rt_env rt) (rt_meminfo rt) = Inr B \<Longrightarrow>
      mem \<noteq> 0 \<and> inv w1 \<and> guest_memory (boxes w1) + unat mem \<le> unat B"
    and "runtime_admit rt mem w = (e, w1) \<Longrightarrow> within b w \<Longrightarrow> within b w1"
proof -
  have a: "runtime_admit rt mem w
      = Admit (rt_env rt) (rt_meminfo rt) (Some (CommittedMemoryMiB sdk)) mem w"
    by (simp add: runtime_admit_def runtime_accountant_def assms)
  show "runtime_admit rt mem w = (None, w1) \<Longrightarrow> Budget (rt_env rt) (rt_meminfo rt) = Inr B \<Longrightarrow>
      mem \<noteq> 0 \<and> inv w1 \<and> guest_memory (boxes w1) + unat mem \<le> unat B"
    using admitted_within_budget [OF assms(3)] admit_keeps [OF assms(3)] unfolding a by fastforce
  show "runtime_admit rt mem w = (e, w1) \<Longrightarrow> within b w \<Longrightarrow> within b w1"
    using admit_keeps [OF assms(3)] unfolding a within_def by fastforce
qed

text \<open>Creating after an admission: the room found is at least what the options ask for.\<close>

lemma create_room:
  assumes "inv w" "guest_memory (boxes w) + unat (spec_memory spec) \<le> b" "spec_memory spec \<noteq> 0"
    and "sdk_Create sdk n (SandboxOptions spec @ xs) w = (r, w1)"
  shows "within b w1"
  using create_law [OF assms(1,4)] assms(2) opt_memory_SandboxOptions [OF assms(3), of xs]
  by (auto simp: within_def split: if_splits)

lemma create_sandbox_room:
  assumes "rt_sdk rt = sdk" "inv w" "guest_memory (boxes w) + unat (spec_memory spec) \<le> b"
    "spec_memory spec \<noteq> 0"
  shows "after (within b) (create_sandbox rt spec n base w)"
proof -
  obtain r w1 where c: "sdk_Create sdk n (SandboxOptions spec @ [OptDetached]) w = (r, w1)"
    by fastforce
  have "within b w1" by (rule create_room [OF assms(2-4) c])
  then have "after (within b) (case (r, w1) of
        (Some e, w1) \<Rightarrow> (Inl (CreateFailed e), w1)
      | (None, w1) \<Rightarrow> (case sdk_Detach sdk n w1 of
          (Some e, w2) \<Rightarrow> (Inl (DetachFailed e), w2) | (None, w2) \<Rightarrow> after_create rt n base w2))"
    unfolding prod.case
    by (intro after_option after_ret after_bind [OF _ keeps_calls(1)])
      (assumption | rule keeps_call [OF _ keeps_handles(4) [OF assms(1)]])+
  then show ?thesis by (simp only: create_sandbox_def assms(1) c)
qed

lemma keeps_CreateAndBoot:
  assumes "rt_sdk rt = sdk" "rt_acct rt = None" "Budget (rt_env rt) (rt_meminfo rt) = Inr B"
  shows "keeps (within (unat B)) (CreateAndBoot rt spec)"
proof (rule keepsI)
  fix w assume w: "within (unat B) w"
  obtain e w1 where a: "runtime_admit rt (spec_memory spec) w = (e, w1)" by fastforce
  have w1: "within (unat B) w1"
    using admit_room(2) [OF assms(1,2) within_inv [OF w] a w] .
  show "after (within (unat B)) (CreateAndBoot rt spec w)"
  proof (cases e)
    case (Some x)
    with a w w1 show ?thesis by (simp add: CreateAndBoot_def Let_def after_def)
  next
    case None
    with a have room: "spec_memory spec \<noteq> 0 \<and> inv w1
        \<and> guest_memory (boxes w1) + unat (spec_memory spec) \<le> unat B"
      using admit_room(1) [OF assms(1,2) within_inv [OF w] _ assms(3)] by simp
    obtain al w2 where al: "Allocate sdk w1 = (al, w2)" by fastforce
    have "w2 = w1" using allocate_unchanged [OF _ al] room by blast
    with None a al w w1 room show ?thesis
      by (auto simp: CreateAndBoot_def Let_def assms(1) after_ret split: sum.splits
          intro!: create_sandbox_room)
  qed
qed

lemma keeps_run_and_destroy:
  assumes "rt_sdk rt = sdk" "within b w" "run_and_destroy rt ex n req w = Some (x, v)"
  shows "within b v"
proof -
  obtain q w1 where q: "streamExec ex n req w = Some (q, w1)"
    using assms(3) by (cases "streamExec ex n req w") (auto simp: run_and_destroy_def)
  obtain d w2 where d: "sdk_Destroy sdk n w1 = (d, w2)" by fastforce
  have "within b w2" by (rule keepsD [OF keeps_calls(2) keeps_exec [OF assms(2) q] d])
  with assms(3) show ?thesis by (simp add: run_and_destroy_def assms(1) q d)
qed

lemma keeps_RunEphemeral:
  assumes "rt_sdk rt = sdk" "rt_acct rt = None" "Budget (rt_env rt) (rt_meminfo rt) = Inr B"
    and "within (unat B) w" "RunEphemeral rt ex spec req w = Some (q, w')"
  shows "within (unat B) w'"
proof -
  note w = assms(4)
  obtain e w1 where a: "runtime_admit rt (spec_memory spec) w = (e, w1)" by fastforce
  have w1: "within (unat B) w1"
    using admit_room(2) [OF assms(1,2) within_inv [OF w] a w] .
  let ?n = "SDKName (spec_project spec) (spec_name spec)"
  let ?opts = "SandboxOptions spec @ [OptDetached, OptEphemeral True]"
  consider "w' \<in> {w, w1}" | "e = None" "\<not> w' \<in> {w, w1}" "?n \<noteq> []" "rq_argv req \<noteq> []"
    using assms(5) a
    by (cases e; cases "rq_argv req = []"; cases "?n = []") (auto simp: RunEphemeral_def Let_def)
  then show ?thesis
  proof cases
    case 1 with w w1 show ?thesis by auto
  next
    case 2
    have room: "spec_memory spec \<noteq> 0 \<and> inv w1
        \<and> guest_memory (boxes w1) + unat (spec_memory spec) \<le> unat B"
      using admit_room(1) [OF assms(1,2) within_inv [OF w] _ assms(3)] a 2(1) by simp
    obtain r w2 where c: "sdk_Create sdk ?n ?opts w1 = (r, w2)" by fastforce
    have w2: "within (unat B) w2" using create_room [OF _ _ _ c] room by blast
    obtain p w3 where p: "assertNetworkPolicyByName sdk ?n w2 = (p, w3)" by fastforce
    have w3: "within (unat B) w3" by (rule keepsD [OF keeps_policy_name w2 p])
    obtain d w4 where d: "sdk_Destroy sdk ?n w3 = (d, w4)" by fastforce
    have w4: "within (unat B) w4" by (rule keepsD [OF keeps_calls(2) w3 d])
    note run = keeps_run_and_destroy [OF assms(1) w3]
    have "RunEphemeral rt ex spec req w =
        (case r of Some e \<Rightarrow> Some (Inl (RunMsb (CreateFailed e)), w2)
         | None \<Rightarrow> (case p of
             Some perr \<Rightarrow> Some (Inl (RunMsb (Joined (PolicyFailed perr)
                                (map_option DestroyFailed d))), w4)
           | None \<Rightarrow> run_and_destroy rt ex ?n req w3))"
      unfolding RunEphemeral_def a 2(1) assms(1) Let_def if_not_P [OF 2(3)] if_not_P [OF 2(4)]
        c p d prod.case option.case ..
    with assms(5) w2 w4 run [of ?n req q w'] show ?thesis by (cases r; cases p) auto
  qed
qed

lemma list_more_keeps:
  assumes "list_more sdk' refs c w = Some r" "sdk' = sdk" "inv w"
  shows "snd r = w"
  using assms
proof (induction sdk' refs c w r rule: list_more.raw_induct [rotated, consumes 1, case_names 1])
  case (1 f s refs c w r)
  show ?case
  proof (cases c)
    case None
    with 1 show ?thesis by auto
  next
    case (Some c1)
    obtain l w1 where l: "sdk_List sdk (Some c1) w = (l, w1)" by fastforce
    have "w1 = w" using unchanged [OF _ l] 1 by blast
    with Some l 1(2,3,4) 1(1) [of sdk "refs @ map refFromHandle (fst (projr l))" "snd (projr l)" w r]
    show ?thesis by (cases l) (auto split: prod.splits)
  qed
qed

lemma keeps_ops:
  assumes "rt_sdk rt = sdk" "rt_acct rt = None" "Budget (rt_env rt) (rt_meminfo rt) = Inr B"
  shows "keeps (within (unat B)) (rt_Create rt spec)" "keeps (within (unat B)) (Publish rt spec ports)"
    "keeps (within b) (rt_Start rt ref)" "keeps (within b) (rt_Stop rt ref)"
    "keeps (within b) (rt_Remove rt ref)"
proof -
  note handles = keeps_handles [OF assms(1)] and boot = keeps_CreateAndBoot [OF assms]
  show "keeps (within (unat B)) (rt_Create rt spec)"
    unfolding rt_Create_def
    by (rule keepsI) (assumption | intro keeps_intros boot handles
        | rule keeps_call [OF _ handles(3)])+
  show "keeps (within (unat B)) (Publish rt spec ports)"
    unfolding Publish_def Let_def
    by (rule keepsI) (assumption | intro keeps_intros boot handles)+
  show "keeps (within b) (rt_Start rt ref)"
    unfolding rt_Start_def assms(1)
    by (rule keepsI) (assumption | intro keeps_intros keeps_steps handles)+
  show "keeps (within b) (rt_Stop rt ref)"
    unfolding rt_Stop_def
    by (rule keepsI) (assumption | intro keeps_intros handles
        | rule keeps_call [OF _ handles(3)])+
  show "keeps (within b) (rt_Remove rt ref)"
    unfolding rt_Remove_def assms(1)
    by (rule keepsI) (simp only: Free_def if_cancel,
        (assumption | intro keeps_intros keeps_steps handles)+)
qed

lemma step_within:
  assumes "rt_sdk rt = sdk" "rt_acct rt = None" "Budget (rt_env rt) (rt_meminfo rt) = Inr B"
    and "within (unat B) w" "rt_step rt ex op w = Some w'"
  shows "within (unat B) w'"
proof (cases op)
  case (OpCreate spec)
  with assms keeps_ops(1) [OF assms(1-3), of spec] show ?thesis by (auto simp: keeps_def after_def)
next
  case (OpCreateAndBoot spec)
  with assms keeps_CreateAndBoot [OF assms(1-3), of spec] show ?thesis
    by (auto simp: keeps_def after_def)
next
  case (OpStart ref)
  with assms keeps_ops(3) [OF assms(1-3), of "unat B" ref] show ?thesis
    by (auto simp: keeps_def after_def)
next
  case (OpStop ref)
  with assms keeps_ops(4) [OF assms(1-3), of "unat B" ref] show ?thesis
    by (auto simp: keeps_def after_def)
next
  case (OpRemove ref)
  with assms keeps_ops(5) [OF assms(1-3), of "unat B" ref] show ?thesis
    by (auto simp: keeps_def after_def)
next
  case (OpPublish spec ports)
  with assms keeps_ops(2) [OF assms(1-3), of spec ports] show ?thesis
    by (auto simp: keeps_def after_def)
next
  case OpList
  obtain l w1 where l: "sdk_List sdk None w = (l, w1)" by fastforce
  have "w1 = w" by (rule unchanged [OF within_inv [OF assms(4)] l])
  with OpList assms l
      list_more_keeps [OF _ refl within_inv [OF assms(4)]]
    show ?thesis by (cases l) (fastforce simp: rt_List_def)+
next
  case (OpExec ref req)
  obtain c w1 where c: "rt_connect rt ref w = (c, w1)" by fastforce
  have w1: "within (unat B) w1"
    by (rule keepsD [OF keeps_handles(2) [OF assms(1)] assms(4) c])
  have "within (unat B) (snd (sdk_Detach sdk sb w2))" if "within (unat B) w2" for sb w2
    using keeps_calls(1) [of "unat B" sb] that by (simp add: keeps_def after_def)
  with OpExec assms c w1 show ?thesis
    by (cases c) (auto simp: rt_Exec_def split: if_splits option.splits dest: keeps_exec)
next
  case (OpEphemeral spec req)
  with assms show ?thesis by (auto dest: keeps_RunEphemeral [OF assms(1-4)])
qed

lemma run_within:
  assumes "rt_sdk rt = sdk" "rt_acct rt = None" "Budget (rt_env rt) (rt_meminfo rt) = Inr B"
  shows "within (unat B) w \<Longrightarrow> rt_run rt ex ops w = Some w' \<Longrightarrow> within (unat B) w'"
  by (induction ops arbitrary: w) (auto split: option.splits dest: step_within [OF assms])

end

section \<open>Removal\<close>

text \<open>A further documented behaviour: what is removed or destroyed is no longer listed.\<close>

locale sdk_removal = sdk_daemon sdk boxes inv ex
  for sdk :: "'w sdk" and boxes :: "'w \<Rightarrow> sdk_handle list" and inv :: "'w \<Rightarrow> bool"
    and ex :: "'w exec_sdk" +
  assumes removes: "inv w \<Longrightarrow> op \<in> {sdk_Remove sdk, sdk_Destroy sdk} \<Longrightarrow> op n w = (None, w') \<Longrightarrow>
      n \<notin> hd_name ` set (boxes w')"
    and names_itself: "inv w \<Longrightarrow> sdk_Get sdk n w = (Inr h, w') \<Longrightarrow> hd_name h = n"
begin

lemma teardown_removes:
  assumes "inv w" "teardownHandle sdk h w = (None, w')"
  shows "hd_name h \<notin> hd_name ` set (boxes w')"
proof -
  obtain k w1 where k: "sdk_Kill sdk (hd_name h) w = (k, w1)" by fastforce
  have "inv w1" using op_law [OF assms(1), of "sdk_Kill sdk" "hd_name h" k w1] k by simp
  moreover have "sdk_Remove sdk (hd_name h) w1 = (None, w')"
    using assms(2) k by (auto simp: teardownHandle_def split: prod.splits option.splits)
  ultimately show ?thesis by (intro removes [of w1 "sdk_Remove sdk"]) simp_all
qed

lemma refused_gone:
  assumes "rt_sdk rt = sdk" "inv w" "after_create rt n base w = (Inl (Joined e None), w')"
  shows "n \<notin> hd_name ` set (boxes w')"
proof -
  have keep: "keeps inv (sdk_Get sdk n)" "keeps inv (assertNetworkPolicy sdk h)"
    "keeps inv (CheckCollision sdk n base)" for h
  proof -
    have i: "inv v \<Longrightarrow> within (guest_memory (boxes v)) v" for v by (simp add: within_def)
    show "keeps inv (sdk_Get sdk n)" "keeps inv (assertNetworkPolicy sdk h)"
      "keeps inv (CheckCollision sdk n base)"
      using keeps_calls(8,12) keeps_policy i within_inv unfolding keeps_def after_def by blast+
  qed
  obtain g w1 where g: "sdk_Get sdk n w = (g, w1)" by fastforce
  then obtain h where h: "g = Inr h" using assms(1,3) by (cases g) (auto simp: after_create_def)
  have n: "hd_name h = n" using names_itself [OF assms(2)] g h by blast
  have w1: "inv w1" by (rule keepsD [OF keep(1) assms(2) g])
  obtain p w2 where p: "assertNetworkPolicy sdk h w1 = (p, w2)" by fastforce
  have w2: "inv w2" by (rule keepsD [OF keep(2) w1 p])
  obtain c w3 where c: "CheckCollision sdk n base w2 = (c, w3)" by fastforce
  have w3: "inv w3" by (rule keepsD [OF keep(3) w2 c])
  have "\<exists>v. inv v \<and> teardownHandle sdk h v = (None, w')"
    using assms(1,3) g h p c w2 w3
    by (cases p; cases c) (auto simp: after_create_def split: prod.splits if_splits)
  then show ?thesis using teardown_removes n by blast
qed

lemma ephemeral_gone:
  assumes "rt_sdk rt = sdk" "inv w" "run_and_destroy rt ex n req w = Some (Inr code, w')"
  shows "n \<notin> hd_name ` set (boxes w')"
proof -
  obtain q w1 where q: "streamExec ex n req w = Some (q, w1)"
    using assms(3) by (cases "streamExec ex n req w") (auto simp: run_and_destroy_def)
  have "inv w1" using exec_law [OF assms(2) q] by blast
  moreover have "sdk_Destroy sdk n w1 = (None, w')"
    using assms(1,3) q by (auto simp: run_and_destroy_def split: prod.splits sum.splits option.splits)
  ultimately show ?thesis by (intro removes [of w1 "sdk_Destroy sdk"]) simp_all
qed

end

section \<open>The concrete daemon keeps the laws\<close>

definition daemon_exec :: "daemon exec_sdk" where
  "daemon_exec =
     \<lparr>ex_Stream = (\<lambda>_ _ _ _ d. (None, d)), ex_Resize = (\<lambda>_ _ d. (None, d)),
      ex_WriteStdin = (\<lambda>_ d. (None, d)), ex_CloseStdin = (\<lambda>d. (None, d)),
      ex_Recv = (\<lambda>d. (Inr EvDone, d)), ex_Close = id,
      ex_stdout = (\<lambda>_ d. (None, d)), ex_stderr = (\<lambda>_ d. (None, d))\<rparr>"

lemma daemon_exec_same: "streamExec daemon_exec n req d = Some (q, d') \<Longrightarrow> d' = d"
  by (auto simp: streamExec_def daemon_exec_def initial_resize_def feed_stdin_def close_after_def
      recv_loop.simps split: if_splits)

lemma guest_memory_status:
  "guest_memory (map (\<lambda>h. if hd_name h = n then h\<lparr>hd_status := st\<rparr> else h) hs) = guest_memory hs"
  by (induction hs) (auto simp: guest_memory_def rec_of_def)

lemma guest_memory_filter: "guest_memory (filter P hs) \<le> guest_memory hs"
  by (induction hs) (auto simp: guest_memory_def)

lemma memory_config:
  "memoryMiBFromRecord (JDoc (config_record m e ps)) = (if m = 0 then Inl MemoryAbsent else Inr m)"
proof -
  have "parse_uint 10 32 (show_nat (unat m)) = Some (unat m)"
    by (intro parse_uint_show_nat) simp
  moreover have "\<not> key_is ''resources'' ''network''" "\<not> key_is ''memory_mib'' ''network''"
    by (simp_all add: key_is_def)
  ultimately show ?thesis
    by (simp add: memoryMiBFromRecord_def config_record_def unmarshal_def
        dec_memRecord_def dec_resources_def dec_struct_def dec_ptr_def dec_uint_def word_gt_0)
qed

lemma record_mib_config: "record_mib \<lparr>rr_name = n, rr_config = JDoc (config_record m e ps)\<rparr> = unat m"
  by (simp add: record_mib_def memory_config)

lemma memory_known_config:
  "memory_known \<lparr>rr_name = n, rr_config = JDoc (config_record m e ps)\<rparr> \<longleftrightarrow> m \<noteq> 0"
  by (simp add: memory_known_def memory_config)

lemma dm_find_name: "dm_find n d = Some h \<Longrightarrow> h \<in> set (dm_boxes d) \<and> hd_name h = n"
  by (auto simp: dm_find_def find_Some_iff)

lemma dm_find_None: "dm_find n d = None \<longleftrightarrow> n \<notin> hd_name ` set (dm_boxes d)"
  by (auto simp: dm_find_def find_None_iff)

lemma daemon_op:
  assumes "dm_inv d" "dm_on_existing f n d = (r, d')" "f = id \<or> f = dm_delete n \<or> (\<exists>st. f = dm_set_status n st)"
  shows "dm_inv d' \<and> guest_memory (dm_boxes d') \<le> guest_memory (dm_boxes d)"
proof -
  have name: "hd_name \<circ> (\<lambda>h. if hd_name h = n then h\<lparr>hd_status := st\<rparr> else h) = hd_name" for st
    by auto
  have "dm_inv (f d) \<and> guest_memory (dm_boxes (f d)) \<le> guest_memory (dm_boxes d)"
    using assms(1,3) by (auto simp: dm_inv_def dm_delete_def dm_set_status_def guest_memory_status
        guest_memory_filter distinct_map_filter name)
  with assms(1,2) show ?thesis by (auto simp: dm_on_existing_def split: option.splits)
qed

lemma daemon_removes:
  "dm_on_existing (dm_delete n) n d = (None, d') \<Longrightarrow> n \<notin> hd_name ` set (dm_boxes d')"
  by (auto simp: dm_on_existing_def dm_delete_def split: option.splits)

lemma daemon_create:
  assumes "dm_inv d" "dm_create n opts d = (r, d')"
  shows "dm_inv d' \<and> guest_memory (dm_boxes d')
      \<le> guest_memory (dm_boxes d) + (if r = None then unat (opt_memory opts) else 0)"
  using assms by (auto simp: dm_create_def dm_inv_def dm_find_None guest_memory_def rec_of_def
      record_mib_config split: option.splits)

interpretation dmd: sdk_daemon daemon_sdk dm_boxes dm_inv daemon_exec
proof unfold_locales
  fix d n opts r d'
  assume "dm_inv d" "sdk_Create daemon_sdk n opts d = (r, d')"
  then show "dm_inv d' \<and> guest_memory (dm_boxes d')
      \<le> guest_memory (dm_boxes d) + (if r = None then unat (opt_memory opts) else 0)"
    by (simp add: daemon_create)
next
  fix d op n r d'
  assume "dm_inv d" "op \<in> {sdk_Detach daemon_sdk, sdk_Destroy daemon_sdk, sdk_Connect daemon_sdk,
      sdk_StartDetached daemon_sdk, sdk_Stop daemon_sdk, sdk_Kill daemon_sdk, sdk_Remove daemon_sdk}"
    "op n d = (r, d')"
  then show "dm_inv d' \<and> guest_memory (dm_boxes d') \<le> guest_memory (dm_boxes d)"
    by (auto dest: daemon_op)
next
  fix d look n g d'
  assume "look \<in> {sdk_Get daemon_sdk, sdk_Refresh daemon_sdk}" "look n d = (g, d')"
  then show "d' = d" by (auto simp: dm_get_def split: option.splits)
next
  fix d n req q d'
  assume "dm_inv d" "streamExec daemon_exec n req d = Some (q, d')"
  then show "dm_inv d' \<and> guest_memory (dm_boxes d') \<le> guest_memory (dm_boxes d)"
    by (auto dest: daemon_exec_same)
qed

interpretation dmn: sdk_removal daemon_sdk dm_boxes dm_inv daemon_exec
proof unfold_locales
  fix d op n d'
  assume "op \<in> {sdk_Remove daemon_sdk, sdk_Destroy daemon_sdk}" "op n d = (None, d')"
  then show "n \<notin> hd_name ` set (dm_boxes d')" by (auto dest: daemon_removes)
next
  fix d n h d'
  assume "sdk_Get daemon_sdk n d = (Inr h, d')"
  then show "hd_name h = n" by (auto simp: dm_get_def dest: dm_find_name split: option.splits)
qed

end
