(* ===== verification/RuntimeProps.thy ===== *)
theory RuntimeProps
  imports RuntimeSafety
begin

text \<open>
  The properties of the runtime: the memory budget over sequences of operations, creation,
  removal of refused sandboxes, the listing loops, host-port blocks and references.
\<close>

section \<open>Properties of the runtime\<close>

text \<open>
  C1: the memory budget holds. On any daemon with the laws of \<open>sdk_daemon\<close>, if committed guest
  memory is within the budget at the start, then it is within the budget after any sequence of
  runtime operations (create, boot, start, stop, remove, publish, list, exec, ephemeral runs),
  whatever they ask for and whether they succeed, with or without a range allocator.
\<close>

theorem runtime_memory_within_budget:
  assumes "sdk_daemon sdk boxes ok ex"
    and "Budget env m = Inr b"
    and "ok w" "guest_memory (boxes w) \<le> unat b"
    and "rt_run ((New_runtime sdk env m)\<lparr>rt_alloc := a\<rparr>) ex ops w = Some w'"
  shows "ok w' \<and> guest_memory (boxes w') \<le> unat b"
proof -
  have start: "sdk_daemon.within boxes ok (unat b) w"
    using assms(3,4) by (simp add: sdk_daemon.within_def [OF assms(1)])
  have "sdk_daemon.within boxes ok (unat b) w'"
    by (rule sdk_daemon.run_within [OF assms(1) _ _ _ start assms(5)])
      (simp_all add: New_runtime_def assms(2))
  then show ?thesis by (simp add: sdk_daemon.within_def [OF assms(1)])
qed

definition box_spec :: "string \<Rightarrow> u32 \<Rightarrow> SandboxSpec" where
  "box_spec n m = empty_spec\<lparr>spec_project := ''p'', spec_name := n, spec_memory := m\<rparr>"

lemma budget_fallback: "Budget None OpenFailed = Inr 2048"
  by code_simp

theorem runtime_memory_within_budget_witness:
  "\<exists>d. rt_run ((New_runtime daemon_sdk None OpenFailed)\<lparr>rt_alloc := False\<rparr>) daemon_exec
        [OpCreateAndBoot (box_spec ''a'' 1024), OpCreate (box_spec ''b'' 2048)] \<lparr>dm_boxes = []\<rparr> = Some d
     \<and> dm_inv d \<and> guest_memory (dm_boxes d) \<le> 2048"
proof -
  let ?run = "rt_run ((New_runtime daemon_sdk None OpenFailed)\<lparr>rt_alloc := False\<rparr>) daemon_exec
        [OpCreateAndBoot (box_spec ''a'' 1024), OpCreate (box_spec ''b'' 2048)] \<lparr>dm_boxes = []\<rparr>"
  obtain d where d: "?run = Some d" by simp
  have "dm_inv d \<and> guest_memory (dm_boxes d) \<le> unat (2048 :: u32)"
    by (rule runtime_memory_within_budget [OF dmd.sdk_daemon_axioms budget_fallback _ _ d])
      (simp_all add: dm_inv_def guest_memory_def)
  with d show ?thesis by simp
qed

text \<open>What \<open>CreateAndBoot\<close> does on the concrete daemon when admission and the name allow it.\<close>

lemma opt_labels_append:
  "(\<forall>l. OptLabels l \<notin> set xs) \<Longrightarrow> opt_labels (xs @ ys) = opt_labels ys"
  by (induction xs rule: opt_labels.induct) auto

lemma opt_labels_SandboxOptions:
  assumes "spec_project spec \<noteq> []"
  shows "label_of (opt_labels (SandboxOptions spec @ xs)) LabelProject = spec_project spec"
proof -
  have "opt_labels (SandboxOptions spec @ xs) = (LabelProject, spec_project spec)
      # (if spec_motive spec \<noteq> [] then [(LabelMotive, spec_motive spec)] else [])"
    by (simp add: SandboxOptions_def Let_def assms opt_labels_append)
  then show ?thesis by (simp add: label_of_def)
qed

lemma opt_egress_append:
  "(\<forall>n. OptNetwork n \<notin> set xs) \<Longrightarrow> opt_egress (xs @ ys) = opt_egress ys"
  by (induction xs rule: opt_egress.induct) auto

lemma opt_egress_SandboxOptions: "opt_egress (SandboxOptions spec @ xs) = PolicyDeny"
proof -
  have p: "opt_egress ((case pm of Some m \<Rightarrow> [OptPorts m]
      | None \<Rightarrow> if b then [OptPorts m2] else []) @ ys) = opt_egress ys" for pm b m2 ys
    by (simp split: option.splits)
  show ?thesis
    by (simp add: SandboxOptions_def Let_def opt_egress_append p networkConfig_deny)
qed

lemma checkNetworkPolicy_config:
  "checkNetworkPolicy (JDoc (config_record m e ps))
     = (if e = PolicyDeny then None else Some (PolicyEgress ''allow''))"
proof -
  have "\<not> key_is ''network'' ''resources''" "\<not> key_is ''enabled'' ''policy''"
    "\<not> key_is ''policy'' ''enabled''" "\<not> key_is ''policy'' ''ports''" "\<not> key_is ''enabled'' ''ports''"
    by (simp_all add: key_is_def)
  then show ?thesis
    by (cases e) (simp_all add: checkNetworkPolicy_def config_record_def unmarshal_def
        dec_netPolicyRecord_def dec_net_def dec_policy_def dec_struct_def dec_ptr_def
        dec_bool_def dec_string_def)
qed

lemma dm_find_append_new:
  "dm_find n d = None \<Longrightarrow> hd_name h = n \<Longrightarrow> dm_find n (d\<lparr>dm_boxes := dm_boxes d @ [h]\<rparr>) = Some h"
proof -
  have "find P xs = None \<Longrightarrow> P h \<Longrightarrow> find P (xs @ [h]) = Some h" for P :: "sdk_handle \<Rightarrow> bool" and xs
    by (induction xs) (auto split: if_splits)
  then show "dm_find n d = None \<Longrightarrow> hd_name h = n \<Longrightarrow>
      dm_find n (d\<lparr>dm_boxes := dm_boxes d @ [h]\<rparr>) = Some h" by (simp add: dm_find_def)
qed

lemma boot_on_daemon:
  assumes "spec_project spec \<noteq> []" "n = SDKName (spec_project spec) (spec_name spec)"
    and "n \<notin> hd_name ` set (dm_boxes d)"
    and h: "h = \<lparr>hd_id = ''id-'' @ n, hd_name = n, hd_status = SdkRunning,
               hd_labels = Some (opt_labels (SandboxOptions spec @ [OptDetached])),
               hd_config = JDoc (config_record (opt_memory (SandboxOptions spec @ [OptDetached]))
                     PolicyDeny (map fst (opt_ports (SandboxOptions spec @ [OptDetached]))))\<rparr>"
  shows "create_sandbox (New_runtime daemon_sdk env m) spec n 0 d
    = (Inr (refFromHandle h), d\<lparr>dm_boxes := dm_boxes d @ [h]\<rparr>)"
proof -
  have f: "dm_find n d = None" using assms(3) by (simp add: dm_find_None)
  have c: "dm_create n (SandboxOptions spec @ [OptDetached]) d = (None, d\<lparr>dm_boxes := dm_boxes d @ [h]\<rparr>)"
    by (simp add: dm_create_def f h opt_egress_SandboxOptions)
  have f2: "dm_find n (d\<lparr>dm_boxes := dm_boxes d @ [h]\<rparr>) = Some h"
    by (rule dm_find_append_new [OF f]) (simp add: h)
  have p: "assertNetworkPolicy daemon_sdk h v = (None, v)" for v
    by (simp add: assertNetworkPolicy_def h checkNetworkPolicy_config)
  show ?thesis
    by (simp add: create_sandbox_def New_runtime_def c dm_on_existing_def f2 after_create_def
        dm_get_def p)
qed



context sdk_removal
begin

lemma inv_keeps:
  assumes "rt_sdk rt = sdk" "rt_acct rt = None" "inv w"
  shows "runtime_admit rt mem w = (e, w1) \<Longrightarrow> inv w1"
    and "sdk_Create sdk n opts w = (c, w1) \<Longrightarrow> inv w1"
    and "sdk_Detach sdk n w = (c, w1) \<Longrightarrow> inv w1"
    and "assertNetworkPolicyByName sdk n w = (p, w1) \<Longrightarrow> inv w1"
proof -
  have w: "within (guest_memory (boxes w)) w" using assms(3) by (simp add: within_def)
  show "runtime_admit rt mem w = (e, w1) \<Longrightarrow> inv w1"
    using admit_room(2) [OF assms _ w] within_inv by blast
  show "sdk_Create sdk n opts w = (c, w1) \<Longrightarrow> inv w1" using create_law [OF assms(3)] by blast
  show "sdk_Detach sdk n w = (c, w1) \<Longrightarrow> inv w1"
    using keepsD [OF keeps_calls(1) w] within_inv by blast
  show "assertNetworkPolicyByName sdk n w = (p, w1) \<Longrightarrow> inv w1"
    using keepsD [OF keeps_policy_name w] within_inv by blast
qed

lemma create_sandbox_gone:
  assumes "rt_sdk rt = sdk" "rt_acct rt = None" "inv w"
    and "create_sandbox rt spec n base w = (Inl (Joined e None), w')"
  shows "n \<notin> hd_name ` set (boxes w')"
proof -
  obtain c w1 where c: "sdk_Create sdk n (SandboxOptions spec @ [OptDetached]) w = (c, w1)" by fastforce
  have w1: "inv w1" by (rule inv_keeps(2) [OF assms(1-3) c])
  obtain t w2 where t: "sdk_Detach sdk n w1 = (t, w2)" by fastforce
  have w2: "inv w2" by (rule inv_keeps(3) [OF assms(1,2) w1 t])
  have "after_create rt n base w2 = (Inl (Joined e None), w')"
    using assms(1,4) c t by (cases c; cases t) (simp_all add: create_sandbox_def)
  then show ?thesis by (rule refused_gone [OF assms(1) w2])
qed

lemma boot_refused_gone:
  assumes "rt_sdk rt = sdk" "rt_acct rt = None" "inv w"
    and "CreateAndBoot rt spec w = (Inl (Joined e None), w')"
  shows "SDKName (spec_project spec) (spec_name spec) \<notin> hd_name ` set (boxes w')"
proof -
  obtain a w1 where a: "runtime_admit rt (spec_memory spec) w = (a, w1)" by fastforce
  have w1: "inv w1" by (rule inv_keeps(1) [OF assms(1-3) a])
  obtain l w2 where l: "Allocate sdk w1 = (l, w2)" by fastforce
  have w2: "w2 = w1" by (rule allocate_unchanged [OF w1 l])
  obtain sp base where "create_sandbox rt sp (SDKName (spec_project spec) (spec_name spec)) base w1
      = (Inl (Joined e None), w')"
    using assms(1,4) a l w2
    by (cases a; cases l) (auto simp: CreateAndBoot_def Let_def split: if_splits)
  then show ?thesis by (rule create_sandbox_gone [OF assms(1,2) w1])
qed

lemma ephemeral_run_gone:
  assumes "rt_sdk rt = sdk" "rt_acct rt = None" "inv w"
    and "RunEphemeral rt ex spec req w = Some (Inr code, w')"
  shows "SDKName (spec_project spec) (spec_name spec) \<notin> hd_name ` set (boxes w')"
proof -
  let ?n = "SDKName (spec_project spec) (spec_name spec)"
  obtain a w1 where a: "runtime_admit rt (spec_memory spec) w = (a, w1)" by fastforce
  have w1: "inv w1" by (rule inv_keeps(1) [OF assms(1-3) a])
  obtain c w2 where c: "sdk_Create sdk ?n (SandboxOptions spec @ [OptDetached, OptEphemeral True]) w1
      = (c, w2)" by fastforce
  have w2: "inv w2" by (rule inv_keeps(2) [OF assms(1,2) w1 c])
  obtain p w3 where p: "assertNetworkPolicyByName sdk ?n w2 = (p, w3)" by fastforce
  have w3: "inv w3" by (rule inv_keeps(4) [OF assms(1,2) w2 p])
  have "run_and_destroy rt ex ?n req w3 = Some (Inr code, w')"
    using assms(1,4) a c p
    by (cases a; cases c; cases p) (auto simp: RunEphemeral_def Let_def split: if_splits prod.splits)
  then show ?thesis by (rule ephemeral_gone [OF assms(1) w3])
qed

end

text \<open>A refusal after the boot always carries the outcome of the teardown.\<close>

lemma refusal_joined:
  "fst (CreateAndBoot rt spec w) \<noteq> Inl (PolicyFailed p)" "fst (CreateAndBoot rt spec w) \<noteq> Inl (CollisionFailed c)"
proof -
  have "fst (after_create rt n b v) \<noteq> Inl (PolicyFailed p)" "fst (after_create rt n b v) \<noteq> Inl (CollisionFailed c)" for n b v
    by (simp_all add: after_create_def split: prod.split sum.split option.split)
  then have "fst (create_sandbox rt s n b v) \<noteq> Inl (PolicyFailed p)" "fst (create_sandbox rt s n b v) \<noteq> Inl (CollisionFailed c)" for s n b v
    by (simp_all add: create_sandbox_def Let_def split: prod.split sum.split option.split)
  then show "fst (CreateAndBoot rt spec w) \<noteq> Inl (PolicyFailed p)" "fst (CreateAndBoot rt spec w) \<noteq> Inl (CollisionFailed c)"
    by (simp_all add: CreateAndBoot_def Let_def split: prod.split sum.split option.split)
qed


lemma daemon_exec_done:
  "\<not> rq_tty req \<Longrightarrow> rq_stdin req = [] \<Longrightarrow> streamExec daemon_exec n req d = Some (Inr 0, d)"
  by (simp add: streamExec_def daemon_exec_def initial_resize_def feed_stdin_def close_after_def
      recv_loop.simps to_int32_def)

lemma ephemeral_on_daemon:
  assumes "SDKName (spec_project spec) (spec_name spec) = n" "n \<noteq> []"
    and "n \<notin> hd_name ` set (dm_boxes d)" "rq_argv req \<noteq> []" "\<not> rq_tty req" "rq_stdin req = []"
    and "runtime_admit (New_runtime daemon_sdk env m) (spec_memory spec) d = (None, d)"
  shows "\<exists>v. RunEphemeral (New_runtime daemon_sdk env m) daemon_exec spec req d = Some (Inr 0, v)"
proof -
  let ?opts = "SandboxOptions spec @ [OptDetached, OptEphemeral True]"
  obtain h where c: "dm_create n ?opts d = (None, d\<lparr>dm_boxes := dm_boxes d @ [h]\<rparr>)"
    and h: "hd_name h = n" "hd_config h = JDoc (config_record (opt_memory ?opts) PolicyDeny (map fst (opt_ports ?opts)))"
    using assms(3) by (auto simp: dm_create_def dm_find_None opt_egress_SandboxOptions
        split: option.splits)
  have f: "dm_find n (d\<lparr>dm_boxes := dm_boxes d @ [h]\<rparr>) = Some h"
    using assms(3) h(1) by (intro dm_find_append_new) (simp_all add: dm_find_None)
  show ?thesis
    using assms(1,2,4-6) assms(7) c f h(2)
    by (simp add: RunEphemeral_def New_runtime_def Let_def assertNetworkPolicyByName_def dm_get_def
        assertNetworkPolicy_def checkNetworkPolicy_config run_and_destroy_def daemon_exec_done
        dm_on_existing_def)
qed


section \<open>Accounting, listing, port blocks\<close>

text \<open>
  C28: committed memory is exact and fails closed. The accountant reports the sum over all
  sandboxes of the daemon, saturated at the largest 32-bit value; it reports nothing when one
  record has no readable memory; and it changes nothing.
\<close>

theorem committed_memory_exact:
  assumes "sdk_listing sdk boxes ok" "ok w" "CommittedMemoryMiB sdk w = (r, w')"
  shows "w' = w
    \<and> (case r of Inr c \<Rightarrow> unat c = min 4294967295 (guest_memory (boxes w))
                        \<and> (\<forall>h \<in> set (boxes w). memory_known (rec_of h))
               | Inl _ \<Rightarrow> True)"
  using sdk_listing.committed_exact [OF assms(1,2)] sdk_listing.committed_unchanged [OF assms]
    assms(3) by (auto split: sum.splits)

definition box :: "string \<Rightarrow> u32 \<Rightarrow> u16 list \<Rightarrow> sdk_handle" where
  "box n m ps = \<lparr>hd_id = n, hd_name = n, hd_status = SdkRunning, hd_labels = None,
     hd_config = JDoc (config_record m PolicyDeny ps)\<rparr>"

lemma box_simps [simp]:
  "hd_name (box n m ps) = n"
  "record_mib (rec_of (box n m ps)) = unat m"
  "ports_of (rec_of (box n m ps)) = map ucast ps"
  "memory_known (rec_of (box n m ps)) \<longleftrightarrow> m \<noteq> 0"
  "portsFromConfigJSON (rr_config (rec_of (box n m ps))) = Inr (map ucast ps)"
  by (simp_all add: box_def rec_of_def record_mib_config ports_of_def ports_of_config_record
      memory_known_config)

lemma maxCommittedPages_Suc: "maxCommittedPages = Suc (Suc 998)"
  by (simp add: maxCommittedPages_def)

lemma committed_two_boxes:
  assumes "n1 \<noteq> n2" "m1 \<noteq> 0" "m2 \<noteq> 0"
  shows "CommittedMemoryMiB daemon_sdk \<lparr>dm_boxes = [box n1 m1 ps1, box n2 m2 ps2]\<rparr>
    = (Inr (sat_add m1 m2), \<lparr>dm_boxes = [box n1 m1 ps1, box n2 m2 ps2]\<rparr>)"
proof -
  have r: "add_record t (rec_of (box n m ps)) = Inr (sat_add t m)" if "m \<noteq> 0" for t n m ps
    using that by (simp add: add_record_def rec_of_def box_def memory_config)
  have "sat_add 0 m1 = m1" by (simp add: sat_add_def)
  then show ?thesis using assms
    by (simp add: CommittedMemoryMiB_def sumCommittedMiB_def maxCommittedPages_Suc
        page_loop.simps daemon_fetch r)
qed

theorem committed_memory_exact_witness:
  "\<exists>c. CommittedMemoryMiB daemon_sdk \<lparr>dm_boxes = [box ''a'' 1024 [], box ''b'' 512 [80]]\<rparr>
      = (Inr c, \<lparr>dm_boxes = [box ''a'' 1024 [], box ''b'' 512 [80]]\<rparr>) \<and> unat c = 1536"
proof -
  let ?d = "\<lparr>dm_boxes = [box ''a'' 1024 [], box ''b'' 512 [80]]\<rparr>"
  have r: "CommittedMemoryMiB daemon_sdk ?d = (Inr (sat_add 1024 512), ?d)"
    by (rule committed_two_boxes) simp_all
  from committed_memory_exact [OF dm.sdk_listing_axioms _ this] r show ?thesis
    by (simp add: dm_inv_def guest_memory_def)
qed

lemma list_more_repeats:
  assumes "list_more sdk refs c w = Some r" "c = Some k" "sdk_List sdk (Some k) w = (Inr (hs, Some k), w)"
  shows False
  using assms
proof (induction sdk refs c w r rule: list_more.raw_induct [rotated, consumes 1, case_names step])
  case (step f s refs c w r)
  from step.IH [of s "refs @ map refFromHandle hs" "Some k" w r] step.hyps step.prems
  show ?case by (auto split: sum.splits)
qed

text \<open>
  C38: the two ways of walking the listing differ on a daemon that keeps returning the same
  cursor. The sum of committed memory (and with it every create) stops with an error; \<open>List\<close>,
  which has neither a page limit nor a check for a repeated cursor, does not return.
\<close>

theorem list_diverges_where_sum_stops:
  assumes "sdk_ctx sdk w = None"
    and "sdk_List sdk None w = (Inr (hs, Some k), w)" "sdk_List sdk (Some k) w = (Inr (hs, Some k), w)"
  shows "rt_List ((New_runtime sdk env m)\<lparr>rt_alloc := a\<rparr>) w = None
    \<and> \<not> is_ok (fst (CommittedMemoryMiB sdk w)) \<and> snd (CommittedMemoryMiB sdk w) = w"
proof -
  have "list_more sdk refs (Some k) w = None" for refs
    using list_more_repeats [OF _ refl assms(3)] by (cases "list_more sdk refs (Some k) w") auto
  then have "rt_List ((New_runtime sdk env m)\<lparr>rt_alloc := a\<rparr>) w = None"
    by (simp add: rt_List_def New_runtime_def assms(2))
  moreover have "case CommittedMemoryMiB sdk w of (r, w') \<Rightarrow> \<not> is_ok r \<and> w' = w"
    using assms by (simp add: CommittedMemoryMiB_def sumCommittedMiB_def maxCommittedPages_Suc
        page_loop.simps listSandboxRecords_def split: sum.splits)
  ultimately show ?thesis by (simp split: prod.splits)
qed

definition stuck_sdk :: "unit sdk" where
  "stuck_sdk =
     \<lparr>sdk_ctx = (\<lambda>_. None), sdk_List = (\<lambda>_ w. (Inr ([box ''a'' 1024 []], Some ''a''), w)),
      sdk_Get = (\<lambda>_ w. (Inl [], w)), sdk_Create = (\<lambda>_ _ w. (None, w)),
      sdk_Detach = (\<lambda>_ w. (None, w)), sdk_Destroy = (\<lambda>_ w. (None, w)),
      sdk_Connect = (\<lambda>_ w. (None, w)), sdk_StartDetached = (\<lambda>_ w. (None, w)),
      sdk_Stop = (\<lambda>_ w. (None, w)), sdk_Kill = (\<lambda>_ w. (None, w)), sdk_Remove = (\<lambda>_ w. (None, w)),
      sdk_Refresh = (\<lambda>_ w. (Inl [], w))\<rparr>"

theorem list_diverges_where_sum_stops_witness:
  "rt_List ((New_runtime stuck_sdk None OpenFailed)\<lparr>rt_alloc := False\<rparr>) () = None
   \<and> \<not> is_ok (fst (CommittedMemoryMiB stuck_sdk ()))"
  using list_diverges_where_sum_stops [of stuck_sdk "()" "[box ''a'' 1024 []]" "''a''"]
  by (simp add: stuck_sdk_def)

text \<open>
  C31: the block a sandbox is given is free. When \<open>Allocate\<close> returns a base, it is that of one
  of the six blocks, no sandbox of the daemon has a host port in it, and the port map made
  from it sends each of its 10000 host ports, once, to guest port 1024 plus the offset.
\<close>

theorem allocated_block_is_free:
  assumes "sdk_listing sdk boxes ok" "ok w" "Allocate sdk w = (Inr b, w')"
  shows "w' = w \<and> b \<in> block_base ` {..<6}
    \<and> (\<forall>h \<in> set (boxes w). \<forall>p \<in> set (ports_of (rec_of h)).
          unat p \<notin> set (map (unat \<circ> fst) (blockPortMap b)))
    \<and> distinct (map fst (blockPortMap b))
    \<and> (\<forall>i < 10000. unat (fst (blockPortMap b ! i)) = unat b + i
                    \<and> unat (snd (blockPortMap b ! i)) = 1024 + i)"
proof -
  obtain i where i: "i < 6" "b = block_base i"
    and free: "\<forall>h \<in> set (boxes w). \<forall>p \<in> set (ports_of (rec_of h)). \<not> block_has b p"
    using sdk_listing.allocated_block_free [OF assms] by blast
  have b: "unat b + 9999 \<le> 65535" using i by (simp add: block_base_val)
  have "unat (fst (blockPortMap b ! j)) = unat b + j \<and> unat (snd (blockPortMap b ! j)) = 1024 + j"
    if "j < 10000" for j
    using that blockPortMap_entry [OF that b] by (simp add: blockPortMap_def range_consts)
  moreover have "w' = w" by (rule sdk_listing.allocate_unchanged [OF assms])
  moreover have "unat p \<notin> {unat b ..< unat b + 10000}"
    if "h \<in> set (boxes w)" "p \<in> set (ports_of (rec_of h))" for h p
    using free that by (fastforce simp: block_has_def)
  ultimately show ?thesis
    using i blockPortMap_keys [OF b] by simp
qed

lemma allocate_second_block:
  "Allocate daemon_sdk \<lparr>dm_boxes = [box ''a'' 1024 [5000, 14999]]\<rparr>
     = (Inr 15000, \<lparr>dm_boxes = [box ''a'' 1024 [5000, 14999]]\<rparr>)"
proof -
  have "ucast (5000 :: u16) = (5000 :: u32)" "ucast (14999 :: u16) = (14999 :: u32)" by simp_all
  moreover have "[0..<rangeMaxBlocks] = [0,1,2,3,4,5]" by (simp add: rangeMaxBlocks_def upt_rec)
  ultimately show ?thesis
    by (simp add: Allocate_def daemonOccupiedBlocks_def occupiedBlocksFrom_def maxCommittedPages_Suc
        page_loop.simps daemon_fetch occ_record_def occ_port_spec in_range_def range_consts
        block_base_def rangeAllocBase_def rangeBlockSize_def)
qed

theorem allocated_block_is_free_witness:
  "\<exists>d. Allocate daemon_sdk \<lparr>dm_boxes = [box ''a'' 1024 [5000, 14999]]\<rparr> = (Inr 15000, d)
     \<and> (15000 :: u16) \<in> block_base ` {..<6}"
  using allocated_block_is_free [OF dm.sdk_listing_axioms _ allocate_second_block]
    allocate_second_block by (simp add: dm_inv_def)

section \<open>References and options\<close>

text \<open>
  a reference finds its sandbox again. For a sandbox created with the options of a
  specification that has a project, the reference made from its handle carries exactly the
  project and name of the specification, and the name the runtime looks a reference up by is
  that of the sandbox, even where project or name contain the separator themselves.
\<close>

theorem reference_roundtrip:
  assumes "hd_name h = SDKName (spec_project spec) (spec_name spec)"
    and "hd_labels h = Some (opt_labels (SandboxOptions spec @ xs))"
    and "spec_project spec \<noteq> []"
  shows "ref_project (refFromHandle h) = spec_project spec \<and> ref_name (refFromHandle h) = spec_name spec
    \<and> lookup_name (refFromHandle h) = hd_name h"
proof -
  have r: "ref_project (refFromHandle h) = spec_project spec \<and> ref_name (refFromHandle h) = spec_name spec"
    by (rule refFromHandle_labelled [OF assms(2) opt_labels_SandboxOptions [OF assms(3)] assms(3,1)])
  then show ?thesis using assms(1,3)
    by (simp add: lookup_name_def SDKName_def)
qed

theorem reference_roundtrip_witness:
  "ref_name (refFromHandle ((box ''p--a--b'' 512 [])\<lparr>hd_labels :=
      Some (opt_labels (SandboxOptions (box_spec ''a--b'' 512) @ []))\<rparr>)) = ''a--b''"
proof -
  define spec where "spec = box_spec ''a--b'' 512"
  define h where "h = (box ''p--a--b'' 512 [])\<lparr>hd_labels := Some (opt_labels (SandboxOptions spec @ []))\<rparr>"
  have "hd_name h = SDKName (spec_project spec) (spec_name spec)" "spec_project spec \<noteq> []"
    by (simp_all add: h_def box_def spec_def box_spec_def empty_spec_def SDKName_def nameSep_def)
  then have "ref_name (refFromHandle h) = spec_name spec"
    using reference_roundtrip [of h spec "[]"] by (simp add: h_def)
  then show ?thesis by (simp add: h_def spec_def box_spec_def)
qed


end
