(* ===== verification/RangeRace.thy ===== *)
theory RangeRace
  imports RuntimeProps
begin

text \<open>
  Several processes create sandboxes on one daemon. Each walks through \<open>CreateAndBoot\<close> with a
  range allocator; the SDK calls of different creators interleave freely, a listing being one
  step. \<open>CheckCollision\<close> after the create is what keeps the blocks of booted sandboxes apart.
\<close>

datatype phase = Idle | Reserved u16 | Created u16 | Colliding u16 | Booted u16 | Refused

type_synonym race = "daemon \<times> (string \<Rightarrow> phase)"

definition ranged_options :: "SandboxSpec \<Rightarrow> u16 \<Rightarrow> sandbox_option list" where
  "ranged_options spec b = SandboxOptions (spec\<lparr>spec_portmap := Some (blockPortMap b)\<rparr>) @ [OptDetached]"

text \<open>\<open>spec n\<close> is the specification the creator of the sandbox named \<open>n\<close> was given.\<close>

inductive race_step :: "(string \<Rightarrow> SandboxSpec) \<Rightarrow> race \<Rightarrow> race \<Rightarrow> bool"
  for spec :: "string \<Rightarrow> SandboxSpec" where
  reserve: "ph n = Idle \<Longrightarrow> Allocate daemon_sdk d = (Inr b, d') \<Longrightarrow>
     race_step spec (d, ph) (d', ph(n := Reserved b))"
| create: "ph n = Reserved b \<Longrightarrow> sdk_Create daemon_sdk n (ranged_options (spec n) b) d = (None, d') \<Longrightarrow>
     race_step spec (d, ph) (d', ph(n := Created b))"
| create_fails: "ph n = Reserved b \<Longrightarrow>
     sdk_Create daemon_sdk n (ranged_options (spec n) b) d = (Some e, d') \<Longrightarrow>
     race_step spec (d, ph) (d', ph(n := Refused))"
| accept: "ph n = Created b \<Longrightarrow> CheckCollision daemon_sdk n b d = (None, d') \<Longrightarrow>
     race_step spec (d, ph) (d', ph(n := Booted b))"
| collide: "ph n = Created b \<Longrightarrow> CheckCollision daemon_sdk n b d = (Some c, d') \<Longrightarrow>
     race_step spec (d, ph) (d', ph(n := Colliding b))"
| teardown: "ph n = Colliding b \<Longrightarrow> teardownHandle daemon_sdk h d = (r, d') \<Longrightarrow> hd_name h = n \<Longrightarrow>
     race_step spec (d, ph) (d', ph(n := Refused))"
| remove: "ph n = Booted b \<Longrightarrow> sdk_Remove daemon_sdk n d = (None, d') \<Longrightarrow>
     race_step spec (d, ph) (d', ph(n := Idle))"

inductive_cases race_stepE: "race_step spec s s'"

inductive race_reach :: "(string \<Rightarrow> SandboxSpec) \<Rightarrow> race \<Rightarrow> race \<Rightarrow> bool"
  for spec :: "string \<Rightarrow> SandboxSpec" and s0 :: race where
  start: "race_reach spec s0 s0"
| step: "race_reach spec s0 s \<Longrightarrow> race_step spec s s' \<Longrightarrow> race_reach spec s0 s'"

section \<open>The invariant\<close>

definition owns_block :: "daemon \<Rightarrow> string \<Rightarrow> u16 \<Rightarrow> bool" where
  "owns_block d n b \<longleftrightarrow> b \<in> block_base ` {..<6}
     \<and> (\<exists>h \<in> set (dm_boxes d). hd_name h = n \<and> ucast b \<in> set (ports_of (rec_of h)))"

definition race_inv :: "race \<Rightarrow> bool" where
  "race_inv s = (case s of (d, ph) \<Rightarrow> dm_inv d
     \<and> (\<forall>n b. ph n = Reserved b \<longrightarrow> b \<in> block_base ` {..<6})
     \<and> (\<forall>n b. ph n = Created b \<longrightarrow> owns_block d n b)
     \<and> (\<forall>n b. ph n = Booted b \<longrightarrow> owns_block d n b)
     \<and> (\<forall>n m b. n \<noteq> m \<longrightarrow> ph n = Booted b \<longrightarrow> ph m \<noteq> Booted b))"

lemma opt_ports_append:
  "(\<forall>l. OptPorts l \<notin> set xs) \<Longrightarrow> opt_ports (xs @ ys) = opt_ports ys"
  by (induction xs rule: opt_ports.induct) auto

lemma opt_ports_ranged: "opt_ports (ranged_options spec b) = blockPortMap b"
  by (simp add: ranged_options_def SandboxOptions_def Let_def opt_ports_append)

lemma first_in_block: "(ucast b :: u32) \<in> (\<lambda>x. ucast (fst x)) ` set (blockPortMap b)"
proof -
  have "(b, rangeGuestBase) \<in> set (blockPortMap b)"
    by (auto simp: blockPortMap_def range_consts image_iff intro!: bexI [of _ 0])
  then show ?thesis by (metis (no_types, lifting) fst_conv image_eqI)
qed

lemma owns_after_create:
  assumes "sdk_Create daemon_sdk n (ranged_options spec b) d = (None, d')" "b \<in> block_base ` {..<6}"
  shows "owns_block d' n b" and "owns_block d m c \<Longrightarrow> owns_block d' m c"
proof -
  obtain h where d': "dm_boxes d' = dm_boxes d @ [h]" and h: "hd_name h = n"
    "ports_of (rec_of h) = map ucast (map fst (blockPortMap b))"
    using assms(1) by (auto simp: dm_create_def ports_of_def rec_of_def
        ports_of_config_record opt_ports_ranged split: option.splits)
  show "owns_block d' n b"
    using assms(2) first_in_block [of b] by (simp add: owns_block_def d' h image_image)
  show "owns_block d m c \<Longrightarrow> owns_block d' m c" by (auto simp: owns_block_def d')
qed

lemma owns_delete: "owns_block d m c \<Longrightarrow> m \<noteq> n \<Longrightarrow> owns_block (dm_delete n d) m c"
  by (auto simp: owns_block_def dm_delete_def)

lemma teardown_boxes:
  assumes "teardownHandle daemon_sdk h d = (r, d')" "hd_name h = n" "m \<noteq> n"
  shows "owns_block d m c \<Longrightarrow> owns_block d' m c" and "dm_inv d \<Longrightarrow> dm_inv d'"
proof -
  show "owns_block d m c \<Longrightarrow> owns_block d' m c"
    using assms by (auto simp: teardownHandle_def dm_on_existing_def owns_block_def dm_set_status_def
        dm_delete_def split: option.splits prod.splits)
  have "keeps (dmd.within (guest_memory (dm_boxes d))) (teardownHandle daemon_sdk h)"
    by (rule dmd.keeps_teardown)
  then show "dm_inv d \<Longrightarrow> dm_inv d'"
    using assms(1) by (auto simp: dmd.within_def dest: keepsD)
qed

lemma race_step_inv: "race_step spec s s' \<Longrightarrow> race_inv s \<Longrightarrow> race_inv s'"
proof (induction rule: race_step.induct)
  case (reserve ph n d b d')
  then have "d' = d" by (auto simp: race_inv_def dest: dm.allocate_unchanged)
  moreover have "b \<in> block_base ` {..<6}"
    using reserve dm.allocated_block_free [of d b d'] by (auto simp: race_inv_def)
  ultimately show ?case using reserve by (auto simp: race_inv_def)
next
  case (create ph n b d d')
  then have b: "b \<in> block_base ` {..<6}" and d': "dm_inv d'"
    using daemon_create [of d n "ranged_options (spec n) b" None d'] by (auto simp: race_inv_def)
  with create owns_after_create [OF create(2) b] show ?case by (auto simp: race_inv_def)
next
  case (create_fails ph n b d e d')
  then have "d' = d" by (auto simp: dm_create_def split: option.splits)
  with create_fails show ?case by (auto simp: race_inv_def)
next
  case (accept ph n b d d')
  then have inv: "dm_inv d" and d': "d' = d" by (auto simp: race_inv_def dest: dm.check_unchanged)
  have "ph m \<noteq> Booted b" if "m \<noteq> n" for m
  proof
    assume "ph m = Booted b"
    then have "owns_block d m b" using accept(3) by (auto simp: race_inv_def)
    then obtain h where "h \<in> set (dm_boxes d)" "hd_name h = m" "ucast b \<in> set (ports_of (rec_of h))"
      by (auto simp: owns_block_def)
    with dm.collision_free [OF inv accept(2)] that have "\<not> block_has b (ucast b)" by blast
    then show False by (simp add: block_has_def)
  qed
  with accept d' show ?case by (auto simp: race_inv_def)
next
  case (collide ph n b d c d')
  then have "d' = d" by (auto simp: race_inv_def dest: dm.check_unchanged)
  with collide show ?case by (auto simp: race_inv_def)
next
  case (teardown ph n b h d r d')
  then show ?case using teardown_boxes [OF teardown(2,3)]
    by (auto simp: race_inv_def)
next
  case (remove ph n b d d')
  then have "d' = dm_delete n d" by (auto simp: dm_on_existing_def split: option.splits)
  moreover have "dm_inv (dm_delete n d)" using remove
    by (auto simp: race_inv_def dm_delete_def dm_inv_def distinct_map_filter)
  ultimately show ?case using remove by (auto simp: race_inv_def owns_delete)
qed

lemma race_reach_inv: "race_reach spec s0 s \<Longrightarrow> race_inv s0 \<Longrightarrow> race_inv s"
  by (induction rule: race_reach.induct) (auto dest: race_step_inv)

lemma blocks_apart:
  assumes "b \<in> block_base ` {..<6}" "c \<in> block_base ` {..<6}" "b \<noteq> c"
  shows "\<not> (block_has b p \<and> block_has c p)"
proof
  assume p: "block_has b p \<and> block_has c p"
  obtain i j where ij: "b = block_base i" "i < 6" "c = block_base j" "j < 6" using assms(1,2) by auto
  with p have "in_block i p" "in_block j p" by (simp_all add: block_has_in_block)
  then have "i = j" by (auto simp: in_block_def)
  with ij assms(3) show False by simp
qed



section \<open>A run with two booted sandboxes\<close>

lemma block_base_01: "block_base 0 = 5000" "block_base (Suc 0) = 15000"
  by (simp_all add: block_base_def rangeAllocBase_def rangeBlockSize_def)

lemma allocate_empty: "Allocate daemon_sdk \<lparr>dm_boxes = []\<rparr> = (Inr 5000, \<lparr>dm_boxes = []\<rparr>)"
proof -
  have "[0..<rangeMaxBlocks] = [0,1,2,3,4,5]" by (simp add: rangeMaxBlocks_def upt_rec)
  then show ?thesis
    by (simp add: Allocate_def daemonOccupiedBlocks_def occupiedBlocksFrom_def maxCommittedPages_Suc
        page_loop.simps daemon_fetch range_consts block_base_01)
qed

lemma block_ports:
  assumes "i < 6" "p \<in> set (map ucast (map fst (blockPortMap (block_base i))))"
  shows "in_block i p"
proof -
  have b: "unat (block_base i) + 9999 \<le> 65535" using assms(1) by (simp add: block_base_val)
  obtain q where q: "q \<in> set (map fst (blockPortMap (block_base i)))" "p = ucast q"
    using assms(2) by auto
  then have "unat q \<in> {unat (block_base i) ..< unat (block_base i) + 10000}"
    using blockPortMap_keys(2) [OF b] by (force simp: image_iff)
  then show ?thesis using q(2) assms(1) by (simp add: in_block_def block_base_val)
qed

text \<open>With block 0 taken by one sandbox, the next creator gets block 1.\<close>

lemma allocate_next:
  assumes "h = \<lparr>hd_id = x, hd_name = n, hd_status = st, hd_labels = l,
      hd_config = JDoc (config_record m e (map fst (blockPortMap 5000)))\<rparr>"
  shows "Allocate daemon_sdk \<lparr>dm_boxes = [h]\<rparr> = (Inr 15000, \<lparr>dm_boxes = [h]\<rparr>)"
proof -
  let ?ps = "map ucast (map fst (blockPortMap 5000)) :: u32 list"
  have in0: "p \<in> set ?ps \<Longrightarrow> in_block 0 p" for p
    using block_ports [of 0 p] by (simp add: block_base_01)
  obtain occ k where f: "fold occ_port ?ps (replicate 6 False, 0) = (occ, k)" by fastforce
  have occ: "length occ = 6" "k = length (filter in_range ?ps)"
    "\<And>i. i < 6 \<Longrightarrow> occ ! i \<longleftrightarrow> (\<exists>p \<in> set ?ps. in_block i p)"
    using fold_occ_port [of "replicate 6 False" ?ps 0] f by simp_all
  have "ucast (5000 :: u16) \<in> set (filter in_range ?ps)"
    using first_in_block [of 5000] by (simp add: in_range_def image_image)
  then have k: "k \<noteq> 0" unfolding occ(2) length_0_conv filter_empty_conv by fastforce
  have o0: "occ ! 0" using occ(3) [of 0] first_in_block [of 5000] in0 by (force simp: image_image)
  have o1: "\<not> occ ! 1"
  proof
    assume "occ ! 1"
    then obtain p where "p \<in> set ?ps" "in_block 1 p" using occ(3) [of 1] by auto
    with in0 [of p] show False by (simp add: in_block_def)
  qed
  have "[0..<rangeMaxBlocks] = [0,1,2,3,4,5]" by (simp add: rangeMaxBlocks_def upt_rec)
  then have find: "find (\<lambda>i. \<not> occ ! i) [0..<rangeMaxBlocks] = Some 1" using o0 o1 by simp
  have r: "occ_record (replicate 6 False, 0, 0) (rec_of h) = Inr (occ, 1, k)"
    using f by (simp add: occ_record_def rec_of_def assms ports_of_config_record)
  have "occupiedBlocksFrom (sdk_ctx daemon_sdk) (listSandboxRecords daemon_sdk) \<lparr>dm_boxes = [h]\<rparr>
      = (Inr occ, \<lparr>dm_boxes = [h]\<rparr>)"
    using k r by (simp add: occupiedBlocksFrom_def maxCommittedPages_Suc page_loop.simps daemon_fetch
        range_consts)
  then show ?thesis
    using find by (simp add: Allocate_def daemonOccupiedBlocks_def block_base_01)
qed

lemma check_two:
  assumes "h = \<lparr>hd_id = x, hd_name = n, hd_status = st, hd_labels = l,
      hd_config = JDoc (config_record m e (map fst (blockPortMap 5000)))\<rparr>" "hd_name h' = n'" "n \<noteq> n'"
  shows "CheckCollision daemon_sdk n' 15000 \<lparr>dm_boxes = [h, h']\<rparr> = (None, \<lparr>dm_boxes = [h, h']\<rparr>)"
proof -
  have "fold_records (collision_record n' (ucast (15000 :: u16)) 24999) () [rec_of h] = Inr ()"
  proof (subst fold_collision_ok, intro ballI impI)
    fix r assume "r \<in> set [rec_of h]" "rr_name r \<noteq> n'"
    moreover have "\<not> (15000 \<le> p \<and> p \<le> 24999)"
      if "p \<in> set (map ucast (map fst (blockPortMap 5000)))" for p :: u32
      using block_ports [of 0 p] that by (simp add: block_base_01 in_block_def word_le_nat_alt)
    ultimately show "is_ok (portsFromConfigJSON (rr_config r))
        \<and> (\<forall>p \<in> set (ports_of r). \<not> (ucast (15000 :: u16) \<le> p \<and> p \<le> 24999))"
      by (simp add: rec_of_def assms(1) ports_of_config_record ports_of_def)
  qed
  then have "collision_record n' 15000 24999 () (rec_of h) = Inr ()"
    by (simp split: sum.splits)
  moreover have "collision_record n' 15000 24999 () (rec_of h') = Inr ()"
    by (simp add: collision_record_def rec_of_def assms(2))
  moreover have "hd_name h \<noteq> hd_name h'" using assms by simp
  ultimately show ?thesis
    by (simp add: CheckCollision_def checkCollisionFrom_def Let_def rangeBlockSize_def
        maxCommittedPages_Suc page_loop.simps daemon_fetch)
qed


lemma created_box:
  assumes "dm_find n d = None"
  shows "\<exists>h. sdk_Create daemon_sdk n (ranged_options spec b) d = (None, d\<lparr>dm_boxes := dm_boxes d @ [h]\<rparr>)
    \<and> hd_name h = n \<and> (\<exists>x st l m e. h = \<lparr>hd_id = x, hd_name = n, hd_status = st, hd_labels = l,
      hd_config = JDoc (config_record m e (map fst (blockPortMap b)))\<rparr>)"
proof (rule exI, intro conjI)
  let ?opts = "ranged_options spec b"
  let ?h = "\<lparr>hd_id = ''id-'' @ n, hd_name = n, hd_status = SdkRunning,
      hd_labels = Some (opt_labels ?opts), hd_config = JDoc (config_record (opt_memory ?opts)
        (opt_egress ?opts) (map fst (blockPortMap b)))\<rparr>"
  show "sdk_Create daemon_sdk n ?opts d = (None, d\<lparr>dm_boxes := dm_boxes d @ [?h]\<rparr>)"
    using assms by (simp add: dm_create_def opt_ports_ranged)
  show "hd_name ?h = n" by simp
  show "\<exists>x st l m e. ?h = \<lparr>hd_id = x, hd_name = n, hd_status = st, hd_labels = l,
      hd_config = JDoc (config_record m e (map fst (blockPortMap b)))\<rparr>" by blast
qed

lemma check_alone:
  "hd_name h = n \<Longrightarrow> CheckCollision daemon_sdk n b \<lparr>dm_boxes = [h]\<rparr> = (None, \<lparr>dm_boxes = [h]\<rparr>)"
  by (simp add: CheckCollision_def checkCollisionFrom_def Let_def collision_record_def
      maxCommittedPages_Suc page_loop.simps daemon_fetch rec_of_def)

lemma two_booted:
  "\<exists>d. race_reach box_of (\<lparr>dm_boxes = []\<rparr>, \<lambda>_. Idle)
     (d, (\<lambda>_. Idle)(''a'' := Booted 5000, ''b'' := Booted 15000))"
proof -
  let ?I = "(\<lambda>_. Idle) :: string \<Rightarrow> phase"
  let ?R = "race_reach box_of (\<lparr>dm_boxes = []\<rparr>, ?I)"
  obtain h x st l m e where
    c1: "sdk_Create daemon_sdk ''a'' (ranged_options (box_of ''a'') 5000) \<lparr>dm_boxes = []\<rparr>
      = (None, \<lparr>dm_boxes = [h]\<rparr>)" and h: "hd_name h = ''a''"
    and hc: "h = \<lparr>hd_id = x, hd_name = ''a'', hd_status = st, hd_labels = l,
      hd_config = JDoc (config_record m e (map fst (blockPortMap 5000)))\<rparr>"
    using created_box [of "''a''" "\<lparr>dm_boxes = []\<rparr>" "box_of ''a''" 5000]
    by (auto simp: dm_find_None)
  obtain g where
    c2: "sdk_Create daemon_sdk ''b'' (ranged_options (box_of ''b'') 15000) \<lparr>dm_boxes = [h]\<rparr>
      = (None, \<lparr>dm_boxes = [h, g]\<rparr>)" and g: "hd_name g = ''b''"
    using created_box [of "''b''" "\<lparr>dm_boxes = [h]\<rparr>" "box_of ''b''" 15000] h
    by (auto simp: dm_find_None)
  have "?R (\<lparr>dm_boxes = []\<rparr>, ?I(''a'' := Reserved 5000))"
    by (rule race_reach.step [OF race_reach.start]) (rule race_step.reserve [OF _ allocate_empty], simp)
  then have "?R (\<lparr>dm_boxes = [h]\<rparr>, (?I(''a'' := Reserved 5000))(''a'' := Created 5000))"
    by (rule race_reach.step) (rule race_step.create, simp, rule c1)
  from this [unfolded fun_upd_upd] have "?R (\<lparr>dm_boxes = [h]\<rparr>, (?I(''a'' := Created 5000))(''a'' := Booted 5000))"
    by (rule race_reach.step) (rule race_step.accept [OF _ check_alone [OF h]], simp)
  from this [unfolded fun_upd_upd] have "?R (\<lparr>dm_boxes = [h]\<rparr>, (?I(''a'' := Booted 5000))(''b'' := Reserved 15000))"
    by (rule race_reach.step) (rule race_step.reserve [OF _ allocate_next [OF hc]], simp)
  then have "?R (\<lparr>dm_boxes = [h, g]\<rparr>,
      (?I(''a'' := Booted 5000, ''b'' := Reserved 15000))(''b'' := Created 15000))"
    by (rule race_reach.step) (rule race_step.create, simp, rule c2)
  from this [unfolded fun_upd_upd] have "?R (\<lparr>dm_boxes = [h, g]\<rparr>,
      (?I(''a'' := Booted 5000, ''b'' := Created 15000))(''b'' := Booted 15000))"
    by (rule race_reach.step) (rule race_step.accept [OF _ check_two [OF hc g]], simp, simp)
  then show ?thesis unfolding fun_upd_upd by blast
qed


end
