(* ===== verification/PortDiscovery.thy ===== *)
theory PortDiscovery
  imports CoreRuntime
begin

text \<open>
  \<open>internal/core/portfwd/discovery.go\<close>: which guest ports are listening. The parsers of
  netstat output and of \<open>/proc/net/tcp\<close> and \<open>tcp6\<close>, the filter by guest-port range, and the
  discovery over all running sandboxes through the runtime interface.
\<close>

unbundle bit_operations_syntax

definition GuestPortBase :: u16 where "GuestPortBase = 1024"
definition GuestPortTop :: u16 where "GuestPortTop = 11023"

record PortBind =
  pb_port :: u16
  pb_addr :: string

record Listener =
  l_port :: u16
  l_addr :: string
  l_sandbox :: SandboxRef

section \<open>net.IP.String\<close>

text \<open>Lower-case hexadecimal without leading zeros, as \<open>net/netip\<close> prints a group.\<close>

definition hex_char :: "nat \<Rightarrow> char" where
  "hex_char d = (if d < 10 then char_of (48 + d) else char_of (87 + d))"

fun show_hex :: "nat \<Rightarrow> string" where
  "show_hex n = (if n < 16 then [hex_char n] else show_hex (n div 16) @ [hex_char (n mod 16)])"

declare show_hex.simps [simp del]

definition dotted :: "nat list \<Rightarrow> string" where
  "dotted bs = join_with ''.'' (map show_nat bs)"

fun groups16 :: "nat list \<Rightarrow> nat list" where
  "groups16 (a # b # bs) = (256 * a + b) # groups16 bs"
| "groups16 _ = []"

definition zero_run :: "nat list \<Rightarrow> nat \<Rightarrow> nat" where
  "zero_run gs i = length (takeWhile (\<lambda>g. g = 0) (drop i gs))"

text \<open>The leftmost longest run of at least two zero groups; \<open>(8, 8)\<close> when there is none.\<close>

definition best_run :: "nat list \<Rightarrow> nat \<times> nat" where
  "best_run gs = fold (\<lambda>i (s, e). let l = zero_run gs i in
     if l \<ge> 2 \<and> l > e - s then (i, i + l) else (s, e)) [0..<8] (8, 8)"

definition show_ipv6 :: "nat list \<Rightarrow> string" where
  "show_ipv6 gs = (case best_run gs of (s, e) \<Rightarrow>
     concat (map (\<lambda>i.
       if i = s then ''::''
       else if s \<le> i \<and> i < e then []
       else (if i > 0 \<and> i \<noteq> e then '':'' else []) @ show_hex (gs ! i)) [0..<8]))"

definition ip_string :: "nat list \<Rightarrow> string" where
  "ip_string bs =
     (if length bs = 4 then dotted bs
      else if take 12 bs = replicate 10 0 @ [255, 255] then dotted (drop 12 bs)
      else show_ipv6 (groups16 bs))"

section \<open>netstat\<close>

definition netstat_line :: "string \<Rightarrow> PortBind option" where
  "netstat_line line =
     (let fs = GoStrings.fields line in
      if length fs < 6 \<or> fs ! 5 \<noteq> ''LISTEN'' then None
      else (let addr = fs ! 3 in
            case last_index (CHR '':'') addr of
              None \<Rightarrow> None
            | Some i \<Rightarrow>
                (case parse_uint 10 16 (drop (i + 1) addr) of
                   None \<Rightarrow> None
                 | Some p \<Rightarrow> Some \<lparr>pb_port = word_of_nat p, pb_addr = take i addr\<rparr>)))"

definition ParseNetstat :: "string \<Rightarrow> PortBind list" where
  "ParseNetstat text = List.map_filter netstat_line (split_on (CHR ''\<newline>'') text)"

section \<open>/proc/net/tcp and tcp6\<close>

text \<open>The four bytes of a 32-bit word, least significant first.\<close>

definition le_bytes :: "nat \<Rightarrow> nat list" where
  "le_bytes v = [v mod 256, v div 256 mod 256, v div 65536 mod 256, v div 16777216 mod 256]"

definition addr_bytes :: "string \<Rightarrow> nat list option" where
  "addr_bytes hex =
     (if length hex = 8 then map_option le_bytes (parse_uint 16 32 hex)
      else if length hex = 32 then
        map_option concat
          (those (map (\<lambda>j. map_option le_bytes (parse_uint 16 32 (take 8 (drop (j * 8) hex)))) [0,1,2,3]))
      else None)"

definition proc_line :: "string \<Rightarrow> PortBind option" where
  "proc_line line =
     (let fs = GoStrings.fields line in
      if length fs < 4 \<or> fs ! 0 = ''sl'' then None
      else if length (fs ! 3) \<noteq> 2 then None
      else if parse_uint 16 8 (fs ! 3) \<noteq> Some 10 then None
      else (case last_index (CHR '':'') (fs ! 1) of
              None \<Rightarrow> None
            | Some i \<Rightarrow>
                (case parse_uint 16 16 (drop (i + 1) (fs ! 1)) of
                   None \<Rightarrow> None
                 | Some p \<Rightarrow>
                     (case addr_bytes (take i (fs ! 1)) of
                        None \<Rightarrow> None
                      | Some bs \<Rightarrow> Some \<lparr>pb_port = word_of_nat p, pb_addr = ip_string bs\<rparr>))))"

definition parseProcNetFile :: "string \<Rightarrow> PortBind list" where
  "parseProcNetFile text = List.map_filter proc_line (split_on (CHR ''\<newline>'') text)"

section \<open>The filter by range\<close>

record FilterResult =
  fr_forwardable :: "Listener list"
  fr_out_of_range :: "Listener list"
  fr_reserved :: "Listener list"

definition filter_step :: "u16 list \<Rightarrow> Listener \<Rightarrow> FilterResult \<Rightarrow> FilterResult" where
  "filter_step exclude l r =
     (if l_port l < GuestPortBase \<or> l_port l \<in> set exclude then
        r\<lparr>fr_reserved := fr_reserved r @ [l]\<rparr>
      else if l_port l > GuestPortTop then r\<lparr>fr_out_of_range := fr_out_of_range r @ [l]\<rparr>
      else r\<lparr>fr_forwardable := fr_forwardable r @ [l]\<rparr>)"

definition FilterListeners :: "Listener list \<Rightarrow> u16 list \<Rightarrow> FilterResult" where
  "FilterListeners ls exclude =
     fold (filter_step exclude) ls
       \<lparr>fr_forwardable = [], fr_out_of_range = [], fr_reserved = []\<rparr>"

section \<open>Discovery\<close>

text \<open>The interface \<open>execLister\<close>: listing, and running a command with its stdout captured; the
  result is an error, or what was written to stdout and the exit code.\<close>

record 'w exec_lister =
  el_list :: "('w, string + SandboxRef list) act"
  el_exec :: "SandboxRef \<Rightarrow> string list \<Rightarrow> ('w, string + (string \<times> int)) act"

datatype discover_error =
    ExecError SandboxRef string
  | ProcNetExit SandboxRef int
  | ListSandboxes string

definition proc_argv :: "string list" where
  "proc_argv = [''sh'', ''-c'', ''cat /proc/net/tcp /proc/net/tcp6 2>/dev/null'']"

definition listener_of :: "SandboxRef \<Rightarrow> PortBind \<Rightarrow> Listener" where
  "listener_of ref b = \<lparr>l_port = pb_port b, l_addr = pb_addr b, l_sandbox = ref\<rparr>"

definition DiscoverOne :: "'w exec_lister \<Rightarrow> SandboxRef \<Rightarrow> ('w, discover_error + Listener list) act" where
  "DiscoverOne rt ref w =
     (case el_exec rt ref proc_argv w of
        (Inl e, w1) \<Rightarrow> (Inl (ExecError ref e), w1)
      | (Inr (out, code), w1) \<Rightarrow>
          if code \<noteq> 0 then (Inl (ProcNetExit ref code), w1)
          else (Inr (map (listener_of ref) (parseProcNetFile out)), w1))"

fun discover_refs ::
  "'w exec_lister \<Rightarrow> SandboxRef list \<Rightarrow> Listener list \<Rightarrow> ('w, discover_error + Listener list) act" where
  "discover_refs rt [] acc w = (Inr acc, w)"
| "discover_refs rt (ref # refs) acc w =
     (if ref_status ref \<noteq> StRunning then discover_refs rt refs acc w
      else (case DiscoverOne rt ref w of
              (Inl e, w1) \<Rightarrow> (Inl e, w1)
            | (Inr ls, w1) \<Rightarrow> discover_refs rt refs (acc @ ls) w1))"

definition DiscoverAll :: "'w exec_lister \<Rightarrow> ('w, discover_error + Listener list) act" where
  "DiscoverAll rt w =
     (case el_list rt w of
        (Inl e, w1) \<Rightarrow> (Inl (ListSandboxes e), w1)
      | (Inr refs, w1) \<Rightarrow> discover_refs rt refs [] w1)"

section \<open>Hexadecimal as the kernel prints it\<close>

text \<open>Fixed-width upper-case hexadecimal, the format \<open>%08X:%04X\<close> of \<open>/proc/net/tcp\<close>.\<close>

definition hex_up :: "nat \<Rightarrow> char" where
  "hex_up d = (if d < 10 then char_of (48 + d) else char_of (55 + d))"

fun hexw :: "nat \<Rightarrow> nat \<Rightarrow> string" where
  "hexw 0 n = []"
| "hexw (Suc k) n = hexw k (n div 16) @ [hex_up (n mod 16)]"

lemma digit_val_hex_up [simp]: "d < 16 \<Longrightarrow> digit_val (hex_up d) = Some d"
  by (auto simp: hex_up_def digit_val_def Let_def)

lemma length_hexw [simp]: "length (hexw k n) = k"
  by (induction k arbitrary: n) auto

lemma digits_val_hexw: "n < 16 ^ k \<Longrightarrow> digits_val 16 0 (hexw k n) = Some n"
proof (induction k arbitrary: n)
  case (Suc k)
  then have "n div 16 < 16 ^ k" by (simp add: less_mult_imp_div_less mult.commute)
  from Suc.IH [OF this] show ?case by (simp add: digits_val_append)
qed simp

lemma parse_hexw: "k \<noteq> 0 \<Longrightarrow> n < 16 ^ k \<Longrightarrow> n < 2 ^ b \<Longrightarrow> parse_uint 16 b (hexw k n) = Some n"
  using digits_val_hexw [of n k] length_hexw [of k n]
  by (auto simp: parse_uint_def simp del: length_hexw)

lemma hex_up_char: "d < 16 \<Longrightarrow> hex_up d \<noteq> CHR '':'' \<and> \<not> is_space (hex_up d) \<and> hex_up d \<noteq> CHR ''\<newline>''"
proof -
  assume "d < 16"
  then have v: "(of_char (hex_up d) :: nat) = (if d < 10 then 48 + d else 55 + d)"
    by (simp add: hex_up_def)
  have "hex_up d \<noteq> CHR '':''" "hex_up d \<noteq> CHR '' ''" "hex_up d \<noteq> CHR ''\<newline>''"
    using v \<open>d < 16\<close> by (auto split: if_splits)
  then show ?thesis using v by (auto simp: is_space_def split: if_splits)
qed

lemma hexw_chars: "c \<in> set (hexw k n) \<Longrightarrow> c \<noteq> CHR '':'' \<and> \<not> is_space c \<and> c \<noteq> CHR ''\<newline>''"
proof (induction k arbitrary: n)
  case (Suc k)
  then show ?case using hex_up_char [of "n mod 16"] by auto
qed simp

section \<open>The kernel's socket table, printed and parsed\<close>

text \<open>One socket as the kernel lists it: slot, IPv4 address and port, state, and the rest.\<close>

record sock =
  sk_slot :: nat
  sk_addr :: u32
  sk_port :: u16
  sk_remote :: string
  sk_state :: "8 word"
  sk_rest :: string

definition sock_line :: "sock \<Rightarrow> string" where
  "sock_line s = ''  '' @ (show_nat (sk_slot s) @ '':'') @ '' ''
     @ (hexw 8 (unat (sk_addr s)) @ '':'' @ hexw 4 (unat (sk_port s))) @ '' ''
     @ sk_remote s @ '' '' @ hexw 2 (unat (sk_state s)) @ '' '' @ sk_rest s"

definition plain_sock :: "sock \<Rightarrow> bool" where
  "plain_sock s \<longleftrightarrow> sk_remote s \<noteq> [] \<and> (\<forall>c \<in> set (sk_remote s). \<not> is_space c)
     \<and> CHR ''\<newline>'' \<notin> set (sk_rest s)"

definition sock_bind :: "sock \<Rightarrow> PortBind" where
  "sock_bind s = \<lparr>pb_port = sk_port s, pb_addr = dotted (le_bytes (unat (sk_addr s)))\<rparr>"

lemma space_char: "is_space (CHR '' '')" "is_space (CHR ''\<newline>'')"
  by (simp_all add: is_space_def)

lemma fields_sock:
  assumes "plain_sock s"
  shows "GoStrings.fields (sock_line s) = (show_nat (sk_slot s) @ '':'')
      # (hexw 8 (unat (sk_addr s)) @ '':'' @ hexw 4 (unat (sk_port s)))
      # sk_remote s # hexw 2 (unat (sk_state s)) # GoStrings.fields (sk_rest s)"
proof -
  have word: "GoStrings.fields (w @ CHR '' '' # t) = w # GoStrings.fields t"
    if "w \<noteq> []" "\<forall>x \<in> set w. \<not> is_space x" for w t
    using fields_word [OF that, of "CHR '' '' # t"] by (simp add: space_char)
  have w1: "\<forall>x \<in> set (show_nat (sk_slot s) @ '':''). \<not> is_space x"
    using show_nat_no_space by (auto simp: is_space_def)
  have w2: "\<forall>x \<in> set (hexw 8 (unat (sk_addr s)) @ '':'' @ hexw 4 (unat (sk_port s))). \<not> is_space x"
    using hexw_chars by (auto simp: is_space_def)
  have w3: "\<forall>x \<in> set (hexw 2 (unat (sk_state s))). \<not> is_space x" using hexw_chars by blast
  have n3: "sk_remote s \<noteq> []" and w4: "\<forall>x \<in> set (sk_remote s). \<not> is_space x"
    using assms by (simp_all add: plain_sock_def)
  have n1: "show_nat (sk_slot s) @ '':'' \<noteq> []" by simp
  have n2: "hexw 8 (unat (sk_addr s)) @ '':'' @ hexw 4 (unat (sk_port s)) \<noteq> []" by simp
  have n: "hexw 2 v \<noteq> []" for v by (metis length_hexw list.size(3) zero_neq_numeral)
  have "GoStrings.fields (sock_line s) = GoStrings.fields ((show_nat (sk_slot s) @ '':'') @ CHR '' ''
     # (hexw 8 (unat (sk_addr s)) @ '':'' @ hexw 4 (unat (sk_port s))) @ CHR '' ''
     # sk_remote s @ CHR '' '' # hexw 2 (unat (sk_state s)) @ CHR '' '' # sk_rest s)"
    by (simp add: sock_line_def space_char)
  also have "\<dots> = (show_nat (sk_slot s) @ '':'')
      # (hexw 8 (unat (sk_addr s)) @ '':'' @ hexw 4 (unat (sk_port s)))
      # sk_remote s # hexw 2 (unat (sk_state s)) # GoStrings.fields (sk_rest s)"
    by (simp only: word [OF n1 w1] word [OF n2 w2] word [OF n3 w4] word [OF n w3])
  finally show ?thesis .
qed

lemma proc_line_sock:
  assumes "plain_sock s"
  shows "proc_line (sock_line s) = (if sk_state s = 10 then Some (sock_bind s) else None)"
proof -
  let ?a = "hexw 8 (unat (sk_addr s))" and ?p = "hexw 4 (unat (sk_port s))"
  have sl: "show_nat (sk_slot s) @ '':'' \<noteq> ''sl''"
  proof
    assume "show_nat (sk_slot s) @ '':'' = ''sl''"
    then have "last (show_nat (sk_slot s) @ '':'') = last ''sl''" by simp
    then show False by simp
  qed
  have n8: "unat (sk_state s) < 256" using unsigned_less [of "sk_state s"] by simp
  have st: "parse_uint 16 8 (hexw 2 (unat (sk_state s))) = Some (unat (sk_state s))"
    using parse_hexw [of 2 "unat (sk_state s)" 8] n8 by simp
  have "CHR '':'' \<notin> set ?p" using hexw_chars by blast
  then have li: "last_index (CHR '':'') (?a @ CHR '':'' # ?p) = Some 8"
    using last_index_append [of "CHR '':''" ?p ?a] by simp
  have port: "parse_uint 16 16 ?p = Some (unat (sk_port s))"
    using parse_hexw [of 4 "unat (sk_port s)" 16] by simp
  have addr: "parse_uint 16 32 ?a = Some (unat (sk_addr s))"
    using parse_hexw [of 8 "unat (sk_addr s)" 32] by simp
  have "addr_bytes ?a = Some (le_bytes (unat (sk_addr s)))"
    by (simp add: addr_bytes_def addr)
  moreover have "ip_string (le_bytes v) = dotted (le_bytes v)" for v
    by (simp add: ip_string_def le_bytes_def)
  moreover have "(unat (sk_state s) = 10) = (sk_state s = 10)"
    by (simp add: word_unat_eq_iff)
  ultimately show ?thesis
    by (simp add: proc_line_def Let_def fields_sock [OF assms] sl st li port sock_bind_def)
qed

lemma sock_line_one_line:
  assumes "plain_sock s"
  shows "CHR ''\<newline>'' \<notin> set (sock_line s)"
  using assms hexw_chars show_nat_no_space space_char(2)
  by (auto simp: sock_line_def plain_sock_def)

text \<open>
  the kernel's table is read back. Printing any list of IPv4 sockets the way
  \<open>/proc/net/tcp\<close> lists them, below a header line, and parsing the text gives exactly the
  sockets in state LISTEN, in order, with their port and dotted address.
\<close>

theorem proc_net_roundtrip:
  assumes "\<forall>s \<in> set socks. plain_sock s"
    and "GoStrings.fields header = ''sl'' # rest" "CHR ''\<newline>'' \<notin> set header"
  shows "parseProcNetFile (join_with ''\<newline>'' (header # map sock_line socks @ [[]]))
    = map sock_bind (filter (\<lambda>s. sk_state s = 10) socks)"
proof -
  have "split_on (CHR ''\<newline>'') (join_with ''\<newline>'' (header # map sock_line socks @ [[]]))
      = header # map sock_line socks @ [[]]"
    using assms(1,3) sock_line_one_line by (intro split_on_join) auto
  moreover have "proc_line header = None" "proc_line [] = None"
    by (simp_all add: proc_line_def Let_def assms(2))
  moreover have "List.map_filter proc_line (map sock_line socks)
      = map sock_bind (filter (\<lambda>s. sk_state s = 10) socks)"
    using assms(1) by (induction socks) (auto simp: proc_line_sock map_filter_simps)
  ultimately show ?thesis
    by (simp add: parseProcNetFile_def List.map_filter_def)
qed

theorem proc_net_roundtrip_witness:
  "parseProcNetFile (join_with ''\<newline>'' (''  sl  local_address'' # map sock_line
     [\<lparr>sk_slot = 0, sk_addr = 16777343, sk_port = 8080, sk_remote = ''00000000:0000'', sk_state = 10,
       sk_rest = ''0''\<rparr>,
      \<lparr>sk_slot = 1, sk_addr = 0, sk_port = 22, sk_remote = ''00000000:0000'', sk_state = 1,
       sk_rest = ''0''\<rparr>] @ [[]]))
   = [\<lparr>pb_port = 8080, pb_addr = ''127.0.0.1''\<rparr>]"
proof -
  let ?s = "[\<lparr>sk_slot = 0, sk_addr = 16777343, sk_port = 8080, sk_remote = ''00000000:0000'',
      sk_state = 10, sk_rest = ''0''\<rparr>,
     \<lparr>sk_slot = 1, sk_addr = 0, sk_port = 22, sk_remote = ''00000000:0000'', sk_state = 1,
       sk_rest = ''0''\<rparr>]"
  have h: "GoStrings.fields ''  sl  local_address'' = [''sl'', ''local_address'']" by code_simp
  have p: "\<forall>s \<in> set ?s. plain_sock s" by code_simp
  have b: "map sock_bind (filter (\<lambda>s. sk_state s = 10) ?s) = [\<lparr>pb_port = 8080, pb_addr = ''127.0.0.1''\<rparr>]"
    by (simp add: sock_bind_def dotted_def le_bytes_def show_nat.simps digit_char_def char_of_def bit_0)
  from proc_net_roundtrip [OF p h] b show ?thesis by simp
qed

section \<open>The filter and the discovery\<close>

definition reserved :: "u16 list \<Rightarrow> Listener \<Rightarrow> bool" where
  "reserved exclude l \<longleftrightarrow> unat (l_port l) < 1024 \<or> l_port l \<in> set exclude"

definition forwardable :: "u16 list \<Rightarrow> Listener \<Rightarrow> bool" where
  "forwardable exclude l \<longleftrightarrow> unat (l_port l) \<in> {1024 .. 11023} \<and> l_port l \<notin> set exclude"

lemma filter_fold:
  "fold (filter_step exclude) ls r =
     \<lparr>fr_forwardable = fr_forwardable r @ filter (forwardable exclude) ls,
      fr_out_of_range = fr_out_of_range r
        @ filter (\<lambda>l. \<not> reserved exclude l \<and> \<not> forwardable exclude l) ls,
      fr_reserved = fr_reserved r @ filter (reserved exclude) ls\<rparr>"
  by (induction ls arbitrary: r)
    (auto simp: filter_step_def forwardable_def reserved_def word_less_nat_alt GuestPortBase_def
      GuestPortTop_def)

text \<open>
  the filter is a partition. Every listener lands in exactly one of the three lists, which
  keep the order; it is forwardable exactly when its port is in 1024..11023 and not excluded,
  and reserved exactly when it is below 1024 or excluded.
\<close>

theorem filter_listeners_partition:
  "fr_forwardable (FilterListeners ls exclude) = filter (forwardable exclude) ls
   \<and> fr_reserved (FilterListeners ls exclude) = filter (reserved exclude) ls
   \<and> mset (fr_forwardable (FilterListeners ls exclude)) + mset (fr_out_of_range (FilterListeners ls exclude))
       + mset (fr_reserved (FilterListeners ls exclude)) = mset ls"
proof -
  have "mset (filter (forwardable exclude) ls)
      + mset (filter (\<lambda>l. \<not> reserved exclude l \<and> \<not> forwardable exclude l) ls)
      + mset (filter (reserved exclude) ls) = mset ls"
    by (induction ls) (auto simp: forwardable_def reserved_def)
  then show ?thesis by (simp add: FilterListeners_def filter_fold)
qed

lemma discover_refs_ok:
  "discover_refs rt refs acc w = (Inr ls, w') \<Longrightarrow>
     \<exists>new. ls = acc @ new \<and> (\<forall>l \<in> set new. l_sandbox l \<in> set refs \<and> ref_status (l_sandbox l) = StRunning)"
proof (induction refs arbitrary: acc w)
  case (Cons ref refs)
  show ?case
  proof (cases "ref_status ref = StRunning")
    case False
    with Cons.prems have "discover_refs rt refs acc w = (Inr ls, w')" by simp
    from Cons.IH [OF this] show ?thesis by auto
  next
    case True
    with Cons.prems obtain one w1 where o: "DiscoverOne rt ref w = (Inr one, w1)"
      and r: "discover_refs rt refs (acc @ one) w1 = (Inr ls, w')"
      by (auto split: prod.splits sum.splits)
    from o have "\<forall>l \<in> set one. l_sandbox l = ref"
      by (auto simp: DiscoverOne_def listener_of_def split: prod.splits sum.splits if_splits)
    moreover from Cons.IH [OF r] obtain new where "ls = (acc @ one) @ new"
      "\<forall>l \<in> set new. l_sandbox l \<in> set refs \<and> ref_status (l_sandbox l) = StRunning" by blast
    ultimately show ?thesis using True by (intro exI [of _ "one @ new"]) auto
  qed
qed simp

lemma discover_running:
  assumes "DiscoverAll rt w = (Inr ls, w')" "l \<in> set ls"
  shows "ref_status (l_sandbox l) = StRunning"
  using assms by (auto simp: DiscoverAll_def split: prod.splits sum.splits dest!: discover_refs_ok)

end
