(* ===== verification/Forwarder.thy ===== *)
theory Forwarder
  imports PortDiscovery
begin

text \<open>
  \<open>internal/core/portfwd\<close>: local port forwards over an ssh control master
  (\<open>forward.go\<close>) and the manager that reconciles them with the listeners found
  (\<open>manager.go\<close>, \<open>applied.go\<close>). Running a command is the field \<open>Run\<close> of the
  forwarder, a parameter: standard output, standard error, exit code, error.
\<close>

section \<open>Commands\<close>

record run_out =
  ro_stdout :: string
  ro_stderr :: string
  ro_code :: int
  ro_err :: "string option"

type_synonym 'w runner = "string list \<Rightarrow> ('w, run_out) act"

definition MasterArgv :: "string \<Rightarrow> string \<Rightarrow> string list" where
  "MasterArgv target controlPath =
     [''ssh'', ''-M'', ''-N'', ''-f'',
      ''-o'', ''ControlPath='' @ controlPath,
      ''-o'', ''ControlMaster=auto'',
      ''-o'', ''ControlPersist=yes'',
      ''-o'', ''BatchMode=yes'',
      ''-o'', ''GatewayPorts=no'',
      ''-o'', ''ConnectTimeout=10'',
      ''-o'', ''ServerAliveInterval=15'',
      ''-o'', ''ServerAliveCountMax=3'',
      target]"

text \<open>\<open>fw_stat\<close> and \<open>fw_remove\<close> are \<open>os.Stat\<close> (does the path exist) and \<open>os.Remove\<close> with its
  result ignored.\<close>

record 'w Forwarder =
  fw_path :: string
  fw_host :: string
  fw_run :: "'w runner"
  fw_stat :: "string \<Rightarrow> 'w \<Rightarrow> bool"
  fw_remove :: "string \<Rightarrow> 'w \<Rightarrow> 'w"

text \<open>The message carries the exit code and the trimmed standard error.\<close>

datatype fwd_error =
    RunFailed string
  | CheckExit int string
  | MasterExit int "string list" string
  | ForwardExit int "string list" string
  | PresentFailed "string option" int "string option" int

section \<open>The control master\<close>

definition MasterAlive :: "'w Forwarder \<Rightarrow> ('w, fwd_error + bool) act" where
  "MasterAlive f w =
     (case fw_run f [''ssh'', ''-O'', ''check'', ''-o'', ''ControlPath='' @ fw_path f, fw_host f] w of
        (r, w1) \<Rightarrow>
          (case ro_err r of
             Some e \<Rightarrow> (Inl (RunFailed e), w1)
           | None \<Rightarrow>
               if ro_code r = 0 then (Inr True, w1)
               else if ro_code r = 255 then (Inr False, w1)
               else (Inl (CheckExit (ro_code r) (trim_space (ro_stderr r))), w1)))"

definition EnsureMaster :: "'w Forwarder \<Rightarrow> ('w, fwd_error option) act" where
  "EnsureMaster f w =
     (case MasterAlive f w of
        (Inl e, w1) \<Rightarrow> (Some e, w1)
      | (Inr alive, w1) \<Rightarrow>
          if alive then (None, w1)
          else (let w2 = (if fw_stat f (fw_path f) w1 then fw_remove f (fw_path f) w1 else w1);
                    argv = MasterArgv (fw_host f) (fw_path f)
                in case fw_run f argv w2 of
                     (r, w3) \<Rightarrow>
                       (case ro_err r of
                          Some e \<Rightarrow> (Some (RunFailed e), w3)
                        | None \<Rightarrow>
                            if ro_code r \<noteq> 0
                            then (Some (MasterExit (ro_code r) argv (trim_space (ro_stderr r))), w3)
                            else (None, w3))))"

section \<open>Forwards\<close>

definition forward_spec :: "u16 \<Rightarrow> string" where
  "forward_spec port = show_nat (unat port) @ '':127.0.0.1:'' @ show_nat (unat port)"

definition apply_argv :: "'w Forwarder \<Rightarrow> u16 \<Rightarrow> string list" where
  "apply_argv f port = [''ssh'', ''-O'', ''forward'', ''-L'', forward_spec port,
     ''-o'', ''ControlPath='' @ fw_path f, fw_host f]"

definition cancel_argv :: "'w Forwarder \<Rightarrow> u16 \<Rightarrow> string list" where
  "cancel_argv f port = [''ssh'', ''-O'', ''cancel'', ''-L'', forward_spec port,
     ''-o'', ''ControlPath='' @ fw_path f, fw_host f]"

definition fw_Apply :: "'w Forwarder \<Rightarrow> u16 \<Rightarrow> ('w, fwd_error option) act" where
  "fw_Apply f port w =
     (case fw_run f (apply_argv f port) w of
        (r, w1) \<Rightarrow>
          (case ro_err r of
             Some e \<Rightarrow> (Some (RunFailed e), w1)
           | None \<Rightarrow>
               if ro_code r \<noteq> 0
               then (Some (ForwardExit (ro_code r) (apply_argv f port) (trim_space (ro_stderr r))), w1)
               else (None, w1)))"

text \<open>\<open>Cancel\<close> looks at the error only: a non-zero exit of \<open>ssh -O cancel\<close> is a success.\<close>

definition fw_Cancel :: "'w Forwarder \<Rightarrow> u16 \<Rightarrow> ('w, fwd_error option) act" where
  "fw_Cancel f port w =
     (case fw_run f (cancel_argv f port) w of
        (r, w1) \<Rightarrow> (map_option RunFailed (ro_err r), w1))"

section \<open>Is a port already listening here\<close>

definition not_digit_first :: "string \<Rightarrow> bool" where
  "not_digit_first s = (case s of [] \<Rightarrow> True | c # _ \<Rightarrow> (of_char c :: nat) < 48 \<or> (of_char c :: nat) > 57)"

text \<open>The search loop of \<open>matchColonPort\<close> and \<open>matchDotPort\<close> on \<open>line[start:]\<close>.\<close>

function find_port :: "string \<Rightarrow> string \<Rightarrow> bool" where
  "find_port needle rest =
     (if rest = [] then False
      else (case sub_index needle rest of
              None \<Rightarrow> False
            | Some i \<Rightarrow>
                if not_digit_first (drop (i + length needle) rest) then True
                else find_port needle (drop (i + 1) rest)))"
  by pat_completeness auto
termination by (relation "measure (length \<circ> snd)") auto

declare find_port.simps [simp del]

definition matchColonPort :: "string \<Rightarrow> string \<Rightarrow> bool" where
  "matchColonPort line needle = find_port needle line"

definition matchDotPort :: "string \<Rightarrow> string \<Rightarrow> bool" where
  "matchDotPort line needle =
     (let fs = GoStrings.fields line in
      if fs = [] \<or> last fs \<noteq> ''LISTEN'' then False else find_port needle line)"

definition portInOutput :: "string \<Rightarrow> u16 \<Rightarrow> bool" where
  "portInOutput output port =
     (let n = show_nat (unat port) in
      list_ex (\<lambda>line. matchDotPort line (''.'' @ n) \<or> matchColonPort line ('':'' @ n))
        (split_on (CHR ''\<newline>'') output))"

definition fw_Present :: "'w Forwarder \<Rightarrow> u16 \<Rightarrow> ('w, fwd_error + bool) act" where
  "fw_Present f port w =
     (case fw_run f [''ss'', ''-ltn''] w of
        (r, w1) \<Rightarrow>
          if ro_err r = None \<and> ro_code r = 0 then (Inr (portInOutput (ro_stdout r) port), w1)
          else (case fw_run f [''netstat'', ''-an'', ''-p'', ''tcp''] w1 of
                  (r2, w2) \<Rightarrow>
                    if ro_err r2 = None \<and> ro_code r2 = 0
                    then (Inr (portInOutput (ro_stdout r2) port), w2)
                    else (Inl (PresentFailed (ro_err r) (ro_code r) (ro_err r2) (ro_code r2)), w2)))"

section \<open>What the search finds\<close>

text \<open>The needle at position \<open>k\<close>, not followed by a further digit.\<close>

definition hit_at :: "string \<Rightarrow> string \<Rightarrow> nat \<Rightarrow> bool" where
  "hit_at needle line k \<longleftrightarrow> k \<le> length line \<and> prefix needle (drop k line)
     \<and> not_digit_first (drop (k + length needle) line)"

lemma hit_at_drop: "d \<le> length line \<Longrightarrow> hit_at needle (drop d line) k \<longleftrightarrow> hit_at needle line (d + k)"
  by (auto simp: hit_at_def ac_simps)

lemma find_port_hit: "needle \<noteq> [] \<Longrightarrow> find_port needle line \<longleftrightarrow> (\<exists>k. hit_at needle line k)"
proof (induction needle line rule: find_port.induct)
  case (1 needle rest)
  show ?case
  proof (cases "rest = [] \<or> sub_index needle rest = None")
    case True
    then have "\<not> find_port needle rest" by (auto simp: find_port.simps [of needle rest])
    moreover have "\<not> hit_at needle rest k" for k
      using True 1(2) by (auto simp: hit_at_def sub_index_None)
    ultimately show ?thesis by blast
  next
    case False
    then obtain i where i: "sub_index needle rest = Some i" and ne: "rest \<noteq> []" by auto
    have at: "i \<le> length rest" "prefix needle (drop i rest)" using sub_index_SomeD [OF i] by auto
    with 1(2) have lt: "i < length rest" by (cases "i = length rest") auto
    show ?thesis
    proof (cases "not_digit_first (drop (i + length needle) rest)")
      case True
      with at i ne show ?thesis by (auto simp: find_port.simps [of needle rest] hit_at_def)
    next
      case digit: False
      have "find_port needle rest = find_port needle (drop (i + 1) rest)"
        by (simp add: find_port.simps [of needle rest] ne i digit)
      also have "\<dots> = (\<exists>k. hit_at needle (drop (i + 1) rest) k)"
        by (rule 1(1) [OF ne i digit 1(2)])
      also have "\<dots> = (\<exists>k. hit_at needle rest (i + 1 + k))" using lt by (simp add: hit_at_drop)
      also have "\<dots> = (\<exists>k. hit_at needle rest k)"
      proof
        assume "\<exists>k. hit_at needle rest k"
        then obtain k where k: "hit_at needle rest k" by blast
        then have "\<not> k < i" using sub_index_least [OF i] by (auto simp: hit_at_def)
        moreover have "k \<noteq> i" using k digit by (auto simp: hit_at_def)
        ultimately have "k = i + 1 + (k - (i + 1))" by simp
        with k show "\<exists>k. hit_at needle rest (i + 1 + k)" by metis
      qed blast
      finally show ?thesis .
    qed
  qed
qed

lemma hit_at_split:
  "(\<exists>k. hit_at needle line k) \<longleftrightarrow> (\<exists>pre post. line = pre @ needle @ post \<and> not_digit_first post)"
proof
  assume "\<exists>k. hit_at needle line k"
  then obtain k where k: "k \<le> length line" "prefix needle (drop k line)"
    "not_digit_first (drop (k + length needle) line)" by (auto simp: hit_at_def)
  from k(2) obtain post where post: "drop k line = needle @ post" by (auto elim: prefixE)
  then have "drop (length needle) (drop k line) = post" by simp
  then have "drop (k + length needle) line = post" by (simp add: add.commute)
  moreover have "line = take k line @ needle @ post" using post by (metis append_take_drop_id)
  ultimately show "\<exists>pre post. line = pre @ needle @ post \<and> not_digit_first post"
    using k(3) by metis
next
  assume "\<exists>pre post. line = pre @ needle @ post \<and> not_digit_first post"
  then obtain pre post where "line = pre @ needle @ post" "not_digit_first post" by blast
  then have "hit_at needle line (length pre)" by (simp add: hit_at_def)
  then show "\<exists>k. hit_at needle line k" ..
qed

lemma portInOutput_iff:
  "portInOutput output p \<longleftrightarrow>
     (\<exists>line \<in> set (split_on (CHR ''\<newline>'') output). \<exists>pre post. not_digit_first post \<and>
        (line = pre @ '':'' @ show_nat (unat p) @ post
         \<or> GoStrings.fields line \<noteq> [] \<and> last (GoStrings.fields line) = ''LISTEN''
           \<and> line = pre @ ''.'' @ show_nat (unat p) @ post))"
proof -
  have f: "find_port (c # n) line
      \<longleftrightarrow> (\<exists>pre post. line = pre @ [c] @ n @ post \<and> not_digit_first post)" for c n line
    using find_port_hit [of "c # n" line] hit_at_split [of "c # n" line] by simp
  have "(matchDotPort line (''.'' @ show_nat (unat p)) \<or> matchColonPort line ('':'' @ show_nat (unat p)))
    \<longleftrightarrow> (\<exists>pre post. not_digit_first post \<and>
        (line = pre @ '':'' @ show_nat (unat p) @ post
         \<or> GoStrings.fields line \<noteq> [] \<and> last (GoStrings.fields line) = ''LISTEN''
           \<and> line = pre @ ''.'' @ show_nat (unat p) @ post))" for line
    unfolding matchDotPort_def matchColonPort_def Let_def append_Cons append_Nil f by auto
  then show ?thesis by (simp only: portInOutput_def Let_def list_ex_iff)
qed

text \<open>
  C32: when a port counts as present. The output mentions port \<open>p\<close> exactly when some line
  contains \<open>:p\<close>, or ends in the field LISTEN and contains \<open>.p\<close>, in both cases not followed by
  another digit; in particular a longer port number with the prefix \<open>p\<close> does not count.
\<close>

theorem port_in_output_iff:
  "portInOutput output p \<longleftrightarrow>
     (\<exists>line \<in> set (split_on (CHR ''\<newline>'') output). \<exists>pre post. not_digit_first post \<and>
        (line = pre @ '':'' @ show_nat (unat p) @ post
         \<or> GoStrings.fields line \<noteq> [] \<and> last (GoStrings.fields line) = ''LISTEN''
           \<and> line = pre @ ''.'' @ show_nat (unat p) @ post))"
  by (rule portInOutput_iff)

end
