(* ===== verification/PortManager.thy ===== *)
theory PortManager
  imports Forwarder
begin

text \<open>
  \<open>internal/core/portfwd/manager.go\<close>: the forwards the manager believes to be applied, keyed
  by sandbox and port. A Go map used as a set is a list of keys without duplicates; the order
  in which \<open>range\<close> delivers it is the parameter \<open>ord\<close>, of which only \<open>mset (ord xs) = mset xs\<close>
  is known.
\<close>

type_synonym fwd_key = "string \<times> u16"

record 'w Manager =
  mg_fw :: "'w Forwarder"
  mg_applied :: "fwd_key list"

definition NewManager :: "'w Forwarder \<Rightarrow> 'w Manager" where
  "NewManager fw = \<lparr>mg_fw = fw, mg_applied = []\<rparr>"

definition key_of :: "Listener \<Rightarrow> fwd_key" where
  "key_of l = (ref_id (l_sandbox l), l_port l)"

definition running :: "Listener \<Rightarrow> bool" where
  "running l \<longleftrightarrow> ref_status (l_sandbox l) = StRunning"

definition Applied :: "(fwd_key list \<Rightarrow> fwd_key list) \<Rightarrow> 'w Manager \<Rightarrow> fwd_key list" where
  "Applied ord m = ord (mg_applied m)"

section \<open>Reconcile and TeardownSandbox\<close>

text \<open>The loop over \<open>m.applied\<close>: cancel and delete the keys that satisfy \<open>drop\<close>.\<close>

fun cancel_keys ::
  "(fwd_key \<Rightarrow> bool) \<Rightarrow> fwd_key list \<Rightarrow> 'w Manager \<Rightarrow> ('w, fwd_error option \<times> 'w Manager) act" where
  "cancel_keys gone [] m w = ((None, m), w)"
| "cancel_keys gone (k # ks) m w =
     (if gone k then
        (case fw_Cancel (mg_fw m) (snd k) w of
           (Some e, w1) \<Rightarrow> ((Some e, m), w1)
         | (None, w1) \<Rightarrow>
             cancel_keys gone ks (m\<lparr>mg_applied := removeAll k (mg_applied m)\<rparr>) w1)
      else cancel_keys gone ks m w)"

fun apply_desired :: "Listener list \<Rightarrow> 'w Manager \<Rightarrow> ('w, fwd_error option \<times> 'w Manager) act" where
  "apply_desired [] m w = ((None, m), w)"
| "apply_desired (l # ls) m w =
     (if \<not> running l then apply_desired ls m w
      else if key_of l \<in> set (mg_applied m) then apply_desired ls m w
      else (case fw_Present (mg_fw m) (l_port l) w of
              (Inl e, w1) \<Rightarrow> ((Some e, m), w1)
            | (Inr present, w1) \<Rightarrow>
                if present then
                  apply_desired ls (m\<lparr>mg_applied := mg_applied m @ [key_of l]\<rparr>) w1
                else (case fw_Apply (mg_fw m) (l_port l) w1 of
                        (Some e, w2) \<Rightarrow> ((Some e, m), w2)
                      | (None, w2) \<Rightarrow>
                          apply_desired ls (m\<lparr>mg_applied := mg_applied m @ [key_of l]\<rparr>) w2)))"

definition desired_keys :: "Listener list \<Rightarrow> fwd_key set" where
  "desired_keys desired = set (map key_of (filter running desired))"

definition Reconcile ::
  "(fwd_key list \<Rightarrow> fwd_key list) \<Rightarrow> Listener list \<Rightarrow> 'w Manager \<Rightarrow> ('w, fwd_error option \<times> 'w Manager) act" where
  "Reconcile ord desired m w =
     (case cancel_keys (\<lambda>k. k \<notin> desired_keys desired) (ord (mg_applied m)) m w of
        ((Some e, m1), w1) \<Rightarrow> ((Some e, m1), w1)
      | ((None, m1), w1) \<Rightarrow> apply_desired desired m1 w1)"

definition TeardownSandbox ::
  "(fwd_key list \<Rightarrow> fwd_key list) \<Rightarrow> SandboxRef \<Rightarrow> 'w Manager \<Rightarrow> ('w, fwd_error option \<times> 'w Manager) act" where
  "TeardownSandbox ord ref m w = cancel_keys (\<lambda>k. fst k = ref_id ref) (ord (mg_applied m)) m w"

section \<open>Lemmas on the two loops\<close>

lemma cancel_keys_ok:
  "cancel_keys gone ks m w = ((None, m'), w') \<Longrightarrow>
     mg_fw m' = mg_fw m \<and> mg_applied m' = filter (\<lambda>k. \<not> (gone k \<and> k \<in> set ks)) (mg_applied m)"
proof (induction ks arbitrary: m w)
  case (Cons k ks)
  show ?case
  proof (cases "gone k")
    case True
    with Cons.prems obtain w1 where
      "cancel_keys gone ks (m\<lparr>mg_applied := removeAll k (mg_applied m)\<rparr>) w1 = ((None, m'), w')"
      by (auto split: prod.splits option.splits)
    from Cons.IH [OF this] True show ?thesis
      by (auto simp: removeAll_filter_not_eq intro: filter_cong)
  next
    case False
    with Cons.prems have "cancel_keys gone ks m w = ((None, m'), w')" by simp
    from Cons.IH [OF this] False show ?thesis by (auto intro: filter_cong)
  qed
qed simp

lemma cancel_keys_any:
  "cancel_keys gone ks m w = ((e, m'), w') \<Longrightarrow>
     mg_fw m' = mg_fw m \<and> set (mg_applied m') \<subseteq> set (mg_applied m)
     \<and> (distinct (mg_applied m) \<longrightarrow> distinct (mg_applied m'))
     \<and> (\<forall>k \<in> set (mg_applied m). \<not> gone k \<longrightarrow> k \<in> set (mg_applied m'))"
proof (induction ks arbitrary: m w)
  case (Cons k ks)
  show ?case
  proof (cases "gone k \<and> fst (fw_Cancel (mg_fw m) (snd k) w) = None")
    case True
    with Cons.prems obtain w1 where
      "cancel_keys gone ks (m\<lparr>mg_applied := removeAll k (mg_applied m)\<rparr>) w1 = ((e, m'), w')"
      by (auto split: prod.splits option.splits)
    from Cons.IH [OF this] True show ?thesis by (auto simp: distinct_removeAll)
  next
    case False
    with Cons show ?thesis by (auto split: if_splits prod.splits option.splits)
  qed
qed simp

lemma apply_desired_any:
  "apply_desired ls m w = ((e, m'), w') \<Longrightarrow> distinct (mg_applied m) \<Longrightarrow>
     mg_fw m' = mg_fw m \<and> distinct (mg_applied m') \<and> set (mg_applied m) \<subseteq> set (mg_applied m')
     \<and> set (mg_applied m') \<subseteq> set (mg_applied m) \<union> desired_keys ls
     \<and> (e = None \<longrightarrow> set (mg_applied m') = set (mg_applied m) \<union> desired_keys ls)"
proof (induction ls arbitrary: m w)
  case Nil
  then show ?case by (auto simp: desired_keys_def)
next
  case (Cons l ls)
  show ?case
  proof (cases "running l \<and> key_of l \<notin> set (mg_applied m)")
    case False
    then have "apply_desired ls m w = ((e, m'), w')" using Cons.prems(1) by (auto split: if_splits)
    from Cons.IH [OF this Cons.prems(2)] False show ?thesis by (auto simp: desired_keys_def)
  next
    case True
    let ?m = "m\<lparr>mg_applied := mg_applied m @ [key_of l]\<rparr>"
    obtain p w1 where p: "fw_Present (mg_fw m) (l_port l) w = (p, w1)" by fastforce
    have d: "distinct (mg_applied ?m)" using Cons.prems(2) True by simp
    consider (fail) "e \<noteq> None" "m' = m" | (go) v where "apply_desired ls ?m v = ((e, m'), w')"
      using Cons.prems(1) True p by (auto split: sum.splits prod.splits option.splits if_splits)
    then show ?thesis
    proof cases
      case fail
      with Cons.prems(2) show ?thesis by auto
    next
      case go
      from Cons.IH [OF go d] True show ?thesis by (auto simp: desired_keys_def)
    qed
  qed
qed

lemma apply_desired_noop:
  "desired_keys ls \<subseteq> set (mg_applied m) \<Longrightarrow> apply_desired ls m w = ((None, m), w)"
  by (induction ls) (auto simp: desired_keys_def)

lemma cancel_keys_noop:
  "\<forall>k \<in> set ks. \<not> gone k \<Longrightarrow> cancel_keys gone ks m w = ((None, m), w)"
  by (induction ks) auto

lemma Reconcile_state:
  assumes "\<And>xs. mset (ord xs) = mset xs" "distinct (mg_applied m)"
    and "Reconcile ord desired m w = ((e, m'), w')"
  shows "mg_fw m' = mg_fw m \<and> distinct (mg_applied m')
    \<and> (set (mg_applied m) \<inter> desired_keys desired \<subseteq> set (mg_applied m'))
    \<and> set (mg_applied m') \<subseteq> set (mg_applied m) \<union> desired_keys desired
    \<and> (e = None \<longrightarrow> set (mg_applied m') = desired_keys desired)"
proof -
  let ?gone = "\<lambda>k. k \<notin> desired_keys desired"
  obtain e1 m1 w1 where c: "cancel_keys ?gone (ord (mg_applied m)) m w = ((e1, m1), w1)"
    by (metis prod.collapse)
  have s: "set (ord (mg_applied m)) = set (mg_applied m)" using assms(1) by (metis mset_eq_setD)
  note any = cancel_keys_any [OF c]
  show ?thesis
  proof (cases e1)
    case (Some x)
    with assms(3) c have "m' = m1" "e = Some x" by (auto simp: Reconcile_def)
    with any assms(2) show ?thesis by auto
  next
    case None
    then have a: "apply_desired desired m1 w1 = ((e, m'), w')"
      using assms(3) c by (simp add: Reconcile_def)
    have "mg_applied m1 = filter (\<lambda>k. \<not> (?gone k \<and> k \<in> set (ord (mg_applied m)))) (mg_applied m)"
      using cancel_keys_ok [OF c [unfolded None]] by blast
    then have m1: "set (mg_applied m1) = set (mg_applied m) \<inter> desired_keys desired"
      using s by auto
    from apply_desired_any [OF a] any assms(2) m1 show ?thesis by auto
  qed
qed


section \<open>A concrete ssh host\<close>

text \<open>
  The state is the list of forwarded local ports. \<open>ssh -O forward\<close> and \<open>cancel\<close> change it,
  \<open>ss -ltn\<close> prints one line \<open>:port\<close> for each.
\<close>

definition argv_port :: "string list \<Rightarrow> nat" where
  "argv_port argv = (case index_byte (CHR '':'') (argv ! 4) of
     None \<Rightarrow> 0 | Some i \<Rightarrow> (case parse_uint 10 16 (take i (argv ! 4)) of None \<Rightarrow> 0 | Some p \<Rightarrow> p))"

definition out_of :: "string \<Rightarrow> run_out" where
  "out_of s = \<lparr>ro_stdout = s, ro_stderr = [], ro_code = 0, ro_err = None\<rparr>"

definition host_run :: "u16 list runner" where
  "host_run argv w =
     (if take 3 argv = [''ssh'', ''-O'', ''forward''] then
        (out_of [], List.insert (word_of_nat (argv_port argv)) w)
      else if take 3 argv = [''ssh'', ''-O'', ''cancel''] then
        (out_of [], removeAll (word_of_nat (argv_port argv)) w)
      else (out_of (join_with ''\<newline>'' (map (\<lambda>p. '':'' @ show_nat (unat p)) w)), w))"

definition host_fw :: "u16 list Forwarder" where
  "host_fw = \<lparr>fw_path = ''/run/m.sock'', fw_host = ''box'', fw_run = host_run,
     fw_stat = (\<lambda>_ _. True), fw_remove = (\<lambda>_ w. w)\<rparr>"

lemma argv_port_apply: "argv_port (apply_argv f p) = unat p" "argv_port (cancel_argv f p) = unat p"
proof -
  have "index_byte (CHR '':'') (forward_spec p) = Some (length (show_nat (unat p)))"
    using index_byte_append [OF show_nat_no_colon, of "unat p"] by (simp add: forward_spec_def)
  moreover have "parse_uint 10 16 (show_nat (unat p)) = Some (unat p)"
    by (intro parse_uint_show_nat) simp
  ultimately show "argv_port (apply_argv f p) = unat p" "argv_port (cancel_argv f p) = unat p"
    by (simp_all add: argv_port_def apply_argv_def cancel_argv_def forward_spec_def)
qed

lemma host_calls:
  "fw_Apply host_fw p w = (None, List.insert p w)"
  "fw_Cancel host_fw p w = (None, removeAll p w)"
proof -
  have "take 3 (apply_argv host_fw p) = [''ssh'', ''-O'', ''forward'']"
    "take 3 (cancel_argv host_fw p) = [''ssh'', ''-O'', ''cancel'']"
    by (simp_all add: apply_argv_def cancel_argv_def)
  then show "fw_Apply host_fw p w = (None, List.insert p w)"
    "fw_Cancel host_fw p w = (None, removeAll p w)"
    by (simp_all add: fw_Apply_def fw_Cancel_def host_fw_def host_run_def argv_port_apply [unfolded host_fw_def]
        out_of_def)
qed

lemma single_hit:
  "'':'' @ show_nat m = pre @ '':'' @ show_nat n @ post \<and> not_digit_first post \<longleftrightarrow>
     pre = [] \<and> post = [] \<and> m = n"
proof (intro iffI conjI; (elim conjE)?)
  assume e: "'':'' @ show_nat m = pre @ '':'' @ show_nat n @ post" and d: "not_digit_first post"
  show pre: "pre = []"
  proof (rule ccontr)
    assume "pre \<noteq> []"
    with e obtain cs where "show_nat m = cs @ '':'' @ show_nat n @ post" by (cases pre) auto
    then have "CHR '':'' \<in> set (show_nat m)" by simp
    then show False using show_nat_no_colon by blast
  qed
  with e have sm: "show_nat m = show_nat n @ post" by simp
  show post: "post = []"
  proof (rule ccontr)
    assume "post \<noteq> []"
    then obtain c cs where c: "post = c # cs" by (cases post) auto
    then have "c \<in> set (show_nat m)" using sm by simp
    then have "48 \<le> (of_char c :: nat) \<and> (of_char c :: nat) \<le> 57"
      using show_nat_chars digit_char_props(4,5) by metis
    with d c show False by (simp add: not_digit_first_def)
  qed
  from sm post show "m = n" by simp
next
  assume "pre = []" "post = []" "m = n"
  then show "'':'' @ show_nat m = pre @ '':'' @ show_nat n @ post" by simp
  show "not_digit_first post" using \<open>post = []\<close> by (simp add: not_digit_first_def)
qed

lemma host_line:
  "(\<exists>pre post. not_digit_first post \<and>
        ('':'' @ show_nat m = pre @ '':'' @ show_nat n @ post
         \<or> GoStrings.fields ('':'' @ show_nat m) \<noteq> []
           \<and> last (GoStrings.fields ('':'' @ show_nat m)) = ''LISTEN''
           \<and> '':'' @ show_nat m = pre @ ''.'' @ show_nat n @ post)) \<longleftrightarrow> m = n"
proof -
  have "GoStrings.fields ('':'' @ show_nat m) = ['':'' @ show_nat m]"
    using show_nat_no_space by (intro fields_single) (auto simp: is_space_def)
  then have "last (GoStrings.fields ('':'' @ show_nat m)) \<noteq> ''LISTEN''" by simp
  then show ?thesis using single_hit by blast
qed

lemma host_output:
  "portInOutput (join_with ''\<newline>'' (map (\<lambda>p. '':'' @ show_nat (unat p)) w)) p \<longleftrightarrow> p \<in> set w"
proof (cases "w = []")
  case True
  then show ?thesis
    by (simp add: portInOutput_def list_ex_iff matchDotPort_def matchColonPort_def find_port.simps Let_def)
next
  case False
  have nl: "CHR ''\<newline>'' \<notin> set (show_nat n)" for n
    using show_nat_no_space space_char(2) by blast
  have s: "split_on (CHR ''\<newline>'') (join_with ''\<newline>'' (map (\<lambda>p. '':'' @ show_nat (unat p)) w))
      = map (\<lambda>p. '':'' @ show_nat (unat p)) w"
    using False nl by (intro split_on_join) auto
  show ?thesis
    unfolding portInOutput_iff s set_map bex_simps(7) host_line
    by (metis word_unat_eq_iff)
qed

lemma host_present: "fw_Present host_fw p w = (Inr (p \<in> set w), w)"
  using host_output [of w p] by (simp add: fw_Present_def host_fw_def host_run_def out_of_def)

section \<open>The forwards behind the manager's set\<close>

text \<open>
  What ssh promises: an accepted forward makes the local port served and disturbs no other,
  cancelling affects that port only, and the probe tells whether the port is served.
\<close>

locale forwarding =
  fixes fw :: "'w Forwarder"
    and served :: "'w \<Rightarrow> u16 set"
  assumes apply_serves: "fw_Apply fw p w = (None, w') \<Longrightarrow> insert p (served w) \<subseteq> served w'"
    and cancel_local: "fw_Cancel fw p w = (None, w') \<Longrightarrow> served w - {p} \<subseteq> served w'"
    and probe: "fw_Present fw p w = (r, w') \<Longrightarrow> served w' = served w \<and> (\<forall>b. r = Inr b \<longrightarrow> b = (p \<in> served w))"
begin

definition backed :: "fwd_key set \<Rightarrow> 'w \<Rightarrow> bool" where
  "backed ks w \<longleftrightarrow> snd ` ks \<subseteq> served w"

lemma cancel_keys_backed:
  "cancel_keys gone ks m w = ((None, m'), w') \<Longrightarrow> mg_fw m = fw \<Longrightarrow> backed K w \<Longrightarrow>
     \<forall>k \<in> set ks. gone k \<longrightarrow> snd k \<notin> snd ` K \<Longrightarrow> backed K w'"
proof (induction ks arbitrary: m w)
  case (Cons k ks)
  show ?case
  proof (cases "gone k")
    case True
    with Cons.prems(1,2) obtain w1 where c: "fw_Cancel fw (snd k) w = (None, w1)"
      and r: "cancel_keys gone ks (m\<lparr>mg_applied := removeAll k (mg_applied m)\<rparr>) w1 = ((None, m'), w')"
      by (auto split: prod.splits option.splits)
    have "snd k \<notin> snd ` K" using Cons.prems(4) True by simp
    moreover have "snd ` K \<subseteq> served w" using Cons.prems(3) by (simp only: backed_def)
    ultimately have "snd ` K \<subseteq> served w - {snd k}" by blast
    then have "backed K w1" unfolding backed_def by (rule subset_trans [OF _ cancel_local [OF c]])
    then show ?thesis using Cons.prems(2,4) by (intro Cons.IH [OF r]) simp_all
  next
    case False
    with Cons.prems(1) have "cancel_keys gone ks m w = ((None, m'), w')" by simp
    then show ?thesis by (rule Cons.IH) (use Cons.prems in auto)
  qed
qed simp

lemma apply_desired_backed:
  "apply_desired ls m w = ((None, m'), w') \<Longrightarrow> mg_fw m = fw \<Longrightarrow>
     backed (set (mg_applied m)) w \<Longrightarrow> backed (set (mg_applied m')) w'"
proof (induction ls arbitrary: m w)
  case (Cons l ls)
  show ?case
  proof (cases "running l \<and> key_of l \<notin> set (mg_applied m)")
    case False
    then have "apply_desired ls m w = ((None, m'), w')" using Cons.prems(1) by (auto split: if_splits)
    then show ?thesis by (rule Cons.IH) (use Cons.prems in auto)
  next
    case True
    let ?m = "m\<lparr>mg_applied := mg_applied m @ [key_of l]\<rparr>"
    obtain p w1 where p: "fw_Present fw (l_port l) w = (p, w1)" by fastforce
    note pr = probe [OF p]
    obtain v where r: "apply_desired ls ?m v = ((None, m'), w')"
      and v: "v = w1 \<and> p = Inr True \<or> fw_Apply fw (l_port l) w1 = (None, v)"
      using Cons.prems(1,2) True p by (auto split: sum.splits prod.splits option.splits if_splits)
    have "backed (set (mg_applied ?m)) v"
      using v pr Cons.prems(3) apply_serves [of "l_port l" w1 v] by (auto simp: backed_def key_of_def)
    then show ?thesis by (intro Cons.IH [OF r]) (use Cons.prems in simp)
  qed
qed simp

lemma reconcile_backed:
  assumes "\<And>xs. mset (ord xs) = mset xs" "mg_fw m = fw" "backed (set (mg_applied m)) w"
    and "\<And>k k'. k \<in> set (mg_applied m) \<Longrightarrow> k' \<in> set (mg_applied m) \<inter> desired_keys desired \<Longrightarrow>
           snd k = snd k' \<Longrightarrow> k = k'"
    and "Reconcile ord desired m w = ((None, m'), w')"
  shows "backed (set (mg_applied m')) w'"
proof -
  let ?gone = "\<lambda>k. k \<notin> desired_keys desired"
  obtain m1 w1 where c: "cancel_keys ?gone (ord (mg_applied m)) m w = ((None, m1), w1)"
    and a: "apply_desired desired m1 w1 = ((None, m'), w')"
    using assms(5) by (auto simp: Reconcile_def split: prod.splits option.splits)
  have s: "set (ord (mg_applied m)) = set (mg_applied m)" using assms(1) by (metis mset_eq_setD)
  have m1: "set (mg_applied m1) = set (mg_applied m) \<inter> desired_keys desired" "mg_fw m1 = fw"
    using cancel_keys_ok [OF c] s assms(2) by auto
  have "backed (set (mg_applied m1)) w1"
  proof (rule cancel_keys_backed [OF c assms(2)])
    show "backed (set (mg_applied m1)) w" using assms(3) m1 by (auto simp: backed_def)
    show "\<forall>k \<in> set (ord (mg_applied m)). ?gone k \<longrightarrow> snd k \<notin> snd ` set (mg_applied m1)"
      using assms(4) s m1 by blast
  qed
  then show ?thesis by (rule apply_desired_backed [OF a m1(2)])
qed

end

interpretation host: forwarding host_fw set
proof unfold_locales
  fix p :: u16 and w w' :: "u16 list"
  show "fw_Apply host_fw p w = (None, w') \<Longrightarrow> insert p (set w) \<subseteq> set w'"
    by (simp add: host_calls) (metis in_set_insert insert_subset list.set_intros order_refl set_insert)
  show "fw_Cancel host_fw p w = (None, w') \<Longrightarrow> set w - {p} \<subseteq> set w'"
    by (simp add: host_calls) (metis order_refl set_removeAll)
next
  fix p :: u16 and w w' r
  assume "fw_Present host_fw p w = (r, w')"
  then have "r = Inr (p \<in> set w)" "w' = w" by (auto simp: host_present)
  then show "set w' = set w \<and> (\<forall>b. r = Inr b \<longrightarrow> b = (p \<in> set w))" by simp
qed


definition lst :: "string \<Rightarrow> u16 \<Rightarrow> Listener" where
  "lst sb p = \<lparr>l_port = p, l_addr = ''0.0.0.0'',
     l_sandbox = \<lparr>ref_id = sb, ref_project = ''p'', ref_name = sb, ref_status = StRunning\<rparr>\<rparr>"

lemma lst_simps [simp]: "running (lst sb p)" "key_of (lst sb p) = (sb, p)" "l_port (lst sb p) = p"
  by (simp_all add: lst_def running_def key_of_def)



text \<open>
  C37: sandboxes that share a port. With ports of one number recorded for two sandboxes, of
  which only the second is still desired, \<open>Reconcile\<close> cancels the forward both share and does
  not apply it again: it succeeds, records the desired key, and the port is no longer served.
\<close>

theorem shared_port_dropped:
  assumes "a \<noteq> b"
  shows "Reconcile id [lst b p] \<lparr>mg_fw = host_fw, mg_applied = [(a, p), (b, p)]\<rparr> [p]
    = ((None, \<lparr>mg_fw = host_fw, mg_applied = [(b, p)]\<rparr>), [])"
  using assms by (simp add: Reconcile_def desired_keys_def host_calls)

theorem shared_port_dropped_witness:
  "Reconcile id [lst ''b'' 80] \<lparr>mg_fw = host_fw, mg_applied = [(''a'', 80), (''b'', 80)]\<rparr> [80]
    = ((None, \<lparr>mg_fw = host_fw, mg_applied = [(''b'', 80)]\<rparr>), [])"
  by (rule shared_port_dropped) simp

end
