(* ===== verification/CredMount.thy ===== *)
theory CredMount
  imports CoreRuntime
begin

text \<open>
  \<open>internal/core/credmount/mount.go\<close>: which host paths may be mounted into a sandbox, with what
  it uses of \<open>path/filepath\<close> on Unix (IsAbs, Clean, Join). \<open>os.UserHomeDir\<close> is the value of HOME,
  empty when it is not set; \<open>filepath.EvalSymlinks\<close> is the parameter \<open>eval\<close> (\<open>None\<close>: an error).
\<close>

section \<open>path/filepath\<close>

definition IsAbs :: "string \<Rightarrow> bool" where
  "IsAbs p = has_prefix p ''/''"

text \<open>One element of the path on the stack of elements kept so far (last one first).\<close>

definition clean_elem :: "bool \<Rightarrow> string \<Rightarrow> string list \<Rightarrow> string list" where
  "clean_elem rooted e st =
     (if e = [] \<or> e = ''.'' then st
      else if e = ''..'' then
        (case st of
           [] \<Rightarrow> if rooted then [] else [''..'']
         | t # ts \<Rightarrow> if t = ''..'' then ''..'' # st else ts)
      else e # st)"

definition elements :: "string \<Rightarrow> string list" where
  "elements p = rev (fold (clean_elem (IsAbs p)) (split_on (CHR ''/'') p) [])"

definition Clean :: "string \<Rightarrow> string" where
  "Clean p =
     (if IsAbs p then ''/'' @ join_with ''/'' (elements p)
      else if elements p = [] then ''.'' else join_with ''/'' (elements p))"

definition filepath_Join :: "string list \<Rightarrow> string" where
  "filepath_Join es =
     (case filter (\<lambda>e. e \<noteq> []) es of [] \<Rightarrow> [] | ds \<Rightarrow> Clean (join_with ''/'' ds))"

section \<open>The check\<close>

datatype path_error = RelativePath | ProtectedCredentialPath

definition protectedDir :: "string \<Rightarrow> string" where
  "protectedDir home = filepath_Join [home, ''.claude'']"

definition inside :: "string \<Rightarrow> string \<Rightarrow> bool" where
  "inside dir p \<longleftrightarrow> p = dir \<or> has_prefix p (dir @ ''/'')"

definition checkPath :: "string \<Rightarrow> (string \<Rightarrow> string option) \<Rightarrow> string \<Rightarrow> path_error option" where
  "checkPath home eval p =
     (if \<not> IsAbs p then Some RelativePath
      else (let cleaned = Clean p; protected = protectedDir home in
            if inside protected cleaned then Some ProtectedCredentialPath
            else (case eval cleaned of
                    Some resolved \<Rightarrow> if inside protected resolved then Some ProtectedCredentialPath else None
                  | None \<Rightarrow> None)))"

definition mount_at :: "string \<Rightarrow> string \<Rightarrow> bool \<Rightarrow> Mount" where
  "mount_at host guest ro = \<lparr>mnt_host = host, mnt_guest = guest, mnt_readonly = ro,
     mnt_noexec = False, mnt_nosuid = False, mnt_nodev = False\<rparr>"

definition FileMount ::
  "string \<Rightarrow> (string \<Rightarrow> string option) \<Rightarrow> string \<Rightarrow> string \<Rightarrow> bool \<Rightarrow> path_error + Mount" where
  "FileMount home eval hostPath guestPath readOnly =
     (case checkPath home eval hostPath of
        Some e \<Rightarrow> Inl e | None \<Rightarrow> Inr (mount_at hostPath guestPath readOnly))"

definition DirMount ::
  "string \<Rightarrow> (string \<Rightarrow> string option) \<Rightarrow> string \<Rightarrow> string \<Rightarrow> bool \<Rightarrow> path_error + Mount" where
  "DirMount home eval hostDir guestDir readOnly =
     (case checkPath home eval hostDir of
        Some e \<Rightarrow> Inl e | None \<Rightarrow> Inr (mount_at hostDir guestDir readOnly))"

section \<open>Lemmas\<close>

lemma split_on_pieces: "e \<in> set (split_on c s) \<Longrightarrow> c \<notin> set e"
  by (induction s arbitrary: e) (auto split: if_splits list.splits)

text \<open>The elements of an absolute path are proper names.\<close>

definition proper :: "string \<Rightarrow> bool" where
  "proper e \<longleftrightarrow> e \<noteq> [] \<and> e \<noteq> ''.'' \<and> e \<noteq> ''..'' \<and> CHR ''/'' \<notin> set e"

lemma clean_elem_proper:
  assumes "\<forall>x \<in> set st. proper x" "CHR ''/'' \<notin> set e"
  shows "\<forall>x \<in> set (clean_elem True e st). proper x"
proof (cases "e = [] \<or> e = ''.'' \<or> e = ''..''")
  case True
  with assms(1) show ?thesis by (cases st) (auto simp: clean_elem_def)
next
  case False
  with assms show ?thesis by (auto simp: clean_elem_def proper_def)
qed

lemma fold_clean_proper:
  "\<forall>e \<in> set es. CHR ''/'' \<notin> set e \<Longrightarrow> \<forall>x \<in> set st. proper x \<Longrightarrow>
     \<forall>x \<in> set (fold (clean_elem True) es st). proper x"
proof (induction es arbitrary: st)
  case (Cons e es)
  then have "\<forall>x \<in> set (clean_elem True e st). proper x" by (intro clean_elem_proper) simp_all
  with Cons show ?case by simp
qed simp

lemma elements_proper:
  assumes "IsAbs p"
  shows "\<forall>e \<in> set (elements p). proper e"
  using fold_clean_proper [of "split_on (CHR ''/'') p" "[]"] split_on_pieces assms
  by (simp add: elements_def)

lemma fold_clean_id:
  "\<forall>e \<in> set es. proper e \<Longrightarrow> fold (clean_elem r) es st = rev es @ st"
  by (induction es arbitrary: st) (auto simp: clean_elem_def proper_def)

lemma split_on_clean:
  assumes "\<forall>e \<in> set es. proper e" "es \<noteq> []"
  shows "split_on (CHR ''/'') (join_with ''/'' es) = es"
  using assms by (intro split_on_join) (auto simp: proper_def)

lemma elements_of_clean:
  assumes "\<forall>e \<in> set es. proper e"
  shows "elements (''/'' @ join_with ''/'' es) = es"
proof (cases "es = []")
  case True
  then show ?thesis by (simp add: elements_def clean_elem_def)
next
  case False
  then have "split_on (CHR ''/'') (''/'' @ join_with ''/'' es) = [] # es"
    using split_on_clean [OF assms] by simp
  then show ?thesis
    using fold_clean_id [OF assms] by (simp add: elements_def clean_elem_def)
qed

lemma join_with_append:
  "xs \<noteq> [] \<Longrightarrow> ys \<noteq> [] \<Longrightarrow> join_with sep (xs @ ys) = join_with sep xs @ sep @ join_with sep ys"
proof (induction xs)
  case (Cons x xs)
  show ?case
  proof (cases xs)
    case Nil
    with Cons.prems(2) show ?thesis by (cases ys) simp_all
  next
    case (Cons y zs)
    with Cons.IH Cons.prems(2) show ?thesis by simp
  qed
qed simp

text \<open>For clean absolute paths, lying inside a directory is a prefix of the element lists.\<close>

lemma join_prefix:
  assumes "\<forall>e \<in> set cs. proper e" "\<forall>e \<in> set ds. proper e" "ds \<noteq> []"
  shows "inside (''/'' @ join_with ''/'' ds) (''/'' @ join_with ''/'' cs) \<longleftrightarrow> prefix ds cs"
proof
  assume i: "inside (''/'' @ join_with ''/'' ds) (''/'' @ join_with ''/'' cs)"
  have ne: "join_with ''/'' ds \<noteq> []"
    using assms(2,3) by (cases ds; cases "tl ds") (auto simp: proper_def)
  have cs: "cs \<noteq> []"
  proof
    assume "cs = []"
    with i ne show False by (auto simp: inside_def prefix_def)
  qed
  show "prefix ds cs"
  proof (cases "join_with ''/'' cs = join_with ''/'' ds")
    case True
    then have "cs = ds" by (metis split_on_clean assms cs)
    then show ?thesis by simp
  next
    case False
    with i obtain r where r: "join_with ''/'' cs = join_with ''/'' ds @ CHR ''/'' # r"
      by (auto simp: inside_def prefix_def)
    have "split_on c (x @ c # r) = split_on c x @ split_on c r" for c :: char and x
      by (induction x) (auto split: list.splits)
    then have "cs = ds @ split_on (CHR ''/'') r"
      using r split_on_clean [OF assms(1) cs] split_on_clean [OF assms(2,3)] by metis
    then show ?thesis by simp
  qed
next
  assume "prefix ds cs"
  then obtain rest where cs: "cs = ds @ rest" by (auto elim: prefixE)
  show "inside (''/'' @ join_with ''/'' ds) (''/'' @ join_with ''/'' cs)"
  proof (cases rest)
    case Nil
    then show ?thesis by (simp add: cs inside_def)
  next
    case (Cons e es)
    have "join_with ''/'' (ds @ e # es) = join_with ''/'' ds @ ''/'' @ join_with ''/'' (e # es)"
      using assms(3) join_with_append [of ds "e # es"] by simp
    then show ?thesis by (simp add: cs Cons inside_def)
  qed
qed
lemma split_on_append2: "split_on c (x @ c # r) = split_on c x @ split_on c r"
  by (induction x) (auto split: list.splits)

lemma elements_below:
  assumes "IsAbs home"
  shows "elements (home @ ''/.claude'') = elements home @ [''.claude'']"
proof -
  have "split_on (CHR ''/'') (home @ ''/.claude'') = split_on (CHR ''/'') home @ [''.claude'']"
    using split_on_append2 [of "CHR ''/''" home "''.claude''"] by simp
  moreover have "IsAbs (home @ ''/.claude'')" using assms by (auto simp: IsAbs_def prefix_def)
  ultimately show ?thesis using assms by (simp add: elements_def clean_elem_def)
qed

lemma protectedDir_abs:
  assumes "IsAbs home"
  shows "protectedDir home = ''/'' @ join_with ''/'' (elements home @ [''.claude''])"
proof -
  have "home \<noteq> []" using assms by (auto simp: IsAbs_def)
  moreover have "IsAbs (home @ ''/.claude'')" using assms by (auto simp: IsAbs_def prefix_def)
  ultimately show ?thesis
    by (simp add: protectedDir_def filepath_Join_def Clean_def elements_below [OF assms])
qed

lemma inside_protected:
  assumes "IsAbs home" "IsAbs p"
  shows "inside (protectedDir home) (Clean p) \<longleftrightarrow> prefix (elements home @ [''.claude'']) (elements p)"
proof -
  have "\<forall>e \<in> set (elements home @ [''.claude'']). proper e"
    using elements_proper [OF assms(1)] by (auto simp: proper_def)
  from join_prefix [OF elements_proper [OF assms(2)] this] show ?thesis
    by (simp add: protectedDir_abs [OF assms(1)] Clean_def assms(2))
qed



text \<open>
  without HOME there is no protection. When HOME is not set the protected directory is the
  relative path \<open>.claude\<close>, so every absolute path is accepted whose links do not resolve to a
  relative path: also one whose last element is \<open>.claude\<close>.
\<close>

theorem no_home_no_protection:
  assumes "IsAbs p" "\<And>r. eval (Clean p) = Some r \<Longrightarrow> IsAbs r"
  shows "protectedDir [] = ''.claude'' \<and> DirMount [] eval p guest ro = Inr (mount_at p guest ro)"
proof -
  have d: "protectedDir [] = ''.claude''"
    by (simp add: protectedDir_def filepath_Join_def Clean_def IsAbs_def elements_def clean_elem_def)
  have "\<not> inside ''.claude'' r" if "IsAbs r" for r
    using that by (auto simp: inside_def IsAbs_def prefix_def)
  moreover have "IsAbs (Clean p)" using assms(1) by (simp add: Clean_def IsAbs_def)
  ultimately show ?thesis using assms d
    by (auto simp: DirMount_def checkPath_def Let_def split: option.splits)
qed

theorem no_home_no_protection_witness:
  "DirMount [] (\<lambda>_. None) ''/home/u/.claude'' ''/g'' False = Inr (mount_at ''/home/u/.claude'' ''/g'' False)"
  using no_home_no_protection [of "''/home/u/.claude''" "\<lambda>_. None"] by (simp add: IsAbs_def)

end
