(* ===== verification/HerdrSpace.thy ===== *)
theory HerdrSpace
  imports GoJson
begin

text \<open>
  \<open>internal/core/herdrspace/store.go\<close>: the file that binds herdr workspaces to sandboxes. A
  mutation takes an exclusive lock, reads the file, and replaces it by renaming a temporary
  file; the readers take no lock. The file and the calls that can fail are explicit.
\<close>

section \<open>Bindings and the file\<close>

record Binding =
  bd_label :: string
  bd_workspace :: string
  bd_handle :: string
  bd_checkout :: string

definition empty_binding :: Binding where
  "empty_binding = \<lparr>bd_label = [], bd_workspace = [], bd_handle = [], bd_checkout = []\<rparr>"

definition enc_binding :: "Binding \<Rightarrow> json" where
  "enc_binding b = JObj
     ([(''space_label'', JStr (bd_label b)),
       (''herdr_workspace_id'', JStr (bd_workspace b)),
       (''sandbox_handle'', JStr (bd_handle b))]
      @ (if bd_checkout b = [] then [] else [(''checkout_path'', JStr (bd_checkout b))]))"

definition dec_binding :: "Binding decoder" where
  "dec_binding = dec_struct (\<lambda>k j b.
     if key_is ''space_label'' k then
       (let (ok, v) = dec_string j (bd_label b) in (ok, b\<lparr>bd_label := v\<rparr>))
     else if key_is ''herdr_workspace_id'' k then
       (let (ok, v) = dec_string j (bd_workspace b) in (ok, b\<lparr>bd_workspace := v\<rparr>))
     else if key_is ''sandbox_handle'' k then
       (let (ok, v) = dec_string j (bd_handle b) in (ok, b\<lparr>bd_handle := v\<rparr>))
     else if key_is ''checkout_path'' k then
       (let (ok, v) = dec_string j (bd_checkout b) in (ok, b\<lparr>bd_checkout := v\<rparr>))
     else (True, b))"

datatype bindings_file = BfAbsent | BfUnreadable | BfText jtext

datatype store_error =
    ReadFailed | UnmarshalFailed | CtxErr | MkdirErr | OpenLock | AcquireLock
  | TempErr | WriteErr | RenameErr | BindingNotFound

definition readAll :: "bindings_file \<Rightarrow> store_error + Binding list" where
  "readAll f =
     (case f of
        BfAbsent \<Rightarrow> Inr []
      | BfUnreadable \<Rightarrow> Inl ReadFailed
      | BfText t \<Rightarrow>
          (case unmarshal (dec_slice dec_binding empty_binding) [] t of
             None \<Rightarrow> Inl UnmarshalFailed
           | Some bs \<Rightarrow> Inr bs))"

text \<open>
  The answers of the calls that may fail: the context, MkdirAll, opening and taking the lock,
  the temporary file (create, chmod), writing and closing it, and the rename.
\<close>

record io =
  io_ctx :: bool
  io_mkdir :: bool
  io_open :: bool
  io_flock :: bool
  io_temp :: bool
  io_write :: bool
  io_rename :: bool

definition io_ok :: io where
  "io_ok = \<lparr>io_ctx = True, io_mkdir = True, io_open = True, io_flock = True, io_temp = True,
     io_write = True, io_rename = True\<rparr>"

definition writeAll :: "io \<Rightarrow> Binding list \<Rightarrow> (bindings_file, store_error option) act" where
  "writeAll io bs f =
     (if \<not> io_temp io then (Some TempErr, f)
      else if \<not> io_write io then (Some WriteErr, f)
      else if \<not> io_rename io then (Some RenameErr, f)
      else (None, BfText (JDoc (JArr (map enc_binding bs)))))"

definition withLock ::
  "io \<Rightarrow> (bindings_file, store_error option) act \<Rightarrow> (bindings_file, store_error option) act" where
  "withLock io fn f =
     (if \<not> io_ctx io then (Some CtxErr, f)
      else if \<not> io_open io then (Some OpenLock, f)
      else if \<not> io_flock io then (Some AcquireLock, f)
      else fn f)"

definition put_list :: "Binding \<Rightarrow> Binding list \<Rightarrow> Binding list" where
  "put_list b bs =
     filter (\<lambda>x. \<not> (bd_label x = bd_label b \<or> bd_handle x = bd_handle b)) bs @ [b]"

definition Put :: "io \<Rightarrow> Binding \<Rightarrow> (bindings_file, store_error option) act" where
  "Put io b f =
     (if \<not> io_mkdir io then (Some MkdirErr, f)
      else withLock io (\<lambda>f.
        (case readAll f of Inl e \<Rightarrow> (Some e, f) | Inr bs \<Rightarrow> writeAll io (put_list b bs) f)) f)"

definition space_Delete :: "io \<Rightarrow> string \<Rightarrow> (bindings_file, store_error option) act" where
  "space_Delete io label f =
     (if \<not> io_mkdir io then (Some MkdirErr, f)
      else withLock io (\<lambda>f.
        (case readAll f of
           Inl e \<Rightarrow> (Some e, f)
         | Inr bs \<Rightarrow> writeAll io (filter (\<lambda>b. bd_label b \<noteq> label) bs) f)) f)"

definition get_by :: "(Binding \<Rightarrow> string) \<Rightarrow> io \<Rightarrow> string \<Rightarrow> bindings_file \<Rightarrow> store_error + Binding" where
  "get_by key io k f =
     (if \<not> io_ctx io then Inl CtxErr
      else (case readAll f of
              Inl e \<Rightarrow> Inl e
            | Inr bs \<Rightarrow> (case find (\<lambda>b. key b = k) bs of
                          Some b \<Rightarrow> Inr b | None \<Rightarrow> Inl BindingNotFound)))"

definition GetByLabel :: "io \<Rightarrow> string \<Rightarrow> bindings_file \<Rightarrow> store_error + Binding" where
  "GetByLabel = get_by bd_label"

definition GetByWorkspaceID :: "io \<Rightarrow> string \<Rightarrow> bindings_file \<Rightarrow> store_error + Binding" where
  "GetByWorkspaceID = get_by bd_workspace"

definition GetByHandle :: "io \<Rightarrow> string \<Rightarrow> bindings_file \<Rightarrow> store_error + Binding" where
  "GetByHandle = get_by bd_handle"

definition space_List :: "io \<Rightarrow> bindings_file \<Rightarrow> store_error + Binding list" where
  "space_List io f = (if \<not> io_ctx io then Inl CtxErr else readAll f)"

section \<open>Reading back\<close>

lemma binding_keys:
  "\<not> key_is ''space_label'' ''herdr_workspace_id''" "\<not> key_is ''space_label'' ''sandbox_handle''"
  "\<not> key_is ''space_label'' ''checkout_path''" "\<not> key_is ''herdr_workspace_id'' ''sandbox_handle''"
  "\<not> key_is ''herdr_workspace_id'' ''checkout_path''" "\<not> key_is ''sandbox_handle'' ''checkout_path''"
  by (simp_all add: key_is_def lower_char_def)

lemma dec_enc_binding: "dec_binding (enc_binding b) empty_binding = (True, b)"
  by (simp add: dec_binding_def enc_binding_def dec_struct_def binding_keys dec_string_def
      empty_binding_def)

lemma readAll_written [simp]: "readAll (BfText (JDoc (JArr (map enc_binding bs)))) = Inr bs"
proof -
  have "dec_elems dec_binding empty_binding (map enc_binding bs) = (True, bs)" for bs
    by (induction bs) (simp_all add: dec_enc_binding)
  then show ?thesis by (simp add: readAll_def unmarshal_def dec_slice_def)
qed

lemma writeAll_result:
  "writeAll io bs f = (e, f') \<Longrightarrow> (e = None \<and> readAll f' = Inr bs) \<or> (e \<noteq> None \<and> f' = f)"
  by (auto simp: writeAll_def split: if_splits)

section \<open>The store of bindings as an interface\<close>

text \<open>
  What the callers rely on: a store holds a list of bindings (when it is readable), \<open>put\<close> and
  \<open>delete\<close> either change that list as stated or report an error and change nothing.
\<close>

locale binding_store =
  fixes contents :: "'s \<Rightarrow> Binding list option"
    and put :: "'i \<Rightarrow> Binding \<Rightarrow> ('s, 'e option) act"
    and delete :: "'i \<Rightarrow> string \<Rightarrow> ('s, 'e option) act"
  assumes put_law: "put io b s = (e, s') \<Longrightarrow>
      (e = None \<and> (\<exists>bs. contents s = Some bs \<and> contents s' = Some (put_list b bs))) \<or> (e \<noteq> None \<and> s' = s)"
    and delete_law: "delete io l s = (e, s') \<Longrightarrow>
      (e = None \<and> (\<exists>bs. contents s = Some bs \<and> contents s' = Some (filter (\<lambda>b. bd_label b \<noteq> l) bs)))
      \<or> (e \<noteq> None \<and> s' = s)"
begin

definition one_to_one :: "'s \<Rightarrow> bool" where
  "one_to_one s \<longleftrightarrow> (\<forall>bs. contents s = Some bs \<longrightarrow> distinct (map bd_label bs) \<and> distinct (map bd_handle bs))"

lemma put_one_to_one:
  assumes "one_to_one s" "put io b s = (e, s')"
  shows "one_to_one s'"
  using put_law [OF assms(2)] assms(1)
  by (auto simp: one_to_one_def put_list_def distinct_map_filter)

lemma delete_one_to_one:
  assumes "one_to_one s" "delete io l s = (e, s')"
  shows "one_to_one s'"
  using delete_law [OF assms(2)] assms(1)
  by (auto simp: one_to_one_def distinct_map_filter)

fun put_all :: "('i \<times> Binding) list \<Rightarrow> 's \<Rightarrow> 'e option list \<times> 's" where
  "put_all [] s = ([], s)"
| "put_all ((io, b) # rest) s =
     (case put io b s of (e, s1) \<Rightarrow> (case put_all rest s1 of (es, s2) \<Rightarrow> (e # es, s2)))"

lemma put_all_keeps:
  assumes "put_all ps s = (es, s')" "contents s = Some bs" "x \<in> set bs"
    and "\<forall>(io, b) \<in> set ps. bd_label x \<noteq> bd_label b \<and> bd_handle x \<noteq> bd_handle b"
  shows "\<exists>bs'. contents s' = Some bs' \<and> x \<in> set bs'"
  using assms
proof (induction ps arbitrary: s bs es)
  case (Cons p ps)
  obtain io b where p: "p = (io, b)" by fastforce
  obtain e s1 where put: "put io b s = (e, s1)" by fastforce
  obtain es1 where rest: "put_all ps s1 = (es1, s')" using Cons.prems(1) p put by (auto split: prod.splits)
  have "\<exists>bs1. contents s1 = Some bs1 \<and> x \<in> set bs1"
    using put_law [OF put] Cons.prems(2-4) p by (auto simp: put_list_def)
  then show ?case using Cons.IH [OF rest] Cons.prems(4) by auto
qed auto

text \<open>Puts of bindings that agree in no key all survive, in whatever order they are done.\<close>

lemma put_all_present:
  assumes "put_all ps s = (es, s')" "\<forall>e \<in> set es. e = None"
    and "distinct (map (bd_label \<circ> snd) ps)" "distinct (map (bd_handle \<circ> snd) ps)"
    and "(io, b) \<in> set ps"
  shows "\<exists>bs'. contents s' = Some bs' \<and> b \<in> set bs'"
  using assms
proof (induction ps arbitrary: s es)
  case (Cons p ps)
  obtain io0 b0 where p: "p = (io0, b0)" by fastforce
  obtain e s1 where put: "put io0 b0 s = (e, s1)" by fastforce
  obtain es1 where rest: "put_all ps s1 = (es1, s')" and es: "es = e # es1"
    using Cons.prems(1) p put by (auto split: prod.splits)
  show ?case
  proof (cases "(io, b) = p")
    case False
    with Cons.prems es show ?thesis by (intro Cons.IH [OF rest]) auto
  next
    case True
    then obtain bs1 where "contents s1 = Some bs1" "b \<in> set bs1"
      using put_law [OF put] Cons.prems(2) es p by (auto simp: put_list_def)
    moreover have "\<forall>(io', b') \<in> set ps. bd_label b \<noteq> bd_label b' \<and> bd_handle b \<noteq> bd_handle b'"
      using Cons.prems(3,4) True by force
    ultimately show ?thesis by (intro put_all_keeps [OF rest])
  qed
qed simp

end

definition stored :: "bindings_file \<Rightarrow> Binding list option" where
  "stored f = (case readAll f of Inl _ \<Rightarrow> None | Inr bs \<Rightarrow> Some bs)"

interpretation space: binding_store stored Put space_Delete
proof unfold_locales
  fix io b f e f'
  assume "Put io b f = (e, f')"
  then show "(e = None \<and> (\<exists>bs. stored f = Some bs \<and> stored f' = Some (put_list b bs))) \<or> (e \<noteq> None \<and> f' = f)"
    by (auto simp: Put_def withLock_def stored_def split: if_splits sum.splits dest!: writeAll_result)
next
  fix io l f e f'
  assume "space_Delete io l f = (e, f')"
  then show "(e = None \<and> (\<exists>bs. stored f = Some bs \<and> stored f' = Some (filter (\<lambda>b. bd_label b \<noteq> l) bs)))
      \<or> (e \<noteq> None \<and> f' = f)"
    by (auto simp: space_Delete_def withLock_def stored_def split: if_splits sum.splits dest!: writeAll_result)
qed

section \<open>Properties of the store\<close>

lemma stored_list: "stored f = Some bs \<longleftrightarrow> readAll f = Inr bs"
  by (auto simp: stored_def split: sum.splits)

lemma find_put_list:
  "find (\<lambda>x. bd_label x = bd_label b) (put_list b bs) = Some b"
  "find (\<lambda>x. bd_handle x = bd_handle b) (put_list b bs) = Some b"
  by (induction bs) (auto simp: put_list_def)

datatype store_op = OpPut io Binding | OpDelete io string

fun store_step :: "store_op \<Rightarrow> bindings_file \<Rightarrow> bindings_file" where
  "store_step (OpPut io b) f = snd (Put io b f)"
| "store_step (OpDelete io l) f = snd (space_Delete io l f)"

lemma store_step_one_to_one: "space.one_to_one f \<Longrightarrow> space.one_to_one (store_step p f)"
  by (cases p) (auto intro: space.put_one_to_one space.delete_one_to_one prod.collapse [symmetric])

lemma store_run_one_to_one: "space.one_to_one f \<Longrightarrow> space.one_to_one (fold store_step ps f)"
  by (induction ps arbitrary: f) (auto intro: store_step_one_to_one)

lemma find_unique:
  "distinct (map key bs) \<Longrightarrow> b \<in> set bs \<Longrightarrow> find (\<lambda>x. key x = key b) bs = Some b"
  by (induction bs) auto

text \<open>A successful Put replaces exactly the bindings that share its label or its sandbox,
  keeps the others in order, and is what the lookups by its label and by its sandbox return.\<close>

theorem put_then_found:
  assumes "Put io b f = (None, f')" "io_ctx io'"
  shows "GetByLabel io' (bd_label b) f' = Inr b \<and> GetByHandle io' (bd_handle b) f' = Inr b \<and>
    (\<exists>bs. space_List io' f = Inr bs \<and>
      space_List io' f' = Inr (filter (\<lambda>x. bd_label x \<noteq> bd_label b \<and> bd_handle x \<noteq> bd_handle b) bs @ [b]))"
proof -
  obtain bs where bs: "readAll f = Inr bs" "readAll f' = Inr (put_list b bs)"
    using space.put_law [OF assms(1)] by (auto simp: stored_list)
  then show ?thesis
    using assms(2) by (simp add: GetByLabel_def GetByHandle_def get_by_def find_put_list
        space_List_def) (simp add: put_list_def)
qed

definition bind :: "string \<Rightarrow> string \<Rightarrow> string \<Rightarrow> Binding" where
  "bind l w h = \<lparr>bd_label = l, bd_workspace = w, bd_handle = h, bd_checkout = []\<rparr>"

lemma Put_absent: "Put io_ok b BfAbsent = (None, BfText (JDoc (JArr [enc_binding b])))"
  by (simp add: Put_def withLock_def io_ok_def readAll_def writeAll_def put_list_def)

lemma Put_present:
  "Put io_ok b (BfText (JDoc (JArr (map enc_binding bs)))) =
     (None, BfText (JDoc (JArr (map enc_binding (put_list b bs)))))"
  by (simp add: Put_def withLock_def io_ok_def writeAll_def)

theorem put_then_found_witness:
  "GetByLabel io_ok ''app'' (snd (Put io_ok (bind ''app'' ''w1'' ''herdr/app'') BfAbsent))
     = Inr (bind ''app'' ''w1'' ''herdr/app'')"
  using put_then_found [of io_ok "bind ''app'' ''w1'' ''herdr/app''" BfAbsent _ io_ok] Put_absent
  by (simp add: bind_def io_ok_def)

text \<open>C9: Whatever puts and deletes are done from a missing file, whichever of their system
  calls fail, a file that can be read holds each label once and each sandbox once, so that
  every binding it holds is found by its label and by its sandbox.\<close>

theorem store_stays_one_to_one:
  assumes "io_ctx io" "space_List io (fold store_step ps BfAbsent) = Inr bs"
  shows "distinct (map bd_label bs) \<and> distinct (map bd_handle bs) \<and>
    (\<forall>b \<in> set bs. GetByLabel io (bd_label b) (fold store_step ps BfAbsent) = Inr b \<and>
       GetByHandle io (bd_handle b) (fold store_step ps BfAbsent) = Inr b)"
proof -
  have "space.one_to_one BfAbsent" by (simp add: space.one_to_one_def stored_def readAll_def)
  then have "space.one_to_one (fold store_step ps BfAbsent)" by (rule store_run_one_to_one)
  moreover have r: "readAll (fold store_step ps BfAbsent) = Inr bs"
    using assms by (simp add: space_List_def)
  ultimately have d: "distinct (map bd_label bs)" "distinct (map bd_handle bs)"
    by (simp_all add: space.one_to_one_def stored_def)
  then show ?thesis
    using assms(1) r find_unique [of bd_label bs] find_unique [of bd_handle bs]
    by (simp add: GetByLabel_def GetByHandle_def get_by_def)
qed

theorem store_stays_one_to_one_witness:
  "GetByHandle io_ok ''h'' (fold store_step
      [OpPut io_ok (bind ''a'' ''v'' ''h''), OpPut io_ok (bind ''b'' ''w'' ''h'')] BfAbsent)
    = Inr (bind ''b'' ''w'' ''h'')"
proof -
  have "fold store_step [OpPut io_ok (bind ''a'' ''v'' ''h''), OpPut io_ok (bind ''b'' ''w'' ''h'')] BfAbsent
      = BfText (JDoc (JArr (map enc_binding [bind ''b'' ''w'' ''h''])))"
    using Put_absent Put_present [of _ "[bind ''a'' ''v'' ''h'']"] by (simp add: put_list_def bind_def)
  then show ?thesis
    using store_stays_one_to_one [of io_ok
      "[OpPut io_ok (bind ''a'' ''v'' ''h''), OpPut io_ok (bind ''b'' ''w'' ''h'')]"
      "[bind ''b'' ''w'' ''h'']"] readAll_written [of "[bind ''b'' ''w'' ''h'']"]
    by (simp add: space_List_def io_ok_def bind_def)
qed



text \<open>The workspace id is not a key of the store: after two successful puts of different
  labels and sandboxes for one workspace, both stay, and the lookup by workspace id returns
  the older of the two.\<close>

theorem workspace_lookup_is_stale:
  assumes "bd_label b \<noteq> bd_label c" "bd_handle b \<noteq> bd_handle c" "bd_workspace b = bd_workspace c"
    and "io_ctx io"
  shows "space_List io (snd (Put io_ok c (snd (Put io_ok b BfAbsent)))) = Inr [b, c]
    \<and> GetByWorkspaceID io (bd_workspace c) (snd (Put io_ok c (snd (Put io_ok b BfAbsent)))) = Inr b"
proof -
  have "snd (Put io_ok c (snd (Put io_ok b BfAbsent))) = BfText (JDoc (JArr (map enc_binding [b, c])))"
    using assms(1,2) Put_absent [of b] Put_present [of c "[b]"] by (simp add: put_list_def)
  then show ?thesis
    unfolding GetByWorkspaceID_def get_by_def space_List_def using assms(3,4) readAll_written [of "[b, c]"] by simp
qed

theorem workspace_lookup_is_stale_witness:
  "GetByWorkspaceID io_ok ''w'' (snd (Put io_ok (bind ''b'' ''w'' ''g'')
     (snd (Put io_ok (bind ''a'' ''w'' ''h'') BfAbsent)))) = Inr (bind ''a'' ''w'' ''h'')"
  using workspace_lookup_is_stale [of "bind ''a'' ''w'' ''h''" "bind ''b'' ''w'' ''g''" io_ok]
  by (simp add: bind_def io_ok_def)

end
