(* ===== verification/CoreService.thy ===== *)
theory CoreService
  imports CredMount MsbExec
begin

text \<open>
  \<open>internal/core/service/service.go\<close>: the operations the command line runs on sandboxes, over the
  interface \<open>runtime.Runtime\<close> of \<open>internal/core/runtime/runtime.go\<close>, which is a record of
  operations here. The contract of that interface is the locale \<open>sandbox_runtime\<close>.
\<close>

section \<open>The runtime interface\<close>

text \<open>
  \<open>List\<close> and \<open>Exec\<close> may not return (\<open>None\<close>). \<open>Exec\<close> also delivers what the command wrote to the
  two writers of the request. \<open>ri_acct\<close> is the result of the assertion
  \<open>s.RT.(admission.Accountant)\<close>.
\<close>

record ('w, 'e) runtime_if =
  ri_Create :: "SandboxSpec \<Rightarrow> ('w, 'e + SandboxRef) act"
  ri_CreateAndBoot :: "SandboxSpec \<Rightarrow> ('w, 'e + SandboxRef) act"
  ri_List :: "'w \<Rightarrow> (('e + SandboxRef list) \<times> 'w) option"
  ri_Start :: "SandboxRef \<Rightarrow> ('w, 'e + SandboxRef) act"
  ri_Stop :: "SandboxRef \<Rightarrow> ('w, 'e + SandboxRef) act"
  ri_Remove :: "SandboxRef \<Rightarrow> ('w, 'e option) act"
  ri_Exec :: "SandboxRef \<Rightarrow> ExecRequest \<Rightarrow> 'w \<Rightarrow> (('e + int) \<times> (string \<times> string) \<times> 'w) option"
  ri_acct :: "('w, string + u32) act option"

section \<open>Options and the specification made from them\<close>

record ('w, 'e) Service =
  svc_rt :: "('w, 'e) runtime_if"
  svc_project :: string
  svc_home :: string
  svc_eval :: "string \<Rightarrow> string option"
  svc_budget_env :: "string option"
  svc_meminfo :: meminfo

datatype 'e service_error =
    ErrNameRequired | ErrImageRequired | ErrMemoryTooLarge | ErrNotFound string
  | SvcPath path_error | SvcAdmission adm_error | SvcRuntime 'e

record CreateOptions =
  co_name :: string
  co_image :: string
  co_vcpus :: u32
  co_memory :: u32
  co_motive :: string
  co_worktree :: string
  co_guest_worktree :: string
  co_credential :: bool
  co_credential_path :: string
  co_guest_credential :: string
  co_ports :: "u16 list"
  co_boot :: bool

definition DefaultProject :: string where "DefaultProject = ''herdr''"
definition DefaultGuestWorktree :: string where "DefaultGuestWorktree = ''/workspace''"
definition DefaultGuestCredDir :: string where "DefaultGuestCredDir = ''/root/.claude''"
definition DefaultMemoryMiB :: u32 where "DefaultMemoryMiB = 1024"
definition MaxMemoryMiB :: u32 where "MaxMemoryMiB = MaxSandboxMemoryMiB"

definition DefaultStoreDir :: "string \<Rightarrow> string" where
  "DefaultStoreDir home = filepath_Join [home, ''.config'', ''nexus3'', ''claude-dedicated'']"

definition New_service ::
  "('w, 'e) runtime_if \<Rightarrow> string \<Rightarrow> string \<Rightarrow> (string \<Rightarrow> string option) \<Rightarrow> string option \<Rightarrow> meminfo
     \<Rightarrow> ('w, 'e) Service" where
  "New_service rt project home eval env m =
     \<lparr>svc_rt = rt, svc_project = (if project = [] then DefaultProject else project),
      svc_home = home, svc_eval = eval, svc_budget_env = env, svc_meminfo = m\<rparr>"

text \<open>The mount for a directory when it is asked for: none, one, or the path error.\<close>

definition optional_mount ::
  "('w, 'e) Service \<Rightarrow> bool \<Rightarrow> string \<Rightarrow> string \<Rightarrow> 'e service_error + Mount list" where
  "optional_mount s wanted host guest =
     (if \<not> wanted then Inr []
      else (case DirMount (svc_home s) (svc_eval s) host guest False of
              Inl e \<Rightarrow> Inl (SvcPath e) | Inr m \<Rightarrow> Inr [m]))"

definition service_Spec :: "('w, 'e) Service \<Rightarrow> CreateOptions \<Rightarrow> 'e service_error + SandboxSpec" where
  "service_Spec s opts =
     (if co_name opts = [] then Inl ErrNameRequired
      else if co_image opts = [] then Inl ErrImageRequired
      else (let mem = (if co_memory opts = 0 then DefaultMemoryMiB else co_memory opts) in
            if mem > MaxMemoryMiB then Inl ErrMemoryTooLarge
            else (case optional_mount s (co_worktree opts \<noteq> []) (co_worktree opts)
                         (if co_guest_worktree opts = [] then DefaultGuestWorktree else co_guest_worktree opts) of
                    Inl e \<Rightarrow> Inl e
                  | Inr ms1 \<Rightarrow>
                      (case optional_mount s (co_credential opts)
                              (if co_credential_path opts = [] then DefaultStoreDir (svc_home s)
                               else co_credential_path opts)
                              (if co_guest_credential opts = [] then DefaultGuestCredDir
                               else co_guest_credential opts) of
                         Inl e \<Rightarrow> Inl e
                       | Inr ms2 \<Rightarrow>
                           Inr (empty_spec\<lparr>spec_project := svc_project s, spec_name := co_name opts,
                                  spec_image := co_image opts, spec_vcpus := co_vcpus opts,
                                  spec_memory := mem, spec_motive := co_motive opts,
                                  spec_ports := co_ports opts, spec_mounts := ms1 @ ms2\<rparr>)))))"

section \<open>Operations\<close>

definition service_Create ::
  "('w, 'e) Service \<Rightarrow> CreateOptions \<Rightarrow> ('w, 'e service_error + SandboxRef) act" where
  "service_Create s opts w =
     (case service_Spec s opts of
        Inl e \<Rightarrow> (Inl e, w)
      | Inr spec \<Rightarrow>
          (case Admit (svc_budget_env s) (svc_meminfo s) (ri_acct (svc_rt s)) (spec_memory spec) w of
             (Some e, w1) \<Rightarrow> (Inl (SvcAdmission e), w1)
           | (None, w1) \<Rightarrow>
               (case (if co_boot opts then ri_CreateAndBoot (svc_rt s) spec w1
                      else ri_Create (svc_rt s) spec w1) of
                  (Inl e, w2) \<Rightarrow> (Inl (SvcRuntime e), w2)
                | (Inr ref, w2) \<Rightarrow> (Inr ref, w2))))"

definition service_List :: "('w, 'e) Service \<Rightarrow> 'w \<Rightarrow> (('e service_error + SandboxRef list) \<times> 'w) option" where
  "service_List s w =
     (case ri_List (svc_rt s) w of
        None \<Rightarrow> None
      | Some (Inl e, w1) \<Rightarrow> Some (Inl (SvcRuntime e), w1)
      | Some (Inr refs, w1) \<Rightarrow> Some (Inr refs, w1))"

definition resolves :: "('w, 'e) Service \<Rightarrow> string \<Rightarrow> SandboxRef \<Rightarrow> bool" where
  "resolves s name r \<longleftrightarrow> ref_name r = name \<and> (ref_project r = [] \<or> ref_project r = svc_project s)"

definition service_Resolve ::
  "('w, 'e) Service \<Rightarrow> string \<Rightarrow> 'w \<Rightarrow> (('e service_error + SandboxRef) \<times> 'w) option" where
  "service_Resolve s name w =
     (case ri_List (svc_rt s) w of
        None \<Rightarrow> None
      | Some (Inl e, w1) \<Rightarrow> Some (Inl (SvcRuntime e), w1)
      | Some (Inr refs, w1) \<Rightarrow>
          Some (case find (resolves s name) refs of
                  Some r \<Rightarrow> Inr r | None \<Rightarrow> Inl (ErrNotFound name), w1))"

definition service_Start ::
  "('w, 'e) Service \<Rightarrow> string \<Rightarrow> 'w \<Rightarrow> (('e service_error + SandboxRef) \<times> 'w) option" where
  "service_Start s name w =
     (case service_Resolve s name w of
        None \<Rightarrow> None
      | Some (Inl e, w1) \<Rightarrow> Some (Inl e, w1)
      | Some (Inr ref, w1) \<Rightarrow>
          (case ri_Start (svc_rt s) ref w1 of (r, w2) \<Rightarrow> Some (map_sum SvcRuntime id r, w2)))"

definition service_Stop ::
  "('w, 'e) Service \<Rightarrow> string \<Rightarrow> 'w \<Rightarrow> (('e service_error + SandboxRef) \<times> 'w) option" where
  "service_Stop s name w =
     (case service_Resolve s name w of
        None \<Rightarrow> None
      | Some (Inl e, w1) \<Rightarrow> Some (Inl e, w1)
      | Some (Inr ref, w1) \<Rightarrow>
          (case ri_Stop (svc_rt s) ref w1 of (r, w2) \<Rightarrow> Some (map_sum SvcRuntime id r, w2)))"

definition service_Remove ::
  "('w, 'e) Service \<Rightarrow> string \<Rightarrow> 'w \<Rightarrow> ('e service_error option \<times> 'w) option" where
  "service_Remove s name w =
     (case service_Resolve s name w of
        None \<Rightarrow> None
      | Some (Inl e, w1) \<Rightarrow> Some (Some e, w1)
      | Some (Inr ref, w1) \<Rightarrow>
          (case ri_Remove (svc_rt s) ref w1 of (r, w2) \<Rightarrow> Some (map_option SvcRuntime r, w2)))"

definition service_Exec ::
  "('w, 'e) Service \<Rightarrow> string \<Rightarrow> ExecRequest
     \<Rightarrow> 'w \<Rightarrow> (('e service_error + int) \<times> (string \<times> string) \<times> 'w) option" where
  "service_Exec s name req w =
     (case service_Resolve s name w of
        None \<Rightarrow> None
      | Some (Inl e, w1) \<Rightarrow> Some (Inl e, ([], []), w1)
      | Some (Inr ref, w1) \<Rightarrow>
          (case ri_Exec (svc_rt s) ref req w1 of
             None \<Rightarrow> None
           | Some (r, out, w2) \<Rightarrow> Some (map_sum SvcRuntime id r, out, w2)))"

section \<open>The contract of the runtime, and what the service makes of it\<close>

definition ref_key :: "SandboxRef \<Rightarrow> string \<times> string" where
  "ref_key r = (ref_project r, ref_name r)"

text \<open>The sandboxes of the projects other than \<open>p\<close>.\<close>

definition foreign :: "string \<Rightarrow> SandboxRef list \<Rightarrow> SandboxRef list" where
  "foreign p rs = filter (\<lambda>r. ref_project r \<noteq> [] \<and> ref_project r \<noteq> p) rs"

datatype service_op =
    SvCreate CreateOptions | SvStart string | SvStop string | SvRemove string
  | SvExec string ExecRequest | SvList

fun service_step :: "('w, 'e) Service \<Rightarrow> service_op \<Rightarrow> 'w \<Rightarrow> 'w option" where
  "service_step s (SvCreate opts) w = Some (snd (service_Create s opts w))"
| "service_step s (SvStart n) w = map_option snd (service_Start s n w)"
| "service_step s (SvStop n) w = map_option snd (service_Stop s n w)"
| "service_step s (SvRemove n) w = map_option snd (service_Remove s n w)"
| "service_step s (SvExec n req) w = map_option (snd \<circ> snd) (service_Exec s n req w)"
| "service_step s SvList w = map_option snd (service_List s w)"

fun service_run :: "('w, 'e) Service \<Rightarrow> service_op list \<Rightarrow> 'w \<Rightarrow> 'w option" where
  "service_run s [] w = Some w"
| "service_run s (p # ps) w =
     (case service_step s p w of None \<Rightarrow> None | Some w1 \<Rightarrow> service_run s ps w1)"

lemma service_Spec_project:
  "service_Spec s opts = Inr spec \<Longrightarrow> spec_project spec = svc_project s \<and> spec_name spec = co_name opts
     \<and> co_name opts \<noteq> []"
  by (auto simp: service_Spec_def Let_def split: if_splits sum.splits)

text \<open>
  A runtime that lists every sandbox once, whose create adds one sandbox of the project and name
  asked for or none, and whose other operations change no sandbox but the one they are given.
\<close>

locale sandbox_runtime =
  fixes ri :: "('w, 'e) runtime_if" and refs :: "'w \<Rightarrow> SandboxRef list" and inv :: "'w \<Rightarrow> bool"
  assumes list_law: "inv w \<Longrightarrow> ri_List ri w = Some (Inr (refs w), w)"
    and key_law: "inv w \<Longrightarrow> distinct (map ref_key (refs w))"
    and create_law: "inv w \<Longrightarrow> spec_project spec \<noteq> [] \<Longrightarrow> op \<in> {ri_Create ri, ri_CreateAndBoot ri} \<Longrightarrow>
      op spec w = (r, w') \<Longrightarrow>
      inv w' \<and> (\<exists>news. refs w' = refs w @ news \<and> (\<forall>x \<in> set news. ref_project x = spec_project spec)
                 \<and> (\<forall>ref. r = Inr ref \<longrightarrow> news = [ref] \<and> ref_name ref = spec_name spec))"
    and status_law: "inv w \<Longrightarrow> ref \<in> set (refs w) \<Longrightarrow> act \<in> {ri_Start ri, ri_Stop ri} \<Longrightarrow>
      act ref w = (r, w') \<Longrightarrow>
      inv w' \<and> filter (\<lambda>x. ref_key x \<noteq> ref_key ref) (refs w') = filter (\<lambda>x. ref_key x \<noteq> ref_key ref) (refs w)
      \<and> map ref_key (refs w') = map ref_key (refs w)"
    and remove_law: "inv w \<Longrightarrow> ref \<in> set (refs w) \<Longrightarrow> ri_Remove ri ref w = (e, w') \<Longrightarrow>
      inv w' \<and> filter (\<lambda>x. ref_key x \<noteq> ref_key ref) (refs w') = filter (\<lambda>x. ref_key x \<noteq> ref_key ref) (refs w)
      \<and> (if e = None then ref_key ref \<notin> ref_key ` set (refs w') else refs w' = refs w)"
    and exec_law: "inv w \<Longrightarrow> ri_Exec ri ref req w = Some (q, out, w') \<Longrightarrow> inv w' \<and> refs w' = refs w"
    and acct_law: "inv w \<Longrightarrow> ri_acct ri = Some a \<Longrightarrow> a w = (c, w') \<Longrightarrow> w' = w"
begin

lemma resolve_result:
  assumes "inv w" "svc_rt s = ri"
  shows "service_Resolve s name w =
    Some (case find (resolves s name) (refs w) of Some r \<Rightarrow> Inr r | None \<Rightarrow> Inl (ErrNotFound name), w)"
  using assms by (simp add: service_Resolve_def list_law)

lemma resolved:
  assumes "inv w" "svc_rt s = ri" "service_Resolve s name w = Some (Inr ref, w1)"
  shows "w1 = w \<and> ref \<in> set (refs w) \<and> resolves s name ref"
  using assms by (auto simp: resolve_result find_Some_iff split: option.splits)

lemma admit_same:
  assumes "inv w" "Admit env m (ri_acct ri) mem w = (e, w')"
  shows "w' = w"
  using assms acct_law [OF assms(1)]
  by (auto simp: Admit_def split: sum.splits option.splits prod.splits)

lemma foreign_key:
  assumes "filter (\<lambda>x. ref_key x \<noteq> k) rs' = filter (\<lambda>x. ref_key x \<noteq> k) rs" "fst k = [] \<or> fst k = p"
  shows "foreign p rs' = foreign p rs"
proof -
  have "foreign p xs = foreign p (filter (\<lambda>x. ref_key x \<noteq> k) xs)" for xs
    using assms(2) by (induction xs) (auto simp: foreign_def ref_key_def)
  then show ?thesis using assms(1) by metis
qed

lemma create_step:
  assumes "inv w" "svc_rt s = ri" "svc_project s \<noteq> []" "service_Create s opts w = (r, w')"
  shows "inv w' \<and> (\<exists>news. refs w' = refs w @ news \<and> (\<forall>x \<in> set news. ref_project x = svc_project s)
      \<and> (\<forall>ref. r = Inr ref \<longrightarrow> news = [ref] \<and> ref_name ref = co_name opts))"
proof (cases "service_Spec s opts")
  case (Inl e)
  with assms show ?thesis by (auto simp: service_Create_def)
next
  case (Inr spec)
  obtain e w1 where a: "Admit (svc_budget_env s) (svc_meminfo s) (ri_acct ri) (spec_memory spec) w = (e, w1)"
    by fastforce
  have w1: "w1 = w" by (rule admit_same [OF assms(1) a])
  let ?op = "if co_boot opts then ri_CreateAndBoot ri else ri_Create ri"
  obtain q w2 where q: "?op spec w = (q, w2)" by fastforce
  show ?thesis
  proof (cases e)
    case None
    have "inv w2 \<and> (\<exists>news. refs w2 = refs w @ news \<and> (\<forall>x \<in> set news. ref_project x = spec_project spec)
        \<and> (\<forall>ref. q = Inr ref \<longrightarrow> news = [ref] \<and> ref_name ref = spec_name spec))"
      using service_Spec_project [OF Inr] assms(3) by (intro create_law [where op = "?op"]) (auto simp: assms(1) q)
    moreover have "r = map_sum SvcRuntime id q" "w' = w2"
      using assms(2,4) Inr a w1 q None by (auto simp: service_Create_def split: if_splits sum.splits prod.splits)
    ultimately show ?thesis using service_Spec_project [OF Inr] by (cases q) auto
  next
    case (Some x)
    with assms Inr a w1 show ?thesis by (auto simp: service_Create_def)
  qed
qed

lemma step_foreign:
  assumes "inv w" "svc_rt s = ri" "svc_project s \<noteq> []" "service_step s p w = Some w'"
  shows "inv w' \<and> foreign (svc_project s) (refs w') = foreign (svc_project s) (refs w)"
proof -
  have key: "fst (ref_key ref) = [] \<or> fst (ref_key ref) = svc_project s" if "resolves s n ref" for n ref
    using that by (auto simp: resolves_def ref_key_def)
  have found: "ref \<in> set (refs w)" "resolves s n ref" if "find (resolves s n) (refs w) = Some ref" for n ref
    using that by (auto simp: find_Some_iff)
  have st: "inv v \<and> foreign (svc_project s) (refs v) = foreign (svc_project s) (refs w)"
    if "act \<in> {ri_Start ri, ri_Stop ri}" "find (resolves s n) (refs w) = Some ref" "act ref w = (r, v)"
    for act ref n r v
    using status_law [OF assms(1) found(1) [OF that(2)] that(1,3)] key [OF found(2) [OF that(2)]] foreign_key
    by blast
  have rm: "inv v \<and> foreign (svc_project s) (refs v) = foreign (svc_project s) (refs w)"
    if "find (resolves s n) (refs w) = Some ref" "ri_Remove ri ref w = (r, v)" for ref n r v
    using remove_law [OF assms(1) found(1) [OF that(1)] that(2)] key [OF found(2) [OF that(1)]] foreign_key
    by blast
  note res = resolve_result [OF assms(1,2)]
  show ?thesis
  proof (cases p)
    case (SvCreate opts)
    then have "service_Create s opts w = (fst (service_Create s opts w), w')" using assms(4) by auto
    from create_step [OF assms(1-3) this] show ?thesis by (auto simp: foreign_def)
  next
    case (SvStart n)
    then show ?thesis
      using assms st [of "ri_Start ri" n]
      by (cases "find (resolves s n) (refs w)") (auto simp: service_Start_def res split: prod.splits)
  next
    case (SvStop n)
    then show ?thesis
      using assms st [of "ri_Stop ri" n]
      by (cases "find (resolves s n) (refs w)") (auto simp: service_Stop_def res split: prod.splits)
  next
    case (SvRemove n)
    then show ?thesis
      using assms rm [of n]
      by (cases "find (resolves s n) (refs w)") (auto simp: service_Remove_def res split: prod.splits)
  next
    case (SvExec n req)
    then show ?thesis
      using assms exec_law [OF assms(1)]
      by (cases "find (resolves s n) (refs w)")
        (auto simp: service_Exec_def res split: prod.splits option.splits)
  next
    case SvList
    then show ?thesis using assms by (simp add: service_List_def list_law)
  qed
qed

lemma run_foreign:
  assumes "inv w" "svc_rt s = ri" "svc_project s \<noteq> []" "service_run s ps w = Some w'"
  shows "inv w' \<and> foreign (svc_project s) (refs w') = foreign (svc_project s) (refs w)"
  using assms
proof (induction ps arbitrary: w)
  case (Cons p ps)
  then obtain w1 where w1: "service_step s p w = Some w1" "service_run s ps w1 = Some w'"
    by (auto split: option.splits)
  from step_foreign [OF Cons.prems(1-3) w1(1)] Cons.IH [OF _ assms(2,3) w1(2)]
  show ?case by simp
qed simp

lemma created_resolves:
  assumes "inv w" "svc_rt s = ri" "svc_project s \<noteq> []" "service_Create s opts w = (Inr ref, w')"
    and "\<forall>r \<in> set (refs w). \<not> resolves s (co_name opts) r"
  shows "ref_project ref = svc_project s \<and> ref_name ref = co_name opts
    \<and> service_Resolve s (co_name opts) w' = Some (Inr ref, w')"
proof -
  obtain news where "inv w'" "refs w' = refs w @ [ref]" and k: "ref_project ref = svc_project s"
      "ref_name ref = co_name opts"
    using create_step [OF assms(1-4)] by fastforce
  moreover have "find P (xs @ [y]) = Some y" if "\<forall>x \<in> set xs. \<not> P x" "P y" for P :: "SandboxRef \<Rightarrow> bool" and xs y
    using that by (induction xs) auto
  ultimately show ?thesis
    using assms(2,5) by (simp add: resolve_result resolves_def)
qed

lemma removed_is_gone:
  assumes "inv w" "svc_rt s = ri" "service_Remove s name w = Some (None, w')"
  shows "\<exists>ref \<in> set (refs w). resolves s name ref \<and> ref_key ref \<notin> ref_key ` set (refs w')
    \<and> service_Resolve s name w = Some (Inr ref, w)"
proof -
  have "\<exists>ref. find (resolves s name) (refs w) = Some ref \<and> ri_Remove ri ref w = (None, w')"
    using assms(2,3) by (auto simp: service_Remove_def resolve_result [OF assms(1,2)]
        split: option.splits prod.splits)
  then obtain ref where ref: "find (resolves s name) (refs w) = Some ref" "ri_Remove ri ref w = (None, w')"
    by blast
  then have "ref \<in> set (refs w)" "resolves s name ref" by (auto simp: find_Some_iff)
  with remove_law [OF assms(1) _ ref(2)] ref(1) show ?thesis
    by (auto simp: resolve_result [OF assms(1,2)])
qed

end

end
