(* ===== verification/McpServer.thy ===== *)
theory McpServer
  imports CoreService GoJson
begin

text \<open>
  \<open>internal/mcp\<close>: the JSON-RPC server that offers the runtime to agents as six tools.
  \<open>tools.go\<close> is the tools with their schemas and handlers, \<open>server.go\<close> the protocol: one request
  or notification per line, at most one response each. Handlers run on the runtime interface of
  \<open>CoreService\<close>; one that does not return is \<open>None\<close>. The texts of errors are constructors.
\<close>

section \<open>Decoding arguments\<close>

definition dec_raw :: "json option decoder" where
  "dec_raw j v = (True, Some j)"

text \<open>\<open>map[string]string\<close>, and what is left of a raw value when its decoding error is ignored.\<close>

fun dec_strpairs :: "(string \<times> json) list \<Rightarrow> (string \<times> string) list \<Rightarrow> bool \<times> (string \<times> string) list" where
  "dec_strpairs [] m = (True, m)"
| "dec_strpairs ((k, j) # kvs) m =
     (let (ok, v) = dec_string j []; (ok', m') = dec_strpairs kvs (AList.update k v m) in (ok \<and> ok', m'))"

definition dec_strmap :: "(string \<times> string) list decoder" where
  "dec_strmap j m =
     (case j of JNull \<Rightarrow> (True, []) | JObj kvs \<Rightarrow> dec_strpairs kvs m | _ \<Rightarrow> (False, m))"

definition lax :: "'a decoder \<Rightarrow> json option \<Rightarrow> 'a \<Rightarrow> 'a" where
  "lax dec oj v = (case oj of None \<Rightarrow> v | Some j \<Rightarrow> snd (dec j v))"

definition rawmap_of :: "jtext \<Rightarrow> (string \<rightharpoonup> json) option" where
  "rawmap_of t = (case t of JDoc j \<Rightarrow> dec_rawmap j | _ \<Rightarrow> None)"

section \<open>Tools\<close>

datatype 'e tool_error = Banned string | ParseArgs | NameMissing | ArgvMissing | ToolRuntime 'e

datatype payload = PRef SandboxRef | PRefs "SandboxRef list" | PRemoved | PExec int string string

record ('w, 'e) Tool =
  tl_name :: string
  tl_description :: string
  tl_schema :: json
  tl_handler :: "jtext \<Rightarrow> 'w \<Rightarrow> (('e tool_error + payload) \<times> 'w) option"

definition bannedParams :: "string list" where
  "bannedParams = [''rootfs_path'', ''memory_mib'', ''nested_virt'']"

definition checkBanned :: "jtext \<Rightarrow> 'e tool_error option" where
  "checkBanned args =
     (case rawmap_of args of
        None \<Rightarrow> None
      | Some m \<Rightarrow> map_option Banned (find (\<lambda>k. m k \<noteq> None) bannedParams))"

definition dec_ref_args :: "(string \<times> string) decoder" where
  "dec_ref_args = dec_struct (\<lambda>k j (n, p).
     if key_is ''name'' k then (let (ok, v) = dec_string j n in (ok, (v, p)))
     else if key_is ''project'' k then (let (ok, v) = dec_string j p in (ok, (n, v)))
     else (True, (n, p)))"

definition arg_ref :: "string \<Rightarrow> string \<Rightarrow> SandboxRef" where
  "arg_ref n p = \<lparr>ref_id = [], ref_project = p, ref_name = n, ref_status = StNone\<rparr>"

definition parseRef :: "jtext \<Rightarrow> 'e tool_error + SandboxRef" where
  "parseRef raw =
     (case unmarshal dec_ref_args ([], []) raw of
        None \<Rightarrow> Inl ParseArgs
      | Some (n, p) \<Rightarrow> if n = [] then Inl NameMissing else Inr (arg_ref n p))"

definition str_prop :: "string \<Rightarrow> string \<Rightarrow> string \<times> json" where
  "str_prop k desc = (k, JObj [(''type'', JStr ''string''), (''description'', JStr desc)])"

definition object_schema :: "(string \<times> json) list \<Rightarrow> string list \<Rightarrow> json" where
  "object_schema props req =
     JObj ([(''type'', JStr ''object''), (''properties'', JObj props)]
       @ (if req = [] then [] else [(''required'', JArr (map JStr req))]))"

definition refSchema :: json where
  "refSchema = object_schema [str_prop ''name'' ''Sandbox name'', str_prop ''project'' ''Project label'']
     [''name'']"

text \<open>The specification \<open>sandbox_create\<close> builds: each field is read on its own and keeps its
  initial value when its decoding fails.\<close>

definition create_spec :: "(string \<rightharpoonup> json) \<Rightarrow> SandboxSpec" where
  "create_spec m = empty_spec\<lparr>spec_vcpus := lax (dec_uint 32) (m ''vcpus'') 1,
     spec_name := lax dec_string (m ''name'') [], spec_project := lax dec_string (m ''project'') [],
     spec_image := lax dec_string (m ''image_ref'') []\<rparr>"

definition toolCreate :: "('w, 'e) runtime_if \<Rightarrow> ('w, 'e) Tool" where
  "toolCreate rt =
     \<lparr>tl_name = ''sandbox_create'',
      tl_description = ''Create and boot a sandbox.'',
      tl_schema = object_schema
        [str_prop ''name'' ''Sandbox name (required)'', str_prop ''project'' ''Project label'',
         str_prop ''image_ref'' ''OCI image (default: alpine)'',
         (''vcpus'', JObj [(''type'', JStr ''integer''), (''description'', JStr ''vCPU count (default: 1)'')])]
        [''name''],
      tl_handler = (\<lambda>raw w.
        (case checkBanned raw of
           Some e \<Rightarrow> Some (Inl e, w)
         | None \<Rightarrow>
             (case rawmap_of raw of
                None \<Rightarrow> Some (Inl ParseArgs, w)
              | Some m \<Rightarrow>
                  if spec_name (create_spec m) = [] then Some (Inl NameMissing, w)
                  else (case ri_CreateAndBoot rt (create_spec m) w of
                          (Inl e, w1) \<Rightarrow> Some (Inl (ToolRuntime e), w1)
                        | (Inr ref, w1) \<Rightarrow> Some (Inr (PRef ref), w1)))))\<rparr>"

definition toolList :: "('w, 'e) runtime_if \<Rightarrow> ('w, 'e) Tool" where
  "toolList rt =
     \<lparr>tl_name = ''sandbox_list'',
      tl_description = ''List sandboxes.'',
      tl_schema = object_schema [] [],
      tl_handler = (\<lambda>raw w.
        (case checkBanned raw of
           Some e \<Rightarrow> Some (Inl e, w)
         | None \<Rightarrow>
             (case ri_List rt w of
                None \<Rightarrow> None
              | Some (Inl e, w1) \<Rightarrow> Some (Inl (ToolRuntime e), w1)
              | Some (Inr refs, w1) \<Rightarrow> Some (Inr (PRefs refs), w1))))\<rparr>"

definition toolStart :: "('w, 'e) runtime_if \<Rightarrow> ('w, 'e) Tool" where
  "toolStart rt =
     \<lparr>tl_name = ''sandbox_start'',
      tl_description = ''Start a stopped sandbox.'',
      tl_schema = refSchema,
      tl_handler = (\<lambda>raw w.
        (case checkBanned raw of
           Some e \<Rightarrow> Some (Inl e, w)
         | None \<Rightarrow>
             (case parseRef raw of
                Inl e \<Rightarrow> Some (Inl e, w)
              | Inr ref \<Rightarrow>
                  (case ri_Start rt ref w of
                     (Inl e, w1) \<Rightarrow> Some (Inl (ToolRuntime e), w1)
                   | (Inr updated, w1) \<Rightarrow> Some (Inr (PRef updated), w1)))))\<rparr>"

definition toolStop :: "('w, 'e) runtime_if \<Rightarrow> ('w, 'e) Tool" where
  "toolStop rt =
     \<lparr>tl_name = ''sandbox_stop'',
      tl_description = ''Stop a running sandbox.'',
      tl_schema = refSchema,
      tl_handler = (\<lambda>raw w.
        (case checkBanned raw of
           Some e \<Rightarrow> Some (Inl e, w)
         | None \<Rightarrow>
             (case parseRef raw of
                Inl e \<Rightarrow> Some (Inl e, w)
              | Inr ref \<Rightarrow>
                  (case ri_Stop rt ref w of
                     (Inl e, w1) \<Rightarrow> Some (Inl (ToolRuntime e), w1)
                   | (Inr updated, w1) \<Rightarrow> Some (Inr (PRef updated), w1)))))\<rparr>"

definition toolRemove :: "('w, 'e) runtime_if \<Rightarrow> ('w, 'e) Tool" where
  "toolRemove rt =
     \<lparr>tl_name = ''sandbox_remove'',
      tl_description = ''Remove a sandbox permanently.'',
      tl_schema = refSchema,
      tl_handler = (\<lambda>raw w.
        (case checkBanned raw of
           Some e \<Rightarrow> Some (Inl e, w)
         | None \<Rightarrow>
             (case parseRef raw of
                Inl e \<Rightarrow> Some (Inl e, w)
              | Inr ref \<Rightarrow>
                  (case ri_Remove rt ref w of
                     (Some e, w1) \<Rightarrow> Some (Inl (ToolRuntime e), w1)
                   | (None, w1) \<Rightarrow> Some (Inr PRemoved, w1)))))\<rparr>"

record exec_args =
  ea_name :: string
  ea_project :: string
  ea_argv :: "string list"
  ea_env :: "(string \<times> string) list"
  ea_cwd :: string
  ea_stdin :: string

definition no_exec_args :: exec_args where
  "no_exec_args = \<lparr>ea_name = [], ea_project = [], ea_argv = [], ea_env = [], ea_cwd = [], ea_stdin = []\<rparr>"

definition dec_exec_args :: "exec_args decoder" where
  "dec_exec_args = dec_struct (\<lambda>k j p.
     if key_is ''name'' k then (let (ok, v) = dec_string j (ea_name p) in (ok, p\<lparr>ea_name := v\<rparr>))
     else if key_is ''project'' k then (let (ok, v) = dec_string j (ea_project p) in (ok, p\<lparr>ea_project := v\<rparr>))
     else if key_is ''argv'' k then (let (ok, v) = dec_slice dec_string [] j (ea_argv p) in (ok, p\<lparr>ea_argv := v\<rparr>))
     else if key_is ''env'' k then (let (ok, v) = dec_strmap j (ea_env p) in (ok, p\<lparr>ea_env := v\<rparr>))
     else if key_is ''cwd'' k then (let (ok, v) = dec_string j (ea_cwd p) in (ok, p\<lparr>ea_cwd := v\<rparr>))
     else if key_is ''stdin'' k then (let (ok, v) = dec_string j (ea_stdin p) in (ok, p\<lparr>ea_stdin := v\<rparr>))
     else (True, p))"

definition exec_request :: "exec_args \<Rightarrow> ExecRequest" where
  "exec_request p = \<lparr>rq_argv = ea_argv p, rq_env = ea_env p, rq_cwd = ea_cwd p, rq_stdin = ea_stdin p,
     rq_has_reader = False, rq_tty = False, rq_rows = 0, rq_cols = 0\<rparr>"

definition toolExec :: "('w, 'e) runtime_if \<Rightarrow> ('w, 'e) Tool" where
  "toolExec rt =
     \<lparr>tl_name = ''sandbox_exec'',
      tl_description = ''Execute a command in a running sandbox.'',
      tl_schema = object_schema
        [(''name'', JObj [(''type'', JStr ''string'')]), (''project'', JObj [(''type'', JStr ''string'')]),
         (''argv'', JObj [(''type'', JStr ''array''), (''items'', JObj [(''type'', JStr ''string'')])]),
         (''env'', JObj [(''type'', JStr ''object'')]), (''cwd'', JObj [(''type'', JStr ''string'')]),
         (''stdin'', JObj [(''type'', JStr ''string'')])]
        [''name'', ''argv''],
      tl_handler = (\<lambda>raw w.
        (case checkBanned raw of
           Some e \<Rightarrow> Some (Inl e, w)
         | None \<Rightarrow>
             (case unmarshal dec_exec_args no_exec_args raw of
                None \<Rightarrow> Some (Inl ParseArgs, w)
              | Some p \<Rightarrow>
                  if ea_name p = [] then Some (Inl NameMissing, w)
                  else if ea_argv p = [] then Some (Inl ArgvMissing, w)
                  else (case ri_Exec rt (arg_ref (ea_name p) (ea_project p)) (exec_request p) w of
                          None \<Rightarrow> None
                        | Some (Inl e, _, w1) \<Rightarrow> Some (Inl (ToolRuntime e), w1)
                        | Some (Inr code, (out, err), w1) \<Rightarrow> Some (Inr (PExec code out err), w1)))))\<rparr>"

definition buildTools :: "('w, 'e) runtime_if \<Rightarrow> ('w, 'e) Tool list" where
  "buildTools rt = [toolCreate rt, toolList rt, toolStart rt, toolStop rt, toolRemove rt, toolExec rt]"

section \<open>The protocol\<close>

record rpcRequest =
  rq_jsonrpc :: string
  rq_id :: "json option"
  rq_method :: string
  rq_params :: "json option"

definition dec_rpcRequest :: "rpcRequest decoder" where
  "dec_rpcRequest = dec_struct (\<lambda>k j r.
     if key_is ''jsonrpc'' k then (let (ok, v) = dec_string j (rq_jsonrpc r) in (ok, r\<lparr>rq_jsonrpc := v\<rparr>))
     else if key_is ''id'' k then (True, r\<lparr>rq_id := Some j\<rparr>)
     else if key_is ''method'' k then (let (ok, v) = dec_string j (rq_method r) in (ok, r\<lparr>rq_method := v\<rparr>))
     else if key_is ''params'' k then (True, r\<lparr>rq_params := Some j\<rparr>)
     else (True, r))"

definition no_request :: rpcRequest where
  "no_request = \<lparr>rq_jsonrpc = [], rq_id = None, rq_method = [], rq_params = None\<rparr>"

datatype rpc_code = CodeParseError | CodeInvalidRequest | CodeMethodNotFound | CodeInvalidParams

fun rpc_code_number :: "rpc_code \<Rightarrow> int" where
  "rpc_code_number CodeParseError = -32700"
| "rpc_code_number CodeInvalidRequest = -32600"
| "rpc_code_number CodeMethodNotFound = -32601"
| "rpc_code_number CodeInvalidParams = -32602"

text \<open>The results of the methods: none at all for the two notifications; a tool's text is its
  error or its payload, which \<open>json.Marshal\<close> cannot fail on.\<close>

datatype 'e rpc_result =
    RNone | RInitialize string string string | REmpty | RTools "(string \<times> string \<times> json) list"
  | RToolText payload | RToolError "'e tool_error"

text \<open>A response: the id (\<open>None\<close>, a nil raw message, is written as \<open>null\<close>), the error or the result.\<close>

type_synonym 'e response = "json option \<times> (rpc_code + 'e rpc_result)"

definition descriptors :: "('w, 'e) Tool list \<Rightarrow> (string \<times> string \<times> json) list" where
  "descriptors tools = map (\<lambda>t. (tl_name t, tl_description t, tl_schema t)) tools"

definition dec_call :: "(string \<times> json option) decoder" where
  "dec_call = dec_struct (\<lambda>k j (n, a).
     if key_is ''name'' k then (let (ok, v) = dec_string j n in (ok, (v, a)))
     else if key_is ''arguments'' k then (True, (n, Some j))
     else (True, (n, a)))"

definition text_of :: "json option \<Rightarrow> jtext" where
  "text_of oj = (case oj of None \<Rightarrow> JEmpty | Some j \<Rightarrow> JDoc j)"

definition callTool ::
  "('w, 'e) Tool list \<Rightarrow> json option \<Rightarrow> 'w \<Rightarrow> ((rpc_code + 'e rpc_result) \<times> 'w) option" where
  "callTool tools raw w =
     (case (case raw of None \<Rightarrow> Some ([], None) | Some j \<Rightarrow> unmarshal dec_call ([], None) (JDoc j)) of
        None \<Rightarrow> Some (Inl CodeInvalidParams, w)
      | Some (n, args) \<Rightarrow>
          if n = [] then Some (Inl CodeInvalidParams, w)
          else (case find (\<lambda>t. tl_name t = n) tools of
                  None \<Rightarrow> Some (Inl CodeInvalidParams, w)
                | Some t \<Rightarrow>
                    (case tl_handler t (text_of args) w of
                       None \<Rightarrow> None
                     | Some (Inl e, w1) \<Rightarrow> Some (Inr (RToolError e), w1)
                     | Some (Inr p, w1) \<Rightarrow> Some (Inr (RToolText p), w1))))"

definition ProtocolVersion :: string where "ProtocolVersion = ''2025-06-18''"
definition ServerName :: string where "ServerName = ''herdr-plugin-msb''"
definition ServerVersion :: string where "ServerVersion = ''v0.1.0''"

definition dispatch ::
  "('w, 'e) Tool list \<Rightarrow> rpcRequest \<Rightarrow> 'w \<Rightarrow> ((rpc_code + 'e rpc_result) \<times> 'w) option" where
  "dispatch tools req w =
     (if rq_method req = ''initialize'' then
        Some (Inr (RInitialize ProtocolVersion ServerName ServerVersion), w)
      else if rq_method req \<in> {''notifications/initialized'', ''notifications/cancelled''} then
        Some (Inr RNone, w)
      else if rq_method req = ''ping'' then Some (Inr REmpty, w)
      else if rq_method req = ''tools/list'' then Some (Inr (RTools (descriptors tools)), w)
      else if rq_method req = ''tools/call'' then callTool tools (rq_params req) w
      else Some (Inl CodeMethodNotFound, w))"

definition handleLine ::
  "('w, 'e) Tool list \<Rightarrow> jtext \<Rightarrow> 'w \<Rightarrow> ('e response option \<times> 'w) option" where
  "handleLine tools line w =
     (case unmarshal dec_rpcRequest no_request line of
        None \<Rightarrow> Some (Some (None, Inl CodeParseError), w)
      | Some req \<Rightarrow>
          if rq_jsonrpc req \<noteq> ''2.0'' then
            (if rq_id req = None then Some (None, w)
             else Some (Some (rq_id req, Inl CodeInvalidRequest), w))
          else (case dispatch tools req w of
                  None \<Rightarrow> None
                | Some (r, w1) \<Rightarrow>
                    if rq_id req = None then Some (None, w1) else Some (Some (rq_id req, r), w1)))"

text \<open>
  \<open>Serve\<close>: the scanner delivers the lines (\<open>JEmpty\<close> for an empty one) and at the end its error;
  \<open>enc\<close> writes a response and may fail. The second component collects what was written.
\<close>

datatype serve_error = WriteResponse string | ScannerError string

fun Serve ::
  "('w, 'e) Tool list \<Rightarrow> ('e response \<Rightarrow> ('w, string option) act) \<Rightarrow> string option
     \<Rightarrow> jtext list \<Rightarrow> 'w \<Rightarrow> (serve_error option \<times> 'w) option" where
  "Serve tools enc scanErr [] w = Some (map_option ScannerError scanErr, w)"
| "Serve tools enc scanErr (line # rest) w =
     (if line = JEmpty then Serve tools enc scanErr rest w
      else (case handleLine tools line w of
              None \<Rightarrow> None
            | Some (None, w1) \<Rightarrow> Serve tools enc scanErr rest w1
            | Some (Some resp, w1) \<Rightarrow>
                (case enc resp w1 of
                   (Some e, w2) \<Rightarrow> Some (Some (WriteResponse e), w2)
                 | (None, w2) \<Rightarrow> Serve tools enc scanErr rest w2)))"

end
