(* ===== verification/MsbService.thy ===== *)
theory MsbService
  imports CoreService RuntimeProps
begin

text \<open>
  The msb runtime as a provider of the runtime interface, and with it the guarantees of the
  service for the program as it is put together: \<open>service.New(msb.New(), project)\<close>.
\<close>

section \<open>The msb runtime as an interface value\<close>

text \<open>\<open>out\<close> reads what the command wrote to the two buffers of the request.\<close>

definition msb_if :: "'w Runtime \<Rightarrow> 'w exec_sdk \<Rightarrow> ('w \<Rightarrow> string \<times> string) \<Rightarrow> ('w, run_error) runtime_if" where
  "msb_if rt ex out =
     \<lparr>ri_Create = (\<lambda>spec w. case rt_Create rt spec w of (r, w') \<Rightarrow> (map_sum RunMsb id r, w')),
      ri_CreateAndBoot = (\<lambda>spec w. case CreateAndBoot rt spec w of (r, w') \<Rightarrow> (map_sum RunMsb id r, w')),
      ri_List = (\<lambda>w. map_option (\<lambda>(r, w'). (map_sum RunMsb id r, w')) (rt_List rt w)),
      ri_Start = (\<lambda>ref w. case rt_Start rt ref w of (r, w') \<Rightarrow> (map_sum RunMsb id r, w')),
      ri_Stop = (\<lambda>ref w. case rt_Stop rt ref w of (r, w') \<Rightarrow> (map_sum RunMsb id r, w')),
      ri_Remove = (\<lambda>ref w. case rt_Remove rt ref w of (r, w') \<Rightarrow> (map_option RunMsb r, w')),
      ri_Exec = (\<lambda>ref req w. map_option (\<lambda>(r, w'). (r, out w', w')) (rt_Exec rt ex ref req w)),
      ri_acct = Some (CommittedMemoryMiB (rt_sdk rt))\<rparr>"

definition daemon_if :: "string option \<Rightarrow> meminfo \<Rightarrow> (daemon, run_error) runtime_if" where
  "daemon_if env m = msb_if (New_runtime daemon_sdk env m) daemon_exec (\<lambda>_. ([], []))"

definition dm_refs :: "daemon \<Rightarrow> SandboxRef list" where
  "dm_refs d = map refFromHandle (dm_boxes d)"

text \<open>Names are distinct, and every reference leads back to the sandbox it was made from.\<close>

definition named :: "daemon \<Rightarrow> bool" where
  "named d \<longleftrightarrow> dm_inv d \<and> (\<forall>h \<in> set (dm_boxes d). lookup_name (refFromHandle h) = hd_name h)"

section \<open>Listing\<close>

lemma list_more_None: "list_more sdk refs None w = Some (Inr refs, w)"
  by (subst list_more.simps) simp

lemma list_more_Some:
  "sdk_List sdk (Some c) w = (Inr (hs, nxt), w1) \<Longrightarrow>
     list_more sdk refs (Some c) w = list_more sdk (refs @ map refFromHandle hs) nxt w1"
  by (subst list_more.simps) simp

lemma daemon_list_more:
  assumes "dm_inv d" "dm_boxes d = xs @ x # ys" "ys \<noteq> []"
  shows "list_more daemon_sdk refs (Some (hd_name x)) d = Some (Inr (refs @ map refFromHandle ys), d)"
  using assms
proof (induction ys arbitrary: xs x refs)
  case (Cons y ys)
  have page: "dm_list (Some (hd_name x)) d = (Inr (one_page (y # ys)), d)"
    using Cons.prems by (auto simp: dm_list_def dm_inv_def intro!: arg_cong [where f = one_page] after_name_append)
  show ?case
  proof (cases ys)
    case Nil
    then show ?thesis using page by (simp add: list_more_Some list_more_None)
  next
    case (Cons z zs)
    then show ?thesis
      using page Cons.prems Cons.IH [of "xs @ [x]" y "refs @ [refFromHandle y]"]
      by (simp add: list_more_Some)
  qed
qed simp

lemma daemon_List:
  assumes "dm_inv d" "rt_sdk rt = daemon_sdk"
  shows "rt_List rt d = Some (Inr (dm_refs d), d)"
proof (cases "dm_boxes d" rule: one_page.cases)
  case 1
  then show ?thesis using assms by (simp add: rt_List_def dm_list_def list_more_None dm_refs_def)
next
  case (2 h)
  then show ?thesis using assms by (simp add: rt_List_def dm_list_def list_more_None dm_refs_def)
next
  case (3 h h' hs)
  then show ?thesis
    using assms daemon_list_more [OF assms(1), of "[]" h "h' # hs"]
    by (simp add: rt_List_def dm_list_def dm_refs_def)
qed

section \<open>Creating\<close>

definition created_box :: "SandboxSpec \<Rightarrow> sdk_handle" where
  "created_box spec =
     \<lparr>hd_id = ''id-'' @ SDKName (spec_project spec) (spec_name spec),
      hd_name = SDKName (spec_project spec) (spec_name spec), hd_status = SdkRunning,
      hd_labels = Some (opt_labels (SandboxOptions spec @ [OptDetached])),
      hd_config = JDoc (config_record (opt_memory (SandboxOptions spec @ [OptDetached]))
         PolicyDeny (map fst (opt_ports (SandboxOptions spec @ [OptDetached]))))\<rparr>"

lemma created_ref:
  assumes "spec_project spec \<noteq> []" "hd_name h = SDKName (spec_project spec) (spec_name spec)"
    and "hd_labels h = hd_labels (created_box spec)"
  shows "ref_project (refFromHandle h) = spec_project spec \<and> ref_name (refFromHandle h) = spec_name spec
    \<and> lookup_name (refFromHandle h) = hd_name h"
proof -
  have "ref_project (refFromHandle h) = spec_project spec \<and> ref_name (refFromHandle h) = spec_name spec"
    by (rule refFromHandle_labelled [OF _ opt_labels_SandboxOptions [OF assms(1)] assms(1,2)])
      (simp add: assms(3) created_box_def)
  with assms(1,2) show ?thesis by (simp add: lookup_name_def SDKName_def)
qed

lemma admit_daemon: "dm_inv d \<Longrightarrow> runtime_admit (New_runtime daemon_sdk env m) mem d = (e, d') \<Longrightarrow> d' = d"
  using dm.committed_unchanged by (auto simp: runtime_admit_def runtime_accountant_def New_runtime_def
      Admit_def split: sum.splits prod.splits)

lemma boot_cases:
  assumes "dm_inv d" "spec_project spec \<noteq> []"
    and "CreateAndBoot (New_runtime daemon_sdk env m) spec d = (r, d')"
  shows "(\<exists>e. r = Inl e) \<and> d' = d
    \<or> r = Inr (refFromHandle (created_box spec)) \<and> d' = d\<lparr>dm_boxes := dm_boxes d @ [created_box spec]\<rparr>
      \<and> SDKName (spec_project spec) (spec_name spec) \<notin> hd_name ` set (dm_boxes d)"
proof -
  let ?n = "SDKName (spec_project spec) (spec_name spec)" and ?rt = "New_runtime daemon_sdk env m"
  have ne: "?n \<noteq> []" using assms(2) by (simp add: SDKName_def)
  obtain e d1 where a: "runtime_admit ?rt (spec_memory spec) d = (e, d1)" by fastforce
  have d1: "d1 = d" by (rule admit_daemon [OF assms(1) a])
  have alloc: "\<not> rt_alloc ?rt" by (simp add: New_runtime_def)
  show ?thesis
  proof (cases e)
    case (Some x)
    with assms(3) a ne d1 show ?thesis by (auto simp: CreateAndBoot_def Let_def)
  next
    case None
    then have r: "create_sandbox ?rt spec ?n 0 d = (r, d')"
      using assms(3) a ne d1 alloc by (simp add: CreateAndBoot_def Let_def)
    show ?thesis
    proof (cases "?n \<in> hd_name ` set (dm_boxes d)")
      case True
      then obtain h where "dm_find ?n d = Some h" by (metis dm_find_None not_None_eq)
      with r show ?thesis by (auto simp: create_sandbox_def New_runtime_def dm_create_def)
    next
      case False
      with boot_on_daemon [OF assms(2) refl False refl, of env m] r show ?thesis
        by (simp add: created_box_def)
    qed
  qed
qed

section \<open>Start, stop, remove\<close>

lemma rt_handle_lookup:
  "rt_handle rt ref w =
     (if lookup_name ref = [] then (Inl NoName, w)
      else (case sdk_Get (rt_sdk rt) (lookup_name ref) w of
              (Inl e, w1) \<Rightarrow> (Inl (GetFailed (lookup_name ref) e), w1) | (Inr h, w1) \<Rightarrow> (Inr h, w1)))"
  unfolding rt_handle_def lookup_name_def Let_def by (cases "ref_project ref = []") simp_all

lemma lookup_name_key: "ref_key r = ref_key r' \<Longrightarrow> lookup_name r = lookup_name r'"
  by (simp add: ref_key_def lookup_name_def)

lemma ref_of_status:
  "ref_key (refFromHandle (h\<lparr>hd_status := st\<rparr>)) = ref_key (refFromHandle h)"
  "lookup_name (refFromHandle (h\<lparr>hd_status := st\<rparr>)) = lookup_name (refFromHandle h)"
proof -
  show k: "ref_key (refFromHandle (h\<lparr>hd_status := st\<rparr>)) = ref_key (refFromHandle h)"
    by (simp add: refFromHandle_def Let_def ref_key_def split: option.splits)
  show "lookup_name (refFromHandle (h\<lparr>hd_status := st\<rparr>)) = lookup_name (refFromHandle h)"
    by (rule lookup_name_key [OF k])
qed

text \<open>A reference of the listing names exactly one sandbox.\<close>

lemma ref_names_one:
  assumes "named d" "ref \<in> set (dm_refs d)"
  shows "\<forall>h \<in> set (dm_boxes d). hd_name h = lookup_name ref \<longleftrightarrow> ref_key (refFromHandle h) = ref_key ref"
    and "\<exists>h \<in> set (dm_boxes d). ref = refFromHandle h \<and> hd_name h = lookup_name ref"
proof -
  obtain h where h: "h \<in> set (dm_boxes d)" "ref = refFromHandle h" using assms(2) by (auto simp: dm_refs_def)
  then have n: "hd_name h = lookup_name ref" using assms(1) by (simp add: named_def)
  then show "\<exists>h \<in> set (dm_boxes d). ref = refFromHandle h \<and> hd_name h = lookup_name ref" using h by blast
  show "\<forall>h \<in> set (dm_boxes d). hd_name h = lookup_name ref \<longleftrightarrow> ref_key (refFromHandle h) = ref_key ref"
  proof
    fix g
    assume g: "g \<in> set (dm_boxes d)"
    have "g = h" if "hd_name g = lookup_name ref"
      using that n g h(1) assms(1) by (metis dm_inv_def eq_key_imp_eq_value inj_on_eq_iff distinct_map named_def)
    moreover have "hd_name g = lookup_name ref" if "ref_key (refFromHandle g) = ref_key ref"
      using lookup_name_key [OF that] g assms(1) by (simp add: named_def)
    ultimately show "hd_name g = lookup_name ref \<longleftrightarrow> ref_key (refFromHandle g) = ref_key ref"
      using h(2) by auto
  qed
qed

definition box_change :: "string \<Rightarrow> (daemon \<Rightarrow> daemon) \<Rightarrow> bool" where
  "box_change n f \<longleftrightarrow> f = id \<or> f = dm_delete n \<or> (\<exists>st. f = dm_set_status n st)"

lemma named_change:
  assumes "named d" "box_change n f"
  shows "named (f d)"
proof -
  have "dm_inv (f d)"
  proof -
    have name: "hd_name \<circ> (\<lambda>h. if hd_name h = n then h\<lparr>hd_status := st\<rparr> else h) = hd_name" for st
      by auto
    from assms show ?thesis
      by (auto simp: box_change_def named_def dm_inv_def dm_delete_def dm_set_status_def
          distinct_map_filter name)
  qed
  with assms show ?thesis
    by (auto simp: box_change_def named_def dm_delete_def dm_set_status_def ref_of_status)
qed

lemma others_change:
  assumes "named d" "ref \<in> set (dm_refs d)" "box_change (lookup_name ref) f"
  shows "filter (\<lambda>x. ref_key x \<noteq> ref_key ref) (dm_refs (f d)) = filter (\<lambda>x. ref_key x \<noteq> ref_key ref) (dm_refs d)"
proof -
  define P where "P h \<longleftrightarrow> hd_name h = lookup_name ref \<longrightarrow> ref_key (refFromHandle h) = ref_key ref" for h
  have *: "\<forall>h \<in> set (dm_boxes d). P h" using ref_names_one(1) [OF assms(1,2)] by (simp add: P_def)
  have "filter (\<lambda>x. ref_key x \<noteq> ref_key ref) (map refFromHandle (filter (\<lambda>h. hd_name h \<noteq> lookup_name ref) hs))
      = filter (\<lambda>x. ref_key x \<noteq> ref_key ref) (map refFromHandle hs)" if "\<forall>h \<in> set hs. P h" for hs
    using that by (induction hs) (auto simp: P_def)
  moreover have "filter (\<lambda>x. ref_key x \<noteq> ref_key ref) (map refFromHandle
        (map (\<lambda>h. if hd_name h = lookup_name ref then h\<lparr>hd_status := st\<rparr> else h) hs))
      = filter (\<lambda>x. ref_key x \<noteq> ref_key ref) (map refFromHandle hs)" if "\<forall>h \<in> set hs. P h" for st hs
    using that by (induction hs) (auto simp: P_def ref_of_status)
  ultimately show ?thesis
    using assms(3) * by (auto simp: box_change_def dm_refs_def dm_delete_def dm_set_status_def)
qed

lemma keys_change:
  "box_change n f \<Longrightarrow> f \<noteq> dm_delete n \<or> f d = d \<Longrightarrow> map ref_key (dm_refs (f d)) = map ref_key (dm_refs d)"
  by (auto simp: box_change_def dm_refs_def dm_set_status_def ref_of_status)

lemma keys_distinct: "named d \<Longrightarrow> distinct (map ref_key (dm_refs d))"
proof -
  assume n: "named d"
  have "distinct (map (lookup_name \<circ> refFromHandle) (dm_boxes d))"
    using n by (simp add: named_def dm_inv_def cong: map_cong)
  then have "inj_on (lookup_name \<circ> refFromHandle) (set (dm_boxes d))" "distinct (dm_boxes d)"
    by (simp_all add: distinct_map)
  then have "inj_on (ref_key \<circ> refFromHandle) (set (dm_boxes d))"
    unfolding inj_on_def comp_def using lookup_name_key by metis
  with \<open>distinct (dm_boxes d)\<close> show ?thesis by (simp add: dm_refs_def distinct_map)
qed

text \<open>Each operation on a listed reference does one change to its sandbox or none.\<close>

lemma op_is_change:
  assumes "named d" "ref \<in> set (dm_refs d)" "rt = New_runtime daemon_sdk env m"
  shows "\<exists>f. box_change (lookup_name ref) f \<and> (f \<noteq> dm_delete (lookup_name ref) \<or> f d = d) \<and> snd (rt_Start rt ref d) = f d"
    and "\<exists>f. box_change (lookup_name ref) f \<and> (f \<noteq> dm_delete (lookup_name ref) \<or> f d = d) \<and> snd (rt_Stop rt ref d) = f d"
    and "rt_Remove rt ref d = (e, d') \<Longrightarrow> e = None \<and> d' = dm_delete (lookup_name ref) d \<or> e \<noteq> None \<and> d' = d"
proof -
  obtain h where h: "h \<in> set (dm_boxes d)" "hd_name h = lookup_name ref"
    using ref_names_one(2) [OF assms(1,2)] by blast
  then obtain g where g: "dm_find (lookup_name ref) d = Some g" "hd_name g = lookup_name ref"
    by (metis dm_find_None dm_find_name imageI not_None_eq)
  have sdk: "rt_sdk rt = daemon_sdk" "\<not> rt_alloc rt" by (simp_all add: assms(3) New_runtime_def)
  have handle: "rt_handle rt ref d = (if lookup_name ref = [] then (Inl NoName, d) else (Inr g, d))"
    by (simp add: rt_handle_lookup sdk dm_get_def g)
  have ch: "box_change (lookup_name ref) id" "\<And>st. box_change (lookup_name ref) (dm_set_status (lookup_name ref) st)"
    by (auto simp: box_change_def)
  have ne: "dm_set_status (lookup_name ref) st \<noteq> dm_delete (lookup_name ref)" "id d = d" for st
  proof -
    define v where "v = \<lparr>dm_boxes = [g]\<rparr>"
    have "dm_set_status (lookup_name ref) st v \<noteq> dm_delete (lookup_name ref) v"
      using g(2) by (simp add: v_def dm_set_status_def dm_delete_def)
    then show "dm_set_status (lookup_name ref) st \<noteq> dm_delete (lookup_name ref)" by metis
  qed simp
  have "snd (rt_Start rt ref d) = (if lookup_name ref = [] then id d else dm_set_status (lookup_name ref) SdkRunning d)"
    using g by (auto simp: rt_Start_def handle sdk dm_on_existing_def dm_get_def split: option.splits)
  then show "\<exists>f. box_change (lookup_name ref) f \<and> (f \<noteq> dm_delete (lookup_name ref) \<or> f d = d) \<and> snd (rt_Start rt ref d) = f d"
    using ch ne by metis
  have "snd (rt_Stop rt ref d) = (if lookup_name ref = [] then id d else dm_set_status (lookup_name ref) SdkStopped d)"
    using g by (auto simp: rt_Stop_def handle sdk dm_on_existing_def dm_get_def stop_and_refresh_def split: option.splits)
  then show "\<exists>f. box_change (lookup_name ref) f \<and> (f \<noteq> dm_delete (lookup_name ref) \<or> f d = d) \<and> snd (rt_Stop rt ref d) = f d"
    using ch ne by metis
  show "rt_Remove rt ref d = (e, d') \<Longrightarrow> e = None \<and> d' = dm_delete (lookup_name ref) d \<or> e \<noteq> None \<and> d' = d"
    using g by (auto simp: rt_Remove_def handle sdk dm_on_existing_def
        split: option.splits if_splits)
qed

section \<open>The runtime keeps the contract\<close>

lemma named_create:
  assumes "named d" "spec_project spec \<noteq> []" "hd_name h = SDKName (spec_project spec) (spec_name spec)"
    and "hd_labels h = hd_labels (created_box spec)" "hd_name h \<notin> hd_name ` set (dm_boxes d)"
  shows "named (d\<lparr>dm_boxes := dm_boxes d @ [h]\<rparr>)"
  using assms(1,5) created_ref [OF assms(2-4)] by (auto simp: named_def dm_inv_def)

lemma create_stopped:
  assumes "named d" "spec_project spec \<noteq> []"
    and "rt_Create (New_runtime daemon_sdk env m) spec d = (r, d')"
  shows "(\<exists>e. r = Inl e) \<and> d' = d
    \<or> (\<exists>h. r = Inr (refFromHandle h) \<and> d' = d\<lparr>dm_boxes := dm_boxes d @ [h]\<rparr>
         \<and> hd_name h = SDKName (spec_project spec) (spec_name spec) \<and> hd_labels h = hd_labels (created_box spec)
         \<and> hd_name h \<notin> hd_name ` set (dm_boxes d))"
proof -
  let ?rt = "New_runtime daemon_sdk env m" and ?b = "created_box spec"
  let ?n = "SDKName (spec_project spec) (spec_name spec)"
  obtain q d1 where q: "CreateAndBoot ?rt spec d = (q, d1)" by fastforce
  have inv: "dm_inv d" using assms(1) by (simp add: named_def)
  from boot_cases [OF inv assms(2) q] show ?thesis
  proof
    assume "(\<exists>e. q = Inl e) \<and> d1 = d"
    with q assms(3) show ?thesis by (auto simp: rt_Create_def)
  next
    assume ok: "q = Inr (refFromHandle ?b) \<and> d1 = d\<lparr>dm_boxes := dm_boxes d @ [?b]\<rparr>
      \<and> ?n \<notin> hd_name ` set (dm_boxes d)"
    have ne: "?n \<noteq> []" using assms(2) by (simp add: SDKName_def)
    have look: "lookup_name (refFromHandle ?b) = ?n" and nb: "hd_name ?b = ?n"
      using created_ref [OF assms(2), of ?b] by (simp_all add: created_box_def)
    have find: "dm_find ?n (d\<lparr>dm_boxes := dm_boxes d @ [c]\<rparr>) = Some c" if "hd_name c = ?n" for c
      using ok that by (intro dm_find_append_new) (simp_all add: dm_find_None)
    define c where "c = ?b\<lparr>hd_status := SdkStopped\<rparr>"
    have upd: "dm_set_status ?n SdkStopped (d\<lparr>dm_boxes := dm_boxes d @ [?b]\<rparr>) = d\<lparr>dm_boxes := dm_boxes d @ [c]\<rparr>"
    proof -
      have "map (\<lambda>h. if hd_name h = ?n then h\<lparr>hd_status := SdkStopped\<rparr> else h) (dm_boxes d) = dm_boxes d"
        using ok by (intro map_idI) (auto simp: image_iff)
      then show ?thesis by (simp add: dm_set_status_def c_def nb)
    qed
    have cn: "hd_name c = ?n" "hd_labels c = hd_labels ?b" by (simp_all add: c_def nb)
    have "rt_Create ?rt spec d = (Inr (refFromHandle c), d\<lparr>dm_boxes := dm_boxes d @ [c]\<rparr>)"
      using q ok ne look nb find [OF nb] find [OF cn(1)]
      by (simp add: rt_Create_def rt_handle_lookup New_runtime_def dm_get_def stop_and_refresh_def
          dm_on_existing_def upd)
    with assms(3) cn ok show ?thesis by auto
  qed
qed

lemma boot_running:
  assumes "named d" "spec_project spec \<noteq> []"
    and "CreateAndBoot (New_runtime daemon_sdk env m) spec d = (r, d')"
  shows "(\<exists>e. r = Inl e) \<and> d' = d
    \<or> (\<exists>h. r = Inr (refFromHandle h) \<and> d' = d\<lparr>dm_boxes := dm_boxes d @ [h]\<rparr>
         \<and> hd_name h = SDKName (spec_project spec) (spec_name spec) \<and> hd_labels h = hd_labels (created_box spec)
         \<and> hd_name h \<notin> hd_name ` set (dm_boxes d))"
proof -
  have "dm_inv d" "hd_name (created_box spec) = SDKName (spec_project spec) (spec_name spec)"
    using assms(1) by (simp_all add: named_def created_box_def)
  with boot_cases [OF _ assms(2,3)] show ?thesis by metis
qed

lemma daemon_if_simps:
  "ri_Create (daemon_if env m) = (\<lambda>spec w. case rt_Create (New_runtime daemon_sdk env m) spec w of (r, w') \<Rightarrow> (map_sum RunMsb id r, w'))"
  "ri_CreateAndBoot (daemon_if env m) = (\<lambda>spec w. case CreateAndBoot (New_runtime daemon_sdk env m) spec w of (r, w') \<Rightarrow> (map_sum RunMsb id r, w'))"
  "ri_List (daemon_if env m) = (\<lambda>w. map_option (\<lambda>(r, w'). (map_sum RunMsb id r, w')) (rt_List (New_runtime daemon_sdk env m) w))"
  "ri_Start (daemon_if env m) = (\<lambda>ref w. case rt_Start (New_runtime daemon_sdk env m) ref w of (r, w') \<Rightarrow> (map_sum RunMsb id r, w'))"
  "ri_Stop (daemon_if env m) = (\<lambda>ref w. case rt_Stop (New_runtime daemon_sdk env m) ref w of (r, w') \<Rightarrow> (map_sum RunMsb id r, w'))"
  "ri_Remove (daemon_if env m) = (\<lambda>ref w. case rt_Remove (New_runtime daemon_sdk env m) ref w of (r, w') \<Rightarrow> (map_option RunMsb r, w'))"
  "ri_Exec (daemon_if env m) = (\<lambda>ref req w. map_option (\<lambda>(r, w'). (r, ([], []), w')) (rt_Exec (New_runtime daemon_sdk env m) daemon_exec ref req w))"
  "ri_acct (daemon_if env m) = Some (CommittedMemoryMiB daemon_sdk)"
  by (simp_all add: daemon_if_def msb_if_def New_runtime_def)

lemma rt_Exec_same:
  "rt_Exec (New_runtime daemon_sdk env m) daemon_exec ref req d = Some (q, d') \<Longrightarrow> d' = d"
  by (auto simp: rt_Exec_def rt_connect_def rt_handle_lookup New_runtime_def dm_get_def dm_on_existing_def
      dest: daemon_exec_same split: if_splits option.splits prod.splits sum.splits)

interpretation msb: sandbox_runtime "daemon_if env m" dm_refs named
proof unfold_locales
  fix d
  assume "named d"
  then show "ri_List (daemon_if env m) d = Some (Inr (dm_refs d), d)"
    by (simp add: daemon_if_simps named_def daemon_List New_runtime_def)
next
  fix d
  assume "named d"
  then show "distinct (map ref_key (dm_refs d))" by (rule keys_distinct)
next
  fix d spec act and r :: "run_error + SandboxRef" and d'
  assume a: "named d" "spec_project spec \<noteq> []" "act \<in> {ri_Create (daemon_if env m), ri_CreateAndBoot (daemon_if env m)}"
    "act spec d = (r, d')"
  show "named d' \<and> (\<exists>news. dm_refs d' = dm_refs d @ news \<and> (\<forall>x \<in> set news. ref_project x = spec_project spec)
          \<and> (\<forall>ref. r = Inr ref \<longrightarrow> news = [ref] \<and> ref_name ref = spec_name spec))"
  proof -
    have "\<exists>q. (rt_Create (New_runtime daemon_sdk env m) spec d = (q, d')
        \<or> CreateAndBoot (New_runtime daemon_sdk env m) spec d = (q, d')) \<and> r = map_sum RunMsb id q"
      using a(3,4) by (auto simp: daemon_if_simps split: prod.splits)
    then obtain q where q: "rt_Create (New_runtime daemon_sdk env m) spec d = (q, d')
        \<or> CreateAndBoot (New_runtime daemon_sdk env m) spec d = (q, d')" and r: "r = map_sum RunMsb id q"
      by blast
    from q have "(\<exists>e. q = Inl e) \<and> d' = d
        \<or> (\<exists>h. q = Inr (refFromHandle h) \<and> d' = d\<lparr>dm_boxes := dm_boxes d @ [h]\<rparr>
         \<and> hd_name h = SDKName (spec_project spec) (spec_name spec) \<and> hd_labels h = hd_labels (created_box spec)
         \<and> hd_name h \<notin> hd_name ` set (dm_boxes d))"
      using create_stopped [OF a(1,2)] boot_running [OF a(1,2)] by metis
    then show ?thesis
    proof (elim disjE exE conjE)
      fix e
      assume "d' = d" "q = Inl e"
      with r a(1) show ?thesis by simp
    next
      fix h
      assume "q = Inr (refFromHandle h)" "d' = d\<lparr>dm_boxes := dm_boxes d @ [h]\<rparr>"
        "hd_name h = SDKName (spec_project spec) (spec_name spec)" "hd_labels h = hd_labels (created_box spec)"
        "hd_name h \<notin> hd_name ` set (dm_boxes d)"
      then show ?thesis
        using r named_create [OF a(1,2)] created_ref [OF a(2)] by (simp add: dm_refs_def)
    qed
  qed
next
  fix d ref act and r :: "run_error + SandboxRef" and d'
  assume a: "named d" "ref \<in> set (dm_refs d)" "act \<in> {ri_Start (daemon_if env m), ri_Stop (daemon_if env m)}"
    "act ref d = (r, d')"
  then obtain f where f: "box_change (lookup_name ref) f" "f \<noteq> dm_delete (lookup_name ref) \<or> f d = d" "d' = f d"
    using op_is_change(1,2) [OF a(1,2) refl, of env m] by (fastforce simp: daemon_if_simps split: prod.splits)
  then show "named d' \<and> filter (\<lambda>x. ref_key x \<noteq> ref_key ref) (dm_refs d') = filter (\<lambda>x. ref_key x \<noteq> ref_key ref) (dm_refs d)
      \<and> map ref_key (dm_refs d') = map ref_key (dm_refs d)"
    using named_change [OF a(1)] others_change [OF a(1,2)] keys_change by blast
next
  fix d ref and e :: "run_error option" and d'
  assume a: "named d" "ref \<in> set (dm_refs d)" "ri_Remove (daemon_if env m) ref d = (e, d')"
  then obtain x where x: "rt_Remove (New_runtime daemon_sdk env m) ref d = (x, d')" "e = map_option RunMsb x"
    by (auto simp: daemon_if_simps split: prod.splits)
  have del: "box_change (lookup_name ref) (dm_delete (lookup_name ref))" by (simp add: box_change_def)
  have "ref_key ref \<notin> ref_key ` set (dm_refs (dm_delete (lookup_name ref) d))"
  proof
    assume "ref_key ref \<in> ref_key ` set (dm_refs (dm_delete (lookup_name ref) d))"
    then obtain h where "h \<in> set (dm_boxes d)" "hd_name h \<noteq> lookup_name ref" "ref_key (refFromHandle h) = ref_key ref"
      unfolding dm_refs_def dm_delete_def by auto
    then show False using ref_names_one(1) [OF a(1,2)] by blast
  qed
  then show "named d' \<and> filter (\<lambda>x. ref_key x \<noteq> ref_key ref) (dm_refs d') = filter (\<lambda>x. ref_key x \<noteq> ref_key ref) (dm_refs d)
      \<and> (if e = None then ref_key ref \<notin> ref_key ` set (dm_refs d') else dm_refs d' = dm_refs d)"
    using op_is_change(3) [OF a(1,2) refl x(1)] x(2) a(1) named_change [OF a(1) del] others_change [OF a(1,2) del]
    by (cases x) simp_all
next
  fix d ref req and q :: "run_error + int" and out d'
  assume "named d" "ri_Exec (daemon_if env m) ref req d = Some (q, out, d')"
  then show "named d' \<and> dm_refs d' = dm_refs d"
    by (auto simp: daemon_if_simps dest: rt_Exec_same)
next
  fix d a c d'
  assume "named d" "ri_acct (daemon_if env m) = Some a" "a d = (c, d')"
  then show "d' = d" using dm.committed_unchanged by (auto simp: daemon_if_simps named_def)
qed

section \<open>Properties of the service on the msb runtime\<close>

abbreviation msb_service :: "string option \<Rightarrow> meminfo \<Rightarrow> string \<Rightarrow> string \<Rightarrow> (string \<Rightarrow> string option)
    \<Rightarrow> (daemon, run_error) Service" where
  "msb_service env m project home eval \<equiv> New_service (daemon_if env m) project home eval env m"

lemma msb_service_simps [simp]:
  "svc_rt (msb_service env m project home eval) = daemon_if env m"
  "svc_project (msb_service env m project home eval) \<noteq> []"
  "svc_project (msb_service env m project home eval) = (if project = [] then DefaultProject else project)"
  by (simp_all add: New_service_def DefaultProject_def)

text \<open>C11: Sandboxes of other projects are out of reach. Whatever sequence of creates, starts,
  stops, removes, commands and listings a service of one project runs on the msb runtime, the
  listed references of every other project are the same afterwards, in the same order.\<close>

theorem service_isolates_projects:
  assumes "named d"
    and "service_run (New_service (daemon_if env m) project home eval env m) ops d = Some d'"
  shows "named d' \<and>
    foreign (if project = [] then DefaultProject else project) (dm_refs d')
      = foreign (if project = [] then DefaultProject else project) (dm_refs d)"
  using msb.run_foreign [OF assms(1) msb_service_simps(1) msb_service_simps(2) assms(2)] by simp

text \<open>A created sandbox is found by its name. When no listed sandbox answers to the name
  for this service, a successful Create returns a reference of the service's project and that
  name, and resolving the name afterwards gives that reference.\<close>

theorem created_sandbox_resolves:
  assumes "named d" "s = New_service (daemon_if env m) project home eval env m"
    and "service_Create s opts d = (Inr ref, d')"
    and "\<forall>r \<in> set (dm_refs d). \<not> resolves s (co_name opts) r"
  shows "ref_project ref = svc_project s \<and> ref_name ref = co_name opts
    \<and> service_Resolve s (co_name opts) d' = Some (Inr ref, d')"
  by (rule msb.created_resolves [OF assms(1) _ _ assms(3,4), of env m])
    (unfold assms(2), rule msb_service_simps(1), rule msb_service_simps(2))


section \<open>Concrete runs\<close>

definition two_projects :: daemon where
  "two_projects = \<lparr>dm_boxes = [box ''other--x'' 512 [], box ''herdr--x'' 512 []]\<rparr>"

lemma two_projects_refs:
  "dm_refs two_projects =
     [\<lparr>ref_id = ''other--x'', ref_project = ''other'', ref_name = ''x'', ref_status = StRunning\<rparr>,
      \<lparr>ref_id = ''herdr--x'', ref_project = ''herdr'', ref_name = ''x'', ref_status = StRunning\<rparr>]"
  by code_simp

lemma named_two_projects: "named two_projects"
proof -
  have "lookup_name (refFromHandle (box ''other--x'' 512 [])) = ''other--x''"
    "lookup_name (refFromHandle (box ''herdr--x'' 512 [])) = ''herdr--x''" by code_simp+
  then show ?thesis by (simp add: named_def dm_inv_def two_projects_def)
qed

lemma service_Remove_x:
  "service_run (New_service (daemon_if None OpenFailed) [] ''/root'' (\<lambda>_. None) None OpenFailed)
     [SvRemove ''x''] two_projects = Some \<lparr>dm_boxes = [box ''other--x'' 512 []]\<rparr>"
proof -
  let ?s = "New_service (daemon_if None OpenFailed) [] ''/root'' (\<lambda>_. None) None OpenFailed"
  let ?r = "\<lparr>ref_id = ''herdr--x'', ref_project = ''herdr'', ref_name = ''x'', ref_status = StRunning\<rparr>"
  have "service_Resolve ?s ''x'' two_projects = Some (Inr ?r, two_projects)"
    by (simp add: msb.resolve_result [OF named_two_projects msb_service_simps(1)] two_projects_refs
        resolves_def DefaultProject_def)
  moreover have "rt_Remove (New_runtime daemon_sdk None OpenFailed) ?r two_projects
      = (None, \<lparr>dm_boxes = [box ''other--x'' 512 []]\<rparr>)"
    by (simp add: rt_Remove_def rt_handle_lookup New_runtime_def dm_get_def dm_find_def dm_on_existing_def
        dm_delete_def lookup_name_def SDKName_def nameSep_def two_projects_def)
  ultimately show ?thesis by (simp add: service_Remove_def daemon_if_simps)
qed

theorem service_isolates_projects_witness:
  "foreign ''herdr'' (dm_refs \<lparr>dm_boxes = [box ''other--x'' 512 []]\<rparr>)
     = [\<lparr>ref_id = ''other--x'', ref_project = ''other'', ref_name = ''x'', ref_status = StRunning\<rparr>]"
  using service_isolates_projects [OF named_two_projects service_Remove_x]
  by (simp add: two_projects_refs foreign_def DefaultProject_def)

definition web_options :: CreateOptions where
  "web_options = \<lparr>co_name = ''web'', co_image = ''alpine'', co_vcpus = 1, co_memory = 0, co_motive = [],
     co_worktree = [], co_guest_worktree = [], co_credential = False, co_credential_path = [],
     co_guest_credential = [], co_ports = [], co_boot = True\<rparr>"

lemma web_spec:
  "service_Spec (New_service (daemon_if None OpenFailed) [] ''/root'' (\<lambda>_. None) None OpenFailed) web_options
     = Inr (empty_spec\<lparr>spec_project := ''herdr'', spec_name := ''web'', spec_image := ''alpine'',
              spec_vcpus := 1, spec_memory := 1024\<rparr>)"
  by (simp add: service_Spec_def web_options_def Let_def optional_mount_def New_service_def
      DefaultProject_def DefaultMemoryMiB_def MaxMemoryMiB_def MaxSandboxMemoryMiB_def empty_spec_def)

theorem created_sandbox_resolves_witness:
  "\<exists>ref d'. service_Create (New_service (daemon_if None OpenFailed) [] ''/root'' (\<lambda>_. None) None OpenFailed)
        web_options \<lparr>dm_boxes = []\<rparr> = (Inr ref, d')
     \<and> service_Resolve (New_service (daemon_if None OpenFailed) [] ''/root'' (\<lambda>_. None) None OpenFailed)
        ''web'' d' = Some (Inr ref, d')"
proof -
  let ?s = "New_service (daemon_if None OpenFailed) [] ''/root'' (\<lambda>_. None) None OpenFailed"
  let ?spec = "empty_spec\<lparr>spec_project := ''herdr'', spec_name := ''web'', spec_image := ''alpine'',
              spec_vcpus := 1, spec_memory := 1024\<rparr>"
  have adm: "Admit None OpenFailed (Some (CommittedMemoryMiB daemon_sdk)) 1024 \<lparr>dm_boxes = []\<rparr>
      = (None, \<lparr>dm_boxes = []\<rparr>)" by code_simp
  have "CreateAndBoot (New_runtime daemon_sdk None OpenFailed) ?spec \<lparr>dm_boxes = []\<rparr>
      = (Inr (refFromHandle (created_box ?spec)), \<lparr>dm_boxes = [created_box ?spec]\<rparr>)"
    using boot_on_daemon [OF _ refl _ refl, of ?spec "\<lparr>dm_boxes = []\<rparr>" None OpenFailed] adm
    by (simp add: CreateAndBoot_def Let_def New_runtime_def runtime_admit_def runtime_accountant_def
        SDKName_def created_box_def)
  then have c: "service_Create ?s web_options \<lparr>dm_boxes = []\<rparr>
      = (Inr (refFromHandle (created_box ?spec)), \<lparr>dm_boxes = [created_box ?spec]\<rparr>)"
    using adm by (simp add: service_Create_def web_spec daemon_if_simps)
      (simp add: New_service_def web_options_def daemon_if_simps)
  have "named \<lparr>dm_boxes = []\<rparr>" by (simp add: named_def dm_inv_def)
  from created_sandbox_resolves [OF this refl c] show ?thesis
    using c by (simp add: dm_refs_def web_options_def)
qed


end
