(* ===== verification/McpProps.thy ===== *)
theory McpProps
  imports McpServer MsbService
begin

text \<open>
  What the MCP server promises: one answer per request and none per notification, no substrate
  parameter past the handlers, every advertised tool reachable by its name. And what its create
  tool does on the msb runtime.
\<close>

section \<open>Tools\<close>

lemma find_first: "k \<in> set ks \<Longrightarrow> P k \<Longrightarrow> \<exists>k' \<in> set ks. find P ks = Some k'"
  by (induction ks) auto

lemma checkBanned_present:
  assumes "dec_rawmap j = Some m" "m k \<noteq> None" "k \<in> set bannedParams"
  shows "\<exists>k' \<in> set bannedParams. checkBanned (JDoc j) = Some (Banned k')"
  using find_first [OF assms(3), of "\<lambda>k. m k \<noteq> None"] assms(1,2)
  by (auto simp: checkBanned_def rawmap_of_def)

lemmas tool_defs = toolCreate_def toolList_def toolStart_def toolStop_def toolRemove_def toolExec_def

lemma handler_banned:
  "t \<in> set (buildTools rt) \<Longrightarrow> checkBanned raw = Some e \<Longrightarrow> tl_handler t raw w = Some (Inl e, w)"
  by (auto simp: buildTools_def tool_defs)

text \<open>C34: Substrate parameters never get past the server. A call of any tool whose arguments are
  an object with one of the keys rootfs_path, memory_mib or nested_virt is answered with the
  error for a banned key, before the handler touches the runtime.\<close>

theorem banned_parameters_refused:
  assumes "t \<in> set (buildTools rt)" "dec_rawmap j = Some m" "m k \<noteq> None" "k \<in> set bannedParams"
  shows "\<exists>k' \<in> set bannedParams. tl_handler t (JDoc j) w = Some (Inl (Banned k'), w)"
  using checkBanned_present [OF assms(2-4)] handler_banned [OF assms(1)] by blast

theorem banned_parameters_refused_witness:
  "\<exists>k' \<in> set bannedParams. tl_handler (toolRemove (daemon_if None OpenFailed))
      (JDoc (JObj [(''name'', JStr ''web''), (''memory_mib'', JNum ''64'')])) \<lparr>dm_boxes = []\<rparr>
    = Some (Inl (Banned k'), \<lparr>dm_boxes = []\<rparr>)"
  by (rule banned_parameters_refused [where rt = "daemon_if None OpenFailed" and k = "''memory_mib''"
        and m = "map_of (rev [(''name'', JStr ''web''), (''memory_mib'', JNum ''64'')])"])
    (simp_all add: buildTools_def dec_rawmap_def bannedParams_def)

lemma find_by_name:
  "distinct (map tl_name ts) \<Longrightarrow> t \<in> set ts \<Longrightarrow> find (\<lambda>x. tl_name x = tl_name t) ts = Some t"
  by (induction ts) auto

text \<open>What tools/list advertises is what tools/call accepts. The six names differ; calling a
  tool by its advertised name runs its handler on the given arguments, and its error is a
  result marked as one, not a protocol error; any other name is an invalid-params error that
  runs nothing.\<close>

theorem advertised_tools_are_callable:
  "distinct (map fst (descriptors (buildTools rt))) \<and>
   (t \<in> set (buildTools rt) \<longrightarrow>
      callTool (buildTools rt) (Some (JObj [(''name'', JStr (tl_name t)), (''arguments'', args)])) w
        = map_option (\<lambda>(r, w'). (Inr (case r of Inl e \<Rightarrow> RToolError e | Inr p \<Rightarrow> RToolText p), w'))
            (tl_handler t (JDoc args) w)) \<and>
   (n \<notin> fst ` set (descriptors (buildTools rt)) \<longrightarrow>
      callTool (buildTools rt) (Some (JObj [(''name'', JStr n), (''arguments'', args)])) w
        = Some (Inl CodeInvalidParams, w))"
proof -
  have d: "distinct (map tl_name (buildTools rt))" by (simp add: buildTools_def tool_defs)
  have names: "tl_name x \<noteq> []" if "x \<in> set (buildTools rt)" for x
    using that by (auto simp: buildTools_def tool_defs)
  have k: "\<not> key_is ''name'' ''arguments''" by (simp add: key_is_def)
  have dec: "unmarshal dec_call ([], None) (JDoc (JObj [(''name'', JStr x), (''arguments'', args)])) = Some (x, Some args)" for x
    by (simp add: unmarshal_def dec_call_def dec_struct_def dec_string_def k)
  have "callTool (buildTools rt) (Some (JObj [(''name'', JStr (tl_name t)), (''arguments'', args)])) w
        = map_option (\<lambda>(r, w'). (Inr (case r of Inl e \<Rightarrow> RToolError e | Inr p \<Rightarrow> RToolText p), w'))
            (tl_handler t (JDoc args) w)" if "t \<in> set (buildTools rt)"
    using names [OF that] find_by_name [OF d that]
    by (simp add: callTool_def dec text_of_def split: option.splits sum.splits)
  moreover have "callTool (buildTools rt) (Some (JObj [(''name'', JStr n), (''arguments'', args)])) w
        = Some (Inl CodeInvalidParams, w)" if "n \<notin> fst ` set (descriptors (buildTools rt))"
  proof -
    have "find (\<lambda>t. tl_name t = n) (buildTools rt) = None"
      using that by (auto simp: descriptors_def find_None_iff image_iff)
    then show ?thesis by (simp add: callTool_def dec)
  qed
  moreover have "map fst (descriptors (buildTools rt)) = map tl_name (buildTools rt)"
    by (simp add: descriptors_def)
  ultimately show ?thesis using d by simp
qed

theorem advertised_tools_are_callable_witness:
  "callTool (buildTools (daemon_if None OpenFailed))
      (Some (JObj [(''name'', JStr ''sandbox_start''), (''arguments'', JObj [])])) \<lparr>dm_boxes = []\<rparr>
     = Some (Inr (RToolError NameMissing), \<lparr>dm_boxes = []\<rparr>)"
proof -
  let ?rt = "daemon_if None OpenFailed"
  have t: "toolStart ?rt \<in> set (buildTools ?rt)" by (simp add: buildTools_def)
  have n: "tl_name (toolStart ?rt) = ''sandbox_start''" by (simp add: toolStart_def)
  have "checkBanned (JDoc (JObj [])) = (None :: run_error tool_error option)"
    by (simp add: checkBanned_def rawmap_of_def dec_rawmap_def bannedParams_def)
  moreover have "parseRef (JDoc (JObj [])) = (Inl NameMissing :: run_error tool_error + SandboxRef)"
    by (simp add: parseRef_def unmarshal_def dec_ref_args_def dec_struct_def)
  ultimately have "tl_handler (toolStart ?rt) (JDoc (JObj [])) \<lparr>dm_boxes = []\<rparr> = Some (Inl NameMissing, \<lparr>dm_boxes = []\<rparr>)"
    by (simp add: toolStart_def)
  then show ?thesis
    using advertised_tools_are_callable [of ?rt "toolStart ?rt" "JObj []" "\<lparr>dm_boxes = []\<rparr>" "[]"] t
    unfolding n by simp
qed

section \<open>One answer per request\<close>

text \<open>Whether a line is answered, and the id the answer carries.\<close>

definition answer_id :: "jtext \<Rightarrow> json option option" where
  "answer_id line =
     (if line = JEmpty then None
      else (case unmarshal dec_rpcRequest no_request line of
              None \<Rightarrow> Some None
            | Some req \<Rightarrow> (case rq_id req of None \<Rightarrow> None | Some i \<Rightarrow> Some (Some i))))"

lemma handleLine_id:
  assumes "handleLine tools line w = Some (resp, w')" "line \<noteq> JEmpty"
  shows "map_option fst resp = answer_id line"
  using assms by (auto simp: handleLine_def answer_id_def split: option.splits if_splits)

lemma find_mem: "find P xs = Some x \<Longrightarrow> x \<in> set xs"
  by (auto simp: find_Some_iff)

lemma handleLine_world:
  assumes "handleLine tools line w = Some (resp, w')"
    and "\<And>t raw v r v'. t \<in> set tools \<Longrightarrow> tl_handler t raw v = Some (r, v') \<Longrightarrow> log v' = log v"
  shows "log w' = log w"
proof -
  have call: "log v' = log v" if "callTool tools raw v = Some (r, v')" for raw v r v'
    using that assms(2) by (auto simp: callTool_def dest!: find_mem split: option.splits if_splits sum.splits)
  have "log v' = log v" if "dispatch tools req v = Some (r, v')" for req v r v'
    using that call by (auto simp: dispatch_def split: if_splits)
  with assms(1) show ?thesis
    by (auto simp: handleLine_def split: option.splits if_splits prod.splits)
qed

text \<open>C33: Every request is answered once, in order, under its own id, and no notification is
  answered. Let \<open>log\<close> be the responses written, which only the encoder extends. When Serve ends
  without a write error, the ids of the responses are those of the lines that are requests, and
  an empty id for each line that is not JSON of a request.\<close>

theorem one_answer_per_request:
  assumes "Serve tools enc scanErr lines w = Some (e, w')" "\<And>x. e \<noteq> Some (WriteResponse x)"
    and "\<And>r v v'. enc r v = (None, v') \<Longrightarrow> log v' = log v @ [r]"
    and "\<And>t raw v r v'. t \<in> set tools \<Longrightarrow> tl_handler t raw v = Some (r, v') \<Longrightarrow> log v' = log v"
  shows "map fst (log w') = map fst (log w) @ List.map_filter answer_id lines"
  using assms(1,2)
proof (induction lines arbitrary: w)
  case (Cons line rest)
  show ?case
  proof (cases "line = JEmpty")
    case True
    with Cons show ?thesis by (simp add: answer_id_def List.map_filter_def)
  next
    case False
    then obtain resp w1 where h: "handleLine tools line w = Some (resp, w1)"
      using Cons.prems(1) by (auto split: option.splits)
    have id: "map_option fst resp = answer_id line" by (rule handleLine_id [OF h False])
    have log1: "log w1 = log w" by (rule handleLine_world [OF h assms(4)])
    show ?thesis
    proof (cases resp)
      case None
      with Cons.prems h False have "Serve tools enc scanErr rest w1 = Some (e, w')" by simp
      from Cons.IH [OF this Cons.prems(2)] None id log1 show ?thesis
        by (simp add: List.map_filter_def)
    next
      case (Some r)
      obtain x w2 where enc: "enc r w1 = (x, w2)" by fastforce
      have x: "x = None" "Serve tools enc scanErr rest w2 = Some (e, w')"
        using Cons.prems h False Some enc by (auto split: option.splits)
      have log2: "log w2 = log w1 @ [r]" using assms(3) enc x(1) by blast
      have "answer_id line = Some (fst r)" using id Some by simp
      with Cons.IH [OF x(2) Cons.prems(2)] log2 log1 show ?thesis
        by (simp add: List.map_filter_def)
    qed
  qed
qed (simp add: List.map_filter_def)

text \<open>A runtime that refuses everything, over the list of responses written so far.\<close>

definition refusing :: "(string response list, string) runtime_if" where
  "refusing = \<lparr>ri_Create = (\<lambda>_ w. (Inl [], w)), ri_CreateAndBoot = (\<lambda>_ w. (Inl [], w)),
     ri_List = (\<lambda>w. Some (Inr [], w)), ri_Start = (\<lambda>_ w. (Inl [], w)), ri_Stop = (\<lambda>_ w. (Inl [], w)),
     ri_Remove = (\<lambda>_ w. (Some [], w)), ri_Exec = (\<lambda>_ _ w. Some (Inl [], ([], []), w)), ri_acct = None\<rparr>"

lemma refusing_keeps:
  "t \<in> set (buildTools refusing) \<Longrightarrow> tl_handler t raw v = Some (r, v') \<Longrightarrow> v' = v"
  by (auto simp: buildTools_def tool_defs refusing_def split: option.splits sum.splits if_splits)

definition sample_lines :: "jtext list" where
  "sample_lines =
     [JDoc (JObj [(''jsonrpc'', JStr ''2.0''), (''id'', JNum ''1''), (''method'', JStr ''initialize'')]),
      JDoc (JObj [(''jsonrpc'', JStr ''2.0''), (''method'', JStr ''notifications/initialized'')]),
      JEmpty, JMalformed,
      JDoc (JObj [(''jsonrpc'', JStr ''2.0''), (''id'', JNull), (''method'', JStr ''ping'')])]"

lemma request_keys:
  "\<not> key_is ''jsonrpc'' ''id''" "\<not> key_is ''jsonrpc'' ''method''" "\<not> key_is ''id'' ''method''"
  by (simp_all add: key_is_def)

lemma sample_served:
  "Serve (buildTools refusing) (\<lambda>r v. (None, v @ [r])) None sample_lines []
     = Some (None, [(Some (JNum ''1''), Inr (RInitialize ProtocolVersion ServerName ServerVersion)),
         (None, Inl CodeParseError), (Some JNull, Inr REmpty)])"
  by (simp add: sample_lines_def handleLine_def unmarshal_def dec_rpcRequest_def dec_struct_def
      dec_string_def no_request_def request_keys dispatch_def)

theorem one_answer_per_request_witness:
  "List.map_filter answer_id sample_lines = [Some (JNum ''1''), None, Some JNull]"
  using one_answer_per_request [where log = "\<lambda>x. x", OF sample_served] refusing_keeps by fastforce

section \<open>Create on the msb runtime\<close>

text \<open>The create tool cannot create. It never sets a memory size and refuses arguments that
  name one, and the msb runtime admits no sandbox of size zero: over any SDK and with any
  arguments the call ends in an error, and the only thing done is to read committed memory.\<close>

theorem create_tool_never_creates:
  assumes "rt = New_runtime sdk env m"
  shows "\<exists>e. tl_handler (toolCreate (msb_if rt ex out)) raw w = Some (Inl e, w)
    \<or> tl_handler (toolCreate (msb_if rt ex out)) raw w = Some (Inl e, snd (CommittedMemoryMiB sdk w))"
proof -
  have mem: "spec_memory (create_spec fields) = 0" for fields by (simp add: create_spec_def empty_spec_def)
  have boot: "\<exists>e. CreateAndBoot rt (create_spec fields) w = (Inl e, w)
      \<or> CreateAndBoot rt (create_spec fields) w = (Inl e, snd (CommittedMemoryMiB sdk w))" for fields
    using Admit_None [of env m "Some (CommittedMemoryMiB sdk)" 0 w]
    by (auto simp: CreateAndBoot_def Let_def assms New_runtime_def runtime_admit_def runtime_accountant_def
        mem Admit_def Decide_def split: sum.splits prod.splits)
  show ?thesis
  proof (cases "checkBanned raw :: run_error tool_error option")
    case (Some e)
    then show ?thesis by (auto simp: toolCreate_def)
  next
    case None
    show ?thesis
    proof (cases "rawmap_of raw")
      case None
      with \<open>checkBanned raw = None\<close> show ?thesis by (auto simp: toolCreate_def)
    next
      case (Some fields)
      then show ?thesis using \<open>checkBanned raw = None\<close> boot [of fields]
        by (auto simp: toolCreate_def msb_if_def)
    qed
  qed
qed

theorem create_tool_never_creates_witness:
  "\<exists>e. tl_handler (toolCreate (msb_if (New_runtime daemon_sdk None OpenFailed) daemon_exec (\<lambda>_. ([], []))))
      (JDoc (JObj [(''name'', JStr ''web''), (''image_ref'', JStr ''alpine'')])) \<lparr>dm_boxes = []\<rparr>
    = Some (Inl e, \<lparr>dm_boxes = []\<rparr>)"
proof -
  have "snd (CommittedMemoryMiB daemon_sdk \<lparr>dm_boxes = []\<rparr>) = \<lparr>dm_boxes = []\<rparr>" by code_simp
  then show ?thesis
    using create_tool_never_creates [OF refl, of daemon_sdk None OpenFailed daemon_exec "\<lambda>_. ([], [])"
        "JDoc (JObj [(''name'', JStr ''web''), (''image_ref'', JStr ''alpine'')])" "\<lparr>dm_boxes = []\<rparr>"] by simp
qed

end
