(* ===== verification/GoFlag.thy ===== *)
theory GoFlag
  imports GoStrings
begin

text \<open>
  The part of Go's \<open>flag\<close> package the commands use: a flag set parsed with \<open>ContinueOnError\<close>.
  \<open>parse_flags\<close> is \<open>(*FlagSet).Parse\<close>: \<open>None\<close> is any error (also \<open>-h\<close>), otherwise the assignments
  in order and the remaining arguments. Parsing stops at the first argument that is not a flag
  and behind the terminator \<open>--\<close>.
\<close>

section \<open>Values\<close>

definition parse_bool :: "string \<Rightarrow> bool option" where
  "parse_bool s =
     (if s \<in> {''1'', ''t'', ''T'', ''TRUE'', ''true'', ''True''} then Some True
      else if s \<in> {''0'', ''f'', ''F'', ''FALSE'', ''false'', ''False''} then Some False
      else None)"

text \<open>\<open>strconv.ParseUint(s, 0, 64)\<close>: a prefix gives the base, a leading zero alone base 8;
  underscores may separate digits, and the prefix from them.\<close>

fun no_bad_underscore :: "bool \<Rightarrow> string \<Rightarrow> bool" where
  "no_bad_underscore prev [] = prev"
| "no_bad_underscore prev (c # cs) =
     (if c = CHR ''_'' then prev \<and> no_bad_underscore False cs else no_bad_underscore True cs)"

definition parse_based :: "bool \<Rightarrow> nat \<Rightarrow> string \<Rightarrow> nat option" where
  "parse_based prefixed b s =
     (if no_bad_underscore prefixed s then parse_uint b 64 (filter (\<lambda>c. c \<noteq> CHR ''_'') s) else None)"

definition parse_uint0 :: "string \<Rightarrow> nat option" where
  "parse_uint0 s =
     (case s of
        CHR ''0'' # c # rest \<Rightarrow>
          if c \<in> {CHR ''x'', CHR ''X''} then parse_based True 16 rest
          else if c \<in> {CHR ''b'', CHR ''B''} then parse_based True 2 rest
          else if c \<in> {CHR ''o'', CHR ''O''} then parse_based True 8 rest
          else parse_based True 8 (c # rest)
      | _ \<Rightarrow> parse_based False 10 s)"

section \<open>Parsing\<close>

datatype flag_kind = FlagBool | FlagString | FlagUint | FlagVar "string \<Rightarrow> bool"

type_synonym flag_set = "(string \<times> flag_kind) list"

fun valid_value :: "flag_kind \<Rightarrow> string \<Rightarrow> bool" where
  "valid_value FlagBool v = (parse_bool v \<noteq> None)"
| "valid_value FlagString v = True"
| "valid_value FlagUint v = (parse_uint0 v \<noteq> None)"
| "valid_value (FlagVar ok) v = ok v"

text \<open>The name and the value of \<open>name=value\<close>; the first character cannot be the separator.\<close>

definition cut_flag :: "string \<Rightarrow> string \<times> string option" where
  "cut_flag s =
     (case s of
        [] \<Rightarrow> ([], None)
      | c # cs \<Rightarrow> (case index_byte (CHR ''='') cs of
                    None \<Rightarrow> (s, None)
                  | Some i \<Rightarrow> (c # take i cs, Some (drop (i + 1) cs))))"

datatype flag_word = NotFlag | Terminator | FlagNamed string

definition flag_word :: "string \<Rightarrow> flag_word" where
  "flag_word s =
     (case s of
        CHR ''-'' # CHR ''-'' # rest \<Rightarrow> if rest = [] then Terminator else FlagNamed rest
      | CHR ''-'' # c # rest \<Rightarrow> FlagNamed (c # rest)
      | _ \<Rightarrow> NotFlag)"

fun parse_flags :: "flag_set \<Rightarrow> string list \<Rightarrow> ((string \<times> string) list \<times> string list) option" where
  "parse_flags fs [] = Some ([], [])"
| "parse_flags fs (s # args) =
     (case flag_word s of
        NotFlag \<Rightarrow> Some ([], s # args)
      | Terminator \<Rightarrow> Some ([], args)
      | FlagNamed body \<Rightarrow>
          if hd body \<in> {CHR ''-'', CHR ''=''} then None
          else (case cut_flag body of
                  (name, value) \<Rightarrow>
                    (case map_of fs name of
                       None \<Rightarrow> None
                     | Some FlagBool \<Rightarrow>
                         (let v = (case value of Some v \<Rightarrow> v | None \<Rightarrow> ''true'') in
                          if valid_value FlagBool v
                          then map_option (\<lambda>(as, rest). ((name, v) # as, rest)) (parse_flags fs args)
                          else None)
                     | Some k \<Rightarrow>
                         (case value of
                            Some v \<Rightarrow>
                              if valid_value k v
                              then map_option (\<lambda>(as, rest). ((name, v) # as, rest)) (parse_flags fs args)
                              else None
                          | None \<Rightarrow>
                              (case args of
                                 [] \<Rightarrow> None
                               | v # args' \<Rightarrow>
                                   if valid_value k v
                                   then map_option (\<lambda>(as, rest). ((name, v) # as, rest)) (parse_flags fs args')
                                   else None)))))"

section \<open>Reading the flags\<close>

text \<open>The last assignment wins; without one the flag has its default.\<close>

definition flag_last :: "(string \<times> string) list \<Rightarrow> string \<Rightarrow> string option" where
  "flag_last as n = map_of (rev as) n"

definition flag_string :: "(string \<times> string) list \<Rightarrow> string \<Rightarrow> string \<Rightarrow> string" where
  "flag_string as n d = (case flag_last as n of None \<Rightarrow> d | Some v \<Rightarrow> v)"

definition flag_bool :: "(string \<times> string) list \<Rightarrow> string \<Rightarrow> bool \<Rightarrow> bool" where
  "flag_bool as n d =
     (case flag_last as n of None \<Rightarrow> d | Some v \<Rightarrow> (case parse_bool v of Some b \<Rightarrow> b | None \<Rightarrow> d))"

definition flag_uint :: "(string \<times> string) list \<Rightarrow> string \<Rightarrow> nat \<Rightarrow> nat" where
  "flag_uint as n d =
     (case flag_last as n of None \<Rightarrow> d | Some v \<Rightarrow> (case parse_uint0 v of Some k \<Rightarrow> k | None \<Rightarrow> d))"

definition flag_values :: "(string \<times> string) list \<Rightarrow> string \<Rightarrow> string list" where
  "flag_values as n = map snd (filter (\<lambda>a. fst a = n) as)"

section \<open>Writing the flags\<close>

text \<open>Assignments written as \<open>--name=value\<close> are read back, up to the first argument that is not a
  flag. It is how the arguments built by the program reach its own commands.\<close>

definition long_flag :: "string \<times> string \<Rightarrow> string" where
  "long_flag a = ''--'' @ fst a @ ''='' @ snd a"

definition flag_name :: "string \<Rightarrow> bool" where
  "flag_name n \<longleftrightarrow> n \<noteq> [] \<and> hd n \<noteq> CHR ''-'' \<and> CHR ''='' \<notin> set n"

lemma cut_flag_append: "flag_name n \<Longrightarrow> cut_flag (n @ CHR ''='' # v) = (n, Some v)"
  by (cases n) (auto simp: cut_flag_def flag_name_def index_byte_append)

lemma flag_word_long: "flag_name n \<Longrightarrow> flag_word (long_flag (n, v)) = FlagNamed (n @ CHR ''='' # v)"
  by (cases n) (auto simp: flag_word_def long_flag_def flag_name_def)

lemma parse_flags_written:
  assumes "\<forall>(n, v) \<in> set as. flag_name n \<and> (\<exists>k. map_of fs n = Some k \<and> valid_value k v)"
    and "rest = [] \<or> flag_word (hd rest) = NotFlag"
  shows "parse_flags fs (map long_flag as @ rest) = Some (as, rest)"
  using assms(1)
proof (induction as)
  case Nil
  then show ?case using assms(2) by (cases rest) simp_all
next
  case (Cons a as)
  obtain n v where a: "a = (n, v)" by fastforce
  then obtain k where k: "flag_name n" "map_of fs n = Some k" "valid_value k v" using Cons.prems by auto
  then have "hd (n @ CHR ''='' # v) \<notin> {CHR ''-'', CHR ''=''}" by (cases n) (auto simp: flag_name_def)
  with Cons a k show ?case
    by (cases k) (simp_all add: flag_word_long cut_flag_append Let_def)
qed

declare parse_flags.simps(2) [simp del]

end
