(* ===== verification/ClientQueue.thy ===== *)
theory ClientQueue
  imports GoJson
begin

text \<open>
  \<open>internal/clientagent/queue.go\<close>: the file of forwarding requests a host keeps for the agents
  of its clients. The data and their JSON form, the atomic write, the acknowledgement file, and
  the three queue operations NextID, Enqueue and Prune.
\<close>

section \<open>Data\<close>

record Request =
  req_id :: u64
  req_host :: string
  req_rport :: u16
  req_lport :: u16
  req_bind :: string
  req_origin :: string
  req_pane :: string
  req_url :: string
  req_version :: string
  req_created :: u64

definition empty_request :: Request where
  "empty_request = \<lparr>req_id = 0, req_host = [], req_rport = 0, req_lport = 0, req_bind = [],
     req_origin = [], req_pane = [], req_url = [], req_version = [], req_created = 0\<rparr>"

record Queue =
  q_version :: u32
  q_last :: u64
  q_pending :: "Request list"

definition empty_queue :: Queue where
  "empty_queue = \<lparr>q_version = 0, q_last = 0, q_pending = []\<rparr>"

definition new_queue :: Queue where
  "new_queue = \<lparr>q_version = 1, q_last = 0, q_pending = []\<rparr>"

section \<open>JSON form\<close>

definition enc_request :: "Request \<Rightarrow> json" where
  "enc_request r = JObj
     ([(''id'', JNum (show_nat (unat (req_id r)))),
       (''host'', JStr (req_host r)),
       (''remote_port'', JNum (show_nat (unat (req_rport r)))),
       (''local_port'', JNum (show_nat (unat (req_lport r)))),
       (''remote_bind'', JStr (req_bind r)),
       (''origin'', JStr (req_origin r))]
      @ (if req_pane r = [] then [] else [(''pane_id'', JStr (req_pane r))])
      @ (if req_url r = [] then [] else [(''open_url'', JStr (req_url r))])
      @ [(''plugin_version'', JStr (req_version r)),
         (''created_unix_ms'', JNum (show_nat (unat (req_created r))))])"

definition dec_request :: "Request decoder" where
  "dec_request = dec_struct (\<lambda>k j r.
     if key_is ''id'' k then (let (ok, v) = dec_uint 64 j (req_id r) in (ok, r\<lparr>req_id := v\<rparr>))
     else if key_is ''host'' k then (let (ok, v) = dec_string j (req_host r) in (ok, r\<lparr>req_host := v\<rparr>))
     else if key_is ''remote_port'' k then
       (let (ok, v) = dec_uint 16 j (req_rport r) in (ok, r\<lparr>req_rport := v\<rparr>))
     else if key_is ''local_port'' k then
       (let (ok, v) = dec_uint 16 j (req_lport r) in (ok, r\<lparr>req_lport := v\<rparr>))
     else if key_is ''remote_bind'' k then
       (let (ok, v) = dec_string j (req_bind r) in (ok, r\<lparr>req_bind := v\<rparr>))
     else if key_is ''origin'' k then
       (let (ok, v) = dec_string j (req_origin r) in (ok, r\<lparr>req_origin := v\<rparr>))
     else if key_is ''pane_id'' k then
       (let (ok, v) = dec_string j (req_pane r) in (ok, r\<lparr>req_pane := v\<rparr>))
     else if key_is ''open_url'' k then
       (let (ok, v) = dec_string j (req_url r) in (ok, r\<lparr>req_url := v\<rparr>))
     else if key_is ''plugin_version'' k then
       (let (ok, v) = dec_string j (req_version r) in (ok, r\<lparr>req_version := v\<rparr>))
     else if key_is ''created_unix_ms'' k then
       (let (ok, v) = dec_uint 64 j (req_created r) in (ok, r\<lparr>req_created := v\<rparr>))
     else (True, r))"

text \<open>A nil slice is written \<open>null\<close> and an empty one \<open>[]\<close>; both are read as no request.\<close>

definition enc_queue :: "Queue \<Rightarrow> json" where
  "enc_queue q = JObj
     [(''version'', JNum (show_nat (unat (q_version q)))),
      (''last_consumed_id'', JNum (show_nat (unat (q_last q)))),
      (''pending'', JArr (map enc_request (q_pending q)))]"

definition dec_queue :: "Queue decoder" where
  "dec_queue = dec_struct (\<lambda>k j q.
     if key_is ''version'' k then
       (let (ok, v) = dec_uint 32 j (q_version q) in (ok, q\<lparr>q_version := v\<rparr>))
     else if key_is ''last_consumed_id'' k then
       (let (ok, v) = dec_uint 64 j (q_last q) in (ok, q\<lparr>q_last := v\<rparr>))
     else if key_is ''pending'' k then
       (let (ok, v) = dec_slice dec_request empty_request j (q_pending q) in (ok, q\<lparr>q_pending := v\<rparr>))
     else (True, q))"

section \<open>Files\<close>

text \<open>What \<open>os.ReadFile\<close> finds: no file, another error, or the contents.\<close>

datatype 'a fsfile = NoFile | ReadError string | Contents 'a

datatype queue_error = QueueRead string | QueueParse

definition LoadQueue :: "jtext fsfile \<Rightarrow> queue_error + Queue" where
  "LoadQueue f =
     (case f of
        NoFile \<Rightarrow> Inr new_queue
      | ReadError e \<Rightarrow> Inl (QueueRead e)
      | Contents t \<Rightarrow>
          (case unmarshal dec_queue empty_queue t of
             None \<Rightarrow> Inl QueueParse
           | Some q \<Rightarrow> Inr (if q_version q = 0 then q\<lparr>q_version := 1\<rparr> else q)))"

text \<open>
  The queue's directory: the file and its temporary sibling. \<open>wf_\<close> are the results the three
  file operations may have; a failed write leaves an arbitrary temporary file.
\<close>

record qdir =
  qd_file :: "jtext fsfile"
  qd_tmp :: "jtext fsfile"

record write_faults =
  wf_mkdir :: "string option"
  wf_write :: "(string \<times> jtext) option"
  wf_rename :: "string option"

definition WriteQueueAtomic :: "write_faults \<Rightarrow> Queue \<Rightarrow> (qdir, string option) act" where
  "WriteQueueAtomic f q d =
     (case wf_mkdir f of
        Some e \<Rightarrow> (Some e, d)
      | None \<Rightarrow>
          (case wf_write f of
             Some (e, t) \<Rightarrow> (Some e, d\<lparr>qd_tmp := Contents t\<rparr>)
           | None \<Rightarrow>
               (let d1 = d\<lparr>qd_tmp := Contents (JDoc (enc_queue q))\<rparr> in
                case wf_rename f of
                  Some e \<Rightarrow> (Some e, d1)
                | None \<Rightarrow> (None, d1\<lparr>qd_file := qd_tmp d1, qd_tmp := NoFile\<rparr>))))"

definition ReadAck :: "string fsfile \<Rightarrow> string + u64" where
  "ReadAck f =
     (case f of
        NoFile \<Rightarrow> Inr 0
      | ReadError e \<Rightarrow> Inl e
      | Contents s \<Rightarrow> (case parse_uint 10 64 (trim_space s) of None \<Rightarrow> Inr 0 | Some n \<Rightarrow> Inr (word_of_nat n)))"

text \<open>\<open>scan\<close> is the lexical layer of \<open>encoding/json\<close>: the syntax class of a non-empty text.\<close>

definition ParseQueueJSON :: "(string \<Rightarrow> jtext) \<Rightarrow> string \<Rightarrow> queue_error + Queue" where
  "ParseQueueJSON scan s =
     (let t = trim_space s in
      if t = [] then Inr new_queue
      else (case unmarshal dec_queue empty_queue (scan t) of
              None \<Rightarrow> Inl QueueParse
            | Some q \<Rightarrow> Inr q))"

section \<open>Queue operations\<close>

text \<open>\<open>sort.Slice\<close> sorts by id but is not stable: its result is the parameter \<open>srt\<close>, of which
  \<open>id_sort srt\<close> is known.\<close>

definition id_sort :: "(Request list \<Rightarrow> Request list) \<Rightarrow> bool" where
  "id_sort srt \<longleftrightarrow> (\<forall>rs. mset (srt rs) = mset rs \<and> sorted (map req_id (srt rs)))"

definition max_id :: "u64 \<Rightarrow> Request list \<Rightarrow> u64" where
  "max_id m rs = fold (\<lambda>r m. if req_id r > m then req_id r else m) rs m"

definition NextID :: "Queue \<Rightarrow> u64" where
  "NextID q = max_id (q_last q) (q_pending q) + 1"

definition Enqueue :: "(Request list \<Rightarrow> Request list) \<Rightarrow> Request \<Rightarrow> Queue \<Rightarrow> Request \<times> Queue" where
  "Enqueue srt r q =
     (let r' = (if req_id r = 0 then r\<lparr>req_id := NextID q\<rparr> else r) in
      (r', q\<lparr>q_pending := srt (q_pending q @ [r'])\<rparr>))"

text \<open>Times are nanoseconds since the epoch; \<open>uint64(t.UnixMilli())\<close> wraps below zero.\<close>

definition cutoff_ms :: "int \<Rightarrow> int \<Rightarrow> u64" where
  "cutoff_ms now ttl = word_of_int ((now - ttl) div 1000000)"

definition Prune :: "u64 \<Rightarrow> int \<Rightarrow> int \<Rightarrow> Queue \<Rightarrow> Queue" where
  "Prune acked now ttl q =
     (let cutoff = cutoff_ms now ttl;
          q1 = q\<lparr>q_pending := filter (\<lambda>r. \<not> (req_id r \<le> acked \<or> req_created r < cutoff)) (q_pending q)\<rparr>
      in if acked > q_last q1 then q1\<lparr>q_last := acked\<rparr> else q1)"

section \<open>Lemmas\<close>

lemma keys_differ:
  "\<not> key_is ''id'' ''host''" "\<not> key_is ''id'' ''remote_port''" "\<not> key_is ''id'' ''local_port''"
  "\<not> key_is ''id'' ''remote_bind''" "\<not> key_is ''id'' ''origin''" "\<not> key_is ''id'' ''pane_id''"
  "\<not> key_is ''id'' ''open_url''" "\<not> key_is ''id'' ''plugin_version''" "\<not> key_is ''id'' ''created_unix_ms''"
  "\<not> key_is ''host'' ''remote_port''" "\<not> key_is ''host'' ''local_port''" "\<not> key_is ''host'' ''remote_bind''"
  "\<not> key_is ''host'' ''origin''" "\<not> key_is ''host'' ''pane_id''" "\<not> key_is ''host'' ''open_url''"
  "\<not> key_is ''host'' ''plugin_version''" "\<not> key_is ''host'' ''created_unix_ms''"
  "\<not> key_is ''remote_port'' ''local_port''" "\<not> key_is ''remote_port'' ''remote_bind''"
  "\<not> key_is ''remote_port'' ''origin''" "\<not> key_is ''remote_port'' ''pane_id''"
  "\<not> key_is ''remote_port'' ''open_url''" "\<not> key_is ''remote_port'' ''plugin_version''"
  "\<not> key_is ''remote_port'' ''created_unix_ms''"
  "\<not> key_is ''local_port'' ''remote_bind''" "\<not> key_is ''local_port'' ''origin''"
  "\<not> key_is ''local_port'' ''pane_id''" "\<not> key_is ''local_port'' ''open_url''"
  "\<not> key_is ''local_port'' ''plugin_version''" "\<not> key_is ''local_port'' ''created_unix_ms''"
  "\<not> key_is ''remote_bind'' ''origin''" "\<not> key_is ''remote_bind'' ''pane_id''"
  "\<not> key_is ''remote_bind'' ''open_url''" "\<not> key_is ''remote_bind'' ''plugin_version''"
  "\<not> key_is ''remote_bind'' ''created_unix_ms''"
  "\<not> key_is ''origin'' ''pane_id''" "\<not> key_is ''origin'' ''open_url''"
  "\<not> key_is ''origin'' ''plugin_version''" "\<not> key_is ''origin'' ''created_unix_ms''"
  "\<not> key_is ''pane_id'' ''open_url''" "\<not> key_is ''pane_id'' ''plugin_version''"
  "\<not> key_is ''pane_id'' ''created_unix_ms''"
  "\<not> key_is ''open_url'' ''plugin_version''" "\<not> key_is ''open_url'' ''created_unix_ms''"
  "\<not> key_is ''plugin_version'' ''created_unix_ms''"
  "\<not> key_is ''version'' ''last_consumed_id''" "\<not> key_is ''version'' ''pending''"
  "\<not> key_is ''last_consumed_id'' ''pending''"
  by (simp_all add: key_is_def lower_char_def)

lemma dec_uint_show:
  "dec_uint 64 (JNum (show_nat (unat (a :: u64)))) v = (True, a)"
  "dec_uint 16 (JNum (show_nat (unat (b :: u16)))) v' = (True, b)"
  "dec_uint 32 (JNum (show_nat (unat (c :: u32)))) v'' = (True, c)"
  by (simp_all add: dec_uint_def)

lemma dec_enc_request: "dec_request (enc_request r) empty_request = (True, r)"
  by (simp add: dec_request_def enc_request_def dec_struct_def keys_differ dec_uint_show
      dec_string_def empty_request_def)

lemma dec_enc_queue: "unmarshal dec_queue empty_queue (JDoc (enc_queue q)) = Some q"
proof -
  have "dec_elems dec_request empty_request (map enc_request rs) = (True, rs)" for rs
    by (induction rs) (simp_all add: dec_enc_request)
  then show ?thesis
    by (simp add: unmarshal_def dec_queue_def enc_queue_def dec_struct_def keys_differ dec_uint_show
        dec_slice_def empty_queue_def)
qed

lemma max_id_Cons: "max_id m (a # rs) = max_id (if req_id a > m then req_id a else m) rs"
  by (simp add: max_id_def)

lemma max_id_start: "m \<le> max_id m rs"
proof (induction rs arbitrary: m)
  case Nil
  show ?case by (simp add: max_id_def)
next
  case (Cons a rs)
  have "m \<le> (if req_id a > m then req_id a else m)" by auto
  also have "\<dots> \<le> max_id m (a # rs)" unfolding max_id_Cons by (rule Cons)
  finally show ?case .
qed

lemma max_id_member: "r \<in> set rs \<Longrightarrow> req_id r \<le> max_id m rs"
proof (induction rs arbitrary: m)
  case (Cons a rs)
  show ?case
  proof (cases "r = a")
    case True
    then have "req_id r \<le> (if req_id a > m then req_id a else m)" by auto
    also have "\<dots> \<le> max_id m (a # rs)" unfolding max_id_Cons by (rule max_id_start)
    finally show ?thesis .
  next
    case False
    with Cons show ?thesis unfolding max_id_Cons by simp
  qed
qed simp

lemma NextID_fresh:
  assumes "max_id (q_last q) (q_pending q) \<noteq> - 1"
  shows "q_last q < NextID q \<and> (\<forall>r \<in> set (q_pending q). req_id r < NextID q)"
proof -
  let ?m = "max_id (q_last q) (q_pending q)"
  have "?m < ?m + 1" using assms by (rule u64_less_Suc)
  then show ?thesis
    using max_id_start [of "q_last q" "q_pending q"] max_id_member [of _ "q_pending q" "q_last q"]
    unfolding NextID_def by (meson le_less_trans)
qed

lemma id_sort_facts:
  assumes "id_sort srt"
  shows "set (srt rs) = set rs" "sorted (map req_id (srt rs))" "mset (srt rs) = mset rs"
  using assms by (auto simp: id_sort_def dest: mset_eq_setD)

section \<open>Properties\<close>

definition queue_ok :: "Queue \<Rightarrow> bool" where
  "queue_ok q \<longleftrightarrow> distinct (map req_id (q_pending q)) \<and> sorted (map req_id (q_pending q))
     \<and> (\<forall>r \<in> set (q_pending q). q_last q < req_id r)"

lemma id_sort_exists: "id_sort (sort_key req_id)"
  by (simp add: id_sort_def)

text \<open>
  the queue file survives a save and a load. Saving is atomic: whatever the three file
  operations answer, the file afterwards holds what it held before or the whole new queue, the
  latter exactly when no error is reported; and loading the file then gives the queue back.
\<close>

theorem queue_save_load:
  assumes "q_version q \<noteq> 0"
  shows "(case WriteQueueAtomic f q d of (e, d') \<Rightarrow>
      if e = None then LoadQueue (qd_file d') = Inr q else qd_file d' = qd_file d)"
  using assms dec_enc_queue [of q]
  by (auto simp: WriteQueueAtomic_def LoadQueue_def Let_def split: option.splits prod.splits)

theorem queue_save_load_witness:
  "LoadQueue (qd_file (snd (WriteQueueAtomic \<lparr>wf_mkdir = None, wf_write = None, wf_rename = None\<rparr>
     (new_queue\<lparr>q_pending := [empty_request\<lparr>req_id := 3, req_host := ''h''\<rparr>]\<rparr>)
     \<lparr>qd_file = NoFile, qd_tmp = NoFile\<rparr>)))
   = Inr (new_queue\<lparr>q_pending := [empty_request\<lparr>req_id := 3, req_host := ''h''\<rparr>]\<rparr>)"
  using queue_save_load [where q = "new_queue\<lparr>q_pending := [empty_request\<lparr>req_id := 3, req_host := ''h''\<rparr>]\<rparr>"
      and f = "\<lparr>wf_mkdir = None, wf_write = None, wf_rename = None\<rparr>" and d = "\<lparr>qd_file = NoFile, qd_tmp = NoFile\<rparr>"]
  by (simp add: new_queue_def WriteQueueAtomic_def)

text \<open>
  the host's operations keep the queue well formed. In a queue whose pending ids are
  distinct, increasing and above the last consumed one, with room for another id, enqueueing a
  request without id gives it an id above all of these and keeps the queue well formed, with
  every older request still pending; pruning keeps it well formed, drops exactly the
  acknowledged and the expired requests, and never lowers the last consumed id.
\<close>

theorem queue_operations_keep_order:
  assumes "id_sort srt" "queue_ok q"
    and "req_id r = 0" "max_id (q_last q) (q_pending q) \<noteq> - 1"
  shows "queue_ok (snd (Enqueue srt r q))
    \<and> (\<forall>x \<in> set (q_pending q). req_id x < req_id (fst (Enqueue srt r q)))
    \<and> set (q_pending (snd (Enqueue srt r q))) = insert (fst (Enqueue srt r q)) (set (q_pending q))
    \<and> queue_ok (Prune acked now ttl q)
    \<and> set (q_pending (Prune acked now ttl q))
        = {x \<in> set (q_pending q). acked < req_id x \<and> cutoff_ms now ttl \<le> req_created x}
    \<and> q_last (Prune acked now ttl q) = max (q_last q) acked"
proof -
  let ?r = "r\<lparr>req_id := NextID q\<rparr>"
  note fresh = NextID_fresh [OF assms(4)] and srt = id_sort_facts [OF assms(1)]
  have e: "Enqueue srt r q = (?r, q\<lparr>q_pending := srt (q_pending q @ [?r])\<rparr>)"
    using assms(3) by (simp add: Enqueue_def Let_def)
  have "mset (map req_id (srt (q_pending q @ [?r]))) = mset (map req_id (q_pending q @ [?r]))"
    by (simp only: mset_map srt(3))
  then have "distinct (map req_id (srt (q_pending q @ [?r]))) = distinct (map req_id (q_pending q @ [?r]))"
    by (rule mset_eq_imp_distinct_iff)
  also have "\<dots>" using assms(2) fresh by (auto simp: queue_ok_def)
  finally have d: "distinct (map req_id (srt (q_pending q @ [?r])))" .
  have E: "queue_ok (snd (Enqueue srt r q))"
    using d srt fresh assms(2) by (auto simp: e queue_ok_def)
  have P: "queue_ok (Prune acked now ttl q)"
    using assms(2) by (auto simp: queue_ok_def Prune_def Let_def distinct_map_filter sorted_filter)
  have "q_last (Prune acked now ttl q) = max (q_last q) acked"
    by (auto simp: Prune_def Let_def max_def)
  with E P fresh show ?thesis
    by (auto simp: e srt(1) Prune_def Let_def not_le not_less)
qed

theorem queue_operations_keep_order_witness:
  "queue_ok (snd (Enqueue (sort_key req_id) empty_request
     (new_queue\<lparr>q_last := 4, q_pending := [empty_request\<lparr>req_id := 7\<rparr>]\<rparr>)))"
proof -
  let ?q = "new_queue\<lparr>q_last := 4, q_pending := [empty_request\<lparr>req_id := 7\<rparr>]\<rparr>"
  have "queue_ok ?q" by (simp add: queue_ok_def new_queue_def empty_request_def)
  moreover have "max_id (q_last ?q) (q_pending ?q) \<noteq> - 1"
    by (simp add: max_id_def new_queue_def empty_request_def)
  ultimately show ?thesis
    using queue_operations_keep_order [OF id_sort_exists, of ?q empty_request]
    by (simp add: empty_request_def)
qed

end
