(* ===== verification/CliCommon.thy ===== *)
theory CliCommon
  imports GoFlag CoreService HerdrSpace ClientQueue
begin

text \<open>
  What the commands of \<open>internal/cli\<close> share: where the state directory is
  (\<open>clientagent/state.go\<close>), which herdr binary to call, sandbox handles and the arguments of the
  herdr calls (\<open>cmd_herdrspace.go\<close>, \<open>cmd_herdr_plugin.go\<close>, \<open>cmd_link_toggle.go\<close>), and the
  dispatch of \<open>run.go\<close>. The environment is a function to strings, empty for an unset variable.
\<close>

type_synonym env = "string \<Rightarrow> string"

definition PluginID :: string where "PluginID = ''herdr-plugin-msb''"
definition StateDirNS :: string where "StateDirNS = ''herdr-plugin-msb''"
definition PluginVersion :: string where "PluginVersion = ''0.1.0''"

definition StateDir :: "env \<Rightarrow> string option" where
  "StateDir env =
     (if env ''XDG_STATE_HOME'' \<noteq> [] then Some (filepath_Join [env ''XDG_STATE_HOME'', StateDirNS])
      else if env ''HOME'' = [] then None
      else Some (filepath_Join [env ''HOME'', ''.local'', ''state'', StateDirNS]))"

definition ControlPathFor :: "string \<Rightarrow> string \<Rightarrow> string" where
  "ControlPathFor stateDir host = filepath_Join [stateDir, host @ ''.ctl'']"

section \<open>The herdr binary\<close>

text \<open>\<open>stat\<close>: whether \<open>os.Stat\<close> succeeds.\<close>

definition undeletedHerdrBin :: "(string \<Rightarrow> bool) \<Rightarrow> string \<Rightarrow> string" where
  "undeletedHerdrBin stat v =
     (let undeleted = trim_suffix v '' (deleted)'' in
      if undeleted = v then v else if \<not> stat undeleted then v else undeleted)"

definition herdrBin :: "env \<Rightarrow> (string \<Rightarrow> bool) \<Rightarrow> string" where
  "herdrBin env stat =
     (if env ''HERDR_BIN_PATH'' \<noteq> [] then undeletedHerdrBin stat (env ''HERDR_BIN_PATH'')
      else if env ''HERDR_BIN'' \<noteq> [] then undeletedHerdrBin stat (env ''HERDR_BIN'')
      else ''herdr'')"

section \<open>Sandbox handles\<close>

definition sandboxHandle :: "string \<Rightarrow> string \<Rightarrow> string" where
  "sandboxHandle project name = project @ ''/'' @ name"

definition splitHandle :: "string \<Rightarrow> string \<times> string" where
  "splitHandle handle =
     (case index_byte (CHR ''/'') handle of
        Some i \<Rightarrow> (take i handle, drop (i + 1) handle)
      | None \<Rightarrow> (DefaultProject, handle))"

definition splitSandboxHandle :: "string \<Rightarrow> string \<times> string" where
  "splitSandboxHandle handle =
     (case last_index (CHR ''/'') handle of
        None \<Rightarrow> ([], handle)
      | Some i \<Rightarrow> (take i handle, drop (i + 1) handle))"

lemma splitHandle_sandboxHandle:
  "CHR ''/'' \<notin> set p \<Longrightarrow> splitHandle (sandboxHandle p n) = (p, n)"
  by (simp add: splitHandle_def sandboxHandle_def index_byte_append)

lemma splitSandboxHandle_sandboxHandle:
  "CHR ''/'' \<notin> set n \<Longrightarrow> splitSandboxHandle (sandboxHandle p n) = (p, n)"
  by (simp add: splitSandboxHandle_def sandboxHandle_def last_index_append)

section \<open>Arguments of the herdr calls\<close>

definition guestPaneArgs :: "string \<Rightarrow> string \<Rightarrow> string \<Rightarrow> string \<Rightarrow> string \<Rightarrow> string list" where
  "guestPaneArgs workspaceID rootPaneID sandbox project hostCwd =
     [''plugin'', ''pane'', ''open'', ''--plugin'', PluginID, ''--entrypoint'', ''shell'',
      ''--env'', ''HERDR_MSB_SANDBOX='' @ sandbox, ''--env'', ''HERDR_MSB_PROJECT='' @ project]
     @ (if rootPaneID \<noteq> []
        then [''--placement'', ''split'', ''--target-pane'', rootPaneID, ''--direction'', ''right'']
        else [''--workspace'', workspaceID])
     @ (if trim_space hostCwd \<noteq> [] then [''--cwd'', hostCwd] else [])
     @ [''--no-focus'']"

definition PaneOpenArgv :: "string \<Rightarrow> string \<Rightarrow> string list \<Rightarrow> string list" where
  "PaneOpenArgv herdr title body =
     [herdr, ''plugin'', ''pane'', ''open'', ''--plugin'', PluginID, ''--entrypoint'', ''notify'',
      ''--env'', ''HERDR_NOTIFY_TITLE='' @ title,
      ''--env'', ''HERDR_NOTIFY_BODY='' @ join_with ''\<newline>'' body]"

definition portsPaneOpenArgv :: "string \<Rightarrow> string \<Rightarrow> string list" where
  "portsPaneOpenArgv herdr workspaceID =
     [herdr, ''plugin'', ''pane'', ''open'', ''--plugin'', PluginID, ''--pane-id'', ''ports'',
      ''--placement'', ''tab'']
     @ (if workspaceID \<noteq> [] then [''--workspace'', workspaceID] else [])"

section \<open>Dispatch\<close>

definition combinedUsage :: "string list" where
  "combinedUsage =
     [''usage: herdr-plugin-msb <command>'', [],
      ''sandbox:  create  ps  exec  start  stop  rm'',
      ''plugin:   declare  status  list  local-agent  local-agent-startup  fwd-sync  attach  wrap-herdr  ports-pane  ports-toggle'',
      ''space:    space-create  space-convert  space-open-pane  new-tab  space-prune'',
      ''other:    default-shell  version  help'']"

definition GuestShellArgv0 :: string where "GuestShellArgv0 = ''herdr-plugin-msb-guest-shell''"

text \<open>\<open>filepath.Base\<close>: trailing slashes removed, then what follows the last slash.\<close>

definition filepath_Base :: "string \<Rightarrow> string" where
  "filepath_Base p =
     (if p = [] then ''.''
      else (let q = trim_right_by (\<lambda>c. c = CHR ''/'') p in
            if q = [] then ''/''
            else (case last_index (CHR ''/'') q of None \<Rightarrow> q | Some i \<Rightarrow> drop (i + 1) q)))"

definition NormalizeArgv :: "string \<Rightarrow> string list \<Rightarrow> string list" where
  "NormalizeArgv argv0 args =
     (if filepath_Base argv0 = GuestShellArgv0 then ''default-shell'' # args else args)"

text \<open>The command the first argument selects; \<open>Plugin\<close> is the hand-over to \<open>RunHerdrPlugin\<close>.\<close>

datatype command =
    NoCommand | Help | Plugin | Startup | Attach | WrapHerdr | Create | PS | Exec | Start | Stop | RM
  | SpaceCreate | SpaceConvert | SpaceOpenPane | NewTab | DefaultShell | SpacePrune
  | PortsPane | PortsToggle | Version | Unknown string

definition command_table :: "(string \<times> command) list" where
  "command_table =
     [(''help'', Help), (''--help'', Help), (''-h'', Help),
      (''declare'', Plugin), (''status'', Plugin), (''list'', Plugin), (''local-agent'', Plugin),
      (''fwd-sync'', Plugin), (''local-agent-startup'', Startup), (''attach'', Attach),
      (''wrap-herdr'', WrapHerdr), (''create'', Create), (''ps'', PS), (''exec'', Exec),
      (''start'', Start), (''stop'', Stop), (''rm'', RM), (''space-create'', SpaceCreate),
      (''space-convert'', SpaceConvert), (''space-open-pane'', SpaceOpenPane), (''new-tab'', NewTab),
      (''default-shell'', DefaultShell), (''space-prune'', SpacePrune), (''ports-pane'', PortsPane),
      (''ports-toggle'', PortsToggle), (''version'', Version)]"

definition Run_dispatch :: "string list \<Rightarrow> command" where
  "Run_dispatch argv =
     (case argv of
        [] \<Rightarrow> NoCommand
      | c # _ \<Rightarrow> (case map_of command_table c of Some k \<Rightarrow> k | None \<Rightarrow> Unknown c))"

definition pluginUsage :: string where
  "pluginUsage = ''commands: declare  status  list  local-agent  fwd-sync  attach  wrap-herdr  help''"

datatype plugin_command =
    PNone | PDeclare | PStatus | PList | PLocalAgent | PFwdSync | PHelp | PUnknown string

definition plugin_table :: "(string \<times> plugin_command) list" where
  "plugin_table =
     [(''declare'', PDeclare), (''status'', PStatus), (''list'', PList), (''local-agent'', PLocalAgent),
      (''fwd-sync'', PFwdSync), (''help'', PHelp), (''--help'', PHelp), (''-h'', PHelp)]"

definition RunHerdrPlugin_dispatch :: "string list \<Rightarrow> plugin_command" where
  "RunHerdrPlugin_dispatch argv =
     (case argv of
        [] \<Rightarrow> PNone
      | c # _ \<Rightarrow> (case map_of plugin_table c of Some k \<Rightarrow> k | None \<Rightarrow> PUnknown c))"

text \<open>The words a usage text advertises: those behind the label of each line.\<close>

definition advertised :: "string list \<Rightarrow> string list" where
  "advertised usage = concat (map (\<lambda>l. case GoStrings.fields l of [] \<Rightarrow> [] | w # ws \<Rightarrow>
       if has_suffix w '':'' \<and> w \<noteq> ''usage:'' then ws else []) usage)"

text \<open>Every command the usage text names is one the program runs, and one that is handed over
  to the plugin commands is known there too.\<close>

theorem advertised_commands_exist:
  "list_all (\<lambda>c. Run_dispatch [c] \<notin> {NoCommand, Unknown c} \<and>
      (if Run_dispatch [c] = Plugin then RunHerdrPlugin_dispatch [c] \<notin> {PNone, PUnknown c} else True))
    (advertised combinedUsage)
   \<and> set (advertised combinedUsage) \<union> {''--help'', ''-h''} = fst ` set command_table
   \<and> RunHerdrPlugin_dispatch [''attach''] = PUnknown ''attach''
   \<and> RunHerdrPlugin_dispatch [''wrap-herdr''] = PUnknown ''wrap-herdr''
   \<and> {''attach'', ''wrap-herdr''} \<subseteq> set (advertised [pluginUsage])"
  by code_simp

end
