(* ===== verification/SpacePrune.thy ===== *)
theory SpacePrune
  imports CliCommon
begin

text \<open>
  \<open>internal/cli/cmd_herdrspace_prune.go\<close>: \<open>space-prune\<close> reclaims the sandboxes of bindings whose
  workspace is gone. The state is the daemon's \<open>'w\<close> beside the bindings file; the sandboxes are
  reached through the service of the project named in a handle. A call that does not return
  (listing the sandboxes) makes the command not return: \<open>None\<close>.
\<close>

section \<open>The workspaces herdr reports\<close>

definition dec_worktree :: "string decoder" where
  "dec_worktree = dec_struct (\<lambda>k j p. if key_is ''checkout_path'' k then dec_string j p else (True, p))"

definition dec_workspace :: "(string \<times> string option) decoder" where
  "dec_workspace = dec_struct (\<lambda>k j (i, t).
     if key_is ''workspace_id'' k then (let (ok, v) = dec_string j i in (ok, (v, t)))
     else if key_is ''worktree'' k then (let (ok, v) = dec_ptr dec_worktree [] j t in (ok, (i, v)))
     else (True, (i, t)))"

definition dec_workspaces :: "(string \<times> string option) list decoder" where
  "dec_workspaces = dec_struct (\<lambda>k j ws.
     if key_is ''result'' k then
       dec_struct (\<lambda>k j ws. if key_is ''workspaces'' k then dec_slice dec_workspace ([], None) j ws
                            else (True, ws)) j ws
     else (True, ws))"

datatype list_error = ListRun string | ListParse

definition pruneListWorkspaces :: "string + jtext \<Rightarrow> list_error + (string \<times> string) list" where
  "pruneListWorkspaces out =
     (case out of
        Inl e \<Rightarrow> Inl (ListRun e)
      | Inr t \<Rightarrow>
          (case unmarshal dec_workspaces [] t of
             None \<Rightarrow> Inl ListParse
           | Some ws \<Rightarrow>
               Inr (fold (\<lambda>(i, t) m. AList.update i (case t of None \<Rightarrow> [] | Some p \<Rightarrow> trim_space p) m) ws [])))"

section \<open>Why a binding is stranded\<close>

datatype liveness = LvUnknown | LvRunning | LvIdle

text \<open>\<open>gone\<close>: \<open>os.IsNotExist\<close> of the error of \<open>os.Stat\<close>.\<close>

definition pruneStrandReason ::
  "(string \<Rightarrow> bool) \<Rightarrow> (string \<times> string) list \<Rightarrow> Binding \<Rightarrow> liveness \<Rightarrow> string \<times> bool" where
  "pruneStrandReason gone live b state =
     (let workspaceLive = (map_of live (bd_workspace b) \<noteq> None);
          path = trim_space (bd_checkout b) in
      if path = [] then
        (if workspaceLive then (''workspace-alive-no-worktree'', False)
         else if state = LvRunning then (''workspace-gone-sandbox-running'', False)
         else if state = LvIdle then (''workspace-gone+sandbox-not-running'', True)
         else (''sandbox-state-unknown'', False))
      else (let pathGone = gone path in
            if \<not> workspaceLive \<and> pathGone then (''workspace-gone+worktree-gone:'' @ path, True)
            else if \<not> workspaceLive then (''workspace-gone-worktree-present:'' @ path, False)
            else if pathGone then (''worktree-gone-workspace-alive:'' @ path, False)
            else (''workspace-alive'', False)))"

section \<open>The sandboxes behind a handle\<close>

record ('w, 'e) prune_env =
  pv_service :: "string \<Rightarrow> ('w, 'e) Service"
  pv_io :: io
  pv_state_dir :: "string option"
  pv_workspaces :: "string + jtext"
  pv_gone :: "string \<Rightarrow> bool"

definition pruneSandboxStatus ::
  "('w, 'e) prune_env \<Rightarrow> string \<Rightarrow> string \<Rightarrow> 'w \<Rightarrow> (('e service_error + SandboxStatus) \<times> 'w) option" where
  "pruneSandboxStatus pv project name w =
     (case service_Resolve (pv_service pv project) name w of
        None \<Rightarrow> None
      | Some (Inl e, w1) \<Rightarrow> Some (Inl e, w1)
      | Some (Inr ref, w1) \<Rightarrow> Some (Inr (ref_status ref), w1))"

definition pruneRunningCheck ::
  "('w, 'e) prune_env \<Rightarrow> string \<Rightarrow> string \<Rightarrow> 'w \<Rightarrow> (('e service_error + bool) \<times> 'w) option" where
  "pruneRunningCheck pv project name w =
     (case pruneSandboxStatus pv project name w of
        None \<Rightarrow> None
      | Some (Inl (ErrNotFound _), w1) \<Rightarrow> Some (Inr False, w1)
      | Some (Inl e, w1) \<Rightarrow> Some (Inl e, w1)
      | Some (Inr st, w1) \<Rightarrow> Some (Inr (st = StRunning), w1))"

definition pruneLiveness ::
  "('w, 'e) prune_env \<Rightarrow> string \<Rightarrow> 'w \<Rightarrow> ((liveness \<times> 'e service_error option) \<times> 'w) option" where
  "pruneLiveness pv handle w =
     (case splitSandboxHandle handle of (project, name) \<Rightarrow>
        (case pruneRunningCheck pv project name w of
           None \<Rightarrow> None
         | Some (Inl e, w1) \<Rightarrow> Some ((LvUnknown, Some e), w1)
         | Some (Inr running, w1) \<Rightarrow> Some ((if running then LvRunning else LvIdle, None), w1)))"

datatype 'e reclaim_error = ReclaimFailed "'e service_error" | StopAfterRemove "'e service_error" "'e service_error"

text \<open>Remove; when that fails, stop and remove once more. The second remove's error is returned
  as it is, also when the sandbox is no longer found.\<close>

definition pruneReclaim ::
  "('w, 'e) prune_env \<Rightarrow> string \<Rightarrow> string \<Rightarrow> 'w \<Rightarrow> ('e reclaim_error option \<times> 'w) option" where
  "pruneReclaim pv project name w =
     (case service_Remove (pv_service pv project) name w of
        None \<Rightarrow> None
      | Some (None, w1) \<Rightarrow> Some (None, w1)
      | Some (Some (ErrNotFound _), w1) \<Rightarrow> Some (None, w1)
      | Some (Some err, w1) \<Rightarrow>
          (case service_Stop (pv_service pv project) name w1 of
             None \<Rightarrow> None
           | Some (Inl stopErr, w2) \<Rightarrow> Some (Some (StopAfterRemove err stopErr), w2)
           | Some (Inr _, w2) \<Rightarrow>
               (case service_Remove (pv_service pv project) name w2 of
                  None \<Rightarrow> None
                | Some (e, w3) \<Rightarrow> Some (map_option ReclaimFailed e, w3))))"

section \<open>The command\<close>

datatype 'e prune_line =
    Keep string string string
  | WouldReclaim string string string
  | Reclaimed string string string
  | StatusUnknown string "'e service_error"
  | RefuseUnknown string "'e service_error"
  | RefuseRunning string string
  | RemoveError "'e reclaim_error"
  | DeleteError store_error
  | Summary nat nat nat bool
  | StateDirError | BindingsError store_error | WorkspacesError list_error | NeedsAll

record 'e prune_acc =
  pa_considered :: nat
  pa_reclaimable :: nat
  pa_applied :: nat
  pa_err :: bool
  pa_log :: "'e prune_line list"

definition say :: "'e prune_line \<Rightarrow> 'e prune_acc \<Rightarrow> 'e prune_acc" where
  "say l a = a\<lparr>pa_log := pa_log a @ [l]\<rparr>"

definition fail :: "'e prune_line \<Rightarrow> 'e prune_acc \<Rightarrow> 'e prune_acc" where
  "fail l a = say l (a\<lparr>pa_err := True\<rparr>)"

text \<open>The body of the loop from the check before reclaiming on.\<close>

definition reclaim_binding ::
  "('w, 'e) prune_env \<Rightarrow> bool \<Rightarrow> Binding \<Rightarrow> string \<Rightarrow> 'e prune_acc \<Rightarrow> 'w \<times> bindings_file
     \<Rightarrow> ('e prune_acc \<times> 'w \<times> bindings_file) option" where
  "reclaim_binding pv killRunning b reason a s =
     (case s of (w, f) \<Rightarrow>
      (case splitSandboxHandle (bd_handle b) of (hp, hn) \<Rightarrow>
        (case pruneRunningCheck pv hp hn w of
           None \<Rightarrow> None
         | Some (Inl e, w1) \<Rightarrow> Some (fail (RefuseUnknown (bd_handle b) e) a, w1, f)
         | Some (Inr running, w1) \<Rightarrow>
             if running \<and> \<not> killRunning then
               Some (fail (RefuseRunning (bd_handle b) (bd_workspace b)) a, w1, f)
             else (case pruneReclaim pv hp hn w1 of
                     None \<Rightarrow> None
                   | Some (Some e, w2) \<Rightarrow> Some (fail (RemoveError e) a, w2, f)
                   | Some (None, w2) \<Rightarrow>
                       (case space_Delete (pv_io pv) (bd_label b) f of
                          (Some e, f1) \<Rightarrow> Some (fail (DeleteError e) a, w2, f1)
                        | (None, f1) \<Rightarrow>
                            Some (say (Reclaimed (bd_handle b) (bd_workspace b) reason)
                                    (a\<lparr>pa_applied := pa_applied a + 1\<rparr>), w2, f1))))))"

definition binding_liveness ::
  "('w, 'e) prune_env \<Rightarrow> Binding \<Rightarrow> 'e prune_acc \<Rightarrow> 'w \<Rightarrow> (liveness \<times> 'e prune_acc \<times> 'w) option" where
  "binding_liveness pv b a w =
     (if trim_space (bd_checkout b) = [] then
        (case pruneLiveness pv (bd_handle b) w of
           None \<Rightarrow> None
         | Some ((st, None), w1) \<Rightarrow> Some (st, a, w1)
         | Some ((st, Some e), w1) \<Rightarrow> Some (st, say (StatusUnknown (bd_handle b) e) a, w1))
      else Some (LvUnknown, a, w))"

definition prune_binding ::
  "('w, 'e) prune_env \<Rightarrow> bool \<Rightarrow> bool \<Rightarrow> (string \<times> string) list \<Rightarrow> Binding \<Rightarrow> 'e prune_acc \<Rightarrow> 'w \<times> bindings_file
     \<Rightarrow> ('e prune_acc \<times> 'w \<times> bindings_file) option" where
  "prune_binding pv doApply killRunning live b a0 s =
     (case s of (w, f) \<Rightarrow>
      (case binding_liveness pv b (a0\<lparr>pa_considered := pa_considered a0 + 1\<rparr>) w of
         None \<Rightarrow> None
       | Some (state, a, w1) \<Rightarrow>
           (case pruneStrandReason (pv_gone pv) live b state of
              (reason, stranded) \<Rightarrow>
                if \<not> stranded then Some (say (Keep (bd_handle b) (bd_workspace b) reason) a, w1, f)
                else (let a1 = a\<lparr>pa_reclaimable := pa_reclaimable a + 1\<rparr> in
                      if \<not> doApply then
                        Some (say (WouldReclaim (bd_handle b) (bd_workspace b) reason) a1, w1, f)
                      else reclaim_binding pv killRunning b reason a1 (w1, f)))))"

fun prune_loop ::
  "('w, 'e) prune_env \<Rightarrow> bool \<Rightarrow> bool \<Rightarrow> (string \<times> string) list \<Rightarrow> Binding list \<Rightarrow> 'e prune_acc \<Rightarrow> 'w \<times> bindings_file
     \<Rightarrow> ('e prune_acc \<times> 'w \<times> bindings_file) option" where
  "prune_loop pv doApply killRunning live [] a s = Some (a, s)"
| "prune_loop pv doApply killRunning live (b # bs) a s =
     (case prune_binding pv doApply killRunning live b a s of
        None \<Rightarrow> None
      | Some (a1, s1) \<Rightarrow> prune_loop pv doApply killRunning live bs a1 s1)"

definition prune_flags :: flag_set where
  "prune_flags = [(''apply'', FlagBool), (''all'', FlagBool), (''workspace'', FlagString), (''kill-running'', FlagBool)]"

definition no_acc :: "'e prune_acc" where
  "no_acc = \<lparr>pa_considered = 0, pa_reclaimable = 0, pa_applied = 0, pa_err = False, pa_log = []\<rparr>"

definition runSpacePrune ::
  "('w, 'e) prune_env \<Rightarrow> string list \<Rightarrow> 'w \<times> bindings_file
     \<Rightarrow> ((int \<times> 'e prune_line list) \<times> 'w \<times> bindings_file) option" where
  "runSpacePrune pv args s =
     (case parse_flags prune_flags args of
        None \<Rightarrow> Some ((2, []), s)
      | Some (flags, _) \<Rightarrow>
          (let doApply = flag_bool flags ''apply'' False; sweepAll = flag_bool flags ''all'' False;
               wsFilter = flag_string flags ''workspace'' []; killRunning = flag_bool flags ''kill-running'' False in
           if doApply \<and> wsFilter = [] \<and> \<not> sweepAll then Some ((2, [NeedsAll]), s)
           else if pv_state_dir pv = None then Some ((1, [StateDirError]), s)
           else (case space_List (pv_io pv) (snd s) of
                   Inl e \<Rightarrow> Some ((1, [BindingsError e]), s)
                 | Inr allBindings \<Rightarrow>
                     (let bindings = (if wsFilter \<noteq> [] then filter (\<lambda>b. bd_workspace b = wsFilter) allBindings
                                      else allBindings) in
                      case pruneListWorkspaces (pv_workspaces pv) of
                        Inl e \<Rightarrow> Some ((1, [WorkspacesError e]), s)
                      | Inr live \<Rightarrow>
                          (case prune_loop pv doApply killRunning live bindings no_acc s of
                             None \<Rightarrow> None
                           | Some (a, s1) \<Rightarrow>
                               Some ((if pa_err a then 1 else 0,
                                      pa_log a @ [Summary (pa_considered a) (pa_reclaimable a) (pa_applied a) doApply]),
                                     s1))))))"

end
