(* ===== verification/PruneProps.thy ===== *)
theory PruneProps
  imports SpacePrune MsbService
begin

text \<open>
  What \<open>space-prune\<close> may touch: nothing without \<open>--apply\<close>; never a running sandbox without
  \<open>--kill-running\<close>; never the binding of a live workspace. And what it must have reclaimed when it
  reports success. The lemmas about sandboxes are proved over the contract \<open>sandbox_runtime\<close> and
  used for the msb runtime.
\<close>

section \<open>Sandboxes\<close>

context sandbox_runtime
begin

lemma resolves_key: "ref_key r = ref_key r' \<Longrightarrow> resolves s n r = resolves s n r'"
  by (auto simp: resolves_def ref_key_def)

lemma find_key:
  "map ref_key xs = map ref_key ys \<Longrightarrow>
     map_option ref_key (find (resolves s n) xs) = map_option ref_key (find (resolves s n) ys)"
proof (induction xs arbitrary: ys)
  case (Cons x xs)
  then obtain y ys' where "ys = y # ys'" "ref_key x = ref_key y" "map ref_key xs = map ref_key ys'"
    by (cases ys) auto
  with Cons.IH show ?case using resolves_key [of x y s n] by simp
qed simp

lemma status_same:
  assumes "inv w" "svc_rt (pv_service pv p) = ri"
  shows "pruneRunningCheck pv p n w =
    Some (Inr (case find (resolves (pv_service pv p) n) (refs w) of
                 Some r \<Rightarrow> ref_status r = StRunning | None \<Rightarrow> False), w)"
  using resolve_result [OF assms]
  by (simp add: pruneRunningCheck_def pruneSandboxStatus_def split: option.splits)

definition touches_only :: "string \<times> string \<Rightarrow> 'w \<Rightarrow> 'w \<Rightarrow> bool" where
  "touches_only k w w' \<longleftrightarrow> inv w' \<and>
     filter (\<lambda>x. ref_key x \<noteq> k) (refs w') = filter (\<lambda>x. ref_key x \<noteq> k) (refs w)"

lemma touches_trans: "touches_only k w w1 \<Longrightarrow> touches_only k w1 w2 \<Longrightarrow> touches_only k w w2"
  by (simp add: touches_only_def)

lemma remove_touches:
  assumes "inv w" "svc_rt s = ri" "find (resolves s n) (refs w) = Some ref" "service_Remove s n w = Some (e, w')"
  shows "touches_only (ref_key ref) w w' \<and> (e \<noteq> None \<longrightarrow> refs w' = refs w)"
proof -
  have "ref \<in> set (refs w)" using assms(3) by (auto simp: find_Some_iff)
  moreover obtain x where "ri_Remove ri ref w = (x, w')" "e = map_option SvcRuntime x"
    using assms(4) resolve_result [OF assms(1,2), of n] assms(2,3) by (auto simp: service_Remove_def split: prod.splits)
  ultimately show ?thesis using remove_law [OF assms(1)] by (auto simp: touches_only_def split: if_splits)
qed

lemma stop_touches:
  assumes "inv w" "svc_rt s = ri" "find (resolves s n) (refs w) = Some ref" "service_Stop s n w = Some (e, w')"
  shows "touches_only (ref_key ref) w w' \<and> map ref_key (refs w') = map ref_key (refs w)"
proof -
  have "ref \<in> set (refs w)" using assms(3) by (auto simp: find_Some_iff)
  moreover obtain x where "ri_Stop ri ref w = (x, w')"
    using assms(4) resolve_result [OF assms(1,2), of n] assms(2,3) by (auto simp: service_Stop_def split: prod.splits)
  ultimately show ?thesis using status_law [OF assms(1), of ref "ri_Stop ri"] by (auto simp: touches_only_def)
qed

text \<open>Reclaiming touches the one sandbox its name resolves to, or nothing.\<close>

lemma reclaim_touches:
  assumes "inv w" "svc_rt (pv_service pv p) = ri" "pruneReclaim pv p n w = Some (e, w')"
  shows "case find (resolves (pv_service pv p) n) (refs w) of
           None \<Rightarrow> w' = w | Some ref \<Rightarrow> touches_only (ref_key ref) w w'"
proof -
  let ?s = "pv_service pv p"
  show ?thesis
  proof (cases "find (resolves ?s n) (refs w)")
    case None
    then show ?thesis using assms(3) resolve_result [OF assms(1,2), of n]
      by (simp add: pruneReclaim_def service_Remove_def)
  next
    case (Some ref)
    obtain e1 w1 where r: "service_Remove ?s n w = Some (e1, w1)"
      using assms(3) by (auto simp: pruneReclaim_def split: option.splits)
    note t1 = remove_touches [OF assms(1,2) Some r]
    have "touches_only (ref_key ref) w w'"
    proof (cases "w' = w1")
      case False
      then obtain q w2 where st: "service_Stop ?s n w1 = Some (q, w2)" and e1: "e1 \<noteq> None"
        and w': "w' = w2 \<or> (\<exists>e3. service_Remove ?s n w2 = Some (e3, w'))"
        using assms(3) r by (auto simp: pruneReclaim_def split: option.splits sum.splits service_error.splits)
      have inv1: "inv w1" and same: "refs w1 = refs w" using t1 e1 by (auto simp: touches_only_def)
      have f1: "find (resolves ?s n) (refs w1) = Some ref" using Some same by simp
      note t2 = stop_touches [OF inv1 assms(2) f1 st]
      have inv2: "inv w2" using t2 by (simp add: touches_only_def)
      from w' show ?thesis
      proof
        assume "w' = w2"
        then show ?thesis using t1 t2 touches_trans by blast
      next
        assume "\<exists>e3. service_Remove ?s n w2 = Some (e3, w')"
        then obtain e3 where r3: "service_Remove ?s n w2 = Some (e3, w')" by blast
        have "map_option ref_key (find (resolves ?s n) (refs w2)) = Some (ref_key ref)"
          using find_key [of "refs w2" "refs w1" ?s n] t2 f1 by simp
        then obtain ref2 where f2: "find (resolves ?s n) (refs w2) = Some ref2" "ref_key ref2 = ref_key ref"
          by blast
        show ?thesis using remove_touches [OF inv2 assms(2) f2(1) r3] f2(2) t1 t2 touches_trans by metis
      qed
    qed (use t1 in simp)
    then show ?thesis using Some by simp
  qed
qed

lemma touched_running:
  assumes "inv w" "touches_only (ref_key ref) w w'" "ref \<in> set (refs w)" "ref_status ref \<noteq> StRunning"
    and "r \<in> set (refs w)" "ref_status r = StRunning"
  shows "r \<in> set (refs w')"
proof -
  have "ref_key r \<noteq> ref_key ref"
    using key_law [OF assms(1)] assms(3-6) by (metis distinct_map inj_onD)
  then have "r \<in> set (filter (\<lambda>x. ref_key x \<noteq> ref_key ref) (refs w))" using assms(5) by simp
  then have "r \<in> set (filter (\<lambda>x. ref_key x \<noteq> ref_key ref) (refs w'))"
    using assms(2) by (simp add: touches_only_def)
  then show ?thesis by simp
qed

lemma reclaim_binding_running:
  assumes "inv w" "\<And>p. svc_rt (pv_service pv p) = ri" "reclaim_binding pv False b reason a (w, f) = Some (a', w', f')"
  shows "inv w' \<and> (\<forall>r \<in> set (refs w). ref_status r = StRunning \<longrightarrow> r \<in> set (refs w'))"
proof -
  obtain hp hn where h: "splitSandboxHandle (bd_handle b) = (hp, hn)" by fastforce
  let ?found = "find (resolves (pv_service pv hp) hn) (refs w)"
  note st = status_same [OF assms(1,2), of hp hn]
  show ?thesis
  proof (cases "w' = w")
    case False
    then obtain e where rec: "pruneReclaim pv hp hn w = Some (e, w')"
      and run: "\<not> (case ?found of Some r \<Rightarrow> ref_status r = StRunning | None \<Rightarrow> False)"
      using assms(3) h st by (auto simp: reclaim_binding_def split: if_splits option.splits prod.splits)
    from reclaim_touches [OF assms(1,2) rec] False obtain ref
      where ref: "?found = Some ref" "touches_only (ref_key ref) w w'" by (auto split: option.splits)
    have "ref \<in> set (refs w)" using ref(1) by (auto simp: find_Some_iff)
    with touched_running [OF assms(1) ref(2)] run ref show ?thesis by (auto simp: touches_only_def)
  qed (use assms(1) in simp)
qed

lemma liveness_same:
  assumes "inv w" "\<And>p. svc_rt (pv_service pv p) = ri" "binding_liveness pv b a w = Some (lv, a', w')"
  shows "w' = w"
  using assms(3) status_same [OF assms(1,2)]
  by (auto simp: binding_liveness_def pruneLiveness_def split: if_splits prod.splits option.splits)

lemma prune_binding_running:
  assumes "inv w" "\<And>p. svc_rt (pv_service pv p) = ri" "prune_binding pv ap False live b a (w, f) = Some (a', w', f')"
  shows "inv w' \<and> (\<forall>r \<in> set (refs w). ref_status r = StRunning \<longrightarrow> r \<in> set (refs w'))"
proof -
  obtain lv a1 w1 where l: "binding_liveness pv b (a\<lparr>pa_considered := pa_considered a + 1\<rparr>) w = Some (lv, a1, w1)"
    using assms(3) by (auto simp: prune_binding_def split: option.splits)
  have w1: "w1 = w" by (rule liveness_same [OF assms(1,2) l])
  show ?thesis
    using assms(3) l w1 assms(1) reclaim_binding_running [OF assms(1,2)]
    by (auto simp: prune_binding_def Let_def split: prod.splits if_splits)
qed

lemma prune_loop_running:
  assumes "inv w" "\<And>p. svc_rt (pv_service pv p) = ri" "prune_loop pv ap False live bs a (w, f) = Some (a', w', f')"
  shows "inv w' \<and> (\<forall>r \<in> set (refs w). ref_status r = StRunning \<longrightarrow> r \<in> set (refs w'))"
  using assms(1,3)
proof (induction bs arbitrary: a w f)
  case (Cons b bs)
  obtain a1 w1 f1 where b: "prune_binding pv ap False live b a (w, f) = Some (a1, w1, f1)"
    and r: "prune_loop pv ap False live bs a1 (w1, f1) = Some (a', w', f')"
    using Cons.prems(2) by (auto split: option.splits)
  from prune_binding_running [OF Cons.prems(1) assms(2) b] Cons.IH [OF _ r] show ?case by blast
qed simp

lemma dry_loop:
  assumes "inv w" "\<And>p. svc_rt (pv_service pv p) = ri" "prune_loop pv False kr live bs a (w, f) = Some (a', s')"
  shows "s' = (w, f)"
  using assms(3)
proof (induction bs arbitrary: a)
  case (Cons b bs)
  obtain a1 s1 where b: "prune_binding pv False kr live b a (w, f) = Some (a1, s1)"
    and r: "prune_loop pv False kr live bs a1 s1 = Some (a', s')"
    using Cons.prems by (auto split: option.splits)
  have "s1 = (w, f)"
    using b by (auto simp: prune_binding_def Let_def split: option.splits prod.splits if_splits
        dest: liveness_same [OF assms(1,2)])
  with Cons.IH r show ?case by blast
qed simp

end

section \<open>Bindings\<close>

lemma stranded_dead:
  "pruneStrandReason gone live b st = (reason, True) \<Longrightarrow> map_of live (bd_workspace b) = None"
  by (auto simp: pruneStrandReason_def Let_def split: if_splits)

text \<open>What a step does to the file: nothing, or the deletion of a stranded binding.\<close>

lemma step_file:
  assumes "prune_binding pv ap kr live b a (w, f) = Some (a', w', f')"
  shows "f' = f \<or> (\<exists>e. space_Delete (pv_io pv) (bd_label b) f = (e, f') \<and> map_of live (bd_workspace b) = None)"
  using assms stranded_dead
  by (auto simp: prune_binding_def reclaim_binding_def Let_def split: option.splits prod.splits sum.splits if_splits)

lemma kept_in_loop:
  assumes "prune_loop pv ap kr live bs a (w, f) = Some (a', w', f')"
    and "stored f = Some fs" "c \<in> set fs" "\<forall>b \<in> set bs. map_of live (bd_workspace b) = None \<longrightarrow> bd_label b \<noteq> bd_label c"
  shows "\<exists>fs'. stored f' = Some fs' \<and> c \<in> set fs'"
  using assms
proof (induction bs arbitrary: a w f fs)
  case (Cons b bs)
  obtain a1 w1 f1 where b: "prune_binding pv ap kr live b a (w, f) = Some (a1, w1, f1)"
    and r: "prune_loop pv ap kr live bs a1 (w1, f1) = Some (a', w', f')"
    using Cons.prems(1) by (auto split: option.splits)
  have "\<exists>fs1. stored f1 = Some fs1 \<and> c \<in> set fs1"
  proof (cases "f1 = f")
    case False
    with step_file [OF b] obtain e where del: "space_Delete (pv_io pv) (bd_label b) f = (e, f1)"
      and dead: "map_of live (bd_workspace b) = None" by blast
    from space.delete_law [OF del] Cons.prems(2-4) dead show ?thesis by auto
  qed (use Cons.prems in simp)
  with Cons.IH [OF r] Cons.prems(4) show ?case by auto
qed auto

lemma runSpacePrune_loop:
  assumes "runSpacePrune pv args (w, f) = Some ((code, log), s')" "s' \<noteq> (w, f)"
  shows "\<exists>flags rest bs live a. parse_flags prune_flags args = Some (flags, rest)
    \<and> space_List (pv_io pv) f = Inr bs \<and> pruneListWorkspaces (pv_workspaces pv) = Inr live
    \<and> prune_loop pv (flag_bool flags ''apply'' False) (flag_bool flags ''kill-running'' False) live
        (if flag_string flags ''workspace'' [] \<noteq> []
         then filter (\<lambda>b. bd_workspace b = flag_string flags ''workspace'' []) bs else bs) no_acc (w, f) = Some (a, s')
    \<and> code = (if pa_err a then 1 else 0)"
  using assms by (auto simp: runSpacePrune_def Let_def split: option.splits prod.splits sum.splits if_splits)

text \<open>Without --apply the command only looks. Whatever its other flags, and whatever bindings,
  workspaces and checkouts it finds, neither a sandbox nor the bindings file changes.\<close>

theorem prune_dry_run:
  assumes "named d" "pv_service pv = (\<lambda>p. New_service (daemon_if env m) p home eval env m)"
    and "parse_flags prune_flags args = Some (flags, rest)" "\<not> flag_bool flags ''apply'' False"
    and "runSpacePrune pv args (d, f) = Some (r, s')"
  shows "s' = (d, f)"
proof (rule ccontr)
  assume "s' \<noteq> (d, f)"
  then obtain bs live a where "prune_loop pv False (flag_bool flags ''kill-running'' False) live bs no_acc (d, f) = Some (a, s')"
    using runSpacePrune_loop [of pv args d f "fst r" "snd r" s'] assms(3-5) by auto
  then have "s' = (d, f)"
    by (rule msb.dry_loop [OF assms(1), rotated]) (simp add: assms(2) New_service_def)
  with \<open>s' \<noteq> (d, f)\<close> show False by blast
qed

text \<open>C16: A running sandbox is not destroyed unasked. Without --kill-running, with or without
  --apply, every sandbox that was running is still listed as it was, whatever the bindings say
  about it, also when reclaiming another one fails half-way.\<close>

theorem prune_spares_running:
  assumes "named d" "pv_service pv = (\<lambda>p. New_service (daemon_if env m) p home eval env m)"
    and "parse_flags prune_flags args = Some (flags, rest)" "\<not> flag_bool flags ''kill-running'' False"
    and "runSpacePrune pv args (d, f) = Some (r, (d', f'))"
    and "ref \<in> set (dm_refs d)" "ref_status ref = StRunning"
  shows "ref \<in> set (dm_refs d')"
proof (cases "(d', f') = (d, f)")
  case False
  then obtain ap bs live a where "prune_loop pv ap False live bs no_acc (d, f) = Some (a, d', f')"
    using runSpacePrune_loop [of pv args d f "fst r" "snd r" "(d', f')"] assms(3-5) by auto
  from msb.prune_loop_running [OF assms(1) _ this, of env m] assms(2,6,7) show ?thesis
    by (simp add: New_service_def)
qed (use assms(6) in simp)

text \<open>C17: The binding of a live workspace is never deleted. On any runtime and with any flags: when
  the labels of the file are distinct, each binding whose workspace herdr lists, and with
  --workspace each binding of another workspace, is in the file afterwards.\<close>

theorem prune_keeps_live_bindings:
  assumes "runSpacePrune pv args (w, f) = Some (r, (w', f'))"
    and "readAll f = Inr fs" "distinct (map bd_label fs)" "c \<in> set fs"
    and "pruneListWorkspaces (pv_workspaces pv) = Inr live" "parse_flags prune_flags args = Some (flags, rest)"
    and "map_of live (bd_workspace c) \<noteq> None
      \<or> flag_string flags ''workspace'' [] \<noteq> [] \<and> bd_workspace c \<noteq> flag_string flags ''workspace'' []"
  shows "\<exists>fs'. readAll f' = Inr fs' \<and> c \<in> set fs'"
proof (cases "(w', f') = (w, f)")
  case False
  let ?ws = "flag_string flags ''workspace'' []"
  define bs where "bs = (if ?ws \<noteq> [] then filter (\<lambda>b. bd_workspace b = ?ws) fs else fs)"
  have fs: "space_List (pv_io pv) f = Inr x \<Longrightarrow> x = fs" for x
    using assms(2) by (simp add: space_List_def split: if_splits)
  obtain ap kr a where loop: "prune_loop pv ap kr live bs no_acc (w, f) = Some (a, w', f')"
    using runSpacePrune_loop [of pv args w f "fst r" "snd r" "(w', f')"] False assms(1,5,6) fs
    by (auto simp: bs_def)
  have "\<forall>b \<in> set bs. map_of live (bd_workspace b) = None \<longrightarrow> bd_label b \<noteq> bd_label c"
  proof (intro ballI impI notI)
    fix b
    assume b: "b \<in> set bs" "map_of live (bd_workspace b) = None" "bd_label b = bd_label c"
    then have "b \<in> set fs" by (auto simp: bs_def split: if_splits)
    then have "b = c" using assms(3,4) b(3) by (metis distinct_map inj_onD)
    with b assms(7) show False by (auto simp: bs_def split: if_splits)
  qed
  from kept_in_loop [OF loop _ assms(4) this] assms(2) show ?thesis by (simp add: stored_list)
qed (use assms(2,4) in auto)

section \<open>Success means reclaimed\<close>

definition worktree_stranded :: "(string \<Rightarrow> bool) \<Rightarrow> (string \<times> string) list \<Rightarrow> Binding \<Rightarrow> bool" where
  "worktree_stranded gone live b \<longleftrightarrow> map_of live (bd_workspace b) = None
     \<and> trim_space (bd_checkout b) \<noteq> [] \<and> gone (trim_space (bd_checkout b))"

lemma step_log:
  assumes "prune_binding pv ap kr live b a (w, f) = Some (a', w', f')"
  shows "pa_err a \<Longrightarrow> pa_err a'"
  using assms
  by (auto simp: prune_binding_def reclaim_binding_def binding_liveness_def Let_def say_def fail_def
      split: option.splits prod.splits sum.splits if_splits)

lemma loop_err: "prune_loop pv ap kr live bs a s = Some (a', s') \<Longrightarrow> pa_err a \<Longrightarrow> pa_err a'"
proof (induction bs arbitrary: a s)
  case (Cons b bs)
  then show ?case by (auto split: option.splits) (metis prod.exhaust step_log)
qed simp

lemma stranded_step:
  assumes "prune_binding pv True kr live b a (w, f) = Some (a', w', f')"
    and "worktree_stranded (pv_gone pv) live b" "\<not> pa_err a'"
  shows "\<exists>fs. stored f' = Some fs \<and> (\<forall>x \<in> set fs. bd_label x \<noteq> bd_label b)"
proof -
  have "space_Delete (pv_io pv) (bd_label b) f = (None, f')"
    using assms by (auto simp: prune_binding_def reclaim_binding_def binding_liveness_def pruneStrandReason_def
        worktree_stranded_def Let_def say_def fail_def split: option.splits prod.splits sum.splits if_splits)
  from space.delete_law [OF this] show ?thesis by auto
qed

lemma gone_stays:
  assumes "prune_loop pv ap kr live bs a (w, f) = Some (a', w', f')"
    and "stored f = Some fs" "\<forall>x \<in> set fs. bd_label x \<noteq> l"
  shows "\<exists>fs'. stored f' = Some fs' \<and> (\<forall>x \<in> set fs'. bd_label x \<noteq> l)"
  using assms
proof (induction bs arbitrary: a w f fs)
  case (Cons b bs)
  obtain a1 w1 f1 where b: "prune_binding pv ap kr live b a (w, f) = Some (a1, w1, f1)"
    and r: "prune_loop pv ap kr live bs a1 (w1, f1) = Some (a', w', f')"
    using Cons.prems(1) by (auto split: option.splits)
  have "\<exists>fs1. stored f1 = Some fs1 \<and> (\<forall>x \<in> set fs1. bd_label x \<noteq> l)"
    using step_file [OF b] space.delete_law Cons.prems(2,3) by fastforce
  with Cons.IH [OF r] show ?case by blast
qed auto

lemma stranded_loop:
  assumes "prune_loop pv True kr live bs a (w, f) = Some (a', w', f')" "\<not> pa_err a'"
    and "b \<in> set bs" "worktree_stranded (pv_gone pv) live b"
  shows "\<exists>fs'. stored f' = Some fs' \<and> (\<forall>x \<in> set fs'. bd_label x \<noteq> bd_label b)"
  using assms(1,3)
proof (induction bs arbitrary: a w f)
  case (Cons c bs)
  obtain a1 w1 f1 where c: "prune_binding pv True kr live c a (w, f) = Some (a1, w1, f1)"
    and r: "prune_loop pv True kr live bs a1 (w1, f1) = Some (a', w', f')"
    using Cons.prems(1) by (auto split: option.splits)
  show ?case
  proof (cases "b = c")
    case True
    have "\<not> pa_err a1" using loop_err [OF r] assms(2) by blast
    with stranded_step [OF c] True assms(4) gone_stays [OF r] show ?thesis by blast
  qed (use Cons r in auto)
qed simp

text \<open>The two flags of a full sweep.\<close>

definition sweep_flags :: "(string \<times> string) list" where
  "sweep_flags = [(''apply'', ''true''), (''all'', ''true'')]"

lemma sweep_flags:
  "parse_flags prune_flags [''--apply'', ''--all''] = Some (sweep_flags, [])"
  "flag_bool sweep_flags ''apply'' False" "flag_bool sweep_flags ''all'' False"
  "\<not> flag_bool sweep_flags ''kill-running'' False" "flag_string sweep_flags ''workspace'' [] = []"
  by code_simp+

text \<open>C18: Exit code 0 of an applied sweep means the stranded bindings are gone. After
  space-prune --apply --all that reports success, no binding is left of a workspace herdr does
  not list whose recorded checkout no longer exists.\<close>

theorem prune_sweep_complete:
  assumes "runSpacePrune pv [''--apply'', ''--all''] (w, f) = Some ((0, log), (w', f'))"
    and "readAll f = Inr fs" "b \<in> set fs"
    and "pruneListWorkspaces (pv_workspaces pv) = Inr live" "map_of live (bd_workspace b) = None"
    and "trim_space (bd_checkout b) \<noteq> []" "pv_gone pv (trim_space (bd_checkout b))"
  shows "\<exists>fs'. readAll f' = Inr fs' \<and> b \<notin> set fs'"
proof -
  have fs: "space_List (pv_io pv) f = Inr x \<Longrightarrow> x = fs" for x
    using assms(2) by (simp add: space_List_def split: if_splits)
  obtain kr a where loop: "prune_loop pv True kr live fs no_acc (w, f) = Some (a, w', f')" "\<not> pa_err a"
    using assms(1,4) fs by (auto simp: runSpacePrune_def sweep_flags Let_def split: option.splits sum.splits if_splits)
  have "worktree_stranded (pv_gone pv) live b" using assms(5-7) by (simp add: worktree_stranded_def)
  from stranded_loop [OF loop assms(3) this] show ?thesis by (auto simp: stored_list)
qed

section \<open>Concrete runs\<close>

text \<open>Three bindings: the checkout of the first is gone and its sandbox too, the workspace of the
  second is alive, the third has lost workspace and checkout while its sandbox runs.\<close>

definition bound :: "string \<Rightarrow> string \<Rightarrow> string \<Rightarrow> string \<Rightarrow> Binding" where
  "bound l w h p = \<lparr>bd_label = l, bd_workspace = w, bd_handle = h, bd_checkout = p\<rparr>"

definition lost :: Binding where "lost = bound ''a'' ''w1'' ''herdr/nope'' ''/gone''"
definition alive :: Binding where "alive = bound ''b'' ''w2'' ''herdr/x'' ''/here''"
definition busy :: Binding where "busy = bound ''c'' ''w3'' ''herdr/x'' ''/gone''"

definition demo_prune :: "(daemon, run_error) prune_env" where
  "demo_prune = \<lparr>pv_service = (\<lambda>p. New_service (daemon_if None OpenFailed) p ''/root'' (\<lambda>_. None) None OpenFailed),
     pv_io = io_ok, pv_state_dir = Some ''/state'',
     pv_workspaces = Inr (JDoc (JObj [(''result'', JObj [(''workspaces'',
        JArr [JObj [(''workspace_id'', JStr ''w2'')]])])])),
     pv_gone = (\<lambda>p. p = ''/gone'')\<rparr>"

definition bindings :: "Binding list \<Rightarrow> bindings_file" where
  "bindings bs = BfText (JDoc (JArr (map enc_binding bs)))"

lemma readAll_bindings [simp]: "readAll (bindings bs) = Inr bs"
  by (simp add: bindings_def)

lemma demo_workspaces: "pruneListWorkspaces (pv_workspaces demo_prune) = Inr [(''w2'', [])]"
  by (simp add: demo_prune_def pruneListWorkspaces_def unmarshal_def dec_workspaces_def dec_struct_def
      dec_slice_def dec_workspace_def dec_string_def)

lemma demo_handles:
  "splitSandboxHandle ''herdr/nope'' = (''herdr'', ''nope'')" "splitSandboxHandle ''herdr/x'' = (''herdr'', ''x'')"
  "trim_space ''/gone'' = ''/gone''" "trim_space ''/here'' = ''/here''" by code_simp+

lemma demo_service: "svc_rt (pv_service demo_prune p) = daemon_if None OpenFailed"
  "pv_service demo_prune = (\<lambda>p. New_service (daemon_if None OpenFailed) p ''/root'' (\<lambda>_. None) None OpenFailed)"
  by (simp_all add: demo_prune_def New_service_def)

lemma demo_find:
  "find (resolves (pv_service demo_prune ''herdr'') ''nope'') (dm_refs two_projects) = None"
  "find (resolves (pv_service demo_prune ''herdr'') ''x'') (dm_refs two_projects)
     = Some \<lparr>ref_id = ''herdr--x'', ref_project = ''herdr'', ref_name = ''x'', ref_status = StRunning\<rparr>"
  by (simp_all add: two_projects_refs resolves_def demo_prune_def New_service_def)

lemma demo_reclaim: "pruneReclaim demo_prune ''herdr'' ''nope'' two_projects = Some (None, two_projects)"
  by (simp add: pruneReclaim_def service_Remove_def demo_find
      msb.resolve_result [OF named_two_projects demo_service(1)])

lemma demo_delete: "space_Delete io_ok ''a'' (bindings [lost, alive]) = (None, bindings [alive])"
proof -
  have "filter (\<lambda>b. bd_label b \<noteq> ''a'') [lost, alive] = [alive]" by (simp add: lost_def alive_def bound_def)
  moreover have "writeAll io_ok bs f = (None, bindings bs)" for bs f
    by (simp add: writeAll_def io_ok_def bindings_def)
  moreover have "io_mkdir io_ok" "withLock io_ok fn f = fn f" for fn f by (simp_all add: io_ok_def withLock_def)
  ultimately show ?thesis by (simp add: space_Delete_def del: filter.simps)
qed

lemmas demo_steps = prune_binding_def binding_liveness_def pruneStrandReason_def reclaim_binding_def Let_def
  say_def fail_def demo_handles demo_reclaim demo_find msb.status_same [OF named_two_projects demo_service(1)]

lemma demo_io: "pv_io demo_prune = io_ok" "pv_state_dir demo_prune = Some ''/state''"
  "pv_gone demo_prune = (\<lambda>p. p = ''/gone'')" "io_ctx io_ok"
  by (simp_all add: demo_prune_def io_ok_def)

lemma sweep_run:
  "\<exists>log. runSpacePrune demo_prune [''--apply'', ''--all''] (two_projects, bindings [lost, alive])
     = Some ((0, log), (two_projects, bindings [alive]))"
proof -
  have "prune_binding demo_prune True False [(''w2'', [])] lost no_acc (two_projects, bindings [lost, alive])
      = Some (\<lparr>pa_considered = 1, pa_reclaimable = 1, pa_applied = 1, pa_err = False,
          pa_log = [Reclaimed ''herdr/nope'' ''w1'' ''workspace-gone+worktree-gone:/gone'']\<rparr>,
          two_projects, bindings [alive])"
    using demo_delete by (simp add: demo_steps demo_io no_acc_def lost_def bound_def)
  moreover have "prune_binding demo_prune True False [(''w2'', [])] alive a (two_projects, bindings [alive])
      = Some (say (Keep ''herdr/x'' ''w2'' ''workspace-alive'') (a\<lparr>pa_considered := pa_considered a + 1\<rparr>),
          two_projects, bindings [alive])" for a
    by (simp add: demo_steps demo_io alive_def bound_def)
  ultimately show ?thesis
    by (simp add: runSpacePrune_def sweep_flags demo_io demo_workspaces space_List_def Let_def say_def)
qed

theorem prune_sweep_complete_witness:
  "\<exists>fs'. readAll (bindings [alive]) = Inr fs' \<and> lost \<notin> set fs'"
proof -
  obtain log where r: "runSpacePrune demo_prune [''--apply'', ''--all''] (two_projects, bindings [lost, alive])
     = Some ((0, log), (two_projects, bindings [alive]))" using sweep_run by blast
  have "map_of [(''w2'', [])] (bd_workspace lost) = None" "trim_space (bd_checkout lost) = ''/gone''"
    by (simp_all add: lost_def bound_def demo_handles)
  then show ?thesis
    by (intro prune_sweep_complete [OF r, of "[lost, alive]" lost "[(''w2'', [])]"])
      (simp_all add: demo_workspaces demo_io)
qed

theorem prune_keeps_live_bindings_witness:
  "\<exists>fs'. readAll (bindings [alive]) = Inr fs' \<and> alive \<in> set fs'"
proof -
  obtain log where r: "runSpacePrune demo_prune [''--apply'', ''--all''] (two_projects, bindings [lost, alive])
     = Some ((0, log), (two_projects, bindings [alive]))" using sweep_run by blast
  have "distinct (map bd_label [lost, alive])" "bd_workspace alive = ''w2''"
    by (simp_all add: lost_def alive_def bound_def)
  then show ?thesis
    by (intro prune_keeps_live_bindings [OF r _ _ _ demo_workspaces sweep_flags(1), of "[lost, alive]" alive]) simp_all
qed

theorem prune_dry_run_witness:
  "\<exists>r. runSpacePrune demo_prune [] (two_projects, bindings [lost]) = Some (r, (two_projects, bindings [lost]))"
proof -
  have flags: "parse_flags prune_flags [] = Some ([], [])" by simp
  have none: "\<not> flag_bool [] ''apply'' False" "flag_string [] ''workspace'' [] = []"
    by (simp_all add: flag_bool_def flag_string_def flag_last_def)
  have "\<exists>r s. runSpacePrune demo_prune [] (two_projects, bindings [lost]) = Some (r, s)"
    by (simp add: runSpacePrune_def none demo_io demo_workspaces space_List_def demo_steps lost_def bound_def no_acc_def)
  then obtain r s where r: "runSpacePrune demo_prune [] (two_projects, bindings [lost]) = Some (r, s)" by blast
  with prune_dry_run [OF named_two_projects demo_service(2) flags none(1) r] show ?thesis by blast
qed

theorem prune_spares_running_witness:
  "\<exists>r d' f'. runSpacePrune demo_prune [''--apply'', ''--all''] (two_projects, bindings [busy]) = Some (r, (d', f'))
     \<and> \<lparr>ref_id = ''herdr--x'', ref_project = ''herdr'', ref_name = ''x'', ref_status = StRunning\<rparr> \<in> set (dm_refs d')"
proof -
  have "\<exists>r d' f'. runSpacePrune demo_prune [''--apply'', ''--all''] (two_projects, bindings [busy]) = Some (r, (d', f'))"
    by (simp add: runSpacePrune_def sweep_flags demo_io demo_workspaces space_List_def demo_steps busy_def bound_def no_acc_def)
  then obtain r d' f' where r: "runSpacePrune demo_prune [''--apply'', ''--all''] (two_projects, bindings [busy]) = Some (r, (d', f'))"
    by blast
  from prune_spares_running [OF named_two_projects demo_service(2) sweep_flags(1,4) r] r show ?thesis
    by (auto simp: two_projects_refs)
qed

end
