(* ===== verification/SpaceCommands.thy ===== *)
theory SpaceCommands
  imports CliCommon Forwarder
begin

text \<open>
  The commands that bind a herdr workspace to a sandbox: \<open>space-create\<close>, \<open>space-open-pane\<close>,
  \<open>new-tab\<close> and the cleanup of \<open>rm\<close> (\<open>cmd_herdrspace.go\<close>), \<open>space-convert\<close>
  (\<open>cmd_herdrspace_convert.go\<close>). The state is \<open>'w\<close> (the daemon and herdr) beside the bindings
  file. A herdr command is run with its argument vector and yields its output or an error;
  \<open>sp_scan\<close> is the JSON scanner. The result of a command is its exit code with what it reported.
\<close>

record ('w, 'e) space_env =
  sp_getenv :: env
  sp_stat :: "string \<Rightarrow> bool"
  sp_io :: io
  sp_run :: "string list \<Rightarrow> ('w, string + string) act"
  sp_scan :: "string \<Rightarrow> jtext"
  sp_service :: "string \<Rightarrow> ('w, 'e) Service"

definition sp_bin :: "('w, 'e) space_env \<Rightarrow> string" where
  "sp_bin sp = herdrBin (sp_getenv sp) (sp_stat sp)"

datatype 'e space_msg =
    SpUsage | SpNoStateDir | SpStore store_error | SpHerdr string | SpParse string | SpNoWorkspaceID string
  | SpEmptyOutput | SpUnbound string | SpAlreadyBound string string | SpNoWorktree string
  | SpPrimaryCheckout string string string | SpNoPanes | SpNoPaneID | SpService "'e service_error"
  | SpCreated string string | SpConverted string string string string

type_synonym 'e outcome = "int \<times> 'e space_msg list"

section \<open>Calls to herdr\<close>

definition dec_field :: "string \<Rightarrow> 's decoder \<Rightarrow> 's decoder" where
  "dec_field name dec = dec_struct (\<lambda>k j s. if key_is name k then dec j s else (True, s))"

definition dec_created :: "(string \<times> string) decoder" where
  "dec_created = dec_field ''result'' (dec_struct (\<lambda>k j (w, p).
     if key_is ''workspace'' k then (let (ok, v) = dec_field ''workspace_id'' dec_string j w in (ok, (v, p)))
     else if key_is ''root_pane'' k then (let (ok, v) = dec_field ''pane_id'' dec_string j p in (ok, (w, v)))
     else (True, (w, p))))"

text \<open>Output that is not JSON is taken as the workspace id itself.\<close>

definition herdrWorkspaceCreate ::
  "('w, 'e) space_env \<Rightarrow> string \<Rightarrow> ('w, 'e space_msg + string \<times> string) act" where
  "herdrWorkspaceCreate sp label w =
     (case sp_run sp [sp_bin sp, ''workspace'', ''create'', ''--label'', label, ''--no-focus''] w of
        (Inl e, w1) \<Rightarrow> (Inl (SpHerdr e), w1)
      | (Inr out, w1) \<Rightarrow>
          (let raw = trim_space out in
           case unmarshal dec_created ([], []) (sp_scan sp raw) of
             None \<Rightarrow> (if raw = [] then Inl SpEmptyOutput else Inr (raw, []), w1)
           | Some (i, p) \<Rightarrow> (if i = [] then Inl (SpNoWorkspaceID raw) else Inr (i, p), w1)))"

definition herdrWorkspaceClose :: "('w, 'e) space_env \<Rightarrow> string \<Rightarrow> ('w, string option) act" where
  "herdrWorkspaceClose sp workspaceID w =
     (case sp_run sp [sp_bin sp, ''workspace'', ''close'', workspaceID] w of
        (Inl e, w1) \<Rightarrow> (Some e, w1) | (Inr _, w1) \<Rightarrow> (None, w1))"

definition herdrOpenGuestPane ::
  "('w, 'e) space_env \<Rightarrow> string \<Rightarrow> string \<Rightarrow> string \<Rightarrow> string \<Rightarrow> string \<Rightarrow> ('w, string option) act" where
  "herdrOpenGuestPane sp workspaceID rootPaneID sandbox project hostCwd w =
     (case sp_run sp (sp_bin sp # guestPaneArgs workspaceID rootPaneID sandbox project hostCwd) w of
        (Inl e, w1) \<Rightarrow> (Some e, w1) | (Inr _, w1) \<Rightarrow> (None, w1))"

text \<open>Run a step on the first component of the state.\<close>

definition on_herdr :: "('w, 'a) act \<Rightarrow> ('w \<times> bindings_file, 'a) act" where
  "on_herdr f s = (case f (fst s) of (x, w1) \<Rightarrow> (x, (w1, snd s)))"

section \<open>space-create, space-open-pane, new-tab\<close>

definition project_flag :: flag_set where "project_flag = [(''project'', FlagString)]"

definition bind_workspace ::
  "('w, 'e) space_env \<Rightarrow> string \<Rightarrow> string \<Rightarrow> string \<Rightarrow> string \<Rightarrow> ('w \<times> bindings_file, 'e outcome) act" where
  "bind_workspace sp project name workspaceID rootPaneID s =
     (let b = \<lparr>bd_label = ''msb:'' @ name, bd_workspace = workspaceID,
               bd_handle = sandboxHandle project name, bd_checkout = []\<rparr> in
      case Put (sp_io sp) b (snd s) of
        (Some e, f1) \<Rightarrow>
          (case herdrWorkspaceClose sp workspaceID (fst s) of (_, w1) \<Rightarrow> ((1, [SpStore e]), (w1, f1)))
      | (None, f1) \<Rightarrow>
          (case herdrOpenGuestPane sp workspaceID rootPaneID name project (bd_checkout b) (fst s) of
             (Some e, w1) \<Rightarrow> ((1, [SpHerdr e]), (w1, f1))
           | (None, w1) \<Rightarrow> ((0, [SpCreated workspaceID (bd_handle b)]), (w1, f1))))"

definition runSpaceCreate ::
  "('w, 'e) space_env \<Rightarrow> string list \<Rightarrow> ('w \<times> bindings_file, 'e outcome) act" where
  "runSpaceCreate sp args s =
     (case parse_flags project_flag args of
        None \<Rightarrow> ((2, []), s)
      | Some (flags, []) \<Rightarrow> ((2, [SpUsage]), s)
      | Some (flags, name # _) \<Rightarrow>
          (let project = flag_string flags ''project'' DefaultProject in
           if StateDir (sp_getenv sp) = None then ((1, [SpNoStateDir]), s)
           else (case on_herdr (herdrWorkspaceCreate sp (''msb:'' @ name)) s of
                   (Inl e, s1) \<Rightarrow> ((1, [e]), s1)
                 | (Inr (workspaceID, rootPaneID), s1) \<Rightarrow> bind_workspace sp project name workspaceID rootPaneID s1)))"

text \<open>The workspace id of the first argument or of the environment.\<close>

definition workspace_arg :: "('w, 'e) space_env \<Rightarrow> string list \<Rightarrow> string" where
  "workspace_arg sp rest =
     (case rest of a # _ \<Rightarrow> if a = [] then sp_getenv sp ''HERDR_WORKSPACE_ID'' else a
                 | [] \<Rightarrow> sp_getenv sp ''HERDR_WORKSPACE_ID'')"

definition open_bound :: "('w, 'e) space_env \<Rightarrow> string \<Rightarrow> Binding \<Rightarrow> ('w \<times> bindings_file, 'e outcome) act" where
  "open_bound sp workspaceID b s =
     (case splitHandle (bd_handle b) of (project, name) \<Rightarrow>
        (case on_herdr (herdrOpenGuestPane sp workspaceID [] name project (bd_checkout b)) s of
           (Some e, s1) \<Rightarrow> ((1, [SpHerdr e]), s1)
         | (None, s1) \<Rightarrow> ((0, []), s1)))"

definition runSpaceOpenPane ::
  "('w, 'e) space_env \<Rightarrow> string list \<Rightarrow> ('w \<times> bindings_file, 'e outcome) act" where
  "runSpaceOpenPane sp args s =
     (case parse_flags [] args of
        None \<Rightarrow> ((2, []), s)
      | Some (_, rest) \<Rightarrow>
          (let workspaceID = workspace_arg sp rest in
           if workspaceID = [] then ((2, [SpUsage]), s)
           else if StateDir (sp_getenv sp) = None then ((1, [SpNoStateDir]), s)
           else (case GetByWorkspaceID (sp_io sp) workspaceID (snd s) of
                   Inl _ \<Rightarrow> ((1, [SpUnbound workspaceID]), s)
                 | Inr b \<Rightarrow> open_bound sp workspaceID b s)))"

definition runNewTab ::
  "('w, 'e) space_env \<Rightarrow> string list \<Rightarrow> ('w \<times> bindings_file, 'e outcome) act" where
  "runNewTab sp args s =
     (case parse_flags [] args of
        None \<Rightarrow> ((2, []), s)
      | Some (_, rest) \<Rightarrow>
          (let workspaceID = workspace_arg sp rest in
           if workspaceID = [] then ((2, [SpUsage]), s)
           else if StateDir (sp_getenv sp) = None then ((1, [SpNoStateDir]), s)
           else (case GetByWorkspaceID (sp_io sp) workspaceID (snd s) of
                   Inr b \<Rightarrow> open_bound sp workspaceID b s
                 | Inl e \<Rightarrow>
                     if e \<noteq> BindingNotFound then ((1, [SpStore e]), s)
                     else (case on_herdr (sp_run sp [sp_bin sp, ''tab'', ''create'', ''--workspace'', workspaceID, ''--focus'']) s of
                             (Inl e, s1) \<Rightarrow> ((1, [SpHerdr e]), s1)
                           | (Inr _, s1) \<Rightarrow> ((0, []), s1)))))"

definition spaceCleanup ::
  "('w, 'e) space_env \<Rightarrow> string \<Rightarrow> string \<Rightarrow> bool \<Rightarrow> 'w \<times> bindings_file \<Rightarrow> 'w \<times> bindings_file" where
  "spaceCleanup sp project name closeWorkspace s =
     (if \<not> closeWorkspace then s
      else (case GetByHandle (sp_io sp) (sandboxHandle project name) (snd s) of
              Inl _ \<Rightarrow> s
            | Inr b \<Rightarrow>
                (case space_Delete (sp_io sp) (bd_label b) (snd s) of
                   (_, f1) \<Rightarrow>
                     (case herdrWorkspaceClose sp (bd_workspace b) (fst s) of (_, w1) \<Rightarrow> (w1, f1)))))"

section \<open>space-convert\<close>

record convertWorkspace =
  cw_label :: string
  cw_checkout :: string
  cw_repo_root :: string
  cw_active_tab :: string
  cw_linked :: bool

record worktree_info =
  wi_checkout :: string
  wi_root :: string
  wi_linked :: bool

record herdrWorkspaceInfo =
  hi_label :: string
  hi_active_tab :: string
  hi_worktree :: "worktree_info option"

definition dec_worktree_info :: "worktree_info decoder" where
  "dec_worktree_info = dec_struct (\<lambda>k j t.
     if key_is ''checkout_path'' k then (let (ok, v) = dec_string j (wi_checkout t) in (ok, t\<lparr>wi_checkout := v\<rparr>))
     else if key_is ''repo_root'' k then (let (ok, v) = dec_string j (wi_root t) in (ok, t\<lparr>wi_root := v\<rparr>))
     else if key_is ''is_linked_worktree'' k then (let (ok, v) = dec_bool j (wi_linked t) in (ok, t\<lparr>wi_linked := v\<rparr>))
     else (True, t))"

text \<open>The workspace id of the answer must be a string but is not used.\<close>

definition dec_herdrWorkspaceInfo :: "herdrWorkspaceInfo decoder" where
  "dec_herdrWorkspaceInfo = dec_field ''result'' (dec_field ''workspace'' (dec_struct (\<lambda>k j h.
     if key_is ''workspace_id'' k then (fst (dec_string j []), h)
     else if key_is ''label'' k then (let (ok, v) = dec_string j (hi_label h) in (ok, h\<lparr>hi_label := v\<rparr>))
     else if key_is ''active_tab_id'' k then (let (ok, v) = dec_string j (hi_active_tab h) in (ok, h\<lparr>hi_active_tab := v\<rparr>))
     else if key_is ''worktree'' k then
       (let (ok, v) = dec_ptr dec_worktree_info \<lparr>wi_checkout = [], wi_root = [], wi_linked = False\<rparr> j (hi_worktree h)
        in (ok, h\<lparr>hi_worktree := v\<rparr>))
     else (True, h))))"

definition herdrWorkspaceGet ::
  "('w, 'e) space_env \<Rightarrow> string \<Rightarrow> ('w, 'e space_msg + convertWorkspace) act" where
  "herdrWorkspaceGet sp workspaceID w =
     (case sp_run sp [sp_bin sp, ''workspace'', ''get'', workspaceID] w of
        (Inl e, w1) \<Rightarrow> (Inl (SpHerdr e), w1)
      | (Inr out, w1) \<Rightarrow>
          (let raw = trim_space out in
           case unmarshal dec_herdrWorkspaceInfo \<lparr>hi_label = [], hi_active_tab = [], hi_worktree = None\<rparr> (sp_scan sp raw) of
             None \<Rightarrow> (Inl (SpParse raw), w1)
           | Some h \<Rightarrow>
               (case hi_worktree h of
                  None \<Rightarrow> (Inl (SpNoWorktree workspaceID), w1)
                | Some t \<Rightarrow>
                    if trim_space (wi_checkout t) = [] then (Inl (SpNoWorktree workspaceID), w1)
                    else (Inr \<lparr>cw_label = hi_label h, cw_checkout = wi_checkout t, cw_repo_root = wi_root t,
                               cw_active_tab = hi_active_tab h, cw_linked = wi_linked t\<rparr>, w1))))"

definition refuseNonLinkedWorktree :: "convertWorkspace \<Rightarrow> string \<Rightarrow> 'e space_msg option" where
  "refuseNonLinkedWorktree ws workspaceID =
     (if cw_linked ws then None
      else Some (SpPrimaryCheckout workspaceID (cw_checkout ws)
                  (if trim_space (cw_repo_root ws) = [] then cw_checkout ws else trim_space (cw_repo_root ws))))"

record pane_info =
  pn_id :: string
  pn_tab :: string
  pn_focused :: bool

definition dec_pane :: "pane_info decoder" where
  "dec_pane = dec_struct (\<lambda>k j p.
     if key_is ''pane_id'' k then (let (ok, v) = dec_string j (pn_id p) in (ok, p\<lparr>pn_id := v\<rparr>))
     else if key_is ''tab_id'' k then (let (ok, v) = dec_string j (pn_tab p) in (ok, p\<lparr>pn_tab := v\<rparr>))
     else if key_is ''workspace_id'' k then (fst (dec_string j []), p)
     else if key_is ''focused'' k then (let (ok, v) = dec_bool j (pn_focused p) in (ok, p\<lparr>pn_focused := v\<rparr>))
     else (True, p))"

definition dec_panes :: "pane_info list decoder" where
  "dec_panes = dec_field ''result''
     (dec_field ''panes'' (dec_slice dec_pane \<lparr>pn_id = [], pn_tab = [], pn_focused = False\<rparr>))"

text \<open>The loop of \<open>herdrRootPaneID\<close>: the focused pane of the active tab ends it at once;
  otherwise it collects the first pane, and the first one of the active tab.\<close>

fun scan_panes :: "string \<Rightarrow> pane_info list \<Rightarrow> string \<Rightarrow> string \<Rightarrow> string + string \<times> string" where
  "scan_panes tab [] first firstInTab = Inr (first, firstInTab)"
| "scan_panes tab (p # ps) first firstInTab =
     (if pn_id p = [] then scan_panes tab ps first firstInTab
      else (let first' = (if first = [] then pn_id p else first) in
            if tab \<noteq> [] \<and> pn_tab p = tab then
              (if pn_focused p then Inl (pn_id p)
               else scan_panes tab ps first' (if firstInTab = [] then pn_id p else firstInTab))
            else scan_panes tab ps first' firstInTab))"

definition root_pane :: "string \<Rightarrow> pane_info list \<Rightarrow> 'e space_msg + string" where
  "root_pane activeTabID panes =
     (if panes = [] then Inl SpNoPanes
      else (case scan_panes activeTabID panes [] [] of
              Inl p \<Rightarrow> Inr p
            | Inr (first, firstInTab) \<Rightarrow>
                if firstInTab \<noteq> [] then Inr firstInTab
                else if first = [] then Inl SpNoPaneID else Inr first))"

definition herdrRootPaneID ::
  "('w, 'e) space_env \<Rightarrow> string \<Rightarrow> string \<Rightarrow> ('w, 'e space_msg + string) act" where
  "herdrRootPaneID sp workspaceID activeTabID w =
     (case sp_run sp [sp_bin sp, ''pane'', ''list'', ''--workspace'', workspaceID] w of
        (Inl e, w1) \<Rightarrow> (Inl (SpHerdr e), w1)
      | (Inr out, w1) \<Rightarrow>
          (let raw = trim_space out in
           case unmarshal dec_panes [] (sp_scan sp raw) of
             None \<Rightarrow> (Inl (SpParse raw), w1)
           | Some panes \<Rightarrow> (root_pane activeTabID panes, w1)))"

definition herdrPaneClose :: "('w, 'e) space_env \<Rightarrow> string \<Rightarrow> ('w, string option) act" where
  "herdrPaneClose sp paneID w =
     (case sp_run sp [sp_bin sp, ''pane'', ''close'', paneID] w of
        (Inl e, w1) \<Rightarrow> (Some e, w1) | (Inr _, w1) \<Rightarrow> (None, w1))"

end
