(* ===== verification/SpaceConvert.thy ===== *)
theory SpaceConvert
  imports SpaceCommands
begin

text \<open>
  \<open>space-convert\<close> (\<open>cmd_herdrspace_convert.go\<close>): put a sandbox behind an existing workspace whose
  checkout is a linked worktree. And \<open>default-shell\<close> (\<open>cmd_herdrspace_default_shell.go\<close>): whether
  a new shell runs in the sandbox bound to the workspace or on the host.
\<close>

section \<open>Names from labels\<close>

text \<open>The number of bytes of the first rune of a string, 1 for a byte that starts none.\<close>

definition byte_in :: "nat \<Rightarrow> nat \<Rightarrow> char \<Rightarrow> bool" where
  "byte_in lo hi c \<longleftrightarrow> lo \<le> (of_char c :: nat) \<and> (of_char c :: nat) \<le> hi"

definition rune_len :: "string \<Rightarrow> nat" where
  "rune_len s =
     (let b = (\<lambda>lo hi i. i < length s \<and> byte_in lo hi (s ! i)); cont = b 128 191 in
      if b 194 223 0 \<and> cont 1 then 2
      else if b 224 224 0 \<and> b 160 191 1 \<and> cont 2 then 3
      else if (b 225 236 0 \<or> b 238 239 0) \<and> cont 1 \<and> cont 2 then 3
      else if b 237 237 0 \<and> b 128 159 1 \<and> cont 2 then 3
      else if b 240 240 0 \<and> b 144 191 1 \<and> cont 2 \<and> cont 3 then 4
      else if b 241 243 0 \<and> cont 1 \<and> cont 2 \<and> cont 3 then 4
      else if b 244 244 0 \<and> b 128 143 1 \<and> cont 2 \<and> cont 3 then 4
      else 1)"

lemma rune_len_pos: "0 < rune_len s"
  by (simp add: rune_len_def Let_def)

definition name_char :: "char \<Rightarrow> bool" where
  "name_char c \<longleftrightarrow> byte_in 97 122 c \<or> byte_in 65 90 c \<or> byte_in 48 57 c \<or> c = CHR ''-'' \<or> c = CHR ''_''"

function map_runes :: "string \<Rightarrow> string" where
  "map_runes [] = []"
| "map_runes (c # cs) =
     (if name_char c then c # map_runes cs else CHR ''-'' # map_runes (drop (rune_len (c # cs)) (c # cs)))"
  by pat_completeness auto
termination
  by (relation "measure length") (use rune_len_pos in \<open>auto simp: not_less_eq Suc_le_eq\<close>)

definition sandboxNameFromLabel :: "string \<Rightarrow> string \<Rightarrow> string" where
  "sandboxNameFromLabel label workspaceID =
     (let s = trim_space label;
          t = (case last_index (CHR '':'') s of Some i \<Rightarrow> drop (i + 1) s | None \<Rightarrow> s);
          name = trim_by (\<lambda>c. c = CHR ''-'') (map_runes t)
      in if name = [] then ''ws-'' @ workspaceID else name)"

section \<open>The command\<close>

definition convert_flags :: flag_set where
  "convert_flags = [(''workspace'', FlagString), (''sandbox'', FlagString), (''image'', FlagString), (''project'', FlagString)]"

definition defaultConvertImage :: string where "defaultConvertImage = ''alpine''"

definition convert_options :: "string \<Rightarrow> string \<Rightarrow> string \<Rightarrow> CreateOptions" where
  "convert_options name img checkout =
     \<lparr>co_name = name, co_image = img, co_vcpus = 0, co_memory = 0, co_motive = [],
      co_worktree = checkout, co_guest_worktree = DefaultGuestWorktree, co_credential = True,
      co_credential_path = [], co_guest_credential = [], co_ports = [], co_boot = True\<rparr>"

definition convertCreateSandbox ::
  "('w, 'e) space_env \<Rightarrow> string \<Rightarrow> CreateOptions \<Rightarrow> ('w, 'e service_error option) act" where
  "convertCreateSandbox sp project opts w =
     (case service_Create (sp_service sp project) opts w of
        (Inl e, w1) \<Rightarrow> (Some e, w1) | (Inr _, w1) \<Rightarrow> (None, w1))"

definition convertRemoveSandbox ::
  "('w, 'e) space_env \<Rightarrow> string \<Rightarrow> string \<Rightarrow> 'w \<Rightarrow> ('e service_error option \<times> 'w) option" where
  "convertRemoveSandbox sp project name w = service_Remove (sp_service sp project) name w"

text \<open>The steps once the sandbox runs: bind it, or remove it again; open a guest pane beside the
  root pane and close that one.\<close>

definition bind_converted ::
  "('w, 'e) space_env \<Rightarrow> string \<Rightarrow> string \<Rightarrow> string \<Rightarrow> convertWorkspace \<Rightarrow> string \<Rightarrow> 'w \<times> bindings_file
     \<Rightarrow> ('e outcome \<times> 'w \<times> bindings_file) option" where
  "bind_converted sp workspaceID project name ws rootPaneID s =
     (let label = (if cw_label ws = [] then ''msb:'' @ name else cw_label ws);
          b = \<lparr>bd_label = label, bd_workspace = workspaceID, bd_handle = sandboxHandle project name,
               bd_checkout = cw_checkout ws\<rparr> in
      case Put (sp_io sp) b (snd s) of
        (Some e, f1) \<Rightarrow>
          (case convertRemoveSandbox sp project name (fst s) of
             None \<Rightarrow> None
           | Some (_, w1) \<Rightarrow> Some ((1, [SpStore e]), (w1, f1)))
      | (None, f1) \<Rightarrow>
          (case herdrOpenGuestPane sp workspaceID rootPaneID name project (cw_checkout ws) (fst s) of
             (Some e, w1) \<Rightarrow> Some ((1, [SpHerdr e]), (w1, f1))
           | (None, w1) \<Rightarrow>
               (case herdrPaneClose sp rootPaneID w1 of
                  (Some e, w2) \<Rightarrow> Some ((1, [SpHerdr e]), (w2, f1))
                | (None, w2) \<Rightarrow>
                    Some ((0, [SpConverted workspaceID (bd_handle b) (cw_checkout ws) rootPaneID]), (w2, f1)))))"

definition convert_workspace ::
  "('w, 'e) space_env \<Rightarrow> string \<Rightarrow> string \<Rightarrow> string \<Rightarrow> string \<Rightarrow> 'w \<times> bindings_file
     \<Rightarrow> ('e outcome \<times> 'w \<times> bindings_file) option" where
  "convert_workspace sp workspaceID sandbox img project s =
     (case on_herdr (herdrWorkspaceGet sp workspaceID) s of
        (Inl e, s1) \<Rightarrow> Some ((1, [e]), s1)
      | (Inr ws, s1) \<Rightarrow>
          (case refuseNonLinkedWorktree ws workspaceID of
             Some e \<Rightarrow> Some ((1, [e]), s1)
           | None \<Rightarrow>
               (case on_herdr (herdrRootPaneID sp workspaceID (cw_active_tab ws)) s1 of
                  (Inl e, s2) \<Rightarrow> Some ((1, [e]), s2)
                | (Inr rootPaneID, s2) \<Rightarrow>
                    (let name = (if sandbox = [] then sandboxNameFromLabel (cw_label ws) workspaceID else sandbox) in
                     case on_herdr (convertCreateSandbox sp project (convert_options name img (cw_checkout ws))) s2 of
                       (Some e, s3) \<Rightarrow> Some ((1, [SpService e]), s3)
                     | (None, s3) \<Rightarrow> bind_converted sp workspaceID project name ws rootPaneID s3))))"

definition runSpaceConvert ::
  "('w, 'e) space_env \<Rightarrow> string list \<Rightarrow> 'w \<times> bindings_file \<Rightarrow> ('e outcome \<times> 'w \<times> bindings_file) option" where
  "runSpaceConvert sp args s =
     (case parse_flags convert_flags args of
        None \<Rightarrow> Some ((2, []), s)
      | Some (flags, _) \<Rightarrow>
          (let wf = flag_string flags ''workspace'' [];
               workspaceID = (if wf = [] then sp_getenv sp ''HERDR_WORKSPACE_ID'' else wf) in
           if workspaceID = [] then Some ((2, [SpUsage]), s)
           else if StateDir (sp_getenv sp) = None then Some ((1, [SpNoStateDir]), s)
           else (case GetByWorkspaceID (sp_io sp) workspaceID (snd s) of
                   Inr b \<Rightarrow> Some ((1, [SpAlreadyBound workspaceID (bd_handle b)]), s)
                 | Inl e \<Rightarrow>
                     if e \<noteq> BindingNotFound then Some ((1, [SpStore e]), s)
                     else convert_workspace sp workspaceID (flag_string flags ''sandbox'' [])
                            (flag_string flags ''image'' defaultConvertImage)
                            (flag_string flags ''project'' DefaultProject) s)))"

section \<open>default-shell\<close>

definition defaultShellSentinel :: string where
  "defaultShellSentinel = ''HERDR_MSB_DEFAULT_SHELL_ACTIVE''"

text \<open>\<open>None\<close>: stay on the host; otherwise the project and the sandbox. \<open>lookup\<close> is the binding of a
  workspace id.\<close>

definition defaultShellDecide ::
  "env \<Rightarrow> string \<Rightarrow> (string \<Rightarrow> store_error + Binding) \<Rightarrow> (string \<times> string) option" where
  "defaultShellDecide getenv storeRoot lookup =
     (if getenv defaultShellSentinel \<noteq> [] then None
      else (let wsID = getenv ''HERDR_WORKSPACE_ID'' in
            if wsID = [] \<or> storeRoot = [] then None
            else (case lookup wsID of
                    Inl _ \<Rightarrow> None
                  | Inr b \<Rightarrow> (case splitHandle (bd_handle b) of (project, name) \<Rightarrow>
                               if name = [] then None else Some (project, name)))))"

definition guestShellArgv :: "string \<Rightarrow> string \<Rightarrow> string \<Rightarrow> string \<Rightarrow> string list" where
  "guestShellArgv plugin project sandbox guestShell =
     [plugin, ''exec'', ''-pty'', ''-project'', project, sandbox, ''--'', ''/bin/sh'', ''-c'',
      ''cd '' @ DefaultGuestWorktree @ '' 2>/dev/null || cd /; exec \"$0\" \"$@\"'', guestShell]
     @ (if has_suffix guestShell ''bash'' then [''-l''] else [])"

text \<open>The shell in the guest, from the output of the probe: its last line without carriage
  returns, when that is not empty.\<close>

definition guest_shell :: "string \<Rightarrow> string" where
  "guest_shell probeOut =
     (let trimmed = trim_space probeOut in
      if trimmed = [] then ''/bin/sh''
      else (let l = trim_right_by (\<lambda>c. c = CHR 0x0D) (last (split_on (CHR ''\<newline>'') trimmed)) in
            if l = [] then ''/bin/sh'' else l))"

text \<open>\<open>runDefaultShell\<close> ends in an exec of one of two argument vectors, with an addition to the
  environment for the guest; \<open>exec\<close> returns only when it fails.\<close>

record 'w shell_env =
  sh_getenv :: env
  sh_executable :: "string option"
  sh_probe :: "string list \<Rightarrow> ('w, string) act"
  sh_exec :: "string list \<Rightarrow> (string \<times> string) list \<Rightarrow> ('w, string option) act"

definition hostShell :: "'w shell_env \<Rightarrow> ('w, int) act" where
  "hostShell sh w =
     (let s = (if sh_getenv sh ''SHELL'' = [] then ''/bin/sh'' else sh_getenv sh ''SHELL'') in
      case sh_exec sh [s] [] w of (Some _, w1) \<Rightarrow> (1, w1) | (None, w1) \<Rightarrow> (0, w1))"

definition runDefaultShell ::
  "'w shell_env \<Rightarrow> (string \<Rightarrow> store_error + Binding) \<Rightarrow> ('w, int) act" where
  "runDefaultShell sh lookup w =
     (case defaultShellDecide (sh_getenv sh) (case StateDir (sh_getenv sh) of None \<Rightarrow> [] | Some d \<Rightarrow> d) lookup of
        None \<Rightarrow> hostShell sh w
      | Some (project, sandbox) \<Rightarrow>
          (case sh_executable sh of
             None \<Rightarrow> hostShell sh w
           | Some plugin \<Rightarrow>
               (case sh_probe sh [plugin, ''exec'', ''-project'', project, sandbox, ''--'', ''/bin/sh'', ''-c'',
                       ''command -v bash 2>/dev/null || echo /bin/sh''] w of
                  (out, w1) \<Rightarrow>
                    (case sh_exec sh (guestShellArgv plugin project sandbox (guest_shell out))
                            [(defaultShellSentinel, ''1'')] w1 of
                       (Some _, w2) \<Rightarrow> hostShell sh w2
                     | (None, w2) \<Rightarrow> (0, w2)))))"

end
