(* ===== verification/SandboxCommands.thy ===== *)
theory SandboxCommands
  imports SpaceCommands
begin

text \<open>
  \<open>internal/cli/cmd_sandbox.go\<close>: \<open>create\<close>, \<open>ps\<close>, \<open>exec\<close>, \<open>start\<close>, \<open>stop\<close>, \<open>rm\<close>, \<open>version\<close>. Each parses its
  flags, calls one operation of the service of its project and reports; \<open>rm\<close> then clears the
  binding of the sandbox. The state is that of \<open>SpaceCommands\<close>.
\<close>

datatype 'e cmd_msg =
    CmUsage | CmMissing string | CmService "'e service_error" | CmNoSuch string
  | CmCreated SandboxRef | CmStarted SandboxRef | CmStopped SandboxRef | CmRemoved string
  | CmLines "SandboxRef list" | CmJson "SandboxRef list" | CmBadEnv string | CmOutput "string \<times> string"
  | CmVersion "(string \<times> string) list"

type_synonym 'e cmd_out = "int \<times> 'e cmd_msg list"

text \<open>How a failed service call is reported: a missing sandbox by its name.\<close>

definition service_fail :: "string \<Rightarrow> 'e service_error \<Rightarrow> 'e cmd_out" where
  "service_fail name e = (case e of ErrNotFound _ \<Rightarrow> (1, [CmNoSuch name]) | _ \<Rightarrow> (1, [CmService e]))"

section \<open>create and ps\<close>

definition port_value :: "string \<Rightarrow> bool" where
  "port_value s \<longleftrightarrow> parse_uint 10 16 s \<noteq> None"

definition port_list :: "string list \<Rightarrow> u16 list" where
  "port_list vs = map (\<lambda>s. case parse_uint 10 16 s of Some n \<Rightarrow> word_of_nat n | None \<Rightarrow> 0) vs"

definition create_flags :: flag_set where
  "create_flags =
     [(''name'', FlagString), (''image'', FlagString), (''worktree'', FlagString), (''guest-path'', FlagString),
      (''mem'', FlagUint), (''vcpus'', FlagUint), (''cred'', FlagBool), (''cred-path'', FlagString),
      (''motive'', FlagString), (''no-boot'', FlagBool), (''project'', FlagString), (''port'', FlagVar port_value)]"

text \<open>The options made from the flags; memory and CPUs are cut to 32 bits.\<close>

definition create_options :: "(string \<times> string) list \<Rightarrow> CreateOptions" where
  "create_options fl =
     \<lparr>co_name = flag_string fl ''name'' [], co_image = flag_string fl ''image'' [],
      co_vcpus = word_of_nat (flag_uint fl ''vcpus'' 0), co_memory = word_of_nat (flag_uint fl ''mem'' 0),
      co_motive = flag_string fl ''motive'' [], co_worktree = flag_string fl ''worktree'' [],
      co_guest_worktree = flag_string fl ''guest-path'' DefaultGuestWorktree,
      co_credential = flag_bool fl ''cred'' True, co_credential_path = flag_string fl ''cred-path'' [],
      co_guest_credential = [], co_ports = port_list (flag_values fl ''port''),
      co_boot = (\<not> flag_bool fl ''no-boot'' False)\<rparr>"

definition runCreate :: "('w, 'e) space_env \<Rightarrow> string list \<Rightarrow> ('w, 'e cmd_out) act" where
  "runCreate sp args w =
     (case parse_flags create_flags args of
        None \<Rightarrow> ((2, []), w)
      | Some (fl, _) \<Rightarrow>
          (let opts = create_options fl in
           if co_name opts = [] then ((2, [CmMissing ''name'']), w)
           else if co_image opts = [] then ((2, [CmMissing ''image'']), w)
           else (case service_Create (sp_service sp (flag_string fl ''project'' DefaultProject)) opts w of
                   (Inl e, w1) \<Rightarrow> ((1, [CmService e]), w1)
                 | (Inr ref, w1) \<Rightarrow> ((0, [CmCreated ref]), w1))))"

definition runPS :: "('w, 'e) space_env \<Rightarrow> string list \<Rightarrow> 'w \<Rightarrow> ('e cmd_out \<times> 'w) option" where
  "runPS sp args w =
     (case parse_flags [(''project'', FlagString), (''json'', FlagBool)] args of
        None \<Rightarrow> Some ((2, []), w)
      | Some (fl, _) \<Rightarrow>
          (case service_List (sp_service sp (flag_string fl ''project'' DefaultProject)) w of
             None \<Rightarrow> None
           | Some (Inl e, w1) \<Rightarrow> Some ((1, [CmService e]), w1)
           | Some (Inr refs, w1) \<Rightarrow>
               Some ((0, if refs = [] then []
                         else if flag_bool fl ''json'' False then [CmJson refs] else [CmLines refs]), w1)))"

section \<open>exec\<close>

text \<open>\<open>sizes\<close>: the sizes of stdin, stdout and stderr, \<open>None\<close> for one that is no terminal.\<close>

definition ptySize :: "WinSize option list \<Rightarrow> u16 \<Rightarrow> u16 \<Rightarrow> WinSize" where
  "ptySize sizes rows cols =
     (if rows > 0 \<and> cols > 0 then \<lparr>ws_rows = rows, ws_cols = cols\<rparr>
      else (case find (\<lambda>s. s \<noteq> None) sizes of
              Some (Some ws) \<Rightarrow>
                \<lparr>ws_rows = (if rows > 0 then rows else ws_rows ws), ws_cols = (if cols > 0 then cols else ws_cols ws)\<rparr>
            | _ \<Rightarrow> \<lparr>ws_rows = (if rows = 0 then 24 else rows), ws_cols = (if cols = 0 then 80 else cols)\<rparr>))"

definition applyPTYFields :: "WinSize option list \<Rightarrow> u16 \<Rightarrow> u16 \<Rightarrow> ExecRequest \<Rightarrow> ExecRequest" where
  "applyPTYFields sizes rows cols req =
     (let ws = ptySize sizes rows cols in
      req\<lparr>rq_tty := True, rq_has_reader := True, rq_rows := ws_rows ws, rq_cols := ws_cols ws\<rparr>)"

definition exec_flags :: flag_set where
  "exec_flags = [(''project'', FlagString), (''cwd'', FlagString), (''pty'', FlagBool), (''rows'', FlagUint),
     (''cols'', FlagUint), (''env'', FlagVar (\<lambda>_. True))]"

fun index_of :: "'a \<Rightarrow> 'a list \<Rightarrow> nat option" where
  "index_of x [] = None"
| "index_of x (y # ys) = (if y = x then Some 0 else map_option Suc (index_of x ys))"

text \<open>The environment pairs in order, or the first one without an equals sign.\<close>

fun env_map :: "string list \<Rightarrow> (string \<times> string) list \<Rightarrow> string + (string \<times> string) list" where
  "env_map [] m = Inr m"
| "env_map (kv # kvs) m =
     (case index_byte (CHR ''='') kv of
        None \<Rightarrow> Inl kv
      | Some i \<Rightarrow> env_map kvs (AList.update (take i kv) (drop (i + 1) kv) m))"

definition exec_request_of ::
  "WinSize option list \<Rightarrow> (string \<times> string) list \<Rightarrow> (string \<times> string) list \<Rightarrow> string list \<Rightarrow> ExecRequest" where
  "exec_request_of sizes fl envMap guestArgv =
     (let req = \<lparr>rq_argv = guestArgv, rq_env = envMap, rq_cwd = flag_string fl ''cwd'' [], rq_stdin = [],
                 rq_has_reader = False, rq_tty = False, rq_rows = 0, rq_cols = 0\<rparr> in
      if flag_bool fl ''pty'' False
      then applyPTYFields sizes (word_of_nat (flag_uint fl ''rows'' 0)) (word_of_nat (flag_uint fl ''cols'' 0)) req
      else req)"

definition runExec ::
  "('w, 'e) space_env \<Rightarrow> WinSize option list \<Rightarrow> string list \<Rightarrow> 'w \<Rightarrow> ('e cmd_out \<times> 'w) option" where
  "runExec sp sizes args w =
     (case parse_flags exec_flags args of
        None \<Rightarrow> Some ((2, []), w)
      | Some (fl, remaining) \<Rightarrow>
          (case index_of ''--'' remaining of
             None \<Rightarrow> Some ((2, [CmUsage]), w)
           | Some i \<Rightarrow>
               if i = 0 \<or> i + 1 \<ge> length remaining then Some ((2, [CmUsage]), w)
               else (case env_map (flag_values fl ''env'') [] of
                       Inl kv \<Rightarrow> Some ((2, [CmBadEnv kv]), w)
                     | Inr envMap \<Rightarrow>
                         (case service_Exec (sp_service sp (flag_string fl ''project'' DefaultProject)) (hd remaining)
                                 (exec_request_of sizes fl envMap (drop (i + 1) remaining)) w of
                            None \<Rightarrow> None
                          | Some (Inl e, output, w1) \<Rightarrow>
                              (case service_fail (hd remaining) e of (c, ms) \<Rightarrow> Some ((c, CmOutput output # ms), w1))
                          | Some (Inr code, output, w1) \<Rightarrow> Some ((code, [CmOutput output]), w1)))))"

section \<open>start, stop, rm, version\<close>

definition runStart :: "('w, 'e) space_env \<Rightarrow> string list \<Rightarrow> 'w \<Rightarrow> ('e cmd_out \<times> 'w) option" where
  "runStart sp args w =
     (case parse_flags project_flag args of
        None \<Rightarrow> Some ((2, []), w)
      | Some (fl, []) \<Rightarrow> Some ((2, [CmUsage]), w)
      | Some (fl, name # _) \<Rightarrow>
          (case service_Start (sp_service sp (flag_string fl ''project'' DefaultProject)) name w of
             None \<Rightarrow> None
           | Some (Inl e, w1) \<Rightarrow> Some (service_fail name e, w1)
           | Some (Inr ref, w1) \<Rightarrow> Some ((0, [CmStarted ref]), w1)))"

definition runStop ::
  "('w, 'e) space_env \<Rightarrow> string list \<Rightarrow> 'w \<times> bindings_file \<Rightarrow> ('e cmd_out \<times> 'w \<times> bindings_file) option" where
  "runStop sp args s =
     (case parse_flags project_flag args of
        None \<Rightarrow> Some ((2, []), s)
      | Some (fl, []) \<Rightarrow> Some ((2, [CmUsage]), s)
      | Some (fl, name # _) \<Rightarrow>
          (let project = flag_string fl ''project'' DefaultProject in
           case service_Stop (sp_service sp project) name (fst s) of
             None \<Rightarrow> None
           | Some (Inl e, w1) \<Rightarrow> Some (service_fail name e, (w1, snd s))
           | Some (Inr ref, w1) \<Rightarrow>
               Some ((0, [CmStopped ref]),
                 if StateDir (sp_getenv sp) \<noteq> None then spaceCleanup sp project name False (w1, snd s)
                 else (w1, snd s))))"

definition runRM ::
  "('w, 'e) space_env \<Rightarrow> string list \<Rightarrow> 'w \<times> bindings_file \<Rightarrow> ('e cmd_out \<times> 'w \<times> bindings_file) option" where
  "runRM sp args s =
     (case parse_flags project_flag args of
        None \<Rightarrow> Some ((2, []), s)
      | Some (fl, []) \<Rightarrow> Some ((2, [CmUsage]), s)
      | Some (fl, name # _) \<Rightarrow>
          (let project = flag_string fl ''project'' DefaultProject in
           case service_Remove (sp_service sp project) name (fst s) of
             None \<Rightarrow> None
           | Some (Some e, w1) \<Rightarrow> Some (service_fail name e, (w1, snd s))
           | Some (None, w1) \<Rightarrow>
               Some ((0, [CmRemoved name]),
                 if StateDir (sp_getenv sp) \<noteq> None then spaceCleanup sp project name True (w1, snd s)
                 else (w1, snd s))))"

text \<open>\<open>version\<close>: the build information, when there is any: Go version, main path, settings.\<close>

definition last_setting :: "string \<Rightarrow> (string \<times> string) list \<Rightarrow> string" where
  "last_setting k ss = (case map_of (rev ss) k of Some v \<Rightarrow> v | None \<Rightarrow> [])"

definition runVersion :: "(string \<times> string \<times> (string \<times> string) list) option \<Rightarrow> int \<times> (string \<times> string) list" where
  "runVersion info =
     (case info of
        None \<Rightarrow> (0, [(''herdr-plugin-msb'', []), (''revision'', ''unknown'')])
      | Some (go, path, ss) \<Rightarrow>
          (0, [(''herdr-plugin-msb'', []), (''go'', go), (''path'', path), (''revision'', last_setting ''vcs.revision'' ss),
               (''built'', last_setting ''vcs.time'' ss), (''dirty'', last_setting ''vcs.modified'' ss)]))"

end
