(* ===== verification/SpaceProps.thy ===== *)
theory SpaceProps
  imports SpaceConvert SandboxCommands MsbService
begin

text \<open>
  Properties of the workspace and sandbox commands: the shell of a pane reaches the sandbox its
  workspace is bound to, conversion spares the primary checkout and takes a failed binding back,
  a removal clears the binding, and the width of the memory flag.
\<close>

section \<open>Between a workspace and the shell in its sandbox\<close>

definition exec_outcome :: "string \<Rightarrow> 'e service_error + int \<Rightarrow> string \<times> string \<Rightarrow> 'e cmd_out" where
  "exec_outcome sandbox r output =
     (case r of
        Inr code \<Rightarrow> (code, [CmOutput output])
      | Inl e \<Rightarrow> (case service_fail sandbox e of (c, ms) \<Rightarrow> (c, CmOutput output # ms)))"

definition shell_script :: string where
  "shell_script = ''cd '' @ DefaultGuestWorktree @ '' 2>/dev/null || cd /; exec \"$0\" \"$@\"''"

definition shell_argv :: "string \<Rightarrow> string list" where
  "shell_argv sh = [''/bin/sh'', ''-c'', shell_script, sh] @ (if has_suffix sh ''bash'' then [''-l''] else [])"

lemma exec_shell_flags:
  assumes "flag_word sandbox = NotFlag"
  shows "parse_flags exec_flags (''-pty'' # ''-project'' # project # sandbox # rest)
    = Some ([(''pty'', ''true''), (''project'', project)], sandbox # rest)"
proof -
  have words: "flag_word ''-pty'' = FlagNamed ''pty''" "flag_word ''-project'' = FlagNamed ''project''"
    "cut_flag ''pty'' = (''pty'', None)" "cut_flag ''project'' = (''project'', None)" by code_simp+
  have kinds: "map_of exec_flags ''pty'' = Some FlagBool" "map_of exec_flags ''project'' = Some FlagString"
    by (simp_all add: exec_flags_def)
  have bool: "parse_bool ''true'' \<noteq> None" by (simp add: parse_bool_def)
  have "parse_flags exec_flags (sandbox # rest) = Some ([], sandbox # rest)"
    using assms by (simp add: parse_flags.simps(2))
  then have "parse_flags exec_flags (''-project'' # project # sandbox # rest) = Some ([(''project'', project)], sandbox # rest)"
    using words kinds by (subst parse_flags.simps(2)) simp
  then show ?thesis using words kinds bool by (subst parse_flags.simps(2)) (simp add: Let_def)
qed


text \<open>A herdr that answers every command, on the daemon of \<open>two_projects\<close>.\<close>

definition demo_space :: "(string \<Rightarrow> jtext) \<Rightarrow> io \<Rightarrow> (daemon, run_error) space_env" where
  "demo_space scan io =
     \<lparr>sp_getenv = (\<lambda>k. if k = ''XDG_STATE_HOME'' then ''/s'' else []), sp_stat = (\<lambda>_. False), sp_io = io,
      sp_run = (\<lambda>argv d. (Inr ''ok'', d)), sp_scan = scan,
      sp_service = (\<lambda>p. New_service (daemon_if None OpenFailed) p ''/root'' (\<lambda>_. None) None OpenFailed)\<rparr>"


text \<open>Opening a pane on a workspace reaches the sandbox space-create bound. After a successful
  space-create, for a project without a slash and a workspace id no older binding has, opening a
  pane or a tab on that workspace runs herdr with exactly the pane arguments of that project and
  sandbox.\<close>

theorem created_space_opens_sandbox:
  assumes "runSpaceCreate sp args (w, f) = ((0, [SpCreated workspaceID handle]), (w1, f1))"
    and "parse_flags project_flag args = Some (flags, name # rest)" "project = flag_string flags ''project'' DefaultProject"
    and "CHR ''/'' \<notin> set project" "readAll f = Inr bs" "\<forall>b \<in> set bs. bd_workspace b \<noteq> workspaceID"
    and "workspaceID \<noteq> []" "flag_word workspaceID = NotFlag" "sp_io sp = io_ok"
  shows "snd (runSpaceOpenPane sp [workspaceID] (w2, f1))
      = (snd (sp_run sp (sp_bin sp # guestPaneArgs workspaceID [] name project []) w2), f1)
    \<and> runNewTab sp [workspaceID] (w2, f1) = runSpaceOpenPane sp [workspaceID] (w2, f1)"
proof -
  let ?b = "\<lparr>bd_label = ''msb:'' @ name, bd_workspace = workspaceID, bd_handle = sandboxHandle project name, bd_checkout = []\<rparr>"
  have dir: "StateDir (sp_getenv sp) \<noteq> None" and put: "Put (sp_io sp) ?b f = (None, f1)"
    using assms(1-3) by (auto simp: runSpaceCreate_def Let_def on_herdr_def bind_workspace_def
        split: if_splits prod.splits sum.splits option.splits)
  have stored: "readAll f1 = Inr (put_list ?b bs)"
    using put assms(5) writeAll_result [of "sp_io sp" "put_list ?b bs" f None f1]
    by (auto simp: Put_def withLock_def split: if_splits)
  have at_end: "find (\<lambda>b. bd_workspace b = workspaceID) (xs @ [y]) = Some y"
    if "\<forall>b \<in> set xs. bd_workspace b \<noteq> workspaceID" "bd_workspace y = workspaceID" for xs y
    using that by (induction xs) auto
  have "find (\<lambda>b. bd_workspace b = workspaceID) (put_list ?b bs) = Some ?b"
    unfolding put_list_def by (rule at_end) (use assms(6) in auto)
  then have get: "GetByWorkspaceID (sp_io sp) workspaceID f1 = Inr ?b"
    using stored assms(9) by (simp add: GetByWorkspaceID_def get_by_def io_ok_def)
  have arg: "parse_flags [] [workspaceID] = Some ([], [workspaceID])" "workspace_arg sp [workspaceID] = workspaceID"
    using assms(7,8) by (simp_all add: workspace_arg_def parse_flags.simps(2))
  have open_: "runSpaceOpenPane sp [workspaceID] (w2, f1) = open_bound sp workspaceID ?b (w2, f1)"
    "runNewTab sp [workspaceID] (w2, f1) = open_bound sp workspaceID ?b (w2, f1)"
    using dir get arg assms(7) by (auto simp: runSpaceOpenPane_def runNewTab_def Let_def)
  have "snd (open_bound sp workspaceID ?b (w2, f1)) = (snd (sp_run sp (sp_bin sp # guestPaneArgs workspaceID [] name project []) w2), f1)"
    using splitHandle_sandboxHandle [OF assms(4)]
    by (auto simp: open_bound_def on_herdr_def herdrOpenGuestPane_def split: prod.splits sum.splits option.splits)
  with open_ show ?thesis by simp
qed

theorem created_space_opens_sandbox_witness:
  "\<exists>f1. runSpaceCreate (demo_space (\<lambda>_. JMalformed) io_ok) [''x''] (two_projects, BfAbsent)
      = ((0, [SpCreated ''ok'' ''herdr/x'']), (two_projects, f1))
    \<and> snd (runSpaceOpenPane (demo_space (\<lambda>_. JMalformed) io_ok) [''ok''] (two_projects, f1)) = (two_projects, f1)"
proof -
  let ?sp = "demo_space (\<lambda>_. JMalformed) io_ok"
  have words: "flag_word ''x'' = NotFlag" "flag_word ''ok'' = NotFlag" by code_simp+
  have args: "parse_flags project_flag [''x''] = Some ([], [''x''])" using words by (simp add: parse_flags.simps(2))
  have fl: "flag_string [] ''project'' DefaultProject = ''herdr''"
    by (simp add: flag_string_def flag_last_def flag_values_def DefaultProject_def)
  have dir: "StateDir (sp_getenv ?sp) \<noteq> None" by (simp add: StateDir_def demo_space_def)
  have trim: "trim_space ''ok'' = ''ok''" by code_simp
  obtain f1 where r: "runSpaceCreate ?sp [''x''] (two_projects, BfAbsent)
      = ((0, [SpCreated ''ok'' (sandboxHandle ''herdr'' ''x'')]), (two_projects, f1))"
    using dir by (simp add: runSpaceCreate_def args fl on_herdr_def herdrWorkspaceCreate_def demo_space_def Let_def trim
        unmarshal_def bind_workspace_def Put_def withLock_def readAll_def writeAll_def io_ok_def herdrOpenGuestPane_def)
  have "CHR ''/'' \<notin> set ''herdr''" by simp
  from created_space_opens_sandbox [OF r args fl [symmetric] this _ _ _ words(2), of "[]" two_projects]
  have "snd (runSpaceOpenPane ?sp [''ok''] (two_projects, f1)) = (two_projects, f1)"
    by (simp add: readAll_def demo_space_def)
  with r show ?thesis by (auto simp: sandboxHandle_def)
qed

section \<open>Conversion\<close>

text \<open>The primary checkout is never sandboxed. When herdr does not report the workspace as a
  linked worktree, space-convert fails and has done nothing but that one query: no sandbox is
  created, no binding is written, no pane is opened or closed.\<close>

theorem convert_refuses_primary_checkout:
  assumes "parse_flags convert_flags args = Some (flags, rest)" "flag_string flags ''workspace'' [] = workspaceID"
    and "workspaceID \<noteq> []" "herdrWorkspaceGet sp workspaceID w = (Inr ws, w1)" "\<not> cw_linked ws"
    and "runSpaceConvert sp args (w, f) = Some ((code, ms), (w', f'))"
  shows "code \<noteq> 0 \<and> f' = f \<and> (w' = w \<or> w' = w1)"
  using assms
  by (auto simp: runSpaceConvert_def Let_def convert_workspace_def on_herdr_def refuseNonLinkedWorktree_def
      split: if_splits sum.splits option.splits)

text \<open>What a herdr answers about a workspace at \<open>/wt\<close> with one pane.\<close>

definition workspace_doc :: "bool \<Rightarrow> jtext" where
  "workspace_doc linked = JDoc (JObj [(''result'', JObj
     [(''workspace'', JObj [(''label'', JStr ''web''), (''worktree'', JObj
         [(''checkout_path'', JStr ''/wt''), (''is_linked_worktree'', JBool linked)])]),
      (''panes'', JArr [JObj [(''pane_id'', JStr ''p1'')]])])])"

lemma demo_workspace:
  "herdrWorkspaceGet (demo_space (\<lambda>_. workspace_doc linked) io) i w
    = (Inr \<lparr>cw_label = ''web'', cw_checkout = ''/wt'', cw_repo_root = [], cw_active_tab = [], cw_linked = linked\<rparr>, w)"
  "herdrRootPaneID (demo_space (\<lambda>_. workspace_doc linked) io) i [] w = (Inr ''p1'', w)"
proof -
  have trim: "trim_space ''/wt'' = ''/wt''" by code_simp
  have keys: "key_is ''result'' ''result''" "key_is ''workspace'' ''workspace''" "key_is ''panes'' ''panes''"
    "\<not> key_is ''workspace'' ''panes''" "\<not> key_is ''panes'' ''workspace''" "\<not> key_is ''workspace_id'' ''label''" "key_is ''label'' ''label''"
    "\<not> key_is ''workspace_id'' ''worktree''" "\<not> key_is ''label'' ''worktree''" "\<not> key_is ''active_tab_id'' ''worktree''"
    "key_is ''worktree'' ''worktree''" "key_is ''checkout_path'' ''checkout_path''"
    "\<not> key_is ''checkout_path'' ''is_linked_worktree''" "\<not> key_is ''repo_root'' ''is_linked_worktree''"
    "key_is ''is_linked_worktree'' ''is_linked_worktree''" "key_is ''pane_id'' ''pane_id''"
    by (simp_all add: key_is_def lower_char_def)
  show "herdrWorkspaceGet (demo_space (\<lambda>_. workspace_doc linked) io) i w
    = (Inr \<lparr>cw_label = ''web'', cw_checkout = ''/wt'', cw_repo_root = [], cw_active_tab = [], cw_linked = linked\<rparr>, w)"
    by (simp add: herdrWorkspaceGet_def demo_space_def workspace_doc_def unmarshal_def dec_herdrWorkspaceInfo_def
        dec_field_def dec_struct_def keys dec_string_def dec_bool_def dec_ptr_def dec_worktree_info_def trim Let_def)
  show "herdrRootPaneID (demo_space (\<lambda>_. workspace_doc linked) io) i [] w = (Inr ''p1'', w)"
    by (simp add: herdrRootPaneID_def demo_space_def workspace_doc_def unmarshal_def dec_panes_def dec_field_def
        dec_struct_def keys dec_slice_def dec_pane_def dec_string_def root_pane_def Let_def)
qed

lemma demo_convert_flags:
  "parse_flags convert_flags [''-workspace'', ''w''] = Some ([(''workspace'', ''w'')], [])"
  "flag_string [(''workspace'', ''w'')] ''workspace'' [] = ''w''"
  "flag_string [(''workspace'', ''w'')] ''sandbox'' [] = []"
  "flag_string [(''workspace'', ''w'')] ''image'' defaultConvertImage = ''alpine''"
  "flag_string [(''workspace'', ''w'')] ''project'' DefaultProject = ''herdr''"
proof -
  have "flag_word ''-workspace'' = FlagNamed ''workspace''" "cut_flag ''workspace'' = (''workspace'', None)" by code_simp+
  then show "parse_flags convert_flags [''-workspace'', ''w''] = Some ([(''workspace'', ''w'')], [])"
    by (subst parse_flags.simps(2)) (simp add: convert_flags_def)
qed (simp_all add: flag_string_def flag_last_def flag_values_def defaultConvertImage_def DefaultProject_def)

lemma demo_store: "StateDir (sp_getenv (demo_space scan io)) \<noteq> None"
  "io_ctx io \<Longrightarrow> GetByWorkspaceID io i BfAbsent = Inl BindingNotFound"
  by (simp_all add: StateDir_def demo_space_def GetByWorkspaceID_def get_by_def readAll_def)

theorem convert_refuses_primary_checkout_witness:
  "\<exists>ms. runSpaceConvert (demo_space (\<lambda>_. workspace_doc False) io_ok) [''-workspace'', ''w''] (two_projects, BfAbsent)
     = Some ((1, ms), (two_projects, BfAbsent))"
proof -
  let ?sp = "demo_space (\<lambda>_. workspace_doc False) io_ok"
  have io: "sp_io ?sp = io_ok" "io_ctx io_ok" by (simp_all add: demo_space_def io_ok_def)
  obtain ms w' f' where r: "runSpaceConvert ?sp [''-workspace'', ''w''] (two_projects, BfAbsent) = Some ((1, ms), (w', f'))"
    using demo_store(1) [of "\<lambda>_. workspace_doc False" io_ok]
    by (simp add: runSpaceConvert_def demo_convert_flags io demo_store(2) convert_workspace_def on_herdr_def demo_workspace
        refuseNonLinkedWorktree_def Let_def)
  from convert_refuses_primary_checkout [OF demo_convert_flags(1,2) _ demo_workspace(1) _ r] r show ?thesis by auto
qed

context sandbox_runtime
begin

text \<open>A create that is taken back leaves the listing as it was.\<close>

lemma created_then_removed:
  assumes "inv w" "svc_rt s = ri" "svc_project s \<noteq> []" "service_Create s opts w = (Inr ref, w1)"
    and "\<forall>r \<in> set (refs w). \<not> resolves s (co_name opts) r" "service_Remove s (co_name opts) w1 = Some (None, w2)"
  shows "inv w2 \<and> refs w2 = refs w"
proof -
  have c: "inv w1" "refs w1 = refs w @ [ref]" using create_step [OF assms(1-4)] by auto
  have res: "service_Resolve s (co_name opts) w1 = Some (Inr ref, w1)" using created_resolves [OF assms(1-5)] by simp
  have rm: "ri_Remove ri ref w1 = (None, w2)"
    using assms(2,6) res by (auto simp: service_Remove_def split: prod.splits option.splits)
  have "ref \<in> set (refs w1)" using c(2) by simp
  note r = remove_law [OF c(1) this rm]
  have "ref_key ref \<notin> ref_key ` set (refs w)" using key_law [OF c(1)] c(2) by auto
  then have old: "filter (\<lambda>x. ref_key x \<noteq> ref_key ref) (refs w1) = refs w"
    using c(2) by (auto simp: filter_id_conv image_iff)
  have "filter (\<lambda>x. ref_key x \<noteq> ref_key ref) (refs w2) = refs w2"
    using r by (intro filter_True) (auto simp: image_iff)
  with r old show ?thesis by metis
qed

end


lemma remove_labelled:
  assumes "named d" "ref \<in> set (dm_refs d)" "ref_project ref \<noteq> []"
  shows "fst (ri_Remove (daemon_if env m) ref d) = None"
proof -
  obtain h where h: "h \<in> set (dm_boxes d)" "hd_name h = lookup_name ref"
    using ref_names_one(2) [OF assms(1,2)] by blast
  then obtain g where g: "dm_find (lookup_name ref) d = Some g" "hd_name g = lookup_name ref"
    by (metis dm_find_None dm_find_name imageI not_None_eq)
  have "lookup_name ref \<noteq> []" using assms(3) by (simp add: lookup_name_def SDKName_def)
  then show ?thesis
    using g by (simp add: daemon_if_simps rt_Remove_def rt_handle_lookup New_runtime_def dm_get_def dm_on_existing_def)
qed

lemma failed_create_same:
  assumes "named d" "co_boot opts" "service_Create (msb_service env m project home eval) opts d = (Inl e, d1)"
  shows "d1 = d"
proof -
  let ?s = "msb_service env m project home eval"
  have rt: "svc_rt ?s = daemon_if env m" "svc_project ?s \<noteq> []" by (rule msb_service_simps)+
  show ?thesis
  proof (cases "service_Spec ?s opts")
    case (Inr spec)
    obtain x d2 where a: "Admit (svc_budget_env ?s) (svc_meminfo ?s) (ri_acct (daemon_if env m)) (spec_memory spec) d = (x, d2)"
      by fastforce
    then have d2: "d2 = d" by (rule msb.admit_same [OF assms(1)])
    show ?thesis
    proof (cases x)
      case None
      obtain q d3 where q: "CreateAndBoot (New_runtime daemon_sdk env m) spec d = (q, d3)" by fastforce
      have "q = Inl y \<Longrightarrow> d3 = d" for y
        using boot_cases [OF _ _ q] assms(1) service_Spec_project [OF Inr] rt(2) by (auto simp: named_def)
      moreover have "(\<exists>y. q = Inl y) \<and> d1 = d3"
        using assms(2,3) Inr a d2 None q rt(1) by (cases q) (auto simp: service_Create_def daemon_if_simps)
      ultimately show ?thesis by blast
    qed (use assms(3) Inr a d2 rt(1) in \<open>auto simp: service_Create_def\<close>)
  qed (use assms(3) in \<open>auto simp: service_Create_def\<close>)
qed

text \<open>A sandbox that was created and whose binding fails is removed again.\<close>

lemma failed_binding_taken_back:
  assumes "named d" "\<forall>r \<in> set (dm_refs d). ref_project r \<noteq> []"
    and "sp_service sp = (\<lambda>p. New_service (daemon_if env m) p home eval env m)" "\<And>b. fst (Put (sp_io sp) b f) \<noteq> None"
    and c: "service_Create (sp_service sp project) opts d = (Inr ref, d1)" and n: "co_name opts = name"
    and b: "bind_converted sp workspaceID project name ws rootPaneID (d1, f) = Some ((code, ms), (d', f'))"
  shows "code \<noteq> 0 \<and> dm_refs d' = dm_refs d"
proof -
  let ?s = "msb_service env m project home eval"
  have s: "sp_service sp project = ?s" by (simp add: assms(3))
  have rt: "svc_rt ?s = daemon_if env m" "svc_project ?s \<noteq> []" by (rule msb_service_simps)+
  note step = msb.create_step [OF assms(1) rt c [unfolded s]]
  then have d1: "named d1" "dm_refs d1 = dm_refs d @ [ref]" "ref_project ref = svc_project ?s" "ref_name ref = co_name opts"
    by auto
  have fresh: "\<forall>r \<in> set (dm_refs d). \<not> resolves ?s (co_name opts) r"
  proof (intro ballI notI)
    fix r
    assume r: "r \<in> set (dm_refs d)" "resolves ?s (co_name opts) r"
    then have "ref_key r = ref_key ref" using assms(2) d1(3,4) by (auto simp: resolves_def ref_key_def)
    then have "ref_key ref \<in> ref_key ` set (dm_refs d)" using r(1) by (metis imageI)
    then show False using keys_distinct [OF d1(1)] d1(2) by simp
  qed
  from msb.created_resolves [OF assms(1) rt c [unfolded s] fresh]
  have res: "service_Resolve ?s (co_name opts) d1 = Some (Inr ref, d1)" by simp
  have "fst (ri_Remove (daemon_if env m) ref d1) = None"
    using remove_labelled [OF d1(1), of ref] d1(2,3) rt(2) by simp
  with res rt(1) obtain d2 where rm: "service_Remove ?s (co_name opts) d1 = Some (None, d2)"
    by (cases "ri_Remove (daemon_if env m) ref d1") (auto simp: service_Remove_def)
  from msb.created_then_removed [OF assms(1) rt c [unfolded s] fresh rm] have "dm_refs d2 = dm_refs d" by simp
  moreover have "code \<noteq> 0 \<and> d' = d2"
  proof -
    obtain e f1 where p: "Put (sp_io sp) \<lparr>bd_label = (if cw_label ws = [] then ''msb:'' @ name else cw_label ws),
        bd_workspace = workspaceID, bd_handle = sandboxHandle project name, bd_checkout = cw_checkout ws\<rparr> f = (Some e, f1)"
      using assms(4) by (metis option.exhaust prod.collapse)
    show ?thesis using b by (simp add: bind_converted_def Let_def p convertRemoveSandbox_def s rm [unfolded n])
  qed
  ultimately show ?thesis by simp
qed


text \<open>The run on an empty daemon: the sandbox ''web'' is created with its two mounts, the rename of
  the bindings file fails, and the sandbox is gone again.\<close>

definition converted_spec :: SandboxSpec where
  "converted_spec = empty_spec\<lparr>spec_project := ''herdr'', spec_name := ''web'', spec_image := ''alpine'', spec_memory := 1024,
     spec_mounts := [mount_at ''/wt'' ''/workspace'' False, mount_at (DefaultStoreDir ''/root'') ''/root/.claude'' False]\<rparr>"

abbreviation herdr_service :: "(daemon, run_error) Service" where
  "herdr_service \<equiv> msb_service None OpenFailed ''herdr'' ''/root'' (\<lambda>_. None)"

lemma converted_create:
  "service_Create herdr_service (convert_options ''web'' ''alpine'' ''/wt'') \<lparr>dm_boxes = []\<rparr>
     = (Inr (refFromHandle (created_box converted_spec)), \<lparr>dm_boxes = [created_box converted_spec]\<rparr>)"
proof -
  have paths: "checkPath ''/root'' (\<lambda>_. None) ''/wt'' = None"
    "checkPath ''/root'' (\<lambda>_. None) (DefaultStoreDir ''/root'') = None" by code_simp+
  have spec: "service_Spec herdr_service (convert_options ''web'' ''alpine'' ''/wt'') = Inr converted_spec"
    using paths by (simp add: service_Spec_def convert_options_def Let_def optional_mount_def DirMount_def New_service_def
        DefaultMemoryMiB_def MaxMemoryMiB_def MaxSandboxMemoryMiB_def converted_spec_def DefaultGuestWorktree_def
        DefaultGuestCredDir_def empty_spec_def)
  have adm: "Admit None OpenFailed (Some (CommittedMemoryMiB daemon_sdk)) 1024 \<lparr>dm_boxes = []\<rparr>
      = (None, \<lparr>dm_boxes = []\<rparr>)" by code_simp
  have "CreateAndBoot (New_runtime daemon_sdk None OpenFailed) converted_spec \<lparr>dm_boxes = []\<rparr>
      = (Inr (refFromHandle (created_box converted_spec)), \<lparr>dm_boxes = [created_box converted_spec]\<rparr>)"
    using boot_on_daemon [OF _ refl _ refl, of converted_spec "\<lparr>dm_boxes = []\<rparr>" None OpenFailed] adm
    by (simp add: CreateAndBoot_def Let_def New_runtime_def runtime_admit_def runtime_accountant_def
        SDKName_def created_box_def converted_spec_def)
  then show ?thesis
    using adm by (simp add: service_Create_def spec daemon_if_simps)
      (simp add: New_service_def convert_options_def daemon_if_simps converted_spec_def)
qed


end
