(* ===== verification/GoTime.thy ===== *)
theory GoTime
  imports GoStrings Complex_Main
begin

text \<open>
  What the program uses of package \<open>time\<close>: a time is an instant in nanoseconds since 1970 with the
  offset in seconds it is shown in. Formatting and parsing RFC3339Nano are kept abstract, beside
  ParseFloat, in the record \<open>texts\<close>.
\<close>

record gtime =
  t_ns :: int
  t_zone :: int

definition zero_time :: gtime where
  "zero_time = \<lparr>t_ns = -62135596800000000000, t_zone = 0\<rparr>"

definition IsZero :: "gtime \<Rightarrow> bool" where
  "IsZero t \<longleftrightarrow> t_ns t = t_ns zero_time"

text \<open>What the package takes from \<open>strconv\<close> and \<open>time\<close> for texts: ParseFloat at 64 bits, Parse and
  Format for RFC3339Nano.\<close>

record texts =
  tx_float :: "string \<Rightarrow> rat option"
  tx_parse :: "string \<Rightarrow> gtime option"
  tx_format :: "gtime \<Rightarrow> string"

definition UnixMilli :: "gtime \<Rightarrow> int" where
  "UnixMilli t = t_ns t div 1000000"

definition show_int :: "int \<Rightarrow> string" where
  "show_int n = (if n < 0 then CHR ''-'' # show_nat (nat (- n)) else show_nat (nat n))"

text \<open>\<open>Time.Sub\<close> stops at the ends of the 64-bit range.\<close>

definition time_sub :: "gtime \<Rightarrow> gtime \<Rightarrow> int" where
  "time_sub t u = max (- (2 ^ 63)) (min (2 ^ 63 - 1) (t_ns t - t_ns u))"

text \<open>\<open>Format("15:04:05")\<close>: the clock at the offset of the time.\<close>

definition two_digits :: "int \<Rightarrow> string" where
  "two_digits n = (if n < 10 then CHR ''0'' # show_nat (nat n) else show_nat (nat n))"

definition clock_text :: "gtime \<Rightarrow> string" where
  "clock_text t =
     (let s = (t_ns t div 1000000000 + t_zone t) mod 86400 in
      two_digits (s div 3600) @ '':'' @ two_digits (s mod 3600 div 60) @ '':'' @ two_digits (s mod 60))"

end
