(* ===== verification/CredStore.thy ===== *)
theory CredStore
  imports GoTime ClientQueue CredMount "HOL-Library.AList" "HOL-Library.List_Lexorder" "HOL-Library.Char_ord"
begin

text \<open>
  \<open>internal/core/credmount/store.go\<close>: the file of OAuth credentials that a sandbox mounts, in its
  two shapes: the nested one of Claude Code, whose unknown keys are kept, and the old flat one.
  The file, its temporary sibling and the results of the system calls are explicit.
\<close>

section \<open>Times and numbers\<close>

text \<open>\<open>int64(f)\<close>: towards zero; a value out of range gives the least integer, as on amd64.\<close>

definition float_int64 :: "rat \<Rightarrow> int" where
  "float_int64 f =
     (let n = (if f < 0 then \<lceil>f\<rceil> else \<lfloor>f\<rfloor>) in
      if - (2 ^ 63) \<le> n \<and> n < 2 ^ 63 then n else - (2 ^ 63))"

definition msToTime :: "rat \<Rightarrow> gtime" where
  "msToTime ms = \<lparr>t_ns = float_int64 ms * 1000000, t_zone = 0\<rparr>"

definition dec_float :: "texts \<Rightarrow> rat decoder" where
  "dec_float tx j v =
     (case j of
        JNull \<Rightarrow> (True, v)
      | JNum s \<Rightarrow> (case tx_float tx s of None \<Rightarrow> (False, v) | Some f \<Rightarrow> (True, f))
      | _ \<Rightarrow> (False, v))"

section \<open>Credentials and their documents\<close>

datatype cred_format = FormatNested | FormatFlat

type_synonym rawmap = "(string \<times> json) list"

record Credentials =
  cr_access :: string
  cr_refresh :: string
  cr_expires :: gtime
  cr_refresh_expires :: gtime
  cr_scopes :: "string list"
  cr_subscription :: string
  cr_tier :: string
  cr_token_type :: string
  cr_format :: cred_format
  cr_outer :: rawmap
  cr_inner :: rawmap

record nestedDoc =
  nd_access :: string
  nd_refresh :: string
  nd_expires :: "rat option"
  nd_refresh_expires :: "rat option"
  nd_scopes :: "string list"
  nd_subscription :: string
  nd_tier :: string

definition no_nestedDoc :: nestedDoc where
  "no_nestedDoc = \<lparr>nd_access = [], nd_refresh = [], nd_expires = None, nd_refresh_expires = None,
     nd_scopes = [], nd_subscription = [], nd_tier = []\<rparr>"

definition nested_field :: "texts \<Rightarrow> string \<Rightarrow> nestedDoc decoder" where
  "nested_field tx k j d =
    (if key_is ''accessToken'' k then (let (ok, v) = dec_string j (nd_access d) in (ok, d\<lparr>nd_access := v\<rparr>))
     else if key_is ''refreshToken'' k then (let (ok, v) = dec_string j (nd_refresh d) in (ok, d\<lparr>nd_refresh := v\<rparr>))
     else if key_is ''expiresAt'' k then
       (let (ok, v) = dec_ptr (dec_float tx) 0 j (nd_expires d) in (ok, d\<lparr>nd_expires := v\<rparr>))
     else if key_is ''refreshTokenExpiresAt'' k then
       (let (ok, v) = dec_ptr (dec_float tx) 0 j (nd_refresh_expires d) in (ok, d\<lparr>nd_refresh_expires := v\<rparr>))
     else if key_is ''scopes'' k then
       (let (ok, v) = dec_slice dec_string [] j (nd_scopes d) in (ok, d\<lparr>nd_scopes := v\<rparr>))
     else if key_is ''subscriptionType'' k then
       (let (ok, v) = dec_string j (nd_subscription d) in (ok, d\<lparr>nd_subscription := v\<rparr>))
     else if key_is ''rateLimitTier'' k then (let (ok, v) = dec_string j (nd_tier d) in (ok, d\<lparr>nd_tier := v\<rparr>))
     else (True, d))"

definition dec_nestedDoc :: "texts \<Rightarrow> nestedDoc decoder" where
  "dec_nestedDoc tx = dec_struct (nested_field tx)"

record flatDoc =
  fd_access :: string
  fd_refresh :: string
  fd_expires :: string
  fd_type :: string

definition no_flatDoc :: flatDoc where
  "no_flatDoc = \<lparr>fd_access = [], fd_refresh = [], fd_expires = [], fd_type = []\<rparr>"

definition dec_flatDoc :: "flatDoc decoder" where
  "dec_flatDoc = dec_struct (\<lambda>k j d.
     if key_is ''access_token'' k then (let (ok, v) = dec_string j (fd_access d) in (ok, d\<lparr>fd_access := v\<rparr>))
     else if key_is ''refresh_token'' k then (let (ok, v) = dec_string j (fd_refresh d) in (ok, d\<lparr>fd_refresh := v\<rparr>))
     else if key_is ''expires_at'' k then (let (ok, v) = dec_string j (fd_expires d) in (ok, d\<lparr>fd_expires := v\<rparr>))
     else if key_is ''token_type'' k then (let (ok, v) = dec_string j (fd_type d) in (ok, d\<lparr>fd_type := v\<rparr>))
     else (True, d))"

definition enc_flatDoc :: "flatDoc \<Rightarrow> json" where
  "enc_flatDoc d = JObj [(''access_token'', JStr (fd_access d)), (''refresh_token'', JStr (fd_refresh d)),
     (''expires_at'', JStr (fd_expires d)), (''token_type'', JStr (fd_type d))]"

text \<open>\<open>map[string]json.RawMessage\<close> with its keys: read with later pairs replacing earlier ones,
  written in the order of the keys.\<close>

definition raw_pairs :: "json \<Rightarrow> rawmap option" where
  "raw_pairs j =
     (case j of
        JNull \<Rightarrow> Some []
      | JObj kvs \<Rightarrow> Some (fold (\<lambda>kv. AList.update (fst kv) (snd kv)) kvs [])
      | _ \<Rightarrow> None)"

definition enc_raw :: "rawmap \<Rightarrow> json" where
  "enc_raw m = JObj (sort_key fst m)"

section \<open>Load\<close>

datatype cred_error =
    CeRead string | CeMissing | CeInvalid | CeShape | CeNested | CeNoToken | CeNoExpiry
  | CeFlat | CeFlatToken | CeFlatTime

definition ms_or_zero :: "rat option \<Rightarrow> gtime" where
  "ms_or_zero x = (case x of Some x \<Rightarrow> if x \<noteq> 0 then msToTime x else zero_time | None \<Rightarrow> zero_time)"

definition loadNested :: "texts \<Rightarrow> json \<Rightarrow> rawmap \<Rightarrow> cred_error + Credentials" where
  "loadNested tx raw outer =
     (case raw_pairs raw of
        None \<Rightarrow> Inl CeNested
      | Some inner \<Rightarrow>
          (case unmarshal (dec_nestedDoc tx) no_nestedDoc (JDoc raw) of
             None \<Rightarrow> Inl CeNested
           | Some doc \<Rightarrow>
               if nd_access doc = [] then Inl CeNoToken
               else (case nd_expires doc of
                       None \<Rightarrow> Inl CeNoExpiry
                     | Some e \<Rightarrow>
                         if e = 0 then Inl CeNoExpiry
                         else Inr \<lparr>cr_access = nd_access doc, cr_refresh = nd_refresh doc, cr_expires = msToTime e,
                           cr_refresh_expires = ms_or_zero (nd_refresh_expires doc),
                           cr_scopes = nd_scopes doc, cr_subscription = nd_subscription doc, cr_tier = nd_tier doc,
                           cr_token_type = [], cr_format = FormatNested, cr_outer = outer, cr_inner = inner\<rparr>)))"

definition loadFlat :: "texts \<Rightarrow> json \<Rightarrow> rawmap \<Rightarrow> cred_error + Credentials" where
  "loadFlat tx data outer =
     (case unmarshal dec_flatDoc no_flatDoc (JDoc data) of
        None \<Rightarrow> Inl CeFlat
      | Some doc \<Rightarrow>
          if fd_access doc = [] then Inl CeFlatToken
          else (case tx_parse tx (fd_expires doc) of
                  None \<Rightarrow> Inl CeFlatTime
                | Some t \<Rightarrow> Inr \<lparr>cr_access = fd_access doc, cr_refresh = fd_refresh doc, cr_expires = t,
                    cr_refresh_expires = zero_time, cr_scopes = [], cr_subscription = [], cr_tier = [],
                    cr_token_type = fd_type doc, cr_format = FormatFlat, cr_outer = outer, cr_inner = []\<rparr>))"

definition Load :: "texts \<Rightarrow> jtext fsfile \<Rightarrow> cred_error + Credentials" where
  "Load tx f =
     (case f of
        NoFile \<Rightarrow> Inl CeMissing
      | ReadError e \<Rightarrow> Inl (CeRead e)
      | Contents (JDoc data) \<Rightarrow>
          (case raw_pairs data of
             None \<Rightarrow> Inl CeInvalid
           | Some outer \<Rightarrow>
               (case map_of outer ''claudeAiOauth'' of
                  Some raw \<Rightarrow> loadNested tx raw outer
                | None \<Rightarrow> if map_of outer ''access_token'' \<noteq> None then loadFlat tx data outer else Inl CeShape))
      | Contents _ \<Rightarrow> Inl CeInvalid)"

section \<open>Save\<close>

text \<open>The closure \<open>set\<close> and the fields it is called for.\<close>

definition set_if :: "bool \<Rightarrow> string \<Rightarrow> json \<Rightarrow> rawmap \<Rightarrow> rawmap" where
  "set_if b k v m = (if b then AList.update k v m else m)"

definition inner_of :: "Credentials \<Rightarrow> rawmap" where
  "inner_of c =
     (let m1 = AList.update ''accessToken'' (JStr (cr_access c)) (cr_inner c);
          m2 = AList.update ''refreshToken'' (JStr (cr_refresh c)) m1;
          m3 = AList.update ''expiresAt'' (JNum (show_int (UnixMilli (cr_expires c)))) m2;
          m4 = set_if (\<not> IsZero (cr_refresh_expires c)) ''refreshTokenExpiresAt''
                 (JNum (show_int (UnixMilli (cr_refresh_expires c)))) m3;
          m5 = set_if (cr_scopes c \<noteq> []) ''scopes'' (JArr (map JStr (cr_scopes c))) m4;
          m6 = set_if (cr_subscription c \<noteq> []) ''subscriptionType'' (JStr (cr_subscription c)) m5
      in set_if (cr_tier c \<noteq> []) ''rateLimitTier'' (JStr (cr_tier c)) m6)"

definition marshalCredentials :: "texts \<Rightarrow> Credentials \<Rightarrow> json" where
  "marshalCredentials tx c =
     (if cr_format c = FormatFlat
      then enc_flatDoc \<lparr>fd_access = cr_access c, fd_refresh = cr_refresh c,
             fd_expires = tx_format tx (cr_expires c), fd_type = cr_token_type c\<rparr>
      else enc_raw (AList.update ''claudeAiOauth'' (enc_raw (inner_of c)) (cr_outer c)))"

text \<open>
  The file, the temporary file beside it and the directory for raw answers, with the results the
  system calls may have; \<open>ci_write\<close> is what a failed write leaves in the file.
\<close>

record cred_dir =
  cd_store :: "jtext fsfile"
  cd_temp :: "jtext fsfile"
  cd_raw :: "(string \<times> string) list"

record cred_io =
  ci_temp :: bool
  ci_chmod :: bool
  ci_write :: "jtext option"
  ci_sync :: bool
  ci_close :: bool
  ci_rename :: bool
  ci_remove :: bool
  ci_open :: bool

datatype save_error = SvTemp | SvChmod | SvWrite | SvSync | SvClose | SvRename | SvOpen

definition drop_temp :: "cred_io \<Rightarrow> cred_dir \<Rightarrow> cred_dir" where
  "drop_temp io d = (if ci_remove io then d\<lparr>cd_temp := NoFile\<rparr> else d)"

definition Save :: "cred_io \<Rightarrow> texts \<Rightarrow> Credentials \<Rightarrow> (cred_dir, save_error option) act" where
  "Save io tx c d =
     (let data = marshalCredentials tx c in
      if \<not> ci_temp io then (Some SvTemp, d)
      else (let d1 = d\<lparr>cd_temp := Contents JEmpty\<rparr> in
            if \<not> ci_chmod io then (Some SvChmod, drop_temp io d1)
            else (case ci_write io of
                    Some t \<Rightarrow> (Some SvWrite, drop_temp io (d1\<lparr>cd_temp := Contents t\<rparr>))
                  | None \<Rightarrow>
                      (let d2 = d1\<lparr>cd_temp := Contents (JDoc data)\<rparr> in
                       if \<not> ci_sync io then (Some SvSync, drop_temp io d2)
                       else if \<not> ci_close io then (Some SvClose, drop_temp io d2)
                       else if \<not> ci_rename io then (Some SvRename, drop_temp io d2)
                       else (None, d2\<lparr>cd_store := cd_temp d2, cd_temp := NoFile\<rparr>)))))"

text \<open>Opening for an in-place write truncates the file; it must exist.\<close>

definition SaveInPlace :: "cred_io \<Rightarrow> texts \<Rightarrow> Credentials \<Rightarrow> (cred_dir, save_error option) act" where
  "SaveInPlace io tx c d =
     (let data = marshalCredentials tx c in
      if \<not> ci_open io \<or> cd_store d = NoFile then (Some SvOpen, d)
      else (let d1 = d\<lparr>cd_store := Contents JEmpty\<rparr> in
            case ci_write io of
              Some t \<Rightarrow> (Some SvWrite, d1\<lparr>cd_store := Contents t\<rparr>)
            | None \<Rightarrow>
                (let d2 = d1\<lparr>cd_store := Contents (JDoc data)\<rparr> in
                 (if ci_sync io then None else Some SvSync, d2))))"

section \<open>Expiry\<close>

definition Expired :: "Credentials \<Rightarrow> gtime \<Rightarrow> bool" where
  "Expired c now \<longleftrightarrow> (if IsZero (cr_expires c) then True else \<not> t_ns now < t_ns (cr_expires c))"

definition ExpiresIn :: "Credentials \<Rightarrow> gtime \<Rightarrow> int" where
  "ExpiresIn c now =
     (if IsZero (cr_expires c) then 0
      else (let d = time_sub (cr_expires c) now in if d < 0 then 0 else d))"

end
