(* ===== verification/CredRefresh.thy ===== *)
theory CredRefresh
  imports CredStore
begin

text \<open>
  \<open>internal/core/credmount/refresh.go\<close>: exchanging the refresh token at the token endpoint, the
  copy of the raw answer, and writing the rotated tokens back. The HTTP client is an operation on
  the world \<open>'w\<close>; the clock readings and the URL check of \<open>http.NewRequest\<close> are inputs.
\<close>

section \<open>Form encoding\<close>

text \<open>\<open>url.QueryEscape\<close> and \<open>Values.Encode\<close>, whose keys are sorted.\<close>

definition unreserved :: "char \<Rightarrow> bool" where
  "unreserved c \<longleftrightarrow>
     (let n = (of_char c :: nat) in
      65 \<le> n \<and> n \<le> 90 \<or> 97 \<le> n \<and> n \<le> 122 \<or> 48 \<le> n \<and> n \<le> 57 \<or> c \<in> set ''-_.~'')"

definition upper_hex :: "nat \<Rightarrow> char" where
  "upper_hex d = (if d < 10 then char_of (48 + d) else char_of (55 + d))"

fun QueryEscape :: "string \<Rightarrow> string" where
  "QueryEscape [] = []"
| "QueryEscape (c # cs) =
     (if unreserved c then [c]
      else if c = CHR '' '' then ''+''
      else [CHR ''%'', upper_hex (of_char c div 16), upper_hex (of_char c mod 16)]) @ QueryEscape cs"

definition form_encode :: "(string \<times> string) list \<Rightarrow> string" where
  "form_encode kvs =
     join_with ''&'' (map (\<lambda>(k, v). QueryEscape k @ ''='' @ QueryEscape v) (sort_key fst kvs))"

section \<open>The refresher\<close>

definition DefaultClientID :: string where
  "DefaultClientID = ''9d1c250a-e61b-44d9-88ed-5944d1962f5e''"

definition DefaultTokenEndpoint :: string where
  "DefaultTokenEndpoint = ''https://platform.claude.com/v1/oauth/token''"

text \<open>\<open>rf_client\<close>: the client that was set, if any, by its timeout in seconds (0: none).\<close>

record Refresher =
  rf_client :: "nat option"
  rf_agent :: string
  rf_client_id :: string
  rf_endpoint :: string
  rf_raw_dir :: string

definition rf_http_client :: "Refresher \<Rightarrow> nat" where
  "rf_http_client r = (case rf_client r of Some t \<Rightarrow> t | None \<Rightarrow> 15)"

definition userAgent :: "Refresher \<Rightarrow> string" where
  "userAgent r = (if rf_agent r \<noteq> [] then rf_agent r else ''herdr-plugin-msb/1.0'')"

definition clientID :: "Refresher \<Rightarrow> string" where
  "clientID r = (if rf_client_id r \<noteq> [] then rf_client_id r else DefaultClientID)"

definition tokenEndpoint :: "Refresher \<Rightarrow> string" where
  "tokenEndpoint r = (if rf_endpoint r \<noteq> [] then rf_endpoint r else DefaultTokenEndpoint)"

record http_request =
  hq_url :: string
  hq_headers :: "(string \<times> string) list"
  hq_body :: string
  hq_timeout :: nat

record http_response =
  hp_status :: int
  hp_retry_after :: string
  hp_body :: string

record tokenResponse =
  tr_access :: string
  tr_refresh :: string
  tr_expires_in :: int
  tr_type :: string

definition no_tokenResponse :: tokenResponse where
  "no_tokenResponse = \<lparr>tr_access = [], tr_refresh = [], tr_expires_in = 0, tr_type = []\<rparr>"

definition parse_int64 :: "string \<Rightarrow> int option" where
  "parse_int64 s =
     (if s \<noteq> [] \<and> hd s = CHR ''-'' then
        (case digits_val 10 0 (tl s) of
           Some n \<Rightarrow> if tl s \<noteq> [] \<and> n \<le> 2 ^ 63 then Some (- int n) else None
         | None \<Rightarrow> None)
      else map_option int (parse_uint 10 63 s))"

definition dec_int64 :: "int decoder" where
  "dec_int64 j v =
     (case j of
        JNull \<Rightarrow> (True, v)
      | JNum s \<Rightarrow> (case parse_int64 s of None \<Rightarrow> (False, v) | Some n \<Rightarrow> (True, n))
      | _ \<Rightarrow> (False, v))"

definition dec_tokenResponse :: "tokenResponse decoder" where
  "dec_tokenResponse = dec_struct (\<lambda>k j t.
     if key_is ''access_token'' k then (let (ok, v) = dec_string j (tr_access t) in (ok, t\<lparr>tr_access := v\<rparr>))
     else if key_is ''refresh_token'' k then (let (ok, v) = dec_string j (tr_refresh t) in (ok, t\<lparr>tr_refresh := v\<rparr>))
     else if key_is ''expires_in'' k then (let (ok, v) = dec_int64 j (tr_expires_in t) in (ok, t\<lparr>tr_expires_in := v\<rparr>))
     else if key_is ''token_type'' k then (let (ok, v) = dec_string j (tr_type t) in (ok, t\<lparr>tr_type := v\<rparr>))
     else (True, t))"

datatype refresh_error =
    RfRequest | RfTransport string | RfCloudflare int string | RfRateLimited string string
  | RfStatus int string string | RfRaw string | RfParse string | RfLoad cred_error
  | RfPersist string save_error string string

record 'w refresh_env =
  re_valid :: "string \<Rightarrow> bool"
  re_do :: "http_request \<Rightarrow> ('w, string + http_response) act"
  re_scan :: "string \<Rightarrow> jtext"
  re_texts :: texts
  re_io :: cred_io
  re_raw_open :: bool
  re_raw_write :: bool
  re_stamp :: gtime
  re_now :: gtime

section \<open>Refresh\<close>

definition refresh_request :: "Refresher \<Rightarrow> Credentials \<Rightarrow> http_request" where
  "refresh_request r c =
     \<lparr>hq_url = tokenEndpoint r,
      hq_headers = [(''Content-Type'', ''application/x-www-form-urlencoded''), (''User-Agent'', userAgent r)],
      hq_body = form_encode [(''grant_type'', ''refresh_token''), (''refresh_token'', cr_refresh c),
                  (''client_id'', clientID r)],
      hq_timeout = rf_http_client r\<rparr>"

definition status_error :: "http_response \<Rightarrow> refresh_error" where
  "status_error resp =
     (let preview = take 200 (hp_body resp) in
      if str_contains (hp_body resp) ''1010'' then RfCloudflare (hp_status resp) preview
      else if hp_status resp = 429 then RfRateLimited (hp_retry_after resp) preview
      else RfStatus (hp_status resp) (hp_retry_after resp) preview)"

text \<open>The raw answer goes to a new file, which must not exist.\<close>

definition save_raw :: "'w refresh_env \<Rightarrow> Refresher \<Rightarrow> string \<Rightarrow> (cred_dir, refresh_error option) act" where
  "save_raw env r body d =
     (if rf_raw_dir r = [] then (None, d)
      else (let stamp = tx_format (re_texts env) ((re_stamp env)\<lparr>t_zone := 0\<rparr>);
                name = filepath_Join [rf_raw_dir r, ''token-response-'' @ stamp @ ''.json''] in
            if \<not> re_raw_open env \<or> map_of (cd_raw d) name \<noteq> None then (Some (RfRaw body), d)
            else if \<not> re_raw_write env then (Some (RfRaw body), d\<lparr>cd_raw := (name, []) # cd_raw d\<rparr>)
            else (None, d\<lparr>cd_raw := (name, body) # cd_raw d\<rparr>)))"

definition seconds :: "int \<Rightarrow> int" where
  "seconds n = sint (word_of_int n * 1000000000 :: 64 word)"

definition updated_credentials :: "gtime \<Rightarrow> tokenResponse \<Rightarrow> Credentials \<Rightarrow> Credentials" where
  "updated_credentials now tok c =
     c\<lparr>cr_access := tr_access tok,
       cr_refresh := (if tr_refresh tok \<noteq> [] then tr_refresh tok else cr_refresh c),
       cr_token_type := (if tr_type tok \<noteq> [] then tr_type tok else cr_token_type c),
       cr_expires := now\<lparr>t_ns := t_ns now + seconds (tr_expires_in tok)\<rparr>\<rparr>"

definition Refresh ::
  "'w refresh_env \<Rightarrow> Refresher \<Rightarrow> Credentials \<Rightarrow> ('w \<times> cred_dir, refresh_error + Credentials) act" where
  "Refresh env r c s =
     (if \<not> re_valid env (tokenEndpoint r) then (Inl RfRequest, s)
      else (case re_do env (refresh_request r c) (fst s) of
              (Inl e, w1) \<Rightarrow> (Inl (RfTransport e), (w1, snd s))
            | (Inr resp, w1) \<Rightarrow>
                if hp_status resp < 200 \<or> hp_status resp \<ge> 300 then (Inl (status_error resp), (w1, snd s))
                else (case save_raw env r (hp_body resp) (snd s) of
                        (Some e, d1) \<Rightarrow> (Inl e, (w1, d1))
                      | (None, d1) \<Rightarrow>
                          (case unmarshal dec_tokenResponse no_tokenResponse (re_scan env (hp_body resp)) of
                             None \<Rightarrow> (Inl (RfParse (hp_body resp)), (w1, d1))
                           | Some tok \<Rightarrow> (Inr (updated_credentials (re_now env) tok c), (w1, d1))))))"

definition RefreshFile ::
  "'w refresh_env \<Rightarrow> Refresher \<Rightarrow> bool \<Rightarrow> ('w \<times> cred_dir, refresh_error + Credentials) act" where
  "RefreshFile env r inPlace s =
     (case Load (re_texts env) (cd_store (snd s)) of
        Inl e \<Rightarrow> (Inl (RfLoad e), s)
      | Inr c \<Rightarrow>
          (case Refresh env r c s of
             (Inl e, s1) \<Rightarrow> (Inl e, s1)
           | (Inr updated, (w1, d1)) \<Rightarrow>
               (case (if inPlace then SaveInPlace else Save) (re_io env) (re_texts env) updated d1 of
                  (Some e, d2) \<Rightarrow>
                    (Inl (RfPersist (rf_raw_dir r) e (cr_access updated) (cr_refresh updated)), (w1, d2))
                | (None, d2) \<Rightarrow> (Inr updated, (w1, d2)))))"

end
