(* ===== verification/CredProps.thy ===== *)
theory CredProps
  imports CredRefresh
begin

text \<open>
  The credential file: what Load reads back from Save, what a refresh keeps, and where rotated
  tokens end up when writing them fails.
\<close>

section \<open>Raw maps\<close>

lemma fold_update_distinct:
  "distinct (map fst (acc @ kvs)) \<Longrightarrow> fold (\<lambda>kv. AList.update (fst kv) (snd kv)) kvs acc = acc @ kvs"
proof (induction kvs arbitrary: acc)
  case (Cons kv kvs)
  have "AList.update (fst kv) (snd kv) acc = acc @ [kv]" if "fst kv \<notin> fst ` set acc" for acc
    using that by (induction acc) auto
  with Cons show ?case by auto
qed simp

lemma distinct_fold_update:
  "distinct (map fst acc) \<Longrightarrow> distinct (map fst (fold (\<lambda>kv. AList.update (fst kv) (snd kv)) kvs acc))"
  by (induction kvs arbitrary: acc) (auto simp: distinct_update)

lemma raw_pairs_distinct: "raw_pairs j = Some m \<Longrightarrow> distinct (map fst m)"
  by (auto simp: raw_pairs_def distinct_fold_update split: json.splits)

lemma distinct_sorted: "distinct (map fst (m :: rawmap)) \<Longrightarrow> distinct (map fst (sort_key fst m))"
  by (metis distinct_map distinct_sort inj_on_def set_sort)

lemma raw_pairs_enc [simp]: "distinct (map fst m) \<Longrightarrow> raw_pairs (enc_raw m) = Some (sort_key fst m)"
  using fold_update_distinct [of "[]" "sort_key fst m"] distinct_sorted [of m]
  by (simp add: raw_pairs_def enc_raw_def)

lemma map_of_sorted [simp]: "distinct (map fst m) \<Longrightarrow> map_of (sort_key fst (m :: rawmap)) = map_of m"
  by (simp add: distinct_sorted map_of_inject_set)

lemma distinct_set_if [simp]: "distinct (map fst m) \<Longrightarrow> distinct (map fst (set_if b k v m))"
  by (simp add: set_if_def distinct_update)

lemma map_of_set_if [simp]: "map_of (set_if b k v m) x = (if b \<and> x = k then Some v else map_of m x)"
  by (simp add: set_if_def update_conv')

lemma distinct_inner_of: "distinct (map fst (cr_inner c)) \<Longrightarrow> distinct (map fst (inner_of c))"
  by (simp add: inner_of_def Let_def distinct_update)

section \<open>Decoding an object by its keys\<close>

text \<open>The keys a document owns, and objects that hold no second spelling of one of them.\<close>

definition nested_keys :: "string list" where
  "nested_keys = [''accessToken'', ''refreshToken'', ''expiresAt'', ''refreshTokenExpiresAt'', ''scopes'',
     ''subscriptionType'', ''rateLimitTier'']"

definition plain_keys :: "rawmap \<Rightarrow> bool" where
  "plain_keys m \<longleftrightarrow> (\<forall>k \<in> fst ` set m. \<forall>f \<in> set nested_keys. key_is f k \<longrightarrow> k = f)"

definition value_at :: "'a decoder \<Rightarrow> rawmap \<Rightarrow> string \<Rightarrow> 'a \<Rightarrow> 'a" where
  "value_at dec m k v = (case map_of m k of None \<Rightarrow> v | Some j \<Rightarrow> snd (dec j v))"

definition fits :: "'a decoder \<Rightarrow> rawmap \<Rightarrow> string \<Rightarrow> 'a \<Rightarrow> bool" where
  "fits dec m k v = (case map_of m k of None \<Rightarrow> True | Some j \<Rightarrow> fst (dec j v))"

text \<open>The document an object denotes, and when decoding reports no error.\<close>

definition doc_of :: "texts \<Rightarrow> rawmap \<Rightarrow> nestedDoc \<Rightarrow> nestedDoc" where
  "doc_of tx m d =
     \<lparr>nd_access = value_at dec_string m ''accessToken'' (nd_access d),
      nd_refresh = value_at dec_string m ''refreshToken'' (nd_refresh d),
      nd_expires = value_at (dec_ptr (dec_float tx) 0) m ''expiresAt'' (nd_expires d),
      nd_refresh_expires = value_at (dec_ptr (dec_float tx) 0) m ''refreshTokenExpiresAt'' (nd_refresh_expires d),
      nd_scopes = value_at (dec_slice dec_string []) m ''scopes'' (nd_scopes d),
      nd_subscription = value_at dec_string m ''subscriptionType'' (nd_subscription d),
      nd_tier = value_at dec_string m ''rateLimitTier'' (nd_tier d)\<rparr>"

definition doc_fits :: "texts \<Rightarrow> rawmap \<Rightarrow> nestedDoc \<Rightarrow> bool" where
  "doc_fits tx m d \<longleftrightarrow>
     fits dec_string m ''accessToken'' (nd_access d) \<and> fits dec_string m ''refreshToken'' (nd_refresh d) \<and>
     fits (dec_ptr (dec_float tx) 0) m ''expiresAt'' (nd_expires d) \<and>
     fits (dec_ptr (dec_float tx) 0) m ''refreshTokenExpiresAt'' (nd_refresh_expires d) \<and>
     fits (dec_slice dec_string []) m ''scopes'' (nd_scopes d) \<and>
     fits dec_string m ''subscriptionType'' (nd_subscription d) \<and> fits dec_string m ''rateLimitTier'' (nd_tier d)"

lemma key_of_plain:
  assumes "plain_keys ((k, j) # m)"
  shows "key_is ''accessToken'' k \<longleftrightarrow> k = ''accessToken''" "key_is ''refreshToken'' k \<longleftrightarrow> k = ''refreshToken''"
    "key_is ''expiresAt'' k \<longleftrightarrow> k = ''expiresAt''" "key_is ''refreshTokenExpiresAt'' k \<longleftrightarrow> k = ''refreshTokenExpiresAt''"
    "key_is ''scopes'' k \<longleftrightarrow> k = ''scopes''" "key_is ''subscriptionType'' k \<longleftrightarrow> k = ''subscriptionType''"
    "key_is ''rateLimitTier'' k \<longleftrightarrow> k = ''rateLimitTier''"
proof -
  have k: "key_is f k \<longleftrightarrow> k = f" if "f \<in> set nested_keys" for f
    using assms that by (auto simp: plain_keys_def)
  show "key_is ''accessToken'' k \<longleftrightarrow> k = ''accessToken''" "key_is ''refreshToken'' k \<longleftrightarrow> k = ''refreshToken''"
    "key_is ''expiresAt'' k \<longleftrightarrow> k = ''expiresAt''" "key_is ''refreshTokenExpiresAt'' k \<longleftrightarrow> k = ''refreshTokenExpiresAt''"
    "key_is ''scopes'' k \<longleftrightarrow> k = ''scopes''" "key_is ''subscriptionType'' k \<longleftrightarrow> k = ''subscriptionType''"
    "key_is ''rateLimitTier'' k \<longleftrightarrow> k = ''rateLimitTier''"
    by (rule k, simp add: nested_keys_def)+
qed

lemma nested_field_step:
  assumes "plain_keys ((k, j) # m)" "map_of m k = None" "nested_field tx k j d = (ok, d1)"
  shows "(ok \<and> doc_fits tx m d1) = doc_fits tx ((k, j) # m) d \<and> doc_of tx m d1 = doc_of tx ((k, j) # m) d"
proof -
  note unf = nested_field_def doc_of_def doc_fits_def value_at_def fits_def case_prod_beta Let_def
  consider "k = ''accessToken''" | "k = ''refreshToken''" | "k = ''expiresAt''" | "k = ''refreshTokenExpiresAt''"
    | "k = ''scopes''" | "k = ''subscriptionType''" | "k = ''rateLimitTier''" | "k \<notin> set nested_keys"
    by (auto simp: nested_keys_def)
  then show ?thesis
  proof cases
    case 8
    then have "k \<noteq> ''accessToken''" "k \<noteq> ''refreshToken''" "k \<noteq> ''expiresAt''" "k \<noteq> ''refreshTokenExpiresAt''"
      "k \<noteq> ''scopes''" "k \<noteq> ''subscriptionType''" "k \<noteq> ''rateLimitTier''"
      by (simp_all add: nested_keys_def)
    with assms(3) key_of_plain [OF assms(1)] show ?thesis by (auto simp: unf)
  qed (use assms(2,3) key_of_plain [OF assms(1)] in \<open>(simp add: unf cong: option.case_cong; elim conjE; hypsubst; simp add: conj_ac cong: option.case_cong)\<close>)+
qed

lemma dec_nested_pairs:
  assumes "distinct (map fst m)" "plain_keys m"
  shows "dec_nestedDoc tx (JObj m) d = (doc_fits tx m d, doc_of tx m d)"
proof -
  have "dec_pairs (nested_field tx) m d = (doc_fits tx m d, doc_of tx m d)"
    using assms
  proof (induction m arbitrary: d)
    case (Cons kj m)
    obtain k j where kj: "kj = (k, j)" by (cases kj)
    obtain ok d1 where f: "nested_field tx k j d = (ok, d1)" by (cases "nested_field tx k j d")
    have "map_of m k = None" using Cons.prems(1) by (simp add: kj map_of_eq_None_iff)
    with nested_field_step [OF Cons.prems(2) [unfolded kj] _ f] Cons f show ?case
      by (simp add: kj plain_keys_def)
  qed (simp add: doc_of_def doc_fits_def value_at_def fits_def)
  then show ?thesis by (simp add: dec_nestedDoc_def dec_struct_def)
qed

section \<open>Reading back what was saved\<close>

text \<open>A number in milliseconds that a float holds exactly, and the law of ParseFloat on such literals.\<close>

definition exact_ms :: "gtime \<Rightarrow> bool" where
  "exact_ms t \<longleftrightarrow> UnixMilli t \<noteq> 0 \<and> \<bar>UnixMilli t\<bar> < 2 ^ 53"

definition floats_exact :: "texts \<Rightarrow> bool" where
  "floats_exact tx \<longleftrightarrow> (\<forall>n. \<bar>n\<bar> < 2 ^ 53 \<longrightarrow> tx_float tx (show_int n) = Some (of_int n))"

lemma float_int64_of_int: "\<bar>n\<bar> < 2 ^ 53 \<Longrightarrow> float_int64 (of_int n) = n"
  by (auto simp: float_int64_def Let_def abs_less_iff)

lemma msToTime_of_int: "\<bar>UnixMilli t\<bar> < 2 ^ 53 \<Longrightarrow> UnixMilli (msToTime (of_int (UnixMilli t))) = UnixMilli t"
  by (simp add: msToTime_def float_int64_of_int UnixMilli_def)

lemma dec_strings [simp]: "dec_slice dec_string [] (JArr (map JStr ss)) v = (True, ss)"
proof -
  have "dec_elems dec_string [] (map JStr ss) = (True, ss)" by (induction ss) (simp_all add: dec_string_def)
  then show ?thesis by (simp add: dec_slice_def)
qed

lemma unmarshal_nested:
  assumes "distinct (map fst m)" "plain_keys m"
  shows "unmarshal (dec_nestedDoc tx) no_nestedDoc (JDoc (JObj m))
    = (if doc_fits tx m no_nestedDoc then Some (doc_of tx m no_nestedDoc) else None)"
  using dec_nested_pairs [OF assms] by (simp add: unmarshal_def)


text \<open>A store without repeated keys, in which no key owned by the program has a second spelling.\<close>

definition clean_store :: "jtext fsfile \<Rightarrow> rawmap \<Rightarrow> rawmap \<Rightarrow> bool" where
  "clean_store f outer inner \<longleftrightarrow>
     f = Contents (JDoc (JObj outer)) \<and> distinct (map fst outer) \<and>
     map_of outer ''claudeAiOauth'' = Some (JObj inner) \<and> distinct (map fst inner) \<and> plain_keys inner"

lemma raw_pairs_object: "distinct (map fst m) \<Longrightarrow> raw_pairs (JObj m) = Some m"
  using fold_update_distinct [of "[]" m] by (simp add: raw_pairs_def)

lemma Load_clean:
  assumes "clean_store f outer inner"
  shows "Load tx f =
    (let doc = doc_of tx inner no_nestedDoc in
     if \<not> doc_fits tx inner no_nestedDoc then Inl CeNested
     else if nd_access doc = [] then Inl CeNoToken
     else (case nd_expires doc of
        None \<Rightarrow> Inl CeNoExpiry
      | Some e \<Rightarrow>
          if e = 0 then Inl CeNoExpiry
          else Inr \<lparr>cr_access = nd_access doc, cr_refresh = nd_refresh doc, cr_expires = msToTime e,
            cr_refresh_expires = ms_or_zero (nd_refresh_expires doc), cr_scopes = nd_scopes doc,
            cr_subscription = nd_subscription doc, cr_tier = nd_tier doc, cr_token_type = [],
            cr_format = FormatNested, cr_outer = outer, cr_inner = inner\<rparr>))"
  using assms by (simp add: clean_store_def Load_def loadNested_def raw_pairs_object unmarshal_nested Let_def)

text \<open>What the inner object holds under each key after Save.\<close>

lemma inner_of_at:
  "map_of (inner_of c) ''accessToken'' = Some (JStr (cr_access c))"
  "map_of (inner_of c) ''refreshToken'' = Some (JStr (cr_refresh c))"
  "map_of (inner_of c) ''expiresAt'' = Some (JNum (show_int (UnixMilli (cr_expires c))))"
  "map_of (inner_of c) ''refreshTokenExpiresAt'' = (if \<not> IsZero (cr_refresh_expires c)
     then Some (JNum (show_int (UnixMilli (cr_refresh_expires c)))) else map_of (cr_inner c) ''refreshTokenExpiresAt'')"
  "map_of (inner_of c) ''scopes''
     = (if cr_scopes c \<noteq> [] then Some (JArr (map JStr (cr_scopes c))) else map_of (cr_inner c) ''scopes'')"
  "map_of (inner_of c) ''subscriptionType'' = (if cr_subscription c \<noteq> []
     then Some (JStr (cr_subscription c)) else map_of (cr_inner c) ''subscriptionType'')"
  "map_of (inner_of c) ''rateLimitTier''
     = (if cr_tier c \<noteq> [] then Some (JStr (cr_tier c)) else map_of (cr_inner c) ''rateLimitTier'')"
  by (simp_all add: inner_of_def Let_def update_conv')

lemma inner_of_other: "k \<notin> set nested_keys \<Longrightarrow> map_of (inner_of c) k = map_of (cr_inner c) k"
  by (simp add: inner_of_def Let_def update_conv' nested_keys_def)

lemma nested_keys_plain: "k \<in> set nested_keys \<Longrightarrow> f \<in> set nested_keys \<Longrightarrow> key_is f k \<Longrightarrow> k = f"
proof -
  have "list_all (\<lambda>k. list_all (\<lambda>f. \<not> key_is f k \<or> k = f) nested_keys) nested_keys" by code_simp
  then show "k \<in> set nested_keys \<Longrightarrow> f \<in> set nested_keys \<Longrightarrow> key_is f k \<Longrightarrow> k = f"
    by (auto simp only: list_all_iff)
qed

lemma keys_inner_of: "fst ` set (inner_of c) \<subseteq> fst ` set (cr_inner c) \<union> set nested_keys"
proof
  fix k
  assume "k \<in> fst ` set (inner_of c)"
  then have "map_of (inner_of c) k \<noteq> None" by (metis map_of_eq_None_iff)
  then show "k \<in> fst ` set (cr_inner c) \<union> set nested_keys"
    using inner_of_other [of k c] by (metis UnCI map_of_eq_None_iff)
qed

lemma plain_inner_of: "plain_keys (cr_inner c) \<Longrightarrow> plain_keys (inner_of c)"
  unfolding plain_keys_def using keys_inner_of [of c] nested_keys_plain by blast

lemma saved_is_clean:
  assumes "cr_format c = FormatNested" "distinct (map fst (cr_outer c))" "distinct (map fst (cr_inner c))"
    and "plain_keys (cr_inner c)"
  shows "clean_store (Contents (JDoc (marshalCredentials tx c)))
    (sort_key fst (AList.update ''claudeAiOauth'' (enc_raw (inner_of c)) (cr_outer c))) (sort_key fst (inner_of c))"
proof -
  have "distinct (map fst (AList.update ''claudeAiOauth'' (enc_raw (inner_of c)) (cr_outer c)))"
    using assms(2) by (rule distinct_update)
  moreover have "plain_keys (sort_key fst (inner_of c))"
    using plain_inner_of [OF assms(4)] by (simp add: plain_keys_def)
  ultimately show ?thesis
    using assms distinct_inner_of [OF assms(3)]
    by (simp add: clean_store_def marshalCredentials_def enc_raw_def distinct_sorted update_conv')
qed


text \<open>Credentials that hold what Load made of a clean store, except for the three rotated fields.\<close>

definition rotated :: "texts \<Rightarrow> rawmap \<Rightarrow> Credentials \<Rightarrow> bool" where
  "rotated tx inner c \<longleftrightarrow>
     (let doc = doc_of tx inner no_nestedDoc in
      cr_inner c = inner \<and> doc_fits tx inner no_nestedDoc \<and>
      cr_refresh_expires c = ms_or_zero (nd_refresh_expires doc) \<and> cr_scopes c = nd_scopes doc \<and>
      cr_subscription c = nd_subscription doc \<and> cr_tier c = nd_tier doc)"

lemma value_at_same: "map_of m k = map_of m' k \<Longrightarrow> value_at dec m k v = value_at dec m' k v"
  "map_of m k = map_of m' k \<Longrightarrow> fits dec m k v = fits dec m' k v"
  by (simp_all add: value_at_def fits_def)

lemma value_at_written:
  "map_of m k = Some (JStr s) \<Longrightarrow> value_at dec_string m k v = s \<and> fits dec_string m k v"
  "map_of m k = Some (JArr (map JStr ss)) \<Longrightarrow>
     value_at (dec_slice dec_string []) m k vs = ss \<and> fits (dec_slice dec_string []) m k vs"
  "floats_exact tx \<Longrightarrow> \<bar>n\<bar> < 2 ^ 53 \<Longrightarrow> map_of m k = Some (JNum (show_int n)) \<Longrightarrow>
     value_at (dec_ptr (dec_float tx) 0) m k p = Some (of_int n) \<and> fits (dec_ptr (dec_float tx) 0) m k p"
  by (simp_all add: value_at_def fits_def dec_string_def dec_ptr_def dec_float_def floats_exact_def)

lemma ms_or_zero_written: "UnixMilli t \<noteq> 0 \<Longrightarrow> ms_or_zero (Some (of_int (UnixMilli t))) = msToTime (of_int (UnixMilli t))"
  by (simp add: ms_or_zero_def)

lemma rotated_doc:
  assumes "rotated tx inner c" "floats_exact tx" "exact_ms (cr_expires c)"
    and "IsZero (cr_refresh_expires c) \<or> exact_ms (cr_refresh_expires c)"
  defines "doc \<equiv> doc_of tx (inner_of c) no_nestedDoc"
  shows "doc_fits tx (inner_of c) no_nestedDoc" "nd_access doc = cr_access c" "nd_refresh doc = cr_refresh c"
    "nd_expires doc = Some (of_int (UnixMilli (cr_expires c)))" "nd_scopes doc = cr_scopes c"
    "nd_subscription doc = cr_subscription c" "nd_tier doc = cr_tier c"
    "UnixMilli (ms_or_zero (nd_refresh_expires doc)) = UnixMilli (cr_refresh_expires c)"
proof -
  let ?m = "inner_of c"
  note at = inner_of_at [of c] and old = assms(1) [unfolded rotated_def Let_def doc_of_def doc_fits_def nestedDoc.simps]
  have access: "value_at dec_string ?m ''accessToken'' v = cr_access c" "fits dec_string ?m ''accessToken'' v"
    and refresh: "value_at dec_string ?m ''refreshToken'' v = cr_refresh c" "fits dec_string ?m ''refreshToken'' v"
    for v using value_at_written(1) at(1,2) by blast+
  have expires: "value_at (dec_ptr (dec_float tx) 0) ?m ''expiresAt'' p = Some (of_int (UnixMilli (cr_expires c)))"
    "fits (dec_ptr (dec_float tx) 0) ?m ''expiresAt'' p" for p
    using value_at_written(3) [OF assms(2) _ at(3)] assms(3) by (auto simp: exact_ms_def)
  have scopes: "value_at (dec_slice dec_string []) ?m ''scopes'' [] = cr_scopes c \<and> fits (dec_slice dec_string []) ?m ''scopes'' []"
  proof (cases "cr_scopes c = []")
    case True
    with at(5) old show ?thesis by (simp add: value_at_def fits_def no_nestedDoc_def)
  qed (use at(5) value_at_written(2) in auto)
  have subscription: "value_at dec_string ?m ''subscriptionType'' [] = cr_subscription c \<and> fits dec_string ?m ''subscriptionType'' []"
  proof (cases "cr_subscription c = []")
    case True
    with at(6) old show ?thesis by (simp add: value_at_def fits_def no_nestedDoc_def)
  qed (use at(6) value_at_written(1) in auto)
  have tier: "value_at dec_string ?m ''rateLimitTier'' [] = cr_tier c \<and> fits dec_string ?m ''rateLimitTier'' []"
  proof (cases "cr_tier c = []")
    case True
    with at(7) old show ?thesis by (simp add: value_at_def fits_def no_nestedDoc_def)
  qed (use at(7) value_at_written(1) in auto)
  have rexp: "UnixMilli (ms_or_zero (value_at (dec_ptr (dec_float tx) 0) ?m ''refreshTokenExpiresAt'' None))
      = UnixMilli (cr_refresh_expires c) \<and> fits (dec_ptr (dec_float tx) 0) ?m ''refreshTokenExpiresAt'' None"
  proof (cases "IsZero (cr_refresh_expires c)")
    case True
    with at(4) old show ?thesis by (simp add: value_at_def fits_def no_nestedDoc_def)
  next
    case False
    with assms(4) have e: "UnixMilli (cr_refresh_expires c) \<noteq> 0" "\<bar>UnixMilli (cr_refresh_expires c)\<bar> < 2 ^ 53"
      by (auto simp: exact_ms_def)
    from False at(4) have "map_of ?m ''refreshTokenExpiresAt'' = Some (JNum (show_int (UnixMilli (cr_refresh_expires c))))"
      by simp
    from value_at_written(3) [OF assms(2) e(2) this] show ?thesis
      using msToTime_of_int [OF e(2)] ms_or_zero_written [OF e(1)] by simp
  qed
  show "doc_fits tx (inner_of c) no_nestedDoc" "nd_access doc = cr_access c" "nd_refresh doc = cr_refresh c"
    "nd_expires doc = Some (of_int (UnixMilli (cr_expires c)))" "nd_scopes doc = cr_scopes c"
    "nd_subscription doc = cr_subscription c" "nd_tier doc = cr_tier c"
    "UnixMilli (ms_or_zero (nd_refresh_expires doc)) = UnixMilli (cr_refresh_expires c)"
    using access refresh expires scopes subscription tier rexp
    by (simp_all add: doc_fits_def doc_def doc_of_def no_nestedDoc_def)
qed


section \<open>Refreshing the file\<close>

definition save_by :: "bool \<Rightarrow> cred_io \<Rightarrow> texts \<Rightarrow> Credentials \<Rightarrow> (cred_dir, save_error option) act" where
  "save_by inPlace = (if inPlace then SaveInPlace else Save)"

lemma save_result: "save_by ip io tx c d = (None, d') \<Longrightarrow> cd_store d' = Contents (JDoc (marshalCredentials tx c))"
  by (auto simp: save_by_def Save_def SaveInPlace_def Let_def split: if_splits option.splits)

lemma Save_failed:
  assumes "Save io tx c d = (Some e, d')"
  shows "cd_store d' = cd_store d" "ci_remove io \<Longrightarrow> cd_temp d = NoFile \<Longrightarrow> cd_temp d' = NoFile"
  using assms by (auto simp: Save_def drop_temp_def Let_def split: if_splits option.splits)

lemma save_raw_keeps: "save_raw env r body d = (e, d') \<Longrightarrow> cd_store d' = cd_store d \<and> cd_temp d' = cd_temp d"
  by (auto simp: save_raw_def Let_def split: if_splits)

lemma Refresh_keeps:
  "Refresh env r c (w, d) = (x, (w', d')) \<Longrightarrow> cd_store d' = cd_store d \<and> cd_temp d' = cd_temp d"
  by (auto simp: Refresh_def dest: save_raw_keeps split: if_splits sum.splits prod.splits option.splits)

lemma Refresh_ok: "Refresh env r c s = (Inr u, s') \<Longrightarrow> \<exists>tok. u = updated_credentials (re_now env) tok c"
  by (auto simp: Refresh_def split: if_splits sum.splits prod.splits option.splits)

lemma RefreshFile_ok:
  assumes "RefreshFile env r ip (w, d) = (Inr u, (w', d'))"
  shows "\<exists>c tok. Load (re_texts env) (cd_store d) = Inr c \<and> u = updated_credentials (re_now env) tok c
    \<and> cd_store d' = Contents (JDoc (marshalCredentials (re_texts env) u))"
proof -
  obtain c w1 d1 where "Load (re_texts env) (cd_store d) = Inr c" "Refresh env r c (w, d) = (Inr u, (w1, d1))"
    "save_by ip (re_io env) (re_texts env) u d1 = (None, d')"
    using assms by (auto simp: RefreshFile_def save_by_def split: sum.splits prod.splits option.splits)
  with Refresh_ok save_result show ?thesis by blast
qed

lemma loaded_is_rotated:
  assumes "clean_store f outer inner" "Load tx f = Inr c"
  shows "rotated tx inner (updated_credentials now tok c)" "cr_format c = FormatNested" "cr_outer c = outer"
    "cr_inner c = inner"
  using assms(2) by (auto simp: Load_clean [OF assms(1)] Let_def rotated_def updated_credentials_def
      split: if_splits option.splits)

text \<open>The store after a successful refresh, as a clean store with its two objects.\<close>

lemma refreshed_clean:
  assumes "clean_store (cd_store d) outer inner" "RefreshFile env r ip (w, d) = (Inr u, (w', d'))"
  shows "rotated (re_texts env) inner u"
    "clean_store (cd_store d') (sort_key fst (AList.update ''claudeAiOauth'' (enc_raw (inner_of u)) outer))
       (sort_key fst (inner_of u))"
proof -
  obtain c tok where c: "Load (re_texts env) (cd_store d) = Inr c" "u = updated_credentials (re_now env) tok c"
    and d': "cd_store d' = Contents (JDoc (marshalCredentials (re_texts env) u))"
    using RefreshFile_ok [OF assms(2)] by blast
  note l = loaded_is_rotated [OF assms(1) c(1)]
  show "rotated (re_texts env) inner u" using l(1) c(2) by simp
  have "cr_format u = FormatNested" "cr_outer u = outer" "cr_inner u = inner"
    using l c(2) by (simp_all add: updated_credentials_def)
  with saved_is_clean [of u] assms(1) show "clean_store (cd_store d')
      (sort_key fst (AList.update ''claudeAiOauth'' (enc_raw (inner_of u)) outer)) (sort_key fst (inner_of u))"
    by (simp add: d' clean_store_def)
qed

lemma doc_of_sorted:
  "distinct (map fst m) \<Longrightarrow> doc_of tx (sort_key fst m) d = doc_of tx m d"
  "distinct (map fst m) \<Longrightarrow> doc_fits tx (sort_key fst m) d = doc_fits tx m d"
  by (simp_all add: doc_of_def doc_fits_def value_at_def fits_def)

text \<open>C14: What a refresh writes is what the next start reads. When the store is nested and clean
  and RefreshFile succeeds, by rename or in place, the file loads again with the new tokens, the
  expiry to the millisecond and everything else as it was; every key the program does not own is
  still there with its value, inside and outside the claudeAiOauth object, and the store is clean
  again.\<close>

theorem refreshed_store_loads:
  assumes "clean_store (cd_store d) outer inner" "floats_exact (re_texts env)"
    and "RefreshFile env r inPlace (w, d) = (Inr u, (w', d'))"
    and "cr_access u \<noteq> []" "exact_ms (cr_expires u)"
    and "IsZero (cr_refresh_expires u) \<or> exact_ms (cr_refresh_expires u)"
  shows "\<exists>c outer' inner'. Load (re_texts env) (cd_store d') = Inr c \<and> clean_store (cd_store d') outer' inner'
    \<and> cr_access c = cr_access u \<and> cr_refresh c = cr_refresh u
    \<and> UnixMilli (cr_expires c) = UnixMilli (cr_expires u)
    \<and> UnixMilli (cr_refresh_expires c) = UnixMilli (cr_refresh_expires u)
    \<and> cr_scopes c = cr_scopes u \<and> cr_subscription c = cr_subscription u \<and> cr_tier c = cr_tier u
    \<and> (\<forall>k. k \<notin> set nested_keys \<longrightarrow> map_of inner' k = map_of inner k)
    \<and> (\<forall>k. k \<noteq> ''claudeAiOauth'' \<longrightarrow> map_of outer' k = map_of outer k)"
proof -
  let ?outer = "AList.update ''claudeAiOauth'' (enc_raw (inner_of u)) outer"
  note clean = refreshed_clean [OF assms(1,3)]
  have old: "distinct (map fst outer)" "distinct (map fst inner)" "cr_inner u = inner"
    using assms(1) clean(1) by (simp_all add: clean_store_def rotated_def Let_def)
  have dist: "distinct (map fst (inner_of u))" "distinct (map fst ?outer)"
    using old distinct_inner_of by (simp_all add: distinct_update)
  note doc = rotated_doc [OF clean(1) assms(2,5,6)]
  have load: "\<exists>c. Load (re_texts env) (cd_store d') = Inr c \<and> cr_access c = cr_access u \<and> cr_refresh c = cr_refresh u
      \<and> cr_expires c = msToTime (of_int (UnixMilli (cr_expires u)))
      \<and> UnixMilli (cr_refresh_expires c) = UnixMilli (cr_refresh_expires u)
      \<and> cr_scopes c = cr_scopes u \<and> cr_subscription c = cr_subscription u \<and> cr_tier c = cr_tier u"
    using assms(4,5) doc unfolding Load_clean [OF clean(2)] doc_of_sorted [OF dist(1)]
    by (simp add: Let_def exact_ms_def)
  have ms: "UnixMilli (msToTime (of_int (UnixMilli (cr_expires u)))) = UnixMilli (cr_expires u)"
    using assms(5) msToTime_of_int by (simp add: exact_ms_def)
  have "\<forall>k. k \<notin> set nested_keys \<longrightarrow> map_of (sort_key fst (inner_of u)) k = map_of inner k"
    using inner_of_other dist(1) old(3) by simp
  moreover have "\<forall>k. k \<noteq> ''claudeAiOauth'' \<longrightarrow> map_of (sort_key fst ?outer) k = map_of outer k"
    using dist(2) by (simp add: update_conv')
  ultimately show ?thesis using load clean(2) ms by metis
qed

text \<open>A refresh that fails never harms the store. Writing by rename, whatever goes wrong on
  the way (the load, the request, the answer, each system call), the file holds what it held
  before, and no temporary file is left when removing it works.\<close>

theorem failed_refresh_keeps_store:
  assumes "RefreshFile env r False (w, d) = (Inl e, (w', d'))"
  shows "cd_store d' = cd_store d \<and> (ci_remove (re_io env) \<and> cd_temp d = NoFile \<longrightarrow> cd_temp d' = NoFile)"
  using assms unfolding RefreshFile_def
  by (auto dest: Refresh_keeps split: sum.splits prod.splits option.splits) (metis Refresh_keeps Save_failed)+

text \<open>C15: A rotated token is never lost without a trace. Once the endpoint has answered with a new
  refresh token, the old one being void, every outcome of RefreshFile carries it: it is in the
  store, or in the error of the failed write, or the error holds the whole answer.\<close>

theorem rotated_token_is_kept:
  assumes "Load (re_texts env) (cd_store d) = Inr c" "re_valid env (tokenEndpoint r)"
    and "re_do env (refresh_request r c) w = (Inr resp, w1)" "200 \<le> hp_status resp" "hp_status resp < 300"
    and "unmarshal dec_tokenResponse no_tokenResponse (re_scan env (hp_body resp)) = Some tok" "tr_refresh tok \<noteq> []"
    and "RefreshFile env r inPlace (w, d) = (res, (w', d'))"
  shows "(\<exists>u. res = Inr u \<and> cr_refresh u = tr_refresh tok
            \<and> cd_store d' = Contents (JDoc (marshalCredentials (re_texts env) u)))
    \<or> (\<exists>e. res = Inl (RfPersist (rf_raw_dir r) e (tr_access tok) (tr_refresh tok)))
    \<or> res = Inl (RfRaw (hp_body resp))"
proof (cases "save_raw env r (hp_body resp) d")
  case (Pair x d1)
  show ?thesis
  proof (cases x)
    case None
    let ?u = "updated_credentials (re_now env) tok c"
    have ref: "Refresh env r c (w, d) = (Inr ?u, (w1, d1))"
      using assms(2-6) Pair None by (simp add: Refresh_def)
    have u: "cr_refresh ?u = tr_refresh tok" "cr_access ?u = tr_access tok"
      using assms(7) by (simp_all add: updated_credentials_def)
    obtain y d2 where save: "save_by inPlace (re_io env) (re_texts env) ?u d1 = (y, d2)" by fastforce
    have "res = (case y of None \<Rightarrow> Inr ?u | Some e \<Rightarrow> Inl (RfPersist (rf_raw_dir r) e (cr_access ?u) (cr_refresh ?u)))"
      "d' = d2"
      using assms(1,8) ref save by (auto simp: RefreshFile_def save_by_def split: option.splits)
    with u save_result save show ?thesis by (cases y) auto
  next
    case (Some e)
    then have "e = RfRaw (hp_body resp)" using Pair by (auto simp: save_raw_def Let_def split: if_splits)
    with assms Pair Some show ?thesis by (simp add: RefreshFile_def Refresh_def)
  qed
qed


text \<open>The flat store does not keep unknown keys. A flat store that is loaded and saved is an
  object of the four keys of the program, whatever else the file held.\<close>

theorem flat_save_drops_keys:
  assumes "Load tx (cd_store d) = Inr c" "cr_format c = FormatFlat" "Save io tx c d = (None, d')"
    and "k \<notin> {''access_token'', ''refresh_token'', ''expires_at'', ''token_type''}"
  shows "\<exists>m. cd_store d' = Contents (JDoc (JObj m)) \<and> map_of m k = None"
  using save_result [of False io tx c d d'] assms(2-4)
  by (auto simp: save_by_def marshalCredentials_def enc_flatDoc_def)


section \<open>A concrete refresh\<close>

lemma parse_int64_show_int: "\<bar>n\<bar> < 2 ^ 53 \<Longrightarrow> parse_int64 (show_int n) = Some n"
proof (cases "n < 0")
  case True
  assume "\<bar>n\<bar> < 2 ^ 53"
  with True show ?thesis by (simp add: show_int_def parse_int64_def digits_val_show_nat)
next
  case False
  assume n: "\<bar>n\<bar> < 2 ^ 53"
  have "CHR ''-'' \<notin> set (show_nat (nat n))"
  proof
    assume "CHR ''-'' \<in> set (show_nat (nat n))"
    then obtain d where "d < 10" "CHR ''-'' = digit_char d" using show_nat_chars by blast
    then have "48 \<le> (of_char (CHR ''-'') :: nat)" using digit_char_props(4) by metis
    then show False by simp
  qed
  then obtain c cs where c: "show_nat (nat n) = c # cs" "c \<noteq> CHR ''-''"
    by (metis list.exhaust list.set_intros(1) show_nat_nonempty)
  have "parse_int64 (show_nat (nat n)) = map_option int (parse_uint 10 63 (show_nat (nat n)))"
    using c(2) by (simp add: c(1) parse_int64_def)
  with False n parse_uint_show_nat [of "nat n" 63] show ?thesis by (simp add: show_int_def)
qed

definition demo_texts :: texts where
  "demo_texts = \<lparr>tx_float = (\<lambda>s. map_option of_int (parse_int64 s)), tx_parse = (\<lambda>_. None), tx_format = (\<lambda>_. [])\<rparr>"

lemma demo_floats: "floats_exact demo_texts"
  by (simp add: floats_exact_def demo_texts_def parse_int64_show_int)

definition demo_inner :: rawmap where
  "demo_inner = [(''accessToken'', JStr ''a0''), (''refreshToken'', JStr ''r0''),
     (''expiresAt'', JNum ''1700000000000''), (''account'', JStr ''me'')]"

definition demo_outer :: rawmap where
  "demo_outer = [(''claudeAiOauth'', JObj demo_inner), (''mcp'', JNum ''7'')]"

definition demo_dir :: cred_dir where
  "demo_dir = \<lparr>cd_store = Contents (JDoc (JObj demo_outer)), cd_temp = NoFile, cd_raw = []\<rparr>"

definition demo_refresh :: "json \<Rightarrow> bool \<Rightarrow> unit refresh_env" where
  "demo_refresh answer renames =
     \<lparr>re_valid = (\<lambda>_. True), re_do = (\<lambda>_ w. (Inr \<lparr>hp_status = 200, hp_retry_after = [], hp_body = ''x''\<rparr>, w)),
      re_scan = (\<lambda>_. JDoc answer), re_texts = demo_texts,
      re_io = \<lparr>ci_temp = True, ci_chmod = True, ci_write = None, ci_sync = True, ci_close = True,
        ci_rename = renames, ci_remove = True, ci_open = True\<rparr>,
      re_raw_open = True, re_raw_write = True, re_stamp = zero_time,
      re_now = \<lparr>t_ns = 1700000000000000000, t_zone = 0\<rparr>\<rparr>"

definition no_refresher :: Refresher where
  "no_refresher = \<lparr>rf_client = None, rf_agent = [], rf_client_id = [], rf_endpoint = [], rf_raw_dir = []\<rparr>"

definition good_answer :: json where
  "good_answer = JObj [(''access_token'', JStr ''a1''), (''refresh_token'', JStr ''r1''), (''expires_in'', JNum ''3600'')]"

lemma demo_clean: "clean_store (cd_store demo_dir) demo_outer demo_inner"
proof -
  have "list_all (\<lambda>k. list_all (\<lambda>f. \<not> key_is f k \<or> k = f) nested_keys) (map fst demo_inner)" by code_simp
  then have "plain_keys demo_inner" by (auto simp: plain_keys_def list_all_iff)
  then show ?thesis by (simp add: clean_store_def demo_dir_def demo_outer_def demo_inner_def)
qed

lemma demo_number: "tx_float demo_texts ''1700000000000'' = Some 1700000000000"
  by (simp add: demo_texts_def parse_int64_def parse_uint_def digit_val_def)

lemma demo_load: "\<exists>c. Load demo_texts (cd_store demo_dir) = Inr c \<and> cr_refresh_expires c = zero_time"
  unfolding Load_clean [OF demo_clean]
  by (simp add: doc_of_def doc_fits_def demo_inner_def value_at_def fits_def no_nestedDoc_def dec_string_def
      dec_ptr_def dec_float_def demo_number ms_or_zero_def)

lemma demo_result:
  assumes "unmarshal dec_tokenResponse no_tokenResponse (JDoc answer) = Some tok"
  shows "\<exists>c. Load demo_texts (cd_store demo_dir) = Inr c \<and> cr_refresh_expires c = zero_time \<and>
    RefreshFile (demo_refresh answer renames) no_refresher False ((), demo_dir)
    = (let u = updated_credentials \<lparr>t_ns = 1700000000000000000, t_zone = 0\<rparr> tok c in
       if renames then (Inr u, ((), demo_dir\<lparr>cd_store := Contents (JDoc (marshalCredentials demo_texts u))\<rparr>))
       else (Inl (RfPersist [] SvRename (cr_access u) (cr_refresh u)), ((), demo_dir)))"
proof -
  obtain c where c: "Load demo_texts (cd_store demo_dir) = Inr c" "cr_refresh_expires c = zero_time"
    using demo_load by blast
  with assms show ?thesis
    by (simp add: RefreshFile_def Refresh_def demo_refresh_def save_raw_def no_refresher_def Save_def
        drop_temp_def Let_def demo_dir_def)
qed

lemma token_keys:
  "\<not> key_is ''access_token'' ''refresh_token''" "\<not> key_is ''access_token'' ''expires_in''"
  "\<not> key_is ''refresh_token'' ''expires_in''" by (simp_all add: key_is_def lower_char_def)

lemma demo_answers:
  "unmarshal dec_tokenResponse no_tokenResponse (JDoc good_answer)
     = Some \<lparr>tr_access = ''a1'', tr_refresh = ''r1'', tr_expires_in = 3600, tr_type = []\<rparr>"
  "unmarshal dec_tokenResponse no_tokenResponse (JDoc (JObj [(''error'', JStr ''slow'')])) = Some no_tokenResponse"
  by (simp_all add: unmarshal_def dec_tokenResponse_def dec_struct_def good_answer_def token_keys dec_string_def
      dec_int64_def parse_int64_def parse_uint_def digit_val_def no_tokenResponse_def key_is_def lower_char_def)


theorem refreshed_store_loads_witness:
  "\<exists>u d'. RefreshFile (demo_refresh good_answer True) no_refresher False ((), demo_dir) = (Inr u, ((), d')) \<and>
     (\<exists>c outer' inner'. Load demo_texts (cd_store d') = Inr c \<and> clean_store (cd_store d') outer' inner' \<and>
        cr_access c = ''a1'' \<and> cr_refresh c = ''r1'' \<and> map_of inner' ''account'' = Some (JStr ''me'') \<and>
        map_of outer' ''mcp'' = Some (JNum ''7''))"
proof -
  obtain c where c: "cr_refresh_expires c = zero_time"
    and run: "RefreshFile (demo_refresh good_answer True) no_refresher False ((), demo_dir)
      = (let u = updated_credentials \<lparr>t_ns = 1700000000000000000, t_zone = 0\<rparr>
           \<lparr>tr_access = ''a1'', tr_refresh = ''r1'', tr_expires_in = 3600, tr_type = []\<rparr> c in
         (Inr u, ((), demo_dir\<lparr>cd_store := Contents (JDoc (marshalCredentials demo_texts u))\<rparr>)))"
    using demo_result [OF demo_answers(1), of True] by auto
  let ?u = "updated_credentials \<lparr>t_ns = 1700000000000000000, t_zone = 0\<rparr>
           \<lparr>tr_access = ''a1'', tr_refresh = ''r1'', tr_expires_in = 3600, tr_type = []\<rparr> c"
  let ?d = "demo_dir\<lparr>cd_store := Contents (JDoc (marshalCredentials demo_texts ?u))\<rparr>"
  have r: "RefreshFile (demo_refresh good_answer True) no_refresher False ((), demo_dir) = (Inr ?u, ((), ?d))"
    using run by (simp add: Let_def)
  have u: "cr_access ?u = ''a1''" "cr_refresh ?u = ''r1''" "exact_ms (cr_expires ?u)" "IsZero (cr_refresh_expires ?u)"
    using c by (simp_all add: updated_credentials_def IsZero_def exact_ms_def UnixMilli_def seconds_def)
  have tx: "re_texts (demo_refresh good_answer True) = demo_texts" by (simp add: demo_refresh_def)
  have kept: "map_of demo_inner ''account'' = Some (JStr ''me'')" "map_of demo_outer ''mcp'' = Some (JNum ''7'')"
    "''account'' \<notin> set nested_keys" by (simp_all add: demo_inner_def demo_outer_def nested_keys_def)
  have "cr_access ?u \<noteq> []" using u(1) by simp
  from refreshed_store_loads [OF demo_clean _ r this u(3) disjI1 [OF u(4)], unfolded tx, OF demo_floats]
  obtain d' c outer' inner' where "RefreshFile (demo_refresh good_answer True) no_refresher False ((), demo_dir) = (Inr ?u, ((), d'))"
    "Load demo_texts (cd_store d') = Inr c" "clean_store (cd_store d') outer' inner'"
    "cr_access c = ''a1''" "cr_refresh c = ''r1''" "map_of inner' ''account'' = map_of demo_inner ''account''"
    "map_of outer' ''mcp'' = map_of demo_outer ''mcp''"
    unfolding u(1,2) using r kept(3) by (elim exE conjE) simp
  then show ?thesis using kept by metis
qed

theorem failed_refresh_keeps_store_witness:
  "\<exists>e. RefreshFile (demo_refresh good_answer False) no_refresher False ((), demo_dir) = (Inl e, ((), demo_dir))
     \<and> cd_store demo_dir = Contents (JDoc (JObj demo_outer))"
proof -
  obtain e where r: "RefreshFile (demo_refresh good_answer False) no_refresher False ((), demo_dir) = (Inl e, ((), demo_dir))"
    using demo_result [OF demo_answers(1), of False] by (auto simp: Let_def)
  with failed_refresh_keeps_store [OF r] show ?thesis by (simp add: demo_dir_def)
qed

theorem rotated_token_is_kept_witness:
  "\<exists>a. RefreshFile (demo_refresh good_answer False) no_refresher False ((), demo_dir)
     = (Inl (RfPersist [] SvRename a ''r1''), ((), demo_dir))"
proof -
  obtain c a where c: "Load demo_texts (cd_store demo_dir) = Inr c"
    and r: "RefreshFile (demo_refresh good_answer False) no_refresher False ((), demo_dir)
      = (Inl (RfPersist [] SvRename a (cr_refresh (updated_credentials \<lparr>t_ns = 1700000000000000000, t_zone = 0\<rparr>
           \<lparr>tr_access = ''a1'', tr_refresh = ''r1'', tr_expires_in = 3600, tr_type = []\<rparr> c))), ((), demo_dir))"
    using demo_result [OF demo_answers(1), of False] by (auto simp: Let_def)
  have env: "re_texts (demo_refresh good_answer False) = demo_texts" "re_valid (demo_refresh good_answer False) u"
    "re_do (demo_refresh good_answer False) q w = (Inr \<lparr>hp_status = 200, hp_retry_after = [], hp_body = ''x''\<rparr>, w)"
    "re_scan (demo_refresh good_answer False) b = JDoc good_answer" for u q w b
    by (simp_all add: demo_refresh_def)
  have "200 \<le> hp_status \<lparr>hp_status = 200, hp_retry_after = [], hp_body = ''x''\<rparr>"
    "hp_status \<lparr>hp_status = 200, hp_retry_after = [], hp_body = ''x''\<rparr> < 300" by simp_all
  from rotated_token_is_kept [OF c [folded env(1)] env(2) env(3) this _ _ r] demo_answers(1)
  have "cr_refresh (updated_credentials \<lparr>t_ns = 1700000000000000000, t_zone = 0\<rparr>
           \<lparr>tr_access = ''a1'', tr_refresh = ''r1'', tr_expires_in = 3600, tr_type = []\<rparr> c) = ''r1''"
    by (auto simp: env(4))
  with r show ?thesis by auto
qed


definition flat_outer :: rawmap where
  "flat_outer = [(''access_token'', JStr ''a''), (''note'', JStr ''n'')]"

definition flat_texts :: texts where
  "flat_texts = demo_texts\<lparr>tx_parse := \<lambda>_. Some zero_time\<rparr>"

definition flat_dir :: cred_dir where
  "flat_dir = \<lparr>cd_store = Contents (JDoc (JObj flat_outer)), cd_temp = NoFile, cd_raw = []\<rparr>"

theorem flat_save_drops_keys_witness:
  "\<exists>c d'. Load flat_texts (cd_store flat_dir) = Inr c \<and> map_of (cr_outer c) ''note'' = Some (JStr ''n'') \<and>
     Save (re_io (demo_refresh JNull True)) flat_texts c flat_dir = (None, d') \<and>
     (\<exists>m. cd_store d' = Contents (JDoc (JObj m)) \<and> map_of m ''note'' = None)"
proof -
  obtain c where load: "Load flat_texts (cd_store flat_dir) = Inr c" "cr_format c = FormatFlat" "cr_outer c = flat_outer"
    by (simp add: Load_def loadFlat_def raw_pairs_def unmarshal_def dec_flatDoc_def dec_struct_def no_flatDoc_def
        dec_string_def key_is_def lower_char_def flat_dir_def flat_outer_def flat_texts_def)
  obtain d' where save: "Save (re_io (demo_refresh JNull True)) flat_texts c flat_dir = (None, d')"
    by (simp add: Save_def demo_refresh_def Let_def)
  from flat_save_drops_keys [OF load(1,2) save, of "''note''"] load save show ?thesis
    by (auto simp: flat_outer_def)
qed

end
