(* ===== verification/PortsState.thy ===== *)
theory PortsState
  imports GoTime ClientQueue CliCommon PortManager
begin

text \<open>
  The files of the port panel: the queue of forwarding requests that \<open>declare\<close> and the panel add
  to, and \<open>forwards.state\<close>, what the panel shows (\<open>internal/cli/portfwd_state.go\<close>, the data of
  \<open>cmd_ports_pane.go\<close>, \<open>upsertPortInState\<close> of \<open>cmd_link_toggle.go\<close>, \<open>Declarer\<close> and
  \<open>writeAppliedState\<close> of \<open>cmd_herdr_plugin.go\<close>).
\<close>

section \<open>Statuses and rows\<close>

definition PFStatusIdle :: string where "PFStatusIdle = ''idle''"
definition PFStatusLive :: string where "PFStatusLive = ''live''"
definition PFStatusPending :: string where "PFStatusPending = ''pending''"
definition PFStatusDead :: string where "PFStatusDead = ''dead''"
definition PFStatusError :: string where "PFStatusError = ''error''"
definition PFStatusExpired :: string where "PFStatusExpired = ''expired''"
definition PFStatusOutRange :: string where "PFStatusOutRange = ''out_of_range''"

lemmas status_defs = PFStatusIdle_def PFStatusLive_def PFStatusPending_def PFStatusDead_def PFStatusError_def
  PFStatusExpired_def PFStatusOutRange_def

record PortForward =
  pf_port :: u16
  pf_sandbox :: string
  pf_status :: string
  pf_confirmed :: gtime
  pf_error :: string

record ForwardsState =
  fs_by :: string
  fs_updated :: gtime
  fs_forwards :: "PortForward list"

definition empty_forward :: PortForward where
  "empty_forward = \<lparr>pf_port = 0, pf_sandbox = [], pf_status = [], pf_confirmed = zero_time, pf_error = []\<rparr>"

definition empty_state :: ForwardsState where
  "empty_state = \<lparr>fs_by = [], fs_updated = zero_time, fs_forwards = []\<rparr>"

text \<open>\<open>omitempty\<close> does not apply to the struct \<open>time.Time\<close>.\<close>

definition enc_forward :: "texts \<Rightarrow> PortForward \<Rightarrow> json" where
  "enc_forward tx p = JObj
     ([(''port'', JNum (show_nat (unat (pf_port p)))), (''sandbox'', JStr (pf_sandbox p)),
       (''status'', JStr (pf_status p)), (''confirmed_at'', JStr (tx_format tx (pf_confirmed p)))]
      @ (if pf_error p = [] then [] else [(''error'', JStr (pf_error p))]))"

definition enc_state :: "texts \<Rightarrow> ForwardsState \<Rightarrow> json" where
  "enc_state tx s = JObj
     [(''written_by'', JStr (fs_by s)), (''updated_at'', JStr (tx_format tx (fs_updated s))),
      (''forwards'', JArr (map (enc_forward tx) (fs_forwards s)))]"

text \<open>\<open>Time.UnmarshalJSON\<close>: null is no change, any other value must be a string that parses.\<close>

definition dec_time :: "texts \<Rightarrow> gtime decoder" where
  "dec_time tx j v =
     (case j of
        JNull \<Rightarrow> (True, v)
      | JStr s \<Rightarrow> (case tx_parse tx s of None \<Rightarrow> (False, v) | Some t \<Rightarrow> (True, t))
      | _ \<Rightarrow> (False, v))"

definition dec_forward :: "texts \<Rightarrow> PortForward decoder" where
  "dec_forward tx = dec_struct (\<lambda>k j p.
     if key_is ''port'' k then (let (ok, v) = dec_uint 16 j (pf_port p) in (ok, p\<lparr>pf_port := v\<rparr>))
     else if key_is ''sandbox'' k then (let (ok, v) = dec_string j (pf_sandbox p) in (ok, p\<lparr>pf_sandbox := v\<rparr>))
     else if key_is ''status'' k then (let (ok, v) = dec_string j (pf_status p) in (ok, p\<lparr>pf_status := v\<rparr>))
     else if key_is ''confirmed_at'' k then (let (ok, v) = dec_time tx j (pf_confirmed p) in (ok, p\<lparr>pf_confirmed := v\<rparr>))
     else if key_is ''error'' k then (let (ok, v) = dec_string j (pf_error p) in (ok, p\<lparr>pf_error := v\<rparr>))
     else (True, p))"

definition dec_state :: "texts \<Rightarrow> ForwardsState decoder" where
  "dec_state tx = dec_struct (\<lambda>k j s.
     if key_is ''written_by'' k then (let (ok, v) = dec_string j (fs_by s) in (ok, s\<lparr>fs_by := v\<rparr>))
     else if key_is ''updated_at'' k then (let (ok, v) = dec_time tx j (fs_updated s) in (ok, s\<lparr>fs_updated := v\<rparr>))
     else if key_is ''forwards'' k then
       (let (ok, v) = dec_slice (dec_forward tx) empty_forward j (fs_forwards s) in (ok, s\<lparr>fs_forwards := v\<rparr>))
     else (True, s))"

section \<open>The state directory\<close>

record state_dir =
  sd_queue :: qdir
  sd_ack :: "string fsfile"
  sd_forwards :: qdir

datatype state_error = SeRead string | SeParse | SeWrite string | SeQueue queue_error | SeAck string

definition LoadForwardsState :: "texts \<Rightarrow> state_dir \<Rightarrow> state_error + ForwardsState option" where
  "LoadForwardsState tx d =
     (case qd_file (sd_forwards d) of
        NoFile \<Rightarrow> Inr None
      | ReadError e \<Rightarrow> Inl (SeRead e)
      | Contents t \<Rightarrow>
          (case unmarshal (dec_state tx) empty_state t of
             None \<Rightarrow> Inl SeParse | Some s \<Rightarrow> Inr (Some s)))"

definition write_forwards :: "write_faults \<Rightarrow> json \<Rightarrow> (qdir, string option) act" where
  "write_forwards f j d =
     (case wf_mkdir f of
        Some e \<Rightarrow> (Some e, d)
      | None \<Rightarrow>
          (case wf_write f of
             Some (e, t) \<Rightarrow> (Some e, d\<lparr>qd_tmp := Contents t\<rparr>)
           | None \<Rightarrow>
               (let d1 = d\<lparr>qd_tmp := Contents (JDoc j)\<rparr> in
                case wf_rename f of
                  Some e \<Rightarrow> (Some e, d1)
                | None \<Rightarrow> (None, d1\<lparr>qd_file := qd_tmp d1, qd_tmp := NoFile\<rparr>))))"

definition WriteForwardsStateAtomic ::
  "texts \<Rightarrow> write_faults \<Rightarrow> ForwardsState \<Rightarrow> (state_dir, state_error option) act" where
  "WriteForwardsStateAtomic tx f s d =
     (case write_forwards f (enc_state tx s) (sd_forwards d) of
        (e, q) \<Rightarrow> (map_option SeWrite e, d\<lparr>sd_forwards := q\<rparr>))"

text \<open>Read the queue and the acknowledgement, change the pruned queue, write it back.\<close>

definition with_queue ::
  "write_faults \<Rightarrow> int \<Rightarrow> int \<Rightarrow> (Queue \<Rightarrow> 'a \<times> Queue) \<Rightarrow> (state_dir, state_error + 'a) act" where
  "with_queue f now ttl change d =
     (case LoadQueue (qd_file (sd_queue d)) of
        Inl e \<Rightarrow> (Inl (SeQueue e), d)
      | Inr q \<Rightarrow>
          (case ReadAck (sd_ack d) of
             Inl e \<Rightarrow> (Inl (SeAck e), d)
           | Inr acked \<Rightarrow>
               (case change (Prune acked now ttl q) of
                  (x, q1) \<Rightarrow>
                    (case WriteQueueAtomic f q1 (sd_queue d) of
                       (Some e, qd) \<Rightarrow> (Inl (SeWrite e), d\<lparr>sd_queue := qd\<rparr>)
                     | (None, qd) \<Rightarrow> (Inr x, d\<lparr>sd_queue := qd\<rparr>)))))"

section \<open>Requests\<close>

definition DefaultTTL :: int where "DefaultTTL = 600000000000"

definition loopback :: string where "loopback = ''127.0.0.1''"

definition pane_request :: "u16 \<Rightarrow> gtime \<Rightarrow> Request" where
  "pane_request port now =
     empty_request\<lparr>req_lport := port, req_rport := port, req_bind := loopback, req_origin := ''ports-pane'',
       req_version := PluginVersion, req_created := word_of_int (UnixMilli now)\<rparr>"

definition EnqueueForwardRequest ::
  "write_faults \<Rightarrow> (Request list \<Rightarrow> Request list) \<Rightarrow> u16 \<Rightarrow> gtime \<Rightarrow> (state_dir, state_error option) act" where
  "EnqueueForwardRequest f srt port now d =
     (case with_queue f (t_ns now) DefaultTTL (Enqueue srt (pane_request port now)) d of
        (Inl e, d1) \<Rightarrow> (Some e, d1) | (Inr _, d1) \<Rightarrow> (None, d1))"

record Declarer =
  de_host :: string
  de_version :: string
  de_ttl :: int

definition declared_request :: "Declarer \<Rightarrow> u16 \<Rightarrow> gtime \<Rightarrow> Request" where
  "declared_request de port now =
     empty_request\<lparr>req_host := de_host de, req_rport := port, req_lport := port, req_bind := loopback,
       req_origin := ''discovery'', req_version := de_version de, req_created := word_of_int (UnixMilli now)\<rparr>"

text \<open>The loop over the listeners, by their ports; \<open>pending\<close> is computed before it.\<close>

fun declare_loop ::
  "(Request list \<Rightarrow> Request list) \<Rightarrow> Declarer \<Rightarrow> gtime \<Rightarrow> u16 set \<Rightarrow> u16 list \<Rightarrow> Request list \<Rightarrow> Queue
     \<Rightarrow> Request list \<times> Queue" where
  "declare_loop srt de now pending [] added q = (added, q)"
| "declare_loop srt de now pending (p # ps) added q =
     (if p \<in> pending then declare_loop srt de now pending ps added q
      else (case Enqueue srt (declared_request de p now) q of
              (r, q1) \<Rightarrow> declare_loop srt de now pending ps (added @ [r]) q1))"

definition Declare ::
  "write_faults \<Rightarrow> (Request list \<Rightarrow> Request list) \<Rightarrow> Declarer \<Rightarrow> u16 list \<Rightarrow> gtime
     \<Rightarrow> (state_dir, state_error + Request list) act" where
  "Declare f srt de ports now d =
     with_queue f (t_ns now) (if de_ttl de = 0 then DefaultTTL else de_ttl de)
       (\<lambda>q. declare_loop srt de now (req_lport ` set (q_pending q)) ports [] q) d"

section \<open>Rows of the panel\<close>

text \<open>\<open>sort.Slice\<close> by port, not stable, as a parameter.\<close>

definition port_sort :: "(PortForward list \<Rightarrow> PortForward list) \<Rightarrow> bool" where
  "port_sort srt \<longleftrightarrow> (\<forall>ps. mset (srt ps) = mset ps \<and> sorted (map pf_port (srt ps)))"

fun set_status :: "u16 \<Rightarrow> string \<Rightarrow> PortForward list \<Rightarrow> PortForward list \<times> bool" where
  "set_status port st [] = ([], False)"
| "set_status port st (p # ps) =
     (if pf_port p = port then (p\<lparr>pf_status := st\<rparr> # ps, True)
      else (case set_status port st ps of (ps', found) \<Rightarrow> (p # ps', found)))"

definition upsert :: "u16 \<Rightarrow> string \<Rightarrow> PortForward list \<Rightarrow> PortForward list" where
  "upsert port st ps =
     (case set_status port st ps of
        (ps', found) \<Rightarrow> if found then ps' else ps' @ [empty_forward\<lparr>pf_port := port, pf_status := st\<rparr>])"

definition upsertPortInState ::
  "texts \<Rightarrow> write_faults \<Rightarrow> (PortForward list \<Rightarrow> PortForward list) \<Rightarrow> gtime \<Rightarrow> u16 \<Rightarrow> string
     \<Rightarrow> (state_dir, state_error option) act" where
  "upsertPortInState tx f srt now port st d =
     (case LoadForwardsState tx d of
        Inl e \<Rightarrow> (Some e, d)
      | Inr os \<Rightarrow>
          (let s = (case os of Some s \<Rightarrow> s | None \<Rightarrow> empty_state) in
           WriteForwardsStateAtomic tx f
             (s\<lparr>fs_forwards := srt (upsert port st (fs_forwards s)), fs_by := ''ports-toggle'', fs_updated := now\<rparr>) d))"

text \<open>The rows of what a manager has applied, each asked for by \<open>Present\<close>.\<close>

fun applied_rows :: "'w Forwarder \<Rightarrow> gtime \<Rightarrow> fwd_key list \<Rightarrow> ('w, PortForward list) act" where
  "applied_rows fw now [] w = ([], w)"
| "applied_rows fw now (k # ks) w =
     (case fw_Present fw (snd k) w of
        (r, w1) \<Rightarrow>
          (let p = empty_forward\<lparr>pf_port := snd k, pf_sandbox := fst k, pf_status := PFStatusPending\<rparr>;
               p1 = (if r = Inr True then p\<lparr>pf_status := PFStatusLive, pf_confirmed := now\<rparr> else p)
           in case applied_rows fw now ks w1 of (ps, w2) \<Rightarrow> (p1 # ps, w2)))"

definition writeAppliedState ::
  "texts \<Rightarrow> write_faults \<Rightarrow> (PortForward list \<Rightarrow> PortForward list) \<Rightarrow> (fwd_key list \<Rightarrow> fwd_key list) \<Rightarrow> gtime
     \<Rightarrow> 'w Forwarder \<Rightarrow> 'w Manager \<Rightarrow> 'w \<times> state_dir \<Rightarrow> 'w \<times> state_dir" where
  "writeAppliedState tx f srt ord now fw mgr s =
     (case applied_rows fw now (Applied ord mgr) (fst s) of
        (ps, w1) \<Rightarrow>
          (case WriteForwardsStateAtomic tx f \<lparr>fs_by = ''fwd-sync'', fs_updated = now, fs_forwards = srt ps\<rparr> (snd s) of
             (_, d1) \<Rightarrow> (w1, d1)))"

end
