(* ===== verification/PortsPane.thy ===== *)
theory PortsPane
  imports PortsState
begin

text \<open>
  \<open>internal/cli/cmd_ports_pane.go\<close>: the panel of port forwards. What it draws, how a key is
  dispatched, and the loop over the events of its select: a cancelled context, a second gone by,
  a byte from the terminal. Texts are bytes; the characters outside ASCII are written out in UTF-8.
\<close>

section \<open>Drawing\<close>

definition em_dash :: string where "em_dash = [CHR 0xE2, CHR 0x80, CHR 0x94]"
definition box_line :: string where "box_line = [CHR 0xE2, CHR 0x94, CHR 0x80]"
definition arrow :: string where "arrow = [CHR 0xE2, CHR 0x86, CHR 0x92]"
definition section_sign :: string where "section_sign = [CHR 0xC2, CHR 0xA7]"
definition newline :: string where "newline = [CHR 0x0A]"

definition paneSep :: string where "paneSep = concat (replicate 45 box_line)"

definition paneStaleThreshold :: int where "paneStaleThreshold = 300000000000"

definition renderRow :: "PortForward \<Rightarrow> string" where
  "renderRow fwd =
     (let p = show_nat (unat (pf_port fwd)); ts = clock_text (pf_confirmed fwd); st = pf_status fwd in
      if st = PFStatusLive then
        p @ ''   LIVE    since '' @ ts @ ''   ctrl+click '' @ arrow @ '' http://127.0.0.1:'' @ p
      else if st = PFStatusPending then p @ ''   PENDING request enqueued, waiting for laptop agent...''
      else if st = PFStatusDead then p @ ''   DEAD    lost '' @ ts @ ''   error: '' @ pf_error fwd
      else if st = PFStatusError then p @ ''   ERROR   '' @ pf_error fwd
      else if st = PFStatusExpired then p @ ''   EXPIRED '' @ pf_error fwd
      else if st = PFStatusOutRange then p @ ''   OUT-OF-RANGE  recreate required (outside 1024-11023)''
      else p @ ''   IDLE'')"

definition paneFooter :: "string \<Rightarrow> string" where
  "paneFooter st =
     (if st = PFStatusLive then ''j/k  select   Enter  enqueue   r  add port (recreates)   q  close''
      else if st = PFStatusDead then ''j/k  select   Enter  retry   r  add port (recreates)   q  close''
      else if st = PFStatusPending then ''j/k  select   q  close''
      else if st = PFStatusError then ''j/k  select   q  close''
      else if st = PFStatusExpired then ''q  close''
      else if st = PFStatusOutRange then ''j/k  select   r  add port (recreates)   q  close''
      else if st = [] then ''r  add port (recreates)   q  close''
      else ''j/k  select   Enter  forward selected   r  add port (recreates)   q  close'')"

fun pane_rows :: "int \<Rightarrow> int \<Rightarrow> PortForward list \<Rightarrow> string" where
  "pane_rows cursor i [] = []"
| "pane_rows cursor i (p # ps) =
     (if cursor = i then ''> '' else ''  '') @ renderRow p @ newline @ pane_rows cursor (i + 1) ps"

definition row_at :: "PortForward list \<Rightarrow> int \<Rightarrow> PortForward option" where
  "row_at rows cursor = (if 0 \<le> cursor \<and> cursor < int (length rows) then Some (rows ! nat cursor) else None)"

text \<open>\<open>int(d.Minutes())\<close> for a positive duration.\<close>

definition RenderPortsPane :: "ForwardsState option \<Rightarrow> int \<Rightarrow> gtime \<Rightarrow> string" where
  "RenderPortsPane state cursor now =
     (case state of
        None \<Rightarrow>
          ''Port forwards '' @ em_dash @ '' (no sandbox)'' @ newline @ paneSep @ newline
            @ ''  laptop agent not connected'' @ newline
            @ ''  forwards.state not found'' @ newline @ newline
            @ ''  Run: herdr-plugin-msb attach <target>'' @ newline
            @ ''  Setup: doc/portfwd-operator-guide.md '' @ section_sign @ ''1'' @ newline @ newline
            @ ''  q  close pane'' @ newline
      | Some s \<Rightarrow>
          (let rows = fs_forwards s; age = time_sub now (fs_updated s) in
           ''Port forwards '' @ em_dash @ '' '' @ (case rows of [] \<Rightarrow> ''none'' | p # _ \<Rightarrow> pf_sandbox p) @ newline
             @ paneSep @ newline
             @ (if rows = [] then
                  ''  (no ports declared)'' @ newline @ newline
                    @ ''  agent connected '' @ clock_text (fs_updated s) @ newline @ newline
                    @ ''  j/k  select   r  add port (recreates)   q  close'' @ newline
                else
                  pane_rows cursor 0 rows
                    @ (if age > paneStaleThreshold then
                         ''  WARNING: state is '' @ show_nat (nat (age div 60000000000))
                           @ ''m old '' @ em_dash @ '' laptop agent may be down'' @ newline
                       else [])
                    @ newline
                    @ ''  '' @ paneFooter (case row_at rows cursor of Some p \<Rightarrow> pf_status p | None \<Rightarrow> []) @ newline)))"

section \<open>Keys\<close>

record PaneDispatchResult =
  pr_move :: int
  pr_close :: bool
  pr_enqueue :: u16
  pr_recreate :: bool

definition no_dispatch :: PaneDispatchResult where
  "no_dispatch = \<lparr>pr_move = 0, pr_close = False, pr_enqueue = 0, pr_recreate = False\<rparr>"

definition KeyEnter :: char where "KeyEnter = CHR 0x0D"

definition DispatchPaneKey :: "char \<Rightarrow> PortForward list \<Rightarrow> int \<Rightarrow> PaneDispatchResult" where
  "DispatchPaneKey key rows cursor =
     (if key = CHR ''j'' then no_dispatch\<lparr>pr_move := 1\<rparr>
      else if key = CHR ''k'' then no_dispatch\<lparr>pr_move := -1\<rparr>
      else if key = CHR ''q'' then no_dispatch\<lparr>pr_close := True\<rparr>
      else if key = CHR ''r'' then no_dispatch\<lparr>pr_recreate := True\<rparr>
      else if key = KeyEnter then
        (case row_at rows cursor of
           None \<Rightarrow> no_dispatch
         | Some row \<Rightarrow>
             if pf_status row \<in> {PFStatusPending, PFStatusError, PFStatusExpired} then no_dispatch
             else no_dispatch\<lparr>pr_enqueue := pf_port row\<rparr>)
      else no_dispatch)"

section \<open>The loop\<close>

definition clear_screen :: string where
  "clear_screen = [CHR 0x1B] @ ''[2J'' @ [CHR 0x1B] @ ''[H''"

definition recreateWarning :: string where
  "recreateWarning =
     ''! Adding a port requires recreating this sandbox.'' @ newline @ newline
       @ ''  ALL IN-GUEST STATE WILL BE DESTROYED.'' @ newline
       @ ''  Running processes, open files, and in-memory state will be lost.'' @ newline
       @ ''  Your current session ends. (~350ms downtime.)'' @ newline @ newline
       @ ''  Press Enter to confirm recreation, or q to cancel.'' @ newline"

text \<open>
  \<open>pn_confirm\<close>: the loop waits for the answer to the warning. \<open>pn_out\<close> is what was written. The
  inputs of an iteration are the readings of the clock and the results of the file operations.
\<close>

record pane =
  pn_cursor :: int
  pn_state :: "ForwardsState option"
  pn_confirm :: bool
  pn_out :: string

datatype pane_event = PaneCancelled | PaneSecond | PaneByte char

record pane_env =
  pe_texts :: texts
  pe_faults :: write_faults
  pe_sort :: "Request list \<Rightarrow> Request list"

definition load_pane :: "texts \<Rightarrow> state_dir \<Rightarrow> ForwardsState option" where
  "load_pane tx d = (case LoadForwardsState tx d of Inr s \<Rightarrow> s | Inl _ \<Rightarrow> None)"

definition render_pane :: "pane_env \<Rightarrow> gtime \<Rightarrow> pane \<Rightarrow> state_dir \<Rightarrow> pane" where
  "render_pane env now p d =
     (let s = load_pane (pe_texts env) d in
      p\<lparr>pn_state := s, pn_out := pn_out p @ clear_screen @ RenderPortsPane s (pn_cursor p) now\<rparr>)"

definition move_cursor :: "PortForward list \<Rightarrow> int \<Rightarrow> int \<Rightarrow> int" where
  "move_cursor rows cursor delta =
     (let c = max 0 (cursor + delta) in
      if rows \<noteq> [] \<and> c \<ge> int (length rows) then int (length rows) - 1 else c)"

definition pane_rows_of :: "pane \<Rightarrow> PortForward list" where
  "pane_rows_of p = (case pn_state p of None \<Rightarrow> [] | Some s \<Rightarrow> fs_forwards s)"

text \<open>One event: \<open>None\<close> when the loop returns (always with exit code 0), with what was written last.\<close>

definition pane_key :: "pane_env \<Rightarrow> gtime \<Rightarrow> char \<Rightarrow> pane \<Rightarrow> state_dir \<Rightarrow> (string + pane) \<times> state_dir" where
  "pane_key env now b p d =
     (let res = DispatchPaneKey b (pane_rows_of p) (pn_cursor p) in
      if pr_close res then (Inl (pn_out p), d)
      else if pr_move res \<noteq> 0 then
        (Inr (render_pane env now (p\<lparr>pn_cursor := move_cursor (pane_rows_of p) (pn_cursor p) (pr_move res)\<rparr>) d), d)
      else if pr_enqueue res > 0 then
        (case EnqueueForwardRequest (pe_faults env) (pe_sort env) (pr_enqueue res) now d of
           (_, d1) \<Rightarrow> (Inr (render_pane env now p d1), d1))
      else if pr_recreate res then
        (Inr (p\<lparr>pn_out := pn_out p @ clear_screen @ recreateWarning, pn_confirm := True\<rparr>), d)
      else (Inr p, d))"

definition pane_step :: "pane_env \<Rightarrow> gtime \<Rightarrow> pane_event \<Rightarrow> pane \<Rightarrow> state_dir \<Rightarrow> (string + pane) \<times> state_dir" where
  "pane_step env now ev p d =
     (case ev of
        PaneCancelled \<Rightarrow> (Inl (pn_out p), d)
      | PaneSecond \<Rightarrow> if pn_confirm p then (Inr p, d) else (Inr (render_pane env now p d), d)
      | PaneByte b \<Rightarrow>
          if pn_confirm p then
            (if b = CHR 0x0D \<or> b = CHR 0x0A
             then (Inl (pn_out p @ ''recreation not yet implemented (Slice C)'' @ newline), d)
             else (Inr (render_pane env now (p\<lparr>pn_confirm := False\<rparr>) d), d))
          else pane_key env now b p d)"

text \<open>The panel from its start, over events with the time of each: the exit code once it has
  returned, \<open>None\<close> while it runs, what was written, and the directory.\<close>

fun pane_run ::
  "pane_env \<Rightarrow> (gtime \<times> pane_event) list \<Rightarrow> pane \<Rightarrow> state_dir \<Rightarrow> int option \<times> string \<times> state_dir" where
  "pane_run env [] p d = (None, pn_out p, d)"
| "pane_run env ((now, ev) # evs) p d =
     (case pane_step env now ev p d of
        (Inl out, d1) \<Rightarrow> (Some 0, out, d1)
      | (Inr p1, d1) \<Rightarrow> pane_run env evs p1 d1)"

definition runPortsPane ::
  "env \<Rightarrow> pane_env \<Rightarrow> bool \<Rightarrow> gtime \<Rightarrow> (gtime \<times> pane_event) list \<Rightarrow> state_dir \<Rightarrow> int option \<times> string \<times> state_dir" where
  "runPortsPane getenv env terminal now evs d =
     (if StateDir getenv = None then (Some 1, [], d)
      else (let p = render_pane env now \<lparr>pn_cursor = 0, pn_state = None, pn_confirm = False, pn_out = []\<rparr> d in
            if \<not> terminal then (Some 0, pn_out p, d) else pane_run env evs p d))"

end
