(* ===== verification/ClientAgent.thy ===== *)
theory ClientAgent
  imports ClientQueue Forwarder
begin

text \<open>
  \<open>internal/clientagent\<close> (\<open>agent.go\<close>, \<open>ssh.go\<close>, \<open>state.go\<close> and the remote commands of
  \<open>queue.go\<close>): the agent on a client machine that polls a host's request queue over ssh, applies
  the forwards and acknowledges them. One \<open>Tick\<close> is one poll; the agent's maps are lists of
  keys or association lists, and what it reports is a list of events appended to the state.
\<close>

section \<open>Command lines\<close>

definition quote_char :: char where "quote_char = CHR 0x27"

definition remoteStateScan :: string where
  \<open>remoteStateScan = ''p=""; for d in "${XDG_STATE_HOME:-$HOME/.local/state}/herdr-plugin-msb" "${HERDR_PLUGIN_STATE_DIR:-}" "${XDG_STATE_HOME:-$HOME/.local/state}/herdr/plugins/herdr-plugin-msb"; do if [ -n "$d" ] && [ -f "$d/requests.json" ]; then p="$d"; break; fi; done; ''\<close>

definition RemoteReadCommand :: string where
  \<open>RemoteReadCommand = remoteStateScan @ ''if [ -n "$p" ]; then cat "$p/requests.json"; fi''\<close>

definition RemoteAckReadCommand :: string where
  \<open>RemoteAckReadCommand = remoteStateScan @ ''if [ -n "$p" ]; then cat "$p/requests.acked" 2>/dev/null; fi''\<close>

definition RemoteMarkCommand :: "u64 \<Rightarrow> string" where
  \<open>RemoteMarkCommand i =
     (let n = show_nat (unat i) in
      remoteStateScan
      @ ''if [ -n "$p" ]; then o=$(cat "$p/requests.acked" 2>/dev/null); case "$o" in ''
      @ [quote_char, quote_char] @ ''|*[!0-9]*) o=0;; esac; if [ "$o" -ge '' @ n
      @ '' ] 2>/dev/null; then :; else t="$p/requests.acked.$$"; printf '' @ [quote_char] @ ''%s''
      @ [CHR 0x5C] @ ''n'' @ [quote_char] @ '' '' @ n
      @ '' > "$t" && mv "$t" "$p/requests.acked"; fi; fi'')\<close>

definition ExecArgv :: "string \<Rightarrow> string \<Rightarrow> string \<Rightarrow> string list" where
  "ExecArgv target ctl command = [''ssh'', ''-S'', ctl, ''-o'', ''BatchMode=yes'', target, command]"

definition ForwardArgv :: "string \<Rightarrow> string \<Rightarrow> string \<Rightarrow> string list" where
  "ForwardArgv target ctl spec = [''ssh'', ''-S'', ctl, ''-O'', ''forward'', ''-L'', spec, target]"

definition CancelArgv :: "string \<Rightarrow> string \<Rightarrow> string \<Rightarrow> string list" where
  "CancelArgv target ctl spec = [''ssh'', ''-S'', ctl, ''-O'', ''cancel'', ''-L'', spec, target]"

definition ForwardSpec :: "Request \<Rightarrow> string" where
  "ForwardSpec r = ''127.0.0.1:'' @ show_nat (unat (req_lport r)) @ '':127.0.0.1:''
     @ show_nat (unat (req_rport r))"

definition MaxControlPathLen :: nat where "MaxControlPathLen = 103"

definition CheckControlPath :: "string \<Rightarrow> nat option" where
  "CheckControlPath p = (if length p > MaxControlPathLen then Some (length p) else None)"

section \<open>The agent\<close>

datatype agent_error =
    ControlPathLong nat
  | AgRun string
  | MasterFailed int "string list" string
  | RemoteRead string
  | RemoteReadExit int string
  | QueueBad queue_error
  | ForwardRun u64 string string string
  | ForwardCode u64 string int string

datatype report =
    ForeignHost u64 string string
  | Expired u64 u64 u64 int
  | TickError agent_error
  | AckFailed u64 int string "string option"

record 'w agent_env =
  ag_target :: string
  ag_control :: string
  ag_hostname :: string
  ag_ttl :: int
  ag_run :: "'w runner"
  ag_stat :: "string \<Rightarrow> 'w \<Rightarrow> bool"
  ag_remove :: "string \<Rightarrow> 'w \<Rightarrow> 'w"
  ag_scan :: "string \<Rightarrow> jtext"

record agent =
  ag_applied :: "u64 list"
  ag_specs :: "(u64 \<times> string) list"
  ag_reported :: "u64 list"
  ag_last :: u64
  ag_seeded :: bool
  ag_log :: "report list"

definition fresh_agent :: agent where
  "fresh_agent = \<lparr>ag_applied = [], ag_specs = [], ag_reported = [], ag_last = 0,
     ag_seeded = False, ag_log = []\<rparr>"

definition ServedHost :: "'w agent_env \<Rightarrow> string" where
  "ServedHost env =
     (if ag_hostname env \<noteq> [] then ag_hostname env
      else (case last_index (CHR ''@'') (ag_target env) of
              Some i \<Rightarrow> drop (i + 1) (ag_target env)
            | None \<Rightarrow> ag_target env))"

definition IsOurs :: "'w agent_env \<Rightarrow> Request \<Rightarrow> bool" where
  "IsOurs env r \<longleftrightarrow> req_host r = [] \<or> req_host r = ServedHost env"

definition report :: "report \<Rightarrow> agent \<Rightarrow> agent" where
  "report e a = a\<lparr>ag_log := ag_log a @ [e]\<rparr>"

definition reportOnce :: "u64 \<Rightarrow> report \<Rightarrow> agent \<Rightarrow> agent" where
  "reportOnce i e a =
     (if i \<in> set (ag_reported a) then a
      else report e (a\<lparr>ag_reported := ag_reported a @ [i]\<rparr>))"

definition agent_EnsureMaster :: "'w agent_env \<Rightarrow> ('w, agent_error option) act" where
  "agent_EnsureMaster env w =
     (case CheckControlPath (ag_control env) of
        Some n \<Rightarrow> (Some (ControlPathLong n), w)
      | None \<Rightarrow>
          (case ag_run env [''ssh'', ''-S'', ag_control env, ''-O'', ''check'', ag_target env] w of
             (r, w1) \<Rightarrow>
               (case ro_err r of
                  Some e \<Rightarrow> (Some (AgRun e), w1)
                | None \<Rightarrow>
                    if ro_code r = 0 then (None, w1)
                    else (let w2 = (if ag_stat env (ag_control env) w1 then ag_remove env (ag_control env) w1 else w1);
                              argv = MasterArgv (ag_target env) (ag_control env)
                          in case ag_run env argv w2 of
                               (r2, w3) \<Rightarrow>
                                 (case ro_err r2 of
                                    Some e \<Rightarrow> (Some (AgRun e), w3)
                                  | None \<Rightarrow>
                                      if ro_code r2 \<noteq> 0
                                      then (Some (MasterFailed (ro_code r2) argv (trim_space (ro_stderr r2))), w3)
                                      else (None, w3))))))"

section \<open>Tick\<close>

definition default_ttl :: int where "default_ttl = 600000000000"

text \<open>The loop over the requests sorted by id: its variables are the cursor and the list of ids
  applied now; it ends by running out of requests or by one of the three breaks.\<close>

fun tick_loop ::
  "'w agent_env \<Rightarrow> u64 \<Rightarrow> int \<Rightarrow> Request list \<Rightarrow> agent \<Rightarrow> u64 \<Rightarrow> u64 list
     \<Rightarrow> ('w, agent \<times> u64 \<times> u64 list \<times> agent_error option) act" where
  "tick_loop env cutoff ttl [] a cursor now w = ((a, cursor, now, None), w)"
| "tick_loop env cutoff ttl (r # rs) a cursor now w =
     (if req_id r \<le> ag_last a then tick_loop env cutoff ttl rs a cursor now w
      else if req_id r \<in> set (ag_applied a) then tick_loop env cutoff ttl rs a (req_id r) now w
      else if \<not> IsOurs env r then
        ((reportOnce (req_id r) (ForeignHost (req_id r) (req_host r) (ServedHost env)) a, cursor, now, None), w)
      else if req_created r < cutoff then
        ((reportOnce (req_id r) (Expired (req_id r) (req_created r) cutoff ttl) a, cursor, now, None), w)
      else (let spec = ForwardSpec r in
            case ag_run env (ForwardArgv (ag_target env) (ag_control env) spec) w of
              (out, w1) \<Rightarrow>
                if ro_err out \<noteq> None \<or> ro_code out \<noteq> 0 then
                  (let detail = trim_space (ro_stderr out);
                       e = (case ro_err out of
                              Some x \<Rightarrow> ForwardRun (req_id r) spec x detail
                            | None \<Rightarrow> ForwardCode (req_id r) spec (ro_code out) detail)
                   in ((report (TickError e) a, cursor, now, Some e), w1))
                else tick_loop env cutoff ttl rs
                       (a\<lparr>ag_applied := ag_applied a @ [req_id r],
                          ag_specs := AList.update (req_id r) spec (ag_specs a)\<rparr>)
                       (req_id r) (now @ [req_id r]) w1))"

definition seed :: "'w agent_env \<Rightarrow> agent \<Rightarrow> ('w, agent) act" where
  "seed env a w =
     (if ag_seeded a then (a, w)
      else (case ag_run env (ExecArgv (ag_target env) (ag_control env) RemoteAckReadCommand) w of
              (out, w1) \<Rightarrow>
                ((case parse_uint 10 64 (trim_space (ro_stdout out)) of
                    Some n \<Rightarrow> a\<lparr>ag_last := word_of_nat n, ag_seeded := True\<rparr>
                  | None \<Rightarrow> a\<lparr>ag_seeded := True\<rparr>), w1)))"

definition acknowledge :: "'w agent_env \<Rightarrow> u64 \<Rightarrow> agent \<Rightarrow> ('w, agent) act" where
  "acknowledge env cursor a w =
     (if cursor > ag_last a then
        (case ag_run env (ExecArgv (ag_target env) (ag_control env) (RemoteMarkCommand cursor)) w of
           (out, w1) \<Rightarrow>
             (let a1 = (if ro_err out \<noteq> None \<or> ro_code out \<noteq> 0
                        then report (AckFailed cursor (ro_code out) (trim_space (ro_stderr out)) (ro_err out)) a
                        else a)
              in (a1\<lparr>ag_last := cursor\<rparr>, w1)))
      else (a, w))"

text \<open>The result of a tick that failed before the loop is the error alone.\<close>

definition Tick ::
  "'w agent_env \<Rightarrow> (Request list \<Rightarrow> Request list) \<Rightarrow> int \<Rightarrow> agent
     \<Rightarrow> ('w, agent \<times> (agent_error + u64 list \<times> u64 \<times> agent_error option)) act" where
  "Tick env srt now a w =
     (case ag_run env (ExecArgv (ag_target env) (ag_control env) RemoteReadCommand) w of
        (out, w1) \<Rightarrow>
          (case ro_err out of
             Some e \<Rightarrow> ((a, Inl (RemoteRead e)), w1)
           | None \<Rightarrow>
               if ro_code out \<noteq> 0
               then ((a, Inl (RemoteReadExit (ro_code out) (trim_space (ro_stderr out)))), w1)
               else (case ParseQueueJSON (ag_scan env) (ro_stdout out) of
                       Inl e \<Rightarrow> ((a, Inl (QueueBad e)), w1)
                     | Inr q \<Rightarrow>
                         (case seed env a w1 of
                            (a1, w2) \<Rightarrow>
                              (let ttl = (if ag_ttl env = 0 then default_ttl else ag_ttl env) in
                               case tick_loop env (cutoff_ms now ttl) ttl (srt (q_pending q)) a1 (ag_last a1) [] w2 of
                                 ((a2, cursor, applied, e), w3) \<Rightarrow>
                                   (case acknowledge env cursor a2 w3 of
                                      (a3, w4) \<Rightarrow> ((a3, Inr (applied, cursor, e)), w4)))))))"

section \<open>CancelApplied\<close>

text \<open>The order in which \<open>range a.applied\<close> delivers the ids is the argument list.\<close>

fun cancel_ids ::
  "'w agent_env \<Rightarrow> u64 list \<Rightarrow> agent \<Rightarrow> agent_error option \<Rightarrow> ('w, agent \<times> agent_error option) act" where
  "cancel_ids env [] a firstErr w = ((a, firstErr), w)"
| "cancel_ids env (i # is) a firstErr w =
     (case map_of (ag_specs a) i of
        None \<Rightarrow> cancel_ids env is a firstErr w
      | Some spec \<Rightarrow>
          (case ag_run env (CancelArgv (ag_target env) (ag_control env) spec) w of
             (out, w1) \<Rightarrow>
               if ro_err out \<noteq> None \<or> ro_code out \<noteq> 0 then
                 cancel_ids env is a
                   (if firstErr = None then Some (ForwardCode i spec (ro_code out) []) else firstErr) w1
               else cancel_ids env is (a\<lparr>ag_applied := removeAll i (ag_applied a)\<rparr>) firstErr w1))"

definition CancelApplied ::
  "'w agent_env \<Rightarrow> (u64 list \<Rightarrow> u64 list) \<Rightarrow> agent \<Rightarrow> ('w, agent \<times> agent_error option) act" where
  "CancelApplied env ord a w = cancel_ids env (ord (ag_applied a)) a None w"

section \<open>The back-off of Serve\<close>

text \<open>
  The loop of \<open>Serve\<close> between two ticks: the delay, the number of consecutive errors, and the
  last reported message. A cancelled context counts as an error that is not reported.
\<close>

record serve_state =
  sv_backoff :: int
  sv_consec :: nat
  sv_reported :: string

datatype tick_outcome = TickOk | TickFailed string bool

definition max_backoff :: int where "max_backoff = 60000000000"

definition serve_step :: "int \<Rightarrow> tick_outcome \<Rightarrow> serve_state \<Rightarrow> serve_state \<times> string option" where
  "serve_step poll t s =
     (case t of
        TickOk \<Rightarrow> (s\<lparr>sv_consec := 0, sv_backoff := poll, sv_reported := []\<rparr>, None)
      | TickFailed msg cancelled \<Rightarrow>
          (let say = (\<not> cancelled \<and> msg \<noteq> sv_reported s);
               s1 = (if say then s\<lparr>sv_reported := msg\<rparr> else s);
               s2 = s1\<lparr>sv_consec := sv_consec s1 + 1\<rparr>;
               b = (if sv_consec s2 > 1 then min (sv_backoff s2 * 2) max_backoff else sv_backoff s2)
           in (s2\<lparr>sv_backoff := b\<rparr>, if say then Some msg else None)))"

fun serve_run :: "int \<Rightarrow> tick_outcome list \<Rightarrow> serve_state \<Rightarrow> serve_state" where
  "serve_run poll [] s = s"
| "serve_run poll (t # ts) s = serve_run poll ts (fst (serve_step poll t s))"

definition serve_start :: "int \<Rightarrow> serve_state" where
  "serve_start poll = \<lparr>sv_backoff = poll, sv_consec = 0, sv_reported = []\<rparr>"

section \<open>What the loop does\<close>

definition fwd_ok :: "'w agent_env \<Rightarrow> Request \<Rightarrow> bool" where
  "fwd_ok env r \<longleftrightarrow> (\<exists>v v' out. ag_run env (ForwardArgv (ag_target env) (ag_control env) (ForwardSpec r)) v = (out, v')
     \<and> ro_err out = None \<and> ro_code out = 0)"

lemma reportOnce_keeps [simp]:
  "ag_last (reportOnce i e a) = ag_last a" "ag_applied (reportOnce i e a) = ag_applied a"
  "ag_specs (reportOnce i e a) = ag_specs a" "ag_last (report e a) = ag_last a"
  "ag_applied (report e a) = ag_applied a" "ag_specs (report e a) = ag_specs a"
  by (simp_all add: reportOnce_def report_def)

text \<open>The loop reaches its result by skipping, by applying one request, or by stopping.\<close>

lemma tick_loop_Cons:
  assumes "tick_loop env cutoff ttl (r # rs) a cursor now w = res"
  obtains (old) "req_id r \<le> ag_last a" "tick_loop env cutoff ttl rs a cursor now w = res"
  | (again) "ag_last a < req_id r" "req_id r \<in> set (ag_applied a)"
      "tick_loop env cutoff ttl rs a (req_id r) now w = res"
  | (stop) a' e w' where "res = ((a', cursor, now, e), w')" "ag_last a < req_id r"
      "ag_last a' = ag_last a" "ag_applied a' = ag_applied a" "ag_specs a' = ag_specs a"
      "req_id r \<notin> set (ag_applied a)"
  | (forward) w1 where "ag_last a < req_id r" "req_id r \<notin> set (ag_applied a)" "IsOurs env r"
      "cutoff \<le> req_created r" "fwd_ok env r"
      "tick_loop env cutoff ttl rs
         (a\<lparr>ag_applied := ag_applied a @ [req_id r],
            ag_specs := AList.update (req_id r) (ForwardSpec r) (ag_specs a)\<rparr>)
         (req_id r) (now @ [req_id r]) w1 = res"
proof (cases "req_id r \<le> ag_last a")
  case True
  with assms show thesis by (intro old) simp_all
next
  case l: False
  show thesis
  proof (cases "req_id r \<in> set (ag_applied a)")
    case True
    with assms l show thesis by (intro again) auto
  next
    case n: False
    show thesis
    proof (cases "IsOurs env r \<and> cutoff \<le> req_created r")
      case False
      with assms l n show thesis
        by (auto split: if_splits intro: stop [OF sym])
    next
      case True
      obtain out w1 where o: "ag_run env (ForwardArgv (ag_target env) (ag_control env) (ForwardSpec r)) w = (out, w1)"
        by fastforce
      show thesis
      proof (cases "ro_err out = None \<and> ro_code out = 0")
        case ok: True
        then have "fwd_ok env r" using o by (auto simp: fwd_ok_def)
        with assms l n True o ok show thesis by (intro forward [of w1]) (auto simp: not_less)
      next
        case False
        have nl: "\<not> req_created r < cutoff" using True by (simp add: not_less)
        obtain e where "res = ((report (TickError e) a, cursor, now, Some e), w1)"
          using assms l n True False o nl by (auto simp: Let_def)
        then show thesis using l n by (intro stop [of "report (TickError e) a" "Some e" w1]) auto
      qed
    qed
  qed
qed

lemma tick_loop_result:
  assumes "tick_loop env cutoff ttl rs a cursor now w = ((a', cursor', now', e), w')"
    and "sorted (map req_id rs)" "ag_last a \<le> cursor" "cursor = ag_last a \<or> cursor \<in> set (ag_applied a)"
    and "\<forall>r \<in> set rs. ag_last a < req_id r \<longrightarrow> cursor \<le> req_id r"
  shows "ag_last a' = ag_last a \<and> cursor \<le> cursor'
    \<and> (cursor' = ag_last a \<or> cursor' \<in> set (ag_applied a'))
    \<and> (\<forall>r \<in> set rs. ag_last a < req_id r \<and> req_id r \<le> cursor' \<longrightarrow> req_id r \<in> set (ag_applied a'))
    \<and> (\<exists>new. now' = now @ new \<and> ag_applied a' = ag_applied a @ new
         \<and> (\<forall>i \<in> set new. \<exists>r \<in> set rs. i = req_id r \<and> ag_last a < i \<and> IsOurs env r
               \<and> cutoff \<le> req_created r \<and> fwd_ok env r))"
  using assms
proof (induction rs arbitrary: a cursor now w)
  case Nil
  then show ?case by auto
next
  case (Cons r rs)
  have le: "\<forall>x \<in> set rs. req_id r \<le> req_id x" using Cons.prems(2) by simp
  from Cons.prems(1) show ?case
  proof (cases rule: tick_loop_Cons)
    case old
    from Cons.IH [OF old(2)] Cons.prems old(1) show ?thesis by fastforce
  next
    case again
    have "ag_last a' = ag_last a \<and> req_id r \<le> cursor'
      \<and> (cursor' = ag_last a \<or> cursor' \<in> set (ag_applied a'))
      \<and> (\<forall>x \<in> set rs. ag_last a < req_id x \<and> req_id x \<le> cursor' \<longrightarrow> req_id x \<in> set (ag_applied a'))
      \<and> (\<exists>new. now' = now @ new \<and> ag_applied a' = ag_applied a @ new
         \<and> (\<forall>i \<in> set new. \<exists>x \<in> set rs. i = req_id x \<and> ag_last a < i \<and> IsOurs env x
               \<and> cutoff \<le> req_created x \<and> fwd_ok env x))"
      using Cons.prems(2) again le by (intro Cons.IH [OF again(3)]) auto
    moreover have "cursor \<le> req_id r" using Cons.prems(5) again(1) by simp
    ultimately show ?thesis using again(2) by fastforce
  next
    case (stop a1 e1 w1)
    then have eq: "a' = a1" "cursor' = cursor" "now' = now" by simp_all
    have "\<not> (ag_last a < req_id x \<and> req_id x \<le> cursor \<and> req_id x \<notin> set (ag_applied a))"
      if "x \<in> set (r # rs)" for x
    proof
      assume x: "ag_last a < req_id x \<and> req_id x \<le> cursor \<and> req_id x \<notin> set (ag_applied a)"
      then have "cursor \<le> req_id x" using Cons.prems(5) that by blast
      with x have "req_id x = cursor" by simp
      with x Cons.prems(4) show False by auto
    qed
    with stop eq Cons.prems(3,4) show ?thesis by auto
  next
    case (forward w1)
    let ?a = "a\<lparr>ag_applied := ag_applied a @ [req_id r],
            ag_specs := AList.update (req_id r) (ForwardSpec r) (ag_specs a)\<rparr>"
    have "ag_last a' = ag_last ?a \<and> req_id r \<le> cursor'
      \<and> (cursor' = ag_last ?a \<or> cursor' \<in> set (ag_applied a'))
      \<and> (\<forall>x \<in> set rs. ag_last ?a < req_id x \<and> req_id x \<le> cursor' \<longrightarrow> req_id x \<in> set (ag_applied a'))
      \<and> (\<exists>new. now' = (now @ [req_id r]) @ new \<and> ag_applied a' = ag_applied ?a @ new
         \<and> (\<forall>i \<in> set new. \<exists>x \<in> set rs. i = req_id x \<and> ag_last ?a < i \<and> IsOurs env x
               \<and> cutoff \<le> req_created x \<and> fwd_ok env x))"
      using Cons.prems(2) forward(1) le by (intro Cons.IH [OF forward(6)]) auto
    moreover have "cursor \<le> req_id r" using Cons.prems(5) forward(1) by simp
    ultimately obtain new where n: "now' = now @ req_id r # new" "ag_applied a' = ag_applied a @ req_id r # new"
      "\<forall>i \<in> set new. \<exists>x \<in> set rs. i = req_id x \<and> ag_last a < i \<and> IsOurs env x
               \<and> cutoff \<le> req_created x \<and> fwd_ok env x"
      and rest: "ag_last a' = ag_last a" "cursor \<le> cursor'" "cursor' = ag_last a \<or> cursor' \<in> set (ag_applied a')"
      "\<forall>x \<in> set rs. ag_last a < req_id x \<and> req_id x \<le> cursor' \<longrightarrow> req_id x \<in> set (ag_applied a')"
      by auto
    have "\<exists>new. now' = now @ new \<and> ag_applied a' = ag_applied a @ new
         \<and> (\<forall>i \<in> set new. \<exists>x \<in> set (r # rs). i = req_id x \<and> ag_last a < i \<and> IsOurs env x
               \<and> cutoff \<le> req_created x \<and> fwd_ok env x)"
      using n forward by (intro exI [of _ "req_id r # new"]) auto
    with rest n(2) show ?thesis by auto
  qed
qed

lemma seed_keeps: "seed env a w = (a1, w1) \<Longrightarrow> ag_applied a1 = ag_applied a \<and> ag_specs a1 = ag_specs a"
  by (auto simp: seed_def split: if_splits prod.splits option.splits)

lemma acknowledge_keeps:
  "acknowledge env c a w = (a1, w1) \<Longrightarrow> ag_applied a1 = ag_applied a \<and> ag_specs a1 = ag_specs a
     \<and> (ag_last a \<le> c \<longrightarrow> ag_last a1 = c)"
  by (auto simp: acknowledge_def Let_def split: if_splits prod.splits)

text \<open>
  C7: the agent acknowledges only what it has forwarded. Let a tick read the queue \<open>q\<close>, and let
  \<open>acked\<close> be the acknowledged id after seeding. Then the cursor it settles on is at least
  \<open>acked\<close> and becomes the acknowledged id; every pending request above \<open>acked\<close> up to the cursor
  is among the applied ones; and each id applied now belongs to a pending request above \<open>acked\<close>
  that is addressed to this host, has not expired, and whose ssh forward succeeded.
\<close>

theorem tick_acks_only_applied:
  assumes "id_sort srt"
    and "ag_run env (ExecArgv (ag_target env) (ag_control env) RemoteReadCommand) w = (out, w1)"
    and "ParseQueueJSON (ag_scan env) (ro_stdout out) = Inr q"
    and "acked = ag_last (fst (seed env a w1))"
    and "Tick env srt now a w = ((a', Inr (applied, cursor, e)), w')"
  shows "acked \<le> cursor \<and> ag_last a' = cursor \<and> ag_applied a' = ag_applied a @ applied
    \<and> (\<forall>r \<in> set (q_pending q). acked < req_id r \<and> req_id r \<le> cursor \<longrightarrow> req_id r \<in> set (ag_applied a'))
    \<and> (\<forall>i \<in> set applied. \<exists>r \<in> set (q_pending q). req_id r = i \<and> acked < i \<and> IsOurs env r
         \<and> cutoff_ms now (if ag_ttl env = 0 then default_ttl else ag_ttl env) \<le> req_created r
         \<and> fwd_ok env r)"
proof -
  let ?ttl = "if ag_ttl env = 0 then default_ttl else ag_ttl env"
  obtain a1 w2 where s: "seed env a w1 = (a1, w2)" by fastforce
  then have ak: "acked = ag_last a1" using assms(4) by simp
  obtain a2 w3 w4 a3 where
    l: "tick_loop env (cutoff_ms now ?ttl) ?ttl (srt (q_pending q)) a1 (ag_last a1) [] w2
        = ((a2, cursor, applied, e), w3)"
    and k: "acknowledge env cursor a2 w3 = (a', w')"
    using assms(2,3,5) s by (auto simp: Tick_def Let_def split: option.splits if_splits prod.splits)
  note srt = id_sort_facts [OF assms(1)]
  from tick_loop_result [OF l srt(2)] srt(1) seed_keeps [OF s] acknowledge_keeps [OF k]
  show ?thesis unfolding ak by fastforce
qed

text \<open>A host on which every command succeeds and whose queue is \<open>q\<close>; it counts the commands.\<close>

definition demo_env :: "Queue \<Rightarrow> nat agent_env" where
  "demo_env q = \<lparr>ag_target = ''me@h'', ag_control = ''/c'', ag_hostname = [], ag_ttl = 0,
     ag_run = (\<lambda>argv n. (\<lparr>ro_stdout = ''q'', ro_stderr = [], ro_code = 0, ro_err = None\<rparr>, Suc n)),
     ag_stat = (\<lambda>_ _. False), ag_remove = (\<lambda>_ w. w), ag_scan = (\<lambda>_. JDoc (enc_queue q))\<rparr>"

definition demo_queue :: "u64 \<Rightarrow> Queue" where
  "demo_queue i = new_queue\<lparr>q_pending := [empty_request\<lparr>req_id := i, req_host := ''h'', req_lport := 80\<rparr>]\<rparr>"

lemma demo_parse: "ParseQueueJSON (ag_scan (demo_env q)) ''q'' = Inr q"
  using dec_enc_queue [of q] by (simp add: ParseQueueJSON_def demo_env_def trim_space_def trim_by_def
      trim_right_by_def is_space_def)

lemma demo_tick:
  "\<exists>a n. Tick (demo_env (demo_queue 3)) (sort_key req_id) 600000000000 (fresh_agent\<lparr>ag_seeded := True\<rparr>) 0
     = ((a, Inr ([3], 3, None)), n)"
proof -
  have run: "ag_run (demo_env q) argv n = (\<lparr>ro_stdout = ''q'', ro_stderr = [], ro_code = 0, ro_err = None\<rparr>, Suc n)"
    for q argv n by (simp add: demo_env_def)
  have ours: "IsOurs (demo_env q) r" if "req_host r = ''h''" for q r
    using that by (simp add: IsOurs_def ServedHost_def demo_env_def)
  have ttl: "ag_ttl (demo_env q) = 0" for q by (simp add: demo_env_def)
  show ?thesis
    by (simp add: Tick_def run demo_parse seed_def fresh_agent_def demo_queue_def new_queue_def ours
        acknowledge_def ttl cutoff_ms_def default_ttl_def Let_def empty_request_def)
qed

theorem tick_acks_only_applied_witness:
  "\<exists>a n. Tick (demo_env (demo_queue 3)) (sort_key req_id) 600000000000 (fresh_agent\<lparr>ag_seeded := True\<rparr>) 0
     = ((a, Inr ([3], 3, None)), n) \<and> ag_last a = 3 \<and> 3 \<in> set (ag_applied a)"
proof -
  obtain a n where t: "Tick (demo_env (demo_queue 3)) (sort_key req_id) 600000000000
      (fresh_agent\<lparr>ag_seeded := True\<rparr>) 0 = ((a, Inr ([3], 3, None)), n)"
    using demo_tick by blast
  have r: "ag_run (demo_env (demo_queue 3)) argv 0
      = (\<lparr>ro_stdout = ''q'', ro_stderr = [], ro_code = 0, ro_err = None\<rparr>, 1)" for argv
    by (simp add: demo_env_def)
  have p: "ParseQueueJSON (ag_scan (demo_env (demo_queue 3)))
      (ro_stdout \<lparr>ro_stdout = ''q'', ro_stderr = [], ro_code = 0, ro_err = None\<rparr>) = Inr (demo_queue 3)"
    by (simp add: demo_parse)
  from tick_acks_only_applied [OF id_sort_exists r p refl t] t show ?thesis by auto
qed

section \<open>Requests behind the cursor\<close>

lemma tick_loop_old:
  "\<forall>r \<in> set rs. req_id r \<le> ag_last a \<Longrightarrow> tick_loop env cutoff ttl rs a cursor now w = ((a, cursor, now, None), w)"
  by (induction rs) auto

text \<open>
  a request id that is used twice is lost on the agent. Suppose an agent has acknowledged
  ids up to \<open>ag_last a\<close>, but the host only knows acknowledgements up to a smaller id (the write
  of the mark failed), and all its pending requests have expired. After the host prunes, the
  next request gets an id the agent has already passed: a tick on that queue applies nothing,
  reports nothing, and runs no command but the read.
\<close>

theorem reused_id_is_ignored:
  assumes "id_sort srt" "ag_seeded a"
    and "\<forall>r \<in> set (q_pending q). req_created r < cutoff_ms now ttl"
    and "max (q_last q) acked < ag_last a" "req_id r = 0"
    and "q' = snd (Enqueue srt r (Prune acked now ttl q))"
    and "ag_run env (ExecArgv (ag_target env) (ag_control env) RemoteReadCommand) w = (out, w1)"
    and "ro_err out = None" "ro_code out = 0" "ParseQueueJSON (ag_scan env) (ro_stdout out) = Inr q'"
  shows "Tick env srt now' a w = ((a, Inr ([], ag_last a, None)), w1)"
proof -
  have p: "q_pending (Prune acked now ttl q) = []" "q_last (Prune acked now ttl q) = max (q_last q) acked"
    using assms(3) by (auto simp: Prune_def Let_def filter_empty_conv max_def)
  then have n: "NextID (Prune acked now ttl q) = max (q_last q) acked + 1"
    by (simp add: NextID_def max_id_def)
  have lt: "max (q_last q) acked + 1 \<le> ag_last a"
    using assms(4) by (rule inc_le)
  have "set (q_pending q') = {r\<lparr>req_id := max (q_last q) acked + 1\<rparr>}"
    using assms(5,6) p(1) n id_sort_facts(1) [OF assms(1)] by (simp add: Enqueue_def Let_def)
  then have "\<forall>x \<in> set (srt (q_pending q')). req_id x \<le> ag_last a"
    using lt id_sort_facts(1) [OF assms(1)] by simp
  from tick_loop_old [OF this, where env = env] assms(2,7-10) show ?thesis
    by (simp add: Tick_def Let_def seed_def acknowledge_def)
qed

theorem reused_id_is_ignored_witness:
  "\<exists>a. ag_last a = 5 \<and> Tick (demo_env (snd (Enqueue (sort_key req_id) empty_request
        (Prune 0 700000000000000 600000000000 (demo_queue 5))))) (sort_key req_id) 700000000000000 a 0
     = ((a, Inr ([], 5, None)), 1)"
proof -
  let ?a = "fresh_agent\<lparr>ag_seeded := True, ag_last := 5\<rparr>"
  let ?q = "snd (Enqueue (sort_key req_id) empty_request
        (Prune 0 700000000000000 600000000000 (demo_queue 5)))"
  have r: "ag_run (demo_env ?q) argv 0
      = (\<lparr>ro_stdout = ''q'', ro_stderr = [], ro_code = 0, ro_err = None\<rparr>, 1)" for argv
    by (simp add: demo_env_def)
  have old: "\<forall>r \<in> set (q_pending (demo_queue 5)). req_created r < cutoff_ms 700000000000000 600000000000"
    by (simp add: demo_queue_def new_queue_def empty_request_def cutoff_ms_def)
  have "Tick (demo_env ?q) (sort_key req_id) 700000000000000 ?a 0 = ((?a, Inr ([], ag_last ?a, None)), 1)"
    by (rule reused_id_is_ignored [OF id_sort_exists _ old _ _ refl r])
      (simp_all add: demo_parse demo_queue_def new_queue_def empty_request_def)
  then show ?thesis by (intro exI [of _ ?a]) simp
qed

section \<open>The back-off\<close>

lemma serve_run_append: "serve_run poll (ts @ us) s = serve_run poll us (serve_run poll ts s)"
  by (induction ts arbitrary: s) simp_all

lemma serve_run_failures:
  assumes "0 < poll" "poll \<le> max_backoff" "\<forall>t \<in> set ts. t \<noteq> TickOk"
  shows "sv_consec (serve_run poll ts (serve_start poll)) = length ts
    \<and> sv_backoff (serve_run poll ts (serve_start poll)) = min (poll * 2 ^ (length ts - 1)) max_backoff"
  using assms(3)
proof (induction ts rule: rev_induct)
  case Nil
  then show ?case using assms(2) by (simp add: serve_start_def)
next
  case (snoc t ts)
  let ?s = "serve_run poll ts (serve_start poll)"
  from snoc.prems obtain msg c where t: "t = TickFailed msg c" by (cases t) auto
  have ih: "sv_consec ?s = length ts" "sv_backoff ?s = min (poll * 2 ^ (length ts - 1)) max_backoff"
    using snoc by auto
  have step: "sv_consec (fst (serve_step poll t ?s)) = Suc (length ts)"
    "sv_backoff (fst (serve_step poll t ?s))
      = (if length ts > 0 then min (sv_backoff ?s * 2) max_backoff else sv_backoff ?s)"
    by (simp_all add: serve_step_def t Let_def ih(1))
  show ?case
  proof (cases ts)
    case Nil
    then show ?thesis using step ih by (simp add: serve_run_append)
  next
    case (Cons x xs)
    have "min (min (poll * 2 ^ length xs) max_backoff * 2) max_backoff
        = min (poll * 2 ^ Suc (length xs)) max_backoff"
      by (simp add: min_def max_backoff_def)
    then show ?thesis using step ih Cons by (simp add: serve_run_append mult.commute)
  qed
qed

text \<open>
  the delay between ticks. With a poll interval of at most 60 seconds, after a successful
  tick (or at the start) followed by \<open>n\<close> failing ones the delay is the poll interval doubled
  \<open>n - 1\<close> times, capped at 60 seconds; so it always lies between the interval and the cap.
\<close>

theorem backoff_after_failures:
  assumes "0 < poll" "poll \<le> max_backoff" "\<forall>t \<in> set fails. t \<noteq> TickOk"
  shows "sv_backoff (serve_run poll (before @ TickOk # fails) s)
      = min (poll * 2 ^ (length fails - 1)) max_backoff
    \<and> poll \<le> sv_backoff (serve_run poll (before @ TickOk # fails) s)
    \<and> sv_backoff (serve_run poll (before @ TickOk # fails) s) \<le> max_backoff"
proof -
  have "fst (serve_step poll TickOk v) = serve_start poll" for v
    by (simp add: serve_step_def serve_start_def)
  then have "serve_run poll (before @ TickOk # fails) s = serve_run poll fails (serve_start poll)"
    by (simp add: serve_run_append)
  moreover have "poll \<le> poll * 2 ^ k" for k using assms(1) by (simp add: one_le_power)
  ultimately show ?thesis using serve_run_failures [OF assms] assms(2) by (simp add: min_def)
qed

theorem backoff_after_failures_witness:
  "sv_backoff (serve_run 5000000000 ([] @ TickOk # replicate 5 (TickFailed ''x'' False)) (serve_start 5000000000))
     = 60000000000"
  using backoff_after_failures [of 5000000000 "replicate 5 (TickFailed ''x'' False)" "[]" "serve_start 5000000000"]
  by (simp add: max_backoff_def)

end
