(* ===== verification/AgentServe.thy ===== *)
theory AgentServe
  imports ClientAgent
begin

text \<open>
  \<open>Agent.Serve\<close> as a whole (\<open>internal/clientagent/agent.go\<close>): the master, the loop of ticks with
  their back-off until the context is cancelled, and the cancelling of what was applied. The
  argument \<open>nows\<close> holds the time of each tick; the context is cancelled after the last one.
\<close>

definition tick_error :: "agent_error + u64 list \<times> u64 \<times> agent_error option \<Rightarrow> agent_error option" where
  "tick_error r = (case r of Inl e \<Rightarrow> Some e | Inr (_, _, e) \<Rightarrow> e)"

text \<open>\<open>msg\<close> is the text of an error, \<open>cancelled\<close> whether it wraps \<open>context.Canceled\<close>.\<close>

definition tick_outcome_of ::
  "(agent_error \<Rightarrow> string) \<Rightarrow> (agent_error \<Rightarrow> bool) \<Rightarrow> agent_error option \<Rightarrow> tick_outcome" where
  "tick_outcome_of msg cancelled e = (case e of None \<Rightarrow> TickOk | Some x \<Rightarrow> TickFailed (msg x) (cancelled x))"

fun serve_loop ::
  "'w agent_env \<Rightarrow> (Request list \<Rightarrow> Request list) \<Rightarrow> (agent_error \<Rightarrow> string) \<Rightarrow> (agent_error \<Rightarrow> bool) \<Rightarrow> int
     \<Rightarrow> int list \<Rightarrow> agent \<Rightarrow> serve_state \<Rightarrow> ('w, agent \<times> serve_state) act" where
  "serve_loop env srt msg cancelled poll [] a st w = ((a, st), w)"
| "serve_loop env srt msg cancelled poll (now # nows) a st w =
     (case Tick env srt now a w of
        ((a1, r), w1) \<Rightarrow>
          (case serve_step poll (tick_outcome_of msg cancelled (tick_error r)) st of
             (st1, said) \<Rightarrow>
               (let a2 = (case (said, tick_error r) of (Some _, Some e) \<Rightarrow> report (TickError e) a1 | _ \<Rightarrow> a1)
                in serve_loop env srt msg cancelled poll nows a2 st1 w1)))"

definition default_poll :: int where "default_poll = 5000000000"

text \<open>The error of the master, or \<open>None\<close> for the cancelled context, with the agent left behind.\<close>

definition agent_Serve ::
  "'w agent_env \<Rightarrow> (Request list \<Rightarrow> Request list) \<Rightarrow> (u64 list \<Rightarrow> u64 list) \<Rightarrow> (agent_error \<Rightarrow> string)
     \<Rightarrow> (agent_error \<Rightarrow> bool) \<Rightarrow> int \<Rightarrow> int list \<Rightarrow> agent \<Rightarrow> ('w, agent_error option \<times> agent) act" where
  "agent_Serve env srt ord msg cancelled poll nows a w =
     (case agent_EnsureMaster env w of
        (Some e, w1) \<Rightarrow> ((Some e, a), w1)
      | (None, w1) \<Rightarrow>
          (let p = (if poll = 0 then default_poll else poll) in
           case serve_loop env srt msg cancelled p nows a (serve_start p) w1 of
             ((a1, _), w2) \<Rightarrow>
               (case CancelApplied env ord a1 w2 of ((a2, _), w3) \<Rightarrow> ((None, a2), w3))))"

section \<open>What a session leaves behind\<close>

text \<open>Every applied id has its forward recorded, so that it can be cancelled.\<close>

definition specs_cover :: "agent \<Rightarrow> bool" where
  "specs_cover a \<longleftrightarrow> set (ag_applied a) \<subseteq> fst ` set (ag_specs a)"

lemma specs_cover_apply:
  "specs_cover a \<Longrightarrow> specs_cover (a\<lparr>ag_applied := ag_applied a @ [i], ag_specs := AList.update i spec (ag_specs a)\<rparr>)"
  by (auto simp: specs_cover_def dom_update)

lemma specs_cover_cong: "ag_applied a' = ag_applied a \<Longrightarrow> ag_specs a' = ag_specs a \<Longrightarrow> specs_cover a' = specs_cover a"
  by (simp add: specs_cover_def)

lemma tick_loop_cover:
  "tick_loop env cutoff ttl rs a cursor now w = ((a', r), w') \<Longrightarrow> specs_cover a \<Longrightarrow> specs_cover a'"
proof (induction rs arbitrary: a cursor now w)
  case (Cons q rs)
  from Cons.prems(1) show ?case
  proof (cases rule: tick_loop_Cons)
    case (forward w1)
    with Cons.IH Cons.prems(2) specs_cover_apply show ?thesis by blast
  qed (use Cons in \<open>auto simp: specs_cover_def\<close>)
qed auto

lemma seed_cover: "seed env a w = (a', w') \<Longrightarrow> specs_cover a \<Longrightarrow> specs_cover a'"
  by (auto simp: seed_def specs_cover_def split: if_splits prod.splits option.splits)

lemma acknowledge_cover: "acknowledge env c a w = (a', w') \<Longrightarrow> specs_cover a \<Longrightarrow> specs_cover a'"
  by (auto simp: acknowledge_def specs_cover_def Let_def split: if_splits prod.splits)

lemma Tick_cover: "Tick env srt now a w = ((a', r), w') \<Longrightarrow> specs_cover a \<Longrightarrow> specs_cover a'"
  by (auto simp: Tick_def Let_def split: prod.splits option.splits sum.splits if_splits)
    (blast intro: seed_cover acknowledge_cover tick_loop_cover)+

lemma serve_loop_cover:
  "serve_loop env srt msg cancelled poll nows a st w = ((a', st'), w') \<Longrightarrow> specs_cover a \<Longrightarrow> specs_cover a'"
proof (induction nows arbitrary: a st w)
  case (Cons now nows)
  obtain a1 r w1 where t: "Tick env srt now a w = ((a1, r), w1)" by (metis prod.exhaust)
  have "specs_cover (case (said, e) of (Some _, Some e) \<Rightarrow> report (TickError e) a1 | _ \<Rightarrow> a1)" for said :: "string option" and e
    using Tick_cover [OF t Cons.prems(2)] by (auto simp: specs_cover_def split: option.splits)
  with Cons.IH Cons.prems(1) t show ?case by (auto simp: Let_def split: prod.splits)
qed simp

lemma cancel_ids_all:
  assumes "\<And>spec v out v'. ag_run env (CancelArgv (ag_target env) (ag_control env) spec) v = (out, v')
      \<Longrightarrow> ro_err out = None \<and> ro_code out = 0"
    and "cancel_ids env is a e w = ((a', e'), w')" "set is \<subseteq> fst ` set (ag_specs a)"
  shows "ag_applied a' = filter (\<lambda>i. i \<notin> set is) (ag_applied a)"
  using assms(2,3)
proof (induction "is" arbitrary: a e w)
  case (Cons i "is")
  then obtain spec where spec: "map_of (ag_specs a) i = Some spec"
    by (metis list.set_intros(1) map_of_eq_None_iff option.exhaust subsetD)
  obtain out w1 where o: "ag_run env (CancelArgv (ag_target env) (ag_control env) spec) w = (out, w1)" by fastforce
  with assms(1) have "ro_err out = None" "ro_code out = 0" by blast+
  with Cons.prems spec o Cons.IH [of "a\<lparr>ag_applied := removeAll i (ag_applied a)\<rparr>"] show ?case
    by (simp add: removeAll_filter_not_eq) (metis (mono_tags, lifting) filter_cong)
qed simp



lemma Serve_returns:
  "agent_EnsureMaster env w = (None, w1) \<Longrightarrow> \<exists>a v. agent_Serve env srt ord msg cancelled poll nows a0 w = ((None, a), v)"
  unfolding agent_Serve_def Let_def by (simp add: case_prod_beta)


end
