(* ===== verification/PluginCommands.thy ===== *)
theory PluginCommands
  imports PortsState CoreService AgentServe GoFlag
begin

text \<open>
  The commands of the port-forwarding plugin: \<open>ports-toggle\<close> (\<open>internal/cli/cmd_link_toggle.go\<close>) and
  \<open>declare\<close>, \<open>status\<close>, \<open>list\<close>, \<open>fwd-sync\<close>, \<open>local-agent\<close> (\<open>cmd_herdr_plugin.go\<close>). The state is the
  world \<open>'w\<close> that commands run in, beside the state directory. A command yields its exit code with
  what it reported.
\<close>

section \<open>Clicked URLs\<close>

definition GuestPortMin :: u16 where "GuestPortMin = 1024"
definition GuestPortMax :: u16 where "GuestPortMax = 11023"

text \<open>\<open>net.SplitHostPort\<close>: host and port of a host with an optional bracket pair.\<close>

definition SplitHostPort :: "string \<Rightarrow> (string \<times> string) option" where
  "SplitHostPort hp =
     (case last_index (CHR '':'') hp of
        None \<Rightarrow> None
      | Some i \<Rightarrow>
          if hd hp = CHR ''['' then
            (case index_byte (CHR '']'') hp of
               None \<Rightarrow> None
             | Some e \<Rightarrow>
                 if e + 1 \<noteq> i then None
                 else if CHR ''['' \<in> set (drop 1 hp) \<or> CHR '']'' \<in> set (drop (e + 1) hp) then None
                 else Some (drop 1 (take e hp), drop (i + 1) hp))
          else if CHR '':'' \<in> set (take i hp) then None
          else if CHR ''['' \<in> set hp \<or> CHR '']'' \<in> set hp then None
          else Some (take i hp, drop (i + 1) hp))"

text \<open>\<open>url.Parse\<close> by scheme and host, and \<open>net.ParseIP\<close> by bytes (4, or 16 for an IPv6 literal).\<close>

record net_lib =
  nl_url :: "string \<Rightarrow> (string \<times> string) option"
  nl_ip :: "string \<Rightarrow> nat list option"

definition ip_is_loopback :: "nat list \<Rightarrow> bool" where
  "ip_is_loopback bs \<longleftrightarrow>
     (if length bs = 4 then hd bs = 127
      else if take 12 bs = replicate 10 0 @ [255, 255] then bs ! 12 = 127
      else bs = replicate 15 0 @ [1])"

definition isLoopback :: "net_lib \<Rightarrow> string \<Rightarrow> bool" where
  "isLoopback nl host \<longleftrightarrow>
     (if host = ''localhost'' then True
      else (case nl_ip nl host of None \<Rightarrow> False | Some ip \<Rightarrow> ip_is_loopback ip))"

datatype click_error = CkParse | CkScheme string | CkNoPort | CkHost string | CkPort string

definition ParseClickedPort :: "net_lib \<Rightarrow> string \<Rightarrow> click_error + u16" where
  "ParseClickedPort nl rawURL =
     (case nl_url nl rawURL of
        None \<Rightarrow> Inl CkParse
      | Some (scheme, h) \<Rightarrow>
          if scheme \<noteq> ''http'' then Inl (CkScheme scheme)
          else (case SplitHostPort h of
                  None \<Rightarrow> Inl CkNoPort
                | Some (host, portStr) \<Rightarrow>
                    if portStr = [] then Inl CkNoPort
                    else if \<not> isLoopback nl host then Inl (CkHost host)
                    else (case parse_uint 10 16 portStr of
                            None \<Rightarrow> Inl (CkPort portStr)
                          | Some n \<Rightarrow> Inr (word_of_nat n))))"

section \<open>Environment and messages\<close>

record ('w, 'e) plugin_env =
  pl_getenv :: env
  pl_stat :: "string \<Rightarrow> bool"
  pl_net :: net_lib
  pl_run :: "'w runner"
  pl_fw_stat :: "string \<Rightarrow> 'w \<Rightarrow> bool"
  pl_fw_remove :: "string \<Rightarrow> 'w \<Rightarrow> 'w"
  pl_service :: "string \<Rightarrow> ('w, 'e) Service"
  pl_lister :: "'w exec_lister"
  pl_scan :: "string \<Rightarrow> jtext"
  pl_texts :: texts
  pl_queue_faults :: write_faults
  pl_state_faults :: write_faults
  pl_sort :: "Request list \<Rightarrow> Request list"
  pl_row_sort :: "PortForward list \<Rightarrow> PortForward list"
  pl_order :: "fwd_key list \<Rightarrow> fwd_key list"
  pl_duration :: "string \<Rightarrow> int option"
  pl_now :: gtime

datatype 'e plugin_msg =
    PgUsage | PgNoStateDir | PgState state_error | PgClick click_error | PgNoURL | PgRun string
  | PgExit int string | PgParse | PgType string | PgOpened string | PgBadPort string
  | PgQueue Queue | PgAdded "Request list" | PgStatus nat u64 | PgPending "Request list"
  | PgService "'e service_error" | PgForward fwd_error | PgDiscover discover_error
  | PgRemoved string | PgSynced nat | PgControl nat

type_synonym 'e plugin_out = "int \<times> 'e plugin_msg list"

text \<open>The answer of \<open>herdr plugin pane open\<close>, checked the same way by both callers.\<close>

definition dec_type :: "string decoder" where
  "dec_type = dec_struct (\<lambda>k j t. if key_is ''type'' k then dec_string j t else (True, t))"

definition pane_opened :: "(string \<Rightarrow> jtext) \<Rightarrow> run_out \<Rightarrow> 'e plugin_msg option" where
  "pane_opened scan out =
     (case ro_err out of
        Some e \<Rightarrow> Some (PgRun e)
      | None \<Rightarrow>
          if ro_code out \<noteq> 0 then Some (PgExit (ro_code out) (trim_space (ro_stderr out)))
          else (case unmarshal dec_type [] (scan (trim_space (ro_stdout out))) of
                  None \<Rightarrow> Some PgParse
                | Some t \<Rightarrow> if t \<noteq> ''plugin_pane_opened'' then Some (PgType t) else None))"

definition Notify ::
  "('w, 'e) plugin_env \<Rightarrow> string \<Rightarrow> string \<Rightarrow> string list \<Rightarrow> ('w, 'e plugin_msg option) act" where
  "Notify env bin title body w =
     (case pl_run env (PaneOpenArgv (if bin = [] then ''herdr'' else bin) title body) w of
        (out, w1) \<Rightarrow> (pane_opened (pl_scan env) out, w1))"

section \<open>ports-toggle\<close>

text \<open>The port to toggle: that of the clicked link, or the flag, cut to 16 bits.\<close>

definition dec_invocation :: "string decoder" where
  "dec_invocation = dec_struct (\<lambda>k j s. if key_is ''invocation_source'' k then dec_string j s else (True, s))"

definition toggle_port :: "('w, 'e) plugin_env \<Rightarrow> (string \<times> string) list \<Rightarrow> 'e plugin_out + u16" where
  "toggle_port env fl =
     (let raw = pl_getenv env ''HERDR_PLUGIN_CONTEXT_JSON'';
          source = (if raw \<noteq> [] then unmarshal_lax dec_invocation [] (pl_scan env raw) else []) in
      if source = ''link_click'' then
        (let url = pl_getenv env ''HERDR_PLUGIN_CLICKED_URL'' in
         if url = [] then Inl (1, [PgNoURL])
         else (case ParseClickedPort (pl_net env) url of
                 Inl e \<Rightarrow> Inl (1, [PgClick e]) | Inr p \<Rightarrow> Inr p))
      else if flag_uint fl ''port'' 0 = 0 then Inl (2, [PgUsage])
      else Inr (word_of_nat (flag_uint fl ''port'' 0)))"

text \<open>A port outside the published range is only shown, one inside it is requested; an error of the
  panel's file is reported but does not end the command.\<close>

definition toggle_state :: "('w, 'e) plugin_env \<Rightarrow> u16 \<Rightarrow> (state_dir, 'e plugin_out + 'e plugin_msg list) act" where
  "toggle_state env port d =
     (let show_row = (\<lambda>st d. case upsertPortInState (pl_texts env) (pl_state_faults env) (pl_row_sort env) (pl_now env) port st d of
                        (e, d1) \<Rightarrow> ((case e of Some x \<Rightarrow> [PgState x] | None \<Rightarrow> []), d1)) in
      if port < GuestPortMin \<or> port > GuestPortMax
      then (case show_row PFStatusOutRange d of (ms, d1) \<Rightarrow> (Inr ms, d1))
      else (case EnqueueForwardRequest (pl_queue_faults env) (pl_sort env) port (pl_now env) d of
              (Some e, d1) \<Rightarrow> (Inl (1, [PgState e]), d1)
            | (None, d1) \<Rightarrow> (case show_row PFStatusPending d1 of (ms, d2) \<Rightarrow> (Inr ms, d2))))"

definition runPortsToggleWith ::
  "('w, 'e) plugin_env \<Rightarrow> string list \<Rightarrow> ('w \<times> state_dir, 'e plugin_out) act" where
  "runPortsToggleWith env args s =
     (case parse_flags [(''port'', FlagUint)] args of
        None \<Rightarrow> ((2, []), s)
      | Some (fl, _) \<Rightarrow>
          (case toggle_port env fl of
             Inl r \<Rightarrow> (r, s)
           | Inr port \<Rightarrow>
               if StateDir (pl_getenv env) = None then ((1, [PgNoStateDir]), s)
               else (case toggle_state env port (snd s) of
                       (Inl r, d1) \<Rightarrow> (r, (fst s, d1))
                     | (Inr ms, d1) \<Rightarrow>
                         (let bin = undeletedHerdrBin (pl_stat env) (pl_getenv env ''HERDR_BIN'');
                              argv = portsPaneOpenArgv (if bin = [] then ''herdr'' else bin) (pl_getenv env ''HERDR_WORKSPACE_ID'')
                          in case pl_run env argv (fst s) of
                               (out, w1) \<Rightarrow>
                                 (case pane_opened (pl_scan env) out of
                                    Some m \<Rightarrow> ((1, ms @ [m]), (w1, d1))
                                  | None \<Rightarrow> ((0, ms @ [PgOpened (ro_stdout out)]), (w1, d1)))))))"

section \<open>declare, status, list\<close>

text \<open>The ports of the comma-separated list, or the first piece that is none.\<close>

fun parse_ports :: "string list \<Rightarrow> u16 list \<Rightarrow> string + u16 list" where
  "parse_ports [] acc = Inr acc"
| "parse_ports (f # fs) acc =
     (case parse_uint 10 16 (trim_space f) of
        None \<Rightarrow> Inl f | Some n \<Rightarrow> parse_ports fs (acc @ [word_of_nat n]))"

definition notify_body :: "Request list \<Rightarrow> string list" where
  "notify_body added =
     (if added = [] then [''no new ports to forward'']
      else map (\<lambda>r. ''http://127.0.0.1:'' @ show_nat (unat (req_lport r)) @ ''  ('' @ req_host r @ '':''
                       @ show_nat (unat (req_rport r)) @ '')'') added)"

definition declare_flags :: flag_set where
  "declare_flags = [(''port'', FlagString), (''host'', FlagString), (''notify'', FlagBool)]"

definition runDeclare ::
  "('w, 'e) plugin_env \<Rightarrow> string list \<Rightarrow> ('w \<times> state_dir, 'e plugin_out) act" where
  "runDeclare env args s =
     (case parse_flags declare_flags args of
        None \<Rightarrow> ((2, []), s)
      | Some (fl, _) \<Rightarrow>
          if StateDir (pl_getenv env) = None then ((1, [PgNoStateDir]), s)
          else if flag_string fl ''port'' [] = [] then
            (case LoadQueue (qd_file (sd_queue (snd s))) of
               Inl e \<Rightarrow> ((1, [PgState (SeQueue e)]), s) | Inr q \<Rightarrow> ((0, [PgQueue q]), s))
          else (case parse_ports (split_on (CHR '','') (flag_string fl ''port'' [])) [] of
                  Inl f \<Rightarrow> ((2, [PgBadPort f]), s)
                | Inr ports \<Rightarrow>
                    (case Declare (pl_queue_faults env) (pl_sort env)
                            \<lparr>de_host = flag_string fl ''host'' [], de_version = PluginVersion, de_ttl = 0\<rparr>
                            ports (pl_now env) (snd s) of
                       (Inl e, d1) \<Rightarrow> ((1, [PgState e]), (fst s, d1))
                     | (Inr added, d1) \<Rightarrow>
                         if \<not> flag_bool fl ''notify'' False then ((0, [PgAdded added]), (fst s, d1))
                         else (case Notify env (undeletedHerdrBin (pl_stat env) (pl_getenv env ''HERDR_BIN''))
                                      ''microsandbox ports'' (notify_body added) (fst s) of
                                 (Some m, w1) \<Rightarrow> ((1, [PgAdded added, m]), (w1, d1))
                               | (None, w1) \<Rightarrow> ((0, [PgAdded added]), (w1, d1))))))"

definition runStatus :: "('w, 'e) plugin_env \<Rightarrow> state_dir \<Rightarrow> 'e plugin_out" where
  "runStatus env d =
     (if StateDir (pl_getenv env) = None then (1, [PgNoStateDir])
      else (case LoadQueue (qd_file (sd_queue d)) of
              Inl e \<Rightarrow> (1, [PgState (SeQueue e)])
            | Inr q \<Rightarrow> (0, [PgStatus (length (q_pending q)) (case ReadAck (sd_ack d) of Inr n \<Rightarrow> n | Inl _ \<Rightarrow> 0)])))"

definition runList :: "('w, 'e) plugin_env \<Rightarrow> state_dir \<Rightarrow> 'e plugin_out" where
  "runList env d =
     (if StateDir (pl_getenv env) = None then (1, [PgNoStateDir])
      else (case LoadQueue (qd_file (sd_queue d)) of
              Inl e \<Rightarrow> (1, [PgState (SeQueue e)]) | Inr q \<Rightarrow> (0, [PgPending (q_pending q)])))"

section \<open>fwd-sync\<close>

definition fwd_flags :: flag_set where
  "fwd_flags = [(''control-path'', FlagString), (''ssh-host'', FlagString), (''teardown'', FlagString), (''project'', FlagString)]"

definition sync_forwarder :: "('w, 'e) plugin_env \<Rightarrow> string \<Rightarrow> string \<Rightarrow> 'w Forwarder" where
  "sync_forwarder env ctl host =
     \<lparr>fw_path = ctl, fw_host = host, fw_run = pl_run env, fw_stat = pl_fw_stat env, fw_remove = pl_fw_remove env\<rparr>"

definition write_applied ::
  "('w, 'e) plugin_env \<Rightarrow> 'w Forwarder \<Rightarrow> 'w Manager \<Rightarrow> 'w \<times> state_dir \<Rightarrow> 'w \<times> state_dir" where
  "write_applied env fw mgr s =
     (if StateDir (pl_getenv env) = None then s
      else writeAppliedState (pl_texts env) (pl_state_faults env) (pl_row_sort env) (pl_order env) (pl_now env) fw mgr s)"

definition sync_teardown ::
  "('w, 'e) plugin_env \<Rightarrow> 'w Forwarder \<Rightarrow> string \<Rightarrow> string \<Rightarrow> 'w \<times> state_dir
     \<Rightarrow> ('e plugin_out \<times> 'w \<times> state_dir) option" where
  "sync_teardown env fw project name s =
     (case service_Resolve (pl_service env project) name (fst s) of
        None \<Rightarrow> None
      | Some (Inl e, w1) \<Rightarrow> Some ((1, [PgService e]), (w1, snd s))
      | Some (Inr ref, w1) \<Rightarrow>
          (case TeardownSandbox (pl_order env) ref (NewManager fw) w1 of
             ((Some e, _), w2) \<Rightarrow> Some ((1, [PgForward e]), (w2, snd s))
           | ((None, mgr), w2) \<Rightarrow> Some ((0, [PgRemoved name]), write_applied env fw mgr (w2, snd s))))"

definition sync_all ::
  "('w, 'e) plugin_env \<Rightarrow> 'w Forwarder \<Rightarrow> ('w \<times> state_dir, 'e plugin_out) act" where
  "sync_all env fw s =
     (case DiscoverAll (pl_lister env) (fst s) of
        (Inl e, w1) \<Rightarrow> ((1, [PgDiscover e]), (w1, snd s))
      | (Inr desired, w1) \<Rightarrow>
          (case Reconcile (pl_order env) desired (NewManager fw) w1 of
             ((Some e, _), w2) \<Rightarrow> ((1, [PgForward e]), (w2, snd s))
           | ((None, mgr), w2) \<Rightarrow> ((0, [PgSynced (length desired)]), write_applied env fw mgr (w2, snd s))))"

definition runFwdSync ::
  "('w, 'e) plugin_env \<Rightarrow> string list \<Rightarrow> 'w \<times> state_dir \<Rightarrow> ('e plugin_out \<times> 'w \<times> state_dir) option" where
  "runFwdSync env args s =
     (case parse_flags fwd_flags args of
        None \<Rightarrow> Some ((2, []), s)
      | Some (fl, _) \<Rightarrow>
          (let ctl = flag_string fl ''control-path'' []; host = flag_string fl ''ssh-host'' [];
               name = flag_string fl ''teardown'' []; fw = sync_forwarder env ctl host in
           if ctl = [] \<or> host = [] then Some ((2, [PgUsage]), s)
           else if name \<noteq> [] then sync_teardown env fw (flag_string fl ''project'' DefaultProject) name s
           else Some (sync_all env fw s)))"

section \<open>local-agent\<close>

definition DefaultPoll :: int where "DefaultPoll = 5000000000"

definition agent_flags :: flag_set where
  "agent_flags = [(''target'', FlagString), (''control-path'', FlagString), (''host'', FlagString), (''poll'', FlagString)]"

text \<open>The agent that is served with its poll interval, or the exit code; then the exit code of Serve,
  0 for a cancelled context. \<open>nows\<close> are the times of the ticks before it is cancelled.\<close>

definition runLocalAgent_start :: "('w, 'e) plugin_env \<Rightarrow> string list \<Rightarrow> 'e plugin_out + 'w agent_env \<times> int" where
  "runLocalAgent_start env args =
     (case parse_flags agent_flags args of
        None \<Rightarrow> Inl (2, [])
      | Some (fl, _) \<Rightarrow>
          (let target = flag_string fl ''target'' []; flagged = flag_string fl ''control-path'' [] in
           if target = [] then Inl (2, [PgUsage])
           else if flagged = [] \<and> StateDir (pl_getenv env) = None then Inl (1, [PgNoStateDir])
           else (let ctl = (if flagged = [] then ControlPathFor (the (StateDir (pl_getenv env))) target else flagged) in
                 case CheckControlPath ctl of
                   Some n \<Rightarrow> Inl (1, [PgControl n])
                 | None \<Rightarrow>
                     Inr (\<lparr>ag_target = target, ag_control = ctl, ag_hostname = flag_string fl ''host'' [], ag_ttl = 0,
                           ag_run = pl_run env, ag_stat = pl_fw_stat env, ag_remove = pl_fw_remove env, ag_scan = pl_scan env\<rparr>,
                          (let p = flag_string fl ''poll'' [] in
                           if p = [] then DefaultPoll else (case pl_duration env p of Some d \<Rightarrow> d | None \<Rightarrow> DefaultPoll))))))"

definition runLocalAgent ::
  "('w, 'e) plugin_env \<Rightarrow> (u64 list \<Rightarrow> u64 list) \<Rightarrow> (agent_error \<Rightarrow> string) \<Rightarrow> (agent_error \<Rightarrow> bool) \<Rightarrow> int list
     \<Rightarrow> string list \<Rightarrow> ('w, 'e plugin_out) act" where
  "runLocalAgent env ord msg cancelled nows args w =
     (case runLocalAgent_start env args of
        Inl r \<Rightarrow> (r, w)
      | Inr (a, poll) \<Rightarrow>
          (case agent_Serve a (pl_sort env) ord msg cancelled poll nows fresh_agent w of
             ((Some e, _), w1) \<Rightarrow> ((1, [PgRun (msg e)]), w1)
           | ((None, _), w1) \<Rightarrow> ((0, []), w1)))"

end
