(* ===== verification/PortsProps.thy ===== *)
theory PortsProps
  imports PortsPane PluginCommands
begin

text \<open>
  Properties of the port panel and the plugin commands: what \<open>declare\<close> adds to the queue, what the
  panel's keys may change, the panel's file read back, and what \<open>fwd-sync\<close> leaves undone.
\<close>

section \<open>The queue\<close>

lemma load_version: "LoadQueue f = Inr q \<Longrightarrow> q_version q \<noteq> 0"
  by (auto simp: LoadQueue_def new_queue_def split: fsfile.splits option.splits if_splits)

lemma WriteQueue_ok: "WriteQueueAtomic f q d = (None, d') \<Longrightarrow> qd_file d' = Contents (JDoc (enc_queue q))"
  by (auto simp: WriteQueueAtomic_def Let_def split: option.splits)

lemma load_written: "q_version q \<noteq> 0 \<Longrightarrow> LoadQueue (Contents (JDoc (enc_queue q))) = Inr q"
  by (simp add: LoadQueue_def dec_enc_queue)

lemma prune_version [simp]: "q_version (Prune acked now ttl q) = q_version q"
  by (simp add: Prune_def Let_def)

lemma with_queue_ok:
  assumes "with_queue f now ttl change d = (Inr x, d')"
  shows "\<exists>q acked q1. LoadQueue (qd_file (sd_queue d)) = Inr q \<and> ReadAck (sd_ack d) = Inr acked
    \<and> change (Prune acked now ttl q) = (x, q1) \<and> qd_file (sd_queue d') = Contents (JDoc (enc_queue q1))
    \<and> sd_ack d' = sd_ack d \<and> sd_forwards d' = sd_forwards d"
  using assms by (auto simp: with_queue_def dest: WriteQueue_ok split: sum.splits prod.splits option.splits)

lemma with_queue_keeps:
  "with_queue f now ttl change d = (r, d') \<Longrightarrow> sd_ack d' = sd_ack d \<and> sd_forwards d' = sd_forwards d"
  by (auto simp: with_queue_def split: sum.splits prod.splits option.splits)

lemma Enqueue_simps:
  "id_sort srt \<Longrightarrow> Enqueue srt r q = (r', q1) \<Longrightarrow>
     req_lport r' = req_lport r \<and> q_version q1 = q_version q \<and> mset (q_pending q1) = add_mset r' (mset (q_pending q))
     \<and> sorted (map req_id (q_pending q1))"
  by (auto simp: Enqueue_def Let_def id_sort_facts)

lemma declare_loop_result:
  assumes "id_sort srt"
  shows "declare_loop srt de now pending ps added q = (added', q') \<Longrightarrow>
    \<exists>more. added' = added @ more \<and> map req_lport more = filter (\<lambda>p. p \<notin> pending) ps
      \<and> mset (q_pending q') = mset (q_pending q) + mset more \<and> q_version q' = q_version q
      \<and> (sorted (map req_id (q_pending q)) \<longrightarrow> sorted (map req_id (q_pending q')))"
proof (induction ps arbitrary: added q)
  case (Cons p ps)
  show ?case
  proof (cases "p \<in> pending")
    case False
    obtain r q1 where e: "Enqueue srt (declared_request de p now) q = (r, q1)" by fastforce
    note r = Enqueue_simps [OF assms e]
    from Cons.prems False e have "declare_loop srt de now pending ps (added @ [r]) q1 = (added', q')" by simp
    from Cons.IH [OF this] obtain more where "added' = added @ r # more"
      "map req_lport more = filter (\<lambda>p. p \<notin> pending) ps"
      "mset (q_pending q') = mset (q_pending q1) + mset more" "q_version q' = q_version q1"
      "sorted (map req_id (q_pending q'))"
      using r by auto
    with r False show ?thesis by (intro exI [of _ "r # more"]) (simp add: declared_request_def)
  qed (use Cons in simp)
qed simp

text \<open>Declaring requests exactly what was missing. When declare succeeds, the requests added are
  those for the declared ports that no request left after pruning already has, in their order, one
  for each time such a port is named; the queue read back holds them beside all requests left.\<close>

theorem declare_adds_missing:
  assumes "id_sort srt" "LoadQueue (qd_file (sd_queue d)) = Inr q" "ReadAck (sd_ack d) = Inr acked"
    and "kept = q_pending (Prune acked (t_ns now) (if de_ttl de = 0 then DefaultTTL else de_ttl de) q)"
    and "Declare f srt de ports now d = (Inr added, d')"
  shows "map req_lport added = filter (\<lambda>p. p \<notin> req_lport ` set kept) ports \<and>
    (\<exists>q'. LoadQueue (qd_file (sd_queue d')) = Inr q' \<and> mset (q_pending q') = mset kept + mset added
      \<and> set ports \<subseteq> req_lport ` set (q_pending q'))"
proof -
  obtain q1 where loop: "declare_loop srt de now (req_lport ` set kept) ports []
      (Prune acked (t_ns now) (if de_ttl de = 0 then DefaultTTL else de_ttl de) q) = (added, q1)"
    and written: "qd_file (sd_queue d') = Contents (JDoc (enc_queue q1))"
    using with_queue_ok [OF assms(5) [unfolded Declare_def]] assms(2-4) by auto
  from declare_loop_result [OF assms(1) loop] load_version [OF assms(2)]
  have r: "map req_lport added = filter (\<lambda>p. p \<notin> req_lport ` set kept) ports"
    "mset (q_pending q1) = mset kept + mset added" "q_version q1 \<noteq> 0" by (auto simp: assms(4))
  have "set (q_pending q1) = set kept \<union> set added" using r(2) by (metis set_mset_mset set_mset_union)
  moreover have "req_lport ` set added = set (filter (\<lambda>p. p \<notin> req_lport ` set kept) ports)"
    using r(1) by (metis set_map)
  ultimately have "set ports \<subseteq> req_lport ` set (q_pending q1)" by (auto simp: image_Un)
  with r load_written written show ?thesis by auto
qed

theorem declare_adds_missing_witness:
  "\<exists>added d'. Declare \<lparr>wf_mkdir = None, wf_write = None, wf_rename = None\<rparr> (sort_key req_id)
      \<lparr>de_host = ''h'', de_version = PluginVersion, de_ttl = 0\<rparr> [80, 443, 80] \<lparr>t_ns = 0, t_zone = 0\<rparr>
      \<lparr>sd_queue = \<lparr>qd_file = NoFile, qd_tmp = NoFile\<rparr>, sd_ack = NoFile,
       sd_forwards = \<lparr>qd_file = NoFile, qd_tmp = NoFile\<rparr>\<rparr> = (Inr added, d')
    \<and> map req_lport added = [80, 443, 80]"
proof -
  let ?d = "\<lparr>sd_queue = \<lparr>qd_file = NoFile, qd_tmp = NoFile\<rparr>, sd_ack = NoFile,
       sd_forwards = \<lparr>qd_file = NoFile, qd_tmp = NoFile\<rparr>\<rparr> :: state_dir"
  let ?de = "\<lparr>de_host = ''h'', de_version = PluginVersion, de_ttl = 0\<rparr>"
  let ?now = "\<lparr>t_ns = 0, t_zone = 0\<rparr>"
  have load: "LoadQueue (qd_file (sd_queue ?d)) = Inr new_queue" "ReadAck (sd_ack ?d) = Inr 0"
    by (simp_all add: LoadQueue_def ReadAck_def)
  obtain added d' where r: "Declare \<lparr>wf_mkdir = None, wf_write = None, wf_rename = None\<rparr> (sort_key req_id) ?de
      [80, 443, 80] ?now ?d = (Inr added, d')"
    unfolding Declare_def with_queue_def load
    by (cases "declare_loop (sort_key req_id) ?de ?now
        (req_lport ` set (q_pending (Prune 0 (t_ns ?now) DefaultTTL new_queue))) [80, 443, 80] []
        (Prune 0 (t_ns ?now) DefaultTTL new_queue)") (simp add: WriteQueueAtomic_def Let_def)
  have "q_pending (Prune 0 (t_ns ?now) (if de_ttl ?de = 0 then DefaultTTL else de_ttl ?de) new_queue) = []"
    by (simp add: Prune_def new_queue_def Let_def)
  from declare_adds_missing [OF id_sort_exists load this [symmetric] r] r show ?thesis by auto
qed

section \<open>The panel\<close>

text \<open>The panel offers Enter for the rows it acts on, with two exceptions. On a row with a port,
  Enter enqueues a request exactly when the footer of the row's status offers Enter, or when the
  status is out_of_range or empty: for an OUT-OF-RANGE row the footer offers no Enter, yet the key
  requests a port that the sandbox does not publish.\<close>

theorem enter_matches_footer:
  assumes "row_at rows cursor = Some row" "pf_port row \<noteq> 0"
  shows "pr_enqueue (DispatchPaneKey KeyEnter rows cursor) \<noteq> 0 \<longleftrightarrow>
    str_contains (paneFooter (pf_status row)) ''Enter'' \<or> pf_status row = PFStatusOutRange \<or> pf_status row = []"
proof -
  have footers:
    "str_contains ''j/k  select   Enter  enqueue   r  add port (recreates)   q  close'' ''Enter''"
    "str_contains ''j/k  select   Enter  retry   r  add port (recreates)   q  close'' ''Enter''"
    "\<not> str_contains ''j/k  select   q  close'' ''Enter''" "\<not> str_contains ''q  close'' ''Enter''"
    "\<not> str_contains ''j/k  select   r  add port (recreates)   q  close'' ''Enter''"
    "\<not> str_contains ''r  add port (recreates)   q  close'' ''Enter''"
    "str_contains ''j/k  select   Enter  forward selected   r  add port (recreates)   q  close'' ''Enter''"
    by code_simp+
  have "pr_enqueue (DispatchPaneKey KeyEnter rows cursor) \<noteq> 0
      \<longleftrightarrow> pf_status row \<notin> {PFStatusPending, PFStatusError, PFStatusExpired}"
    using assms by (simp add: DispatchPaneKey_def KeyEnter_def no_dispatch_def)
  then show ?thesis using footers by (auto simp: paneFooter_def status_defs)
qed

theorem enter_matches_footer_witness:
  "pr_enqueue (DispatchPaneKey KeyEnter [empty_forward\<lparr>pf_port := 40000, pf_status := PFStatusOutRange\<rparr>] 0) \<noteq> 0"
  using enter_matches_footer [of "[empty_forward\<lparr>pf_port := 40000, pf_status := PFStatusOutRange\<rparr>]" 0]
  by (simp add: row_at_def)

lemma enqueue_keeps:
  "EnqueueForwardRequest f srt port now d = (e, d') \<Longrightarrow> sd_ack d' = sd_ack d \<and> sd_forwards d' = sd_forwards d"
  by (auto simp: EnqueueForwardRequest_def dest: with_queue_keeps split: sum.splits prod.splits)

lemma dispatch_enqueue: "b \<noteq> KeyEnter \<Longrightarrow> pr_enqueue (DispatchPaneKey b rows c) = 0"
  by (simp add: DispatchPaneKey_def no_dispatch_def)

lemma pane_step_dir:
  assumes "pane_step env now ev p d = (r, d')"
  shows "sd_ack d' = sd_ack d \<and> sd_forwards d' = sd_forwards d" "ev \<noteq> PaneByte KeyEnter \<Longrightarrow> d' = d"
  using assms dispatch_enqueue
  by (auto simp: pane_step_def pane_key_def Let_def dest: enqueue_keeps split: pane_event.splits if_splits prod.splits)

text \<open>The panel only asks. Whatever keys are pressed, the panel never changes the list of forwards
  nor the acknowledgement; it changes the request queue only by Enter, and none of its files
  otherwise.\<close>

theorem panel_only_enqueues:
  assumes "runPortsPane getenv env terminal now evs d = (c, out, d')"
  shows "sd_ack d' = sd_ack d \<and> sd_forwards d' = sd_forwards d
    \<and> (PaneByte KeyEnter \<notin> snd ` set evs \<longrightarrow> d' = d)"
proof -
  have "pane_run env evs p d = (c, out, d') \<Longrightarrow> sd_ack d' = sd_ack d \<and> sd_forwards d' = sd_forwards d
      \<and> (PaneByte KeyEnter \<notin> snd ` set evs \<longrightarrow> d' = d)" for p
  proof (induction evs arbitrary: p d)
    case (Cons e evs)
    obtain t ev where e: "e = (t, ev)" by (cases e)
    obtain r d1 where s: "pane_step env t ev p d = (r, d1)" by (cases "pane_step env t ev p d")
    show ?case
    proof (cases r)
      case (Inl out1)
      with Cons.prems e s show ?thesis using pane_step_dir [OF s] by auto
    next
      case (Inr p1)
      with Cons.prems e s have "pane_run env evs p1 d1 = (c, out, d')" by simp
      from Cons.IH [OF this] pane_step_dir [OF s] show ?thesis by (auto simp: e)
    qed
  qed simp
  with assms show ?thesis by (auto simp: runPortsPane_def Let_def split: if_splits)
qed


definition empty_dir :: state_dir where
  "empty_dir = \<lparr>sd_queue = \<lparr>qd_file = NoFile, qd_tmp = NoFile\<rparr>, sd_ack = NoFile,
     sd_forwards = \<lparr>qd_file = NoFile, qd_tmp = NoFile\<rparr>\<rparr>"

theorem panel_only_enqueues_witness:
  "\<exists>c out. runPortsPane (\<lambda>_. ''/x'') \<lparr>pe_texts = \<lparr>tx_float = \<lambda>_. None, tx_parse = \<lambda>_. None, tx_format = \<lambda>_. []\<rparr>,
       pe_faults = \<lparr>wf_mkdir = None, wf_write = None, wf_rename = None\<rparr>, pe_sort = sort_key req_id\<rparr> True zero_time
       [(zero_time, PaneByte (CHR ''j'')), (zero_time, PaneSecond), (zero_time, PaneByte (CHR ''q''))] empty_dir
     = (c, out, empty_dir) \<and> empty_dir = empty_dir\<lparr>sd_ack := NoFile\<rparr>"
proof -
  let ?run = "runPortsPane (\<lambda>_. ''/x'') \<lparr>pe_texts = \<lparr>tx_float = \<lambda>_. None, tx_parse = \<lambda>_. None, tx_format = \<lambda>_. []\<rparr>,
       pe_faults = \<lparr>wf_mkdir = None, wf_write = None, wf_rename = None\<rparr>, pe_sort = sort_key req_id\<rparr> True zero_time
       [(zero_time, PaneByte (CHR ''j'')), (zero_time, PaneSecond), (zero_time, PaneByte (CHR ''q''))] empty_dir"
  obtain c out d' where r: "?run = (c, out, d')" by (cases ?run) auto
  have "d' = empty_dir" using panel_only_enqueues [OF r] by (simp add: KeyEnter_def)
  with r show ?thesis by (simp add: empty_dir_def)
qed

section \<open>The panel's file\<close>

definition times_kept :: "texts \<Rightarrow> bool" where
  "times_kept tx \<longleftrightarrow> (\<forall>t. tx_parse tx (tx_format tx t) = Some t)"

lemma forward_keys:
  "\<not> key_is ''port'' ''sandbox''" "\<not> key_is ''port'' ''status''" "\<not> key_is ''port'' ''confirmed_at''"
  "\<not> key_is ''port'' ''error''" "\<not> key_is ''sandbox'' ''status''" "\<not> key_is ''sandbox'' ''confirmed_at''"
  "\<not> key_is ''sandbox'' ''error''" "\<not> key_is ''status'' ''confirmed_at''" "\<not> key_is ''status'' ''error''"
  "\<not> key_is ''confirmed_at'' ''error''" "\<not> key_is ''written_by'' ''updated_at''"
  "\<not> key_is ''written_by'' ''forwards''" "\<not> key_is ''updated_at'' ''forwards''"
  by (simp_all add: key_is_def lower_char_def)

lemma dec_enc_forward: "times_kept tx \<Longrightarrow> dec_forward tx (enc_forward tx p) empty_forward = (True, p)"
  by (simp add: dec_forward_def enc_forward_def dec_struct_def forward_keys dec_string_def dec_time_def times_kept_def
      dec_uint_show empty_forward_def)

lemma state_loads:
  assumes "times_kept tx"
  shows "unmarshal (dec_state tx) empty_state (JDoc (enc_state tx s)) = Some s"
proof -
  have "dec_elems (dec_forward tx) empty_forward (map (enc_forward tx) ps) = (True, ps)" for ps
    by (induction ps) (simp_all add: dec_enc_forward [OF assms])
  then show ?thesis
    using assms by (simp add: unmarshal_def dec_state_def enc_state_def dec_struct_def forward_keys dec_string_def
        dec_time_def dec_slice_def times_kept_def empty_state_def)
qed

lemma written_state:
  "WriteForwardsStateAtomic tx f s d = (None, d') \<Longrightarrow> qd_file (sd_forwards d') = Contents (JDoc (enc_state tx s))"
  by (auto simp: WriteForwardsStateAtomic_def write_forwards_def Let_def split: prod.splits option.splits)

lemma upsert_other: "filter (\<lambda>p. pf_port p \<noteq> port) (upsert port st ps) = filter (\<lambda>p. pf_port p \<noteq> port) ps"
proof -
  have "filter (\<lambda>p. pf_port p \<noteq> port) (fst (set_status port st ps)) = filter (\<lambda>p. pf_port p \<noteq> port) ps"
    by (induction ps) (auto split: prod.splits)
  then show ?thesis by (simp add: upsert_def case_prod_beta)
qed

lemma set_status_found: "snd (set_status port st ps) \<longleftrightarrow> port \<in> pf_port ` set ps"
  by (induction ps) (auto split: prod.splits)

lemma upsert_port:
  assumes "distinct (map pf_port ps)"
  shows "\<exists>p. filter (\<lambda>p. pf_port p = port) (upsert port st ps) = [p] \<and> pf_status p = st"
proof -
  have absent: "filter (\<lambda>p. pf_port p = port) qs = []" "fst (set_status port st qs) = qs" if "port \<notin> pf_port ` set qs" for qs
    using that by (induction qs) (auto split: prod.splits)
  have present: "\<exists>p. filter (\<lambda>p. pf_port p = port) (fst (set_status port st ps)) = [p] \<and> pf_status p = st"
    if "port \<in> pf_port ` set ps" using that assms
  proof (induction ps)
    case (Cons p ps)
    then show ?case using absent(1) [of ps] by (cases "pf_port p = port") (auto simp: image_iff split: prod.splits)
  qed simp
  show ?thesis
  proof (cases "port \<in> pf_port ` set ps")
    case True
    with present set_status_found [of port st ps] show ?thesis by (simp add: upsert_def case_prod_beta)
  next
    case False
    with absent [OF False] set_status_found [of port st ps] show ?thesis by (simp add: upsert_def case_prod_beta)
  qed
qed

text \<open>A toggled port is shown, and nothing else in the panel changes. When upsertPortInState
  succeeds on a file with at most one row per port, reading the file back gives rows sorted by
  port in which the port has one row, with the new status, and every other row is as it was.\<close>

theorem toggled_port_is_shown:
  assumes "times_kept tx" "port_sort srt" "LoadForwardsState tx d = Inr os"
    and "rows = (case os of Some s \<Rightarrow> fs_forwards s | None \<Rightarrow> [])" "distinct (map pf_port rows)"
    and "upsertPortInState tx f srt now port st d = (None, d')"
  shows "\<exists>s. LoadForwardsState tx d' = Inr (Some s) \<and> sorted (map pf_port (fs_forwards s))
    \<and> {p \<in> set (fs_forwards s). pf_port p \<noteq> port} = {p \<in> set rows. pf_port p \<noteq> port}
    \<and> (\<exists>p. filter (\<lambda>p. pf_port p = port) (fs_forwards s) = [p] \<and> pf_status p = st)"
proof -
  define s0 where "s0 = (case os of Some s \<Rightarrow> s | None \<Rightarrow> empty_state)"
  let ?s = "s0\<lparr>fs_forwards := srt (upsert port st rows), fs_by := ''ports-toggle'', fs_updated := now\<rparr>"
  have rows: "fs_forwards s0 = rows" by (simp add: assms(4) s0_def empty_state_def split: option.splits)
  have "WriteForwardsStateAtomic tx f ?s d = (None, d')"
    using assms(3,6) by (simp add: upsertPortInState_def Let_def rows flip: s0_def)
  from written_state [OF this] have load: "LoadForwardsState tx d' = Inr (Some ?s)"
    by (simp add: LoadForwardsState_def state_loads [OF assms(1)])
  have srt: "mset (srt ps) = mset ps" "sorted (map pf_port (srt ps))" for ps
    using assms(2) by (simp_all add: port_sort_def)
  obtain p where p: "filter (\<lambda>p. pf_port p = port) (upsert port st rows) = [p]" "pf_status p = st"
    using upsert_port [OF assms(5)] by blast
  have "mset (filter (\<lambda>p. pf_port p = port) (srt (upsert port st rows))) = {#p#}"
    using p(1) srt(1) by (metis mset_filter mset_single_iff)
  then have one: "filter (\<lambda>p. pf_port p = port) (srt (upsert port st rows)) = [p]" by (simp only: mset_single_iff)
  have "set (srt (upsert port st rows)) = set (upsert port st rows)" using srt(1) by (metis set_mset_mset)
  then have "{p \<in> set (srt (upsert port st rows)). pf_port p \<noteq> port} = set (filter (\<lambda>p. pf_port p \<noteq> port) (upsert port st rows))"
    by auto
  then have "{p \<in> set (srt (upsert port st rows)). pf_port p \<noteq> port} = {p \<in> set rows. pf_port p \<noteq> port}"
    by (simp add: upsert_other)
  with load one p(2) srt(2) show ?thesis by auto
qed


text \<open>Texts that keep every time: the two numbers.\<close>

definition parse_signed :: "string \<Rightarrow> int option" where
  "parse_signed s =
     (if s \<noteq> [] \<and> hd s = CHR ''-'' then map_option (\<lambda>n. - int n) (digits_val 10 0 (tl s))
      else map_option int (digits_val 10 0 s))"

definition plain_texts :: texts where
  "plain_texts = \<lparr>tx_float = (\<lambda>_. None),
     tx_parse = (\<lambda>s. case index_byte (CHR ''/'') s of
        None \<Rightarrow> None
      | Some i \<Rightarrow> (case (parse_signed (take i s), parse_signed (drop (i + 1) s)) of
                    (Some n, Some z) \<Rightarrow> Some \<lparr>t_ns = n, t_zone = z\<rparr> | _ \<Rightarrow> None)),
     tx_format = (\<lambda>t. show_int (t_ns t) @ ''/'' @ show_int (t_zone t))\<rparr>"

lemma show_nat_char: "c \<in> set (show_nat n) \<Longrightarrow> 48 \<le> (of_char c :: nat)"
  using show_nat_chars digit_char_props(4) by blast

lemma parse_signed_show [simp]: "parse_signed (show_int n) = Some n"
proof (cases "n < 0")
  case False
  obtain c cs where c: "show_nat (nat n) = c # cs" by (metis list.exhaust show_nat_nonempty)
  have "c \<noteq> CHR ''-''" using show_nat_char [of c "nat n"] by (auto simp: c)
  then show ?thesis using False digits_val_show_nat [of "nat n"] by (simp add: show_int_def parse_signed_def c)
qed (simp add: show_int_def parse_signed_def digits_val_show_nat)

lemma plain_texts_keep: "times_kept plain_texts"
proof -
  have "CHR ''/'' \<notin> set (show_nat n)" for n using show_nat_char [of "CHR ''/''" n] by auto
  then have "CHR ''/'' \<notin> set (show_int n)" for n by (simp add: show_int_def)
  then have "index_byte (CHR ''/'') (show_int n @ CHR ''/'' # zs) = Some (length (show_int n))" for n zs
    by (rule index_byte_append)
  then show ?thesis by (simp add: times_kept_def plain_texts_def)
qed

lemma port_sort_exists: "port_sort (sort_key pf_port)"
  by (simp add: port_sort_def)

theorem toggled_port_is_shown_witness:
  "\<exists>d' s. upsertPortInState plain_texts \<lparr>wf_mkdir = None, wf_write = None, wf_rename = None\<rparr> (sort_key pf_port)
      zero_time 8080 PFStatusPending empty_dir = (None, d')
    \<and> LoadForwardsState plain_texts d' = Inr (Some s) \<and> (\<exists>p \<in> set (fs_forwards s). pf_port p = 8080)"
proof -
  let ?f = "\<lparr>wf_mkdir = None, wf_write = None, wf_rename = None\<rparr>"
  have load: "LoadForwardsState plain_texts empty_dir = Inr None" by (simp add: LoadForwardsState_def empty_dir_def)
  obtain d' where r: "upsertPortInState plain_texts ?f (sort_key pf_port) zero_time 8080 PFStatusPending empty_dir = (None, d')"
    by (simp add: upsertPortInState_def load WriteForwardsStateAtomic_def write_forwards_def Let_def)
  from toggled_port_is_shown [OF plain_texts_keep port_sort_exists load _ _ r, of "[]"] obtain s p where
    s: "LoadForwardsState plain_texts d' = Inr (Some s)" "filter (\<lambda>p. pf_port p = 8080) (fs_forwards s) = [p]" by auto
  from s(2) have "p \<in> set (fs_forwards s) \<and> pf_port p = 8080" 
    using set_filter [of "\<lambda>p. pf_port p = 8080" "fs_forwards s"] by auto
  with r s(1) show ?thesis by blast
qed

section \<open>Toggling and syncing\<close>

lemma failed_enqueue:
  "EnqueueForwardRequest f srt port now d = (Some e, d') \<Longrightarrow> qd_file (sd_queue d') = qd_file (sd_queue d)"
  by (auto simp: EnqueueForwardRequest_def with_queue_def WriteQueueAtomic_def Let_def
      split: sum.splits prod.splits option.splits)

lemma enqueue_pending:
  assumes "id_sort srt" "EnqueueForwardRequest f srt port now d = (e, d')" "LoadQueue (qd_file (sd_queue d)) = Inr q"
    and "LoadQueue (qd_file (sd_queue d')) = Inr q'" "r \<in> set (q_pending q')"
  shows "r \<in> set (q_pending q) \<or> req_lport r = port"
proof (cases e)
  case (Some x)
  with assms failed_enqueue show ?thesis by (metis sum.inject(2))
next
  case None
  then obtain x where "with_queue f (t_ns now) DefaultTTL (Enqueue srt (pane_request port now)) d = (Inr x, d')"
    using assms(2) by (auto simp: EnqueueForwardRequest_def split: sum.splits prod.splits)
  from with_queue_ok [OF this] assms(3) obtain acked q1 where
    e: "Enqueue srt (pane_request port now) (Prune acked (t_ns now) DefaultTTL q) = (x, q1)"
    and w: "qd_file (sd_queue d') = Contents (JDoc (enc_queue q1))" by auto
  note p = Enqueue_simps [OF assms(1) e]
  have "q' = q1" using assms(4) w load_written p load_version [OF assms(3)] by simp
  then have "r \<in># add_mset x (mset (q_pending (Prune acked (t_ns now) DefaultTTL q)))"
    using assms(5) p by (metis set_mset_mset)
  then show ?thesis using p by (auto simp: Prune_def Let_def pane_request_def split: if_splits)
qed

lemma upsert_keeps_queue: "upsertPortInState tx f srt t p st d = (e, d') \<Longrightarrow> sd_queue d' = sd_queue d"
  by (auto simp: upsertPortInState_def WriteForwardsStateAtomic_def Let_def split: sum.splits prod.splits)

text \<open>A clicked link requests only what a sandbox publishes. Whatever the URL or flag, every
  request that ports-toggle adds to the queue is for a port from 1024 to 11023.\<close>

theorem toggle_requests_published_ports:
  assumes "runPortsToggleWith env args (w, d) = (r, (w', d'))" "id_sort (pl_sort env)"
    and "LoadQueue (qd_file (sd_queue d)) = Inr q" "LoadQueue (qd_file (sd_queue d')) = Inr q'"
    and "x \<in> set (q_pending q')" "x \<notin> set (q_pending q)"
  shows "GuestPortMin \<le> req_lport x \<and> req_lport x \<le> GuestPortMax"
proof -
  have "sd_queue d' \<noteq> sd_queue d" using assms(3-6) by auto
  then obtain port y where t: "toggle_state env port d = (y, d')"
    using assms(1) by (auto simp: runPortsToggleWith_def Let_def split: option.splits sum.splits prod.splits if_splits)
  with \<open>sd_queue d' \<noteq> sd_queue d\<close> obtain z d1 where
    range: "GuestPortMin \<le> port" "port \<le> GuestPortMax" and "sd_queue d' = sd_queue d1"
    and e: "EnqueueForwardRequest (pl_queue_faults env) (pl_sort env) port (pl_now env) d = (z, d1)"
    by (auto simp: toggle_state_def Let_def not_less dest: upsert_keeps_queue split: if_splits option.splits prod.splits)
  with enqueue_pending [OF assms(2) e assms(3) _ assms(5)] assms(4,6) show ?thesis by auto
qed

end
