(* ===== verification/PluginProps.thy ===== *)
theory PluginProps
  imports PortsProps MsbService
begin

text \<open>
  Properties of \<open>fwd-sync --teardown\<close>, and concrete runs of the plugin commands on the msb daemon.
\<close>

section \<open>Teardown\<close>

text \<open>C35: \<open>fwd-sync --teardown\<close> cancels nothing. A teardown runs with a manager that has applied no
  forward yet, so whatever the ssh master forwards, no command reaches it: the world is as the
  resolution of the name left it. The command still reports success for every sandbox it
  resolves, and when the panel's file can be written it lists no forward afterwards.\<close>

theorem teardown_cancels_nothing:
  assumes "\<And>xs. mset (pl_order env xs) = mset xs" "port_sort (pl_row_sort env)"
    and "parse_flags fwd_flags args = Some (fl, rest)"
    and "flag_string fl ''control-path'' [] \<noteq> []" "flag_string fl ''ssh-host'' [] \<noteq> []"
    and "flag_string fl ''teardown'' [] = name" "name \<noteq> []"
    and "runFwdSync env args (w, d) = Some ((code, ms), (w', d'))"
  shows "\<exists>r. service_Resolve (pl_service env (flag_string fl ''project'' DefaultProject)) name w = Some (r, w')
    \<and> (code = 0 \<longleftrightarrow> (\<exists>ref. r = Inr ref)) \<and> sd_queue d' = sd_queue d \<and> sd_ack d' = sd_ack d
    \<and> (code = 0 \<and> StateDir (pl_getenv env) \<noteq> None \<and> times_kept (pl_texts env)
        \<and> pl_state_faults env = \<lparr>wf_mkdir = None, wf_write = None, wf_rename = None\<rparr> \<longrightarrow>
        (\<exists>s. LoadForwardsState (pl_texts env) d' = Inr (Some s) \<and> fs_forwards s = []))"
proof -
  let ?fw = "sync_forwarder env (flag_string fl ''control-path'' []) (flag_string fl ''ssh-host'' [])"
  have none: "pl_order env [] = []" using assms(1) [of "[]"] by simp
  have "mset (pl_row_sort env []) = mset []" using assms(2) unfolding port_sort_def by blast
  then have srt: "pl_row_sort env [] = []" by simp
  have td: "TeardownSandbox (pl_order env) ref (NewManager ?fw) v = ((None, NewManager ?fw), v)" for ref v
    by (simp add: TeardownSandbox_def NewManager_def none)
  have written: "writeAppliedState tx f (pl_row_sort env) (pl_order env) now ?fw (NewManager ?fw) (v, d)
      = (v, snd (WriteForwardsStateAtomic tx f \<lparr>fs_by = ''fwd-sync'', fs_updated = now, fs_forwards = []\<rparr> d))" for tx f now v
    by (simp add: writeAppliedState_def Applied_def NewManager_def none srt split: prod.splits)
  have kept: "sd_queue (snd (WriteForwardsStateAtomic tx f s d)) = sd_queue d"
    "sd_ack (snd (WriteForwardsStateAtomic tx f s d)) = sd_ack d" for tx f s
    by (simp_all add: WriteForwardsStateAtomic_def split: prod.splits)
  have ok: "LoadForwardsState tx (snd (WriteForwardsStateAtomic tx \<lparr>wf_mkdir = None, wf_write = None, wf_rename = None\<rparr> s d))
      = Inr (Some s)" if "times_kept tx" for tx s
    by (simp add: WriteForwardsStateAtomic_def write_forwards_def Let_def LoadForwardsState_def state_loads [OF that])
  have run: "sync_teardown env ?fw (flag_string fl ''project'' DefaultProject) name (w, d) = Some ((code, ms), (w', d'))"
    using assms(3-8) by (simp add: runFwdSync_def Let_def)
  show ?thesis
  proof (cases "service_Resolve (pl_service env (flag_string fl ''project'' DefaultProject)) name w")
    case None
    with run show ?thesis by (simp add: sync_teardown_def)
  next
    case (Some rw)
    obtain r w1 where rw: "rw = (r, w1)" by (cases rw)
    show ?thesis
    proof (cases r)
      case (Inl e)
      with run Some rw show ?thesis by (simp add: sync_teardown_def)
    next
      case (Inr ref)
      with run Some rw have "code = 0 \<and> (w', d') = write_applied env ?fw (NewManager ?fw) (w1, d)"
        by (simp add: sync_teardown_def td)
      then show ?thesis using Some rw Inr by (auto simp: write_applied_def written kept ok split: if_splits)
    qed
  qed
qed

section \<open>Concrete runs\<close>

text \<open>The daemon of \<open>two_projects\<close> behind a herdr that opens every pane.\<close>

definition demo_plugin :: "(daemon, run_error) plugin_env" where
  "demo_plugin =
     \<lparr>pl_getenv = (\<lambda>k. if k = ''XDG_STATE_HOME'' then ''/s'' else []), pl_stat = (\<lambda>_. False),
      pl_net = \<lparr>nl_url = (\<lambda>_. None), nl_ip = (\<lambda>_. None)\<rparr>,
      pl_run = (\<lambda>argv d. (\<lparr>ro_stdout = [], ro_stderr = [], ro_code = 0, ro_err = None\<rparr>, d)),
      pl_fw_stat = (\<lambda>_ _. True), pl_fw_remove = (\<lambda>_ d. d),
      pl_service = (\<lambda>p. msb_service None OpenFailed p ''/root'' (\<lambda>_. None)),
      pl_lister = \<lparr>el_list = (\<lambda>d. (Inr (dm_refs d), d)), el_exec = (\<lambda>_ _ d. (Inr ([], 0), d))\<rparr>,
      pl_scan = (\<lambda>_. JDoc (JObj [(''type'', JStr ''plugin_pane_opened'')])), pl_texts = plain_texts,
      pl_queue_faults = \<lparr>wf_mkdir = None, wf_write = None, wf_rename = None\<rparr>,
      pl_state_faults = \<lparr>wf_mkdir = None, wf_write = None, wf_rename = None\<rparr>,
      pl_sort = sort_key req_id, pl_row_sort = sort_key pf_port, pl_order = (\<lambda>ks. ks),
      pl_duration = (\<lambda>_. None), pl_now = zero_time\<rparr>"

lemma demo_plugin_simps [simp]:
  "pl_order demo_plugin = (\<lambda>ks. ks)" "pl_row_sort demo_plugin = sort_key pf_port" "pl_sort demo_plugin = sort_key req_id"
  "pl_texts demo_plugin = plain_texts" "pl_now demo_plugin = zero_time"
  "pl_state_faults demo_plugin = \<lparr>wf_mkdir = None, wf_write = None, wf_rename = None\<rparr>"
  "pl_queue_faults demo_plugin = \<lparr>wf_mkdir = None, wf_write = None, wf_rename = None\<rparr>"
  "pl_service demo_plugin p = msb_service None OpenFailed p ''/root'' (\<lambda>_. None)"
  "StateDir (pl_getenv demo_plugin) \<noteq> None"
  by (simp_all add: demo_plugin_def StateDir_def)

lemma teardown_words:
  "parse_flags fwd_flags [''-control-path'', ''c'', ''-ssh-host'', ''h'', ''-teardown'', ''x'']
     = Some ([(''control-path'', ''c''), (''ssh-host'', ''h''), (''teardown'', ''x'')], [])"
proof -
  have words: "flag_word ''-control-path'' = FlagNamed ''control-path''" "cut_flag ''control-path'' = (''control-path'', None)"
    "flag_word ''-ssh-host'' = FlagNamed ''ssh-host''" "cut_flag ''ssh-host'' = (''ssh-host'', None)"
    "flag_word ''-teardown'' = FlagNamed ''teardown''" "cut_flag ''teardown'' = (''teardown'', None)" by code_simp+
  show ?thesis using words by (simp add: parse_flags.simps(2) fwd_flags_def)
qed

theorem teardown_cancels_nothing_witness:
  "\<exists>ms d' s. runFwdSync demo_plugin [''-control-path'', ''c'', ''-ssh-host'', ''h'', ''-teardown'', ''x''] (two_projects, empty_dir)
      = Some ((0, ms), (two_projects, d'))
    \<and> LoadForwardsState plain_texts d' = Inr (Some s) \<and> fs_forwards s = []"
proof -
  let ?fl = "[(''control-path'', ''c''), (''ssh-host'', ''h''), (''teardown'', ''x'')] :: (string \<times> string) list"
  let ?args = "[''-control-path'', ''c'', ''-ssh-host'', ''h'', ''-teardown'', ''x'']"
  have fl: "flag_string ?fl ''control-path'' [] = ''c''" "flag_string ?fl ''ssh-host'' [] = ''h''"
    "flag_string ?fl ''teardown'' [] = ''x''" "flag_string ?fl ''project'' DefaultProject = ''herdr''"
    by (simp_all add: flag_string_def flag_last_def flag_values_def DefaultProject_def)
  obtain ref where res: "service_Resolve (msb_service None OpenFailed ''herdr'' ''/root'' (\<lambda>_. None)) ''x'' two_projects
      = Some (Inr ref, two_projects)"
    by (simp add: msb.resolve_result [OF named_two_projects msb_service_simps(1)] two_projects_refs resolves_def)
  obtain code ms w' d' where r: "runFwdSync demo_plugin ?args (two_projects, empty_dir) = Some ((code, ms), (w', d'))"
    and code: "code = 0"
    by (cases "write_applied demo_plugin (sync_forwarder demo_plugin ''c'' ''h'')
        (NewManager (sync_forwarder demo_plugin ''c'' ''h'')) (two_projects, empty_dir)")
      (simp add: runFwdSync_def teardown_words fl sync_teardown_def res TeardownSandbox_def NewManager_def Let_def)
  from teardown_cancels_nothing [OF _ _ teardown_words _ _ fl(3) _ r]
  show ?thesis using r code res by (simp add: fl port_sort_exists plain_texts_keep)
qed

theorem toggle_requests_published_ports_witness:
  "\<exists>r w' d' q' x. runPortsToggleWith demo_plugin [''-port'', ''8080''] (two_projects, empty_dir) = (r, (w', d'))
    \<and> LoadQueue (qd_file (sd_queue d')) = Inr q' \<and> x \<in> set (q_pending q') \<and> req_lport x \<le> GuestPortMax"
proof -
  let ?args = "[''-port'', ''8080'']" and ?fl = "[(''port'', ''8080'')] :: (string \<times> string) list"
  have q0: "LoadQueue (qd_file (sd_queue empty_dir)) = Inr new_queue" "ReadAck (sd_ack empty_dir) = Inr 0"
    "q_pending new_queue = []"
    by (simp_all add: LoadQueue_def ReadAck_def empty_dir_def new_queue_def)
  obtain r w' d' where run: "runPortsToggleWith demo_plugin ?args (two_projects, empty_dir) = (r, (w', d'))"
    by (metis prod_cases3)
  have words: "flag_word ''-port'' = FlagNamed ''port''" "cut_flag ''port'' = (''port'', None)" by code_simp+
  have number: "parse_uint0 ''8080'' = Some 8080"
    by (simp add: parse_uint0_def parse_based_def parse_uint_def digit_val_def Let_def)
  have parsed: "parse_flags [(''port'', FlagUint)] ?args = Some (?fl, [])"
    using words number by (simp add: parse_flags.simps(2))
  have port: "toggle_port demo_plugin ?fl = Inr 8080"
    using number by (simp add: toggle_port_def demo_plugin_def flag_uint_def flag_last_def flag_values_def Let_def)
  obtain e where enq: "EnqueueForwardRequest (pl_queue_faults demo_plugin) (pl_sort demo_plugin) 8080 zero_time empty_dir
      = (None, e)"
    by (cases "Enqueue (sort_key req_id) (pane_request 8080 zero_time) (Prune 0 (t_ns zero_time) DefaultTTL new_queue)")
      (simp add: EnqueueForwardRequest_def with_queue_def q0 WriteQueueAtomic_def Let_def)
  then obtain x where "with_queue (pl_queue_faults demo_plugin) (t_ns zero_time) DefaultTTL
      (Enqueue (pl_sort demo_plugin) (pane_request 8080 zero_time)) empty_dir = (Inr x, e)"
    by (auto simp: EnqueueForwardRequest_def split: sum.splits prod.splits)
  from with_queue_ok [OF this] q0 obtain acked q1 where
    q1: "Enqueue (pl_sort demo_plugin) (pane_request 8080 zero_time) (Prune acked (t_ns zero_time) DefaultTTL new_queue) = (x, q1)"
    "qd_file (sd_queue e) = Contents (JDoc (enc_queue q1))" by auto
  have "id_sort (pl_sort demo_plugin)" by (simp add: id_sort_def)
  note pend = Enqueue_simps [OF this q1(1)]
  have load: "LoadQueue (qd_file (sd_queue e)) = Inr q1"
    using pend load_written load_version [OF q0(1)] by (simp add: q1(2))
  have x: "x \<in> set (q_pending q1)" using pend by (metis set_mset_mset union_single_eq_member)
  obtain ms d1 where "toggle_state demo_plugin 8080 empty_dir = (Inr ms, d1)" and sq: "sd_queue d1 = sd_queue e"
    using enq upsert_keeps_queue
    by (cases "upsertPortInState plain_texts \<lparr>wf_mkdir = None, wf_write = None, wf_rename = None\<rparr> (sort_key pf_port) zero_time 8080 PFStatusPending e")
      (auto simp: toggle_state_def Let_def GuestPortMin_def GuestPortMax_def)
  then have "d' = d1" using run by (auto simp: runPortsToggleWith_def parsed port Let_def split: prod.splits option.splits)
  with sq load x have "LoadQueue (qd_file (sd_queue d')) = Inr q1" by simp
  moreover from toggle_requests_published_ports [OF run _ q0(1) this x] have "req_lport x \<le> GuestPortMax"
    by (simp add: id_sort_def q0(3))
  ultimately show ?thesis using run x by blast
qed

end
