(* ===== verification/Provision.thy ===== *)
theory Provision
  imports PluginCommands
begin

text \<open>
  Consent and provisioning of remote machines: \<open>internal/clientagent/consent.go\<close>, \<open>provision.go\<close>,
  the \<open>provision\<close> command and the dispatch of \<open>agentrun.go\<close>, and the machines herdr knows
  (\<open>internal/portfwd/machines.go\<close>). Consent records are files of the local state directory, by
  their path; commands for the remote machine run in the world \<open>'w\<close>.
\<close>

section \<open>Consent records\<close>

record ConsentRecord =
  cr_target :: string
  cr_at :: gtime
  cr_version :: string

definition no_record :: ConsentRecord where
  "no_record = \<lparr>cr_target = [], cr_at = zero_time, cr_version = []\<rparr>"

definition enc_consent :: "texts \<Rightarrow> ConsentRecord \<Rightarrow> json" where
  "enc_consent tx r = JObj
     [(''target'', JStr (cr_target r)), (''consented_at'', JStr (tx_format tx (cr_at r))),
      (''version'', JStr (cr_version r))]"

definition dec_consent :: "texts \<Rightarrow> ConsentRecord decoder" where
  "dec_consent tx = dec_struct (\<lambda>k j r.
     if key_is ''target'' k then (let (ok, v) = dec_string j (cr_target r) in (ok, r\<lparr>cr_target := v\<rparr>))
     else if key_is ''consented_at'' k then (let (ok, v) = dec_time tx j (cr_at r) in (ok, r\<lparr>cr_at := v\<rparr>))
     else if key_is ''version'' k then (let (ok, v) = dec_string j (cr_version r) in (ok, r\<lparr>cr_version := v\<rparr>))
     else (True, r))"

text \<open>The files by path.\<close>

type_synonym consent_files = "string \<Rightarrow> jtext fsfile"

datatype consent_error = ErrNoConsent | ConsentRead string | ConsentParse | ConsentIO string

definition sanitizeTarget :: "string \<Rightarrow> string" where
  "sanitizeTarget target =
     map (\<lambda>c. if c \<in> {CHR ''/'', CHR '':'', CHR ''@'', CHR ''.''} then CHR ''_'' else c) target"

definition consentPath :: "string \<Rightarrow> string \<Rightarrow> string" where
  "consentPath dir target = filepath_Join [dir, ''consent'', sanitizeTarget target @ ''.json'']"

definition consent_Load :: "texts \<Rightarrow> string \<Rightarrow> string \<Rightarrow> consent_files \<Rightarrow> consent_error + ConsentRecord" where
  "consent_Load tx dir target fs =
     (case fs (consentPath dir target) of
        NoFile \<Rightarrow> Inl ErrNoConsent
      | ReadError e \<Rightarrow> Inl (ConsentRead e)
      | Contents t \<Rightarrow>
          (case unmarshal (dec_consent tx) no_record t of None \<Rightarrow> Inl ConsentParse | Some r \<Rightarrow> Inr r))"

definition consent_Save :: "texts \<Rightarrow> write_faults \<Rightarrow> string \<Rightarrow> ConsentRecord \<Rightarrow> (consent_files, consent_error option) act" where
  "consent_Save tx f dir r fs =
     (case wf_mkdir f of
        Some e \<Rightarrow> (Some (ConsentIO e), fs)
      | None \<Rightarrow>
          (let dst = consentPath dir (cr_target r); tmp = dst @ ''.tmp'' in
           case wf_write f of
             Some (e, t) \<Rightarrow> (Some (ConsentIO e), fs(tmp := Contents t))
           | None \<Rightarrow>
               (let fs1 = fs(tmp := Contents (JDoc (enc_consent tx r))) in
                case wf_rename f of
                  Some e \<Rightarrow> (Some (ConsentIO e), fs1)
                | None \<Rightarrow> (None, fs1(dst := fs1 tmp, tmp := NoFile)))))"

text \<open>\<open>os.Remove\<close>: \<open>fault\<close> is the error of an existing file that cannot be removed.\<close>

definition Revoke :: "string option \<Rightarrow> string \<Rightarrow> string \<Rightarrow> (consent_files, consent_error option) act" where
  "Revoke fault dir target fs =
     (if fs (consentPath dir target) = NoFile then (Some ErrNoConsent, fs)
      else (case fault of
              Some e \<Rightarrow> (Some (ConsentIO e), fs)
            | None \<Rightarrow> (None, fs(consentPath dir target := NoFile))))"

definition CheckFn :: "texts \<Rightarrow> string \<Rightarrow> consent_files \<Rightarrow> string \<Rightarrow> consent_error option" where
  "CheckFn tx dir fs target = (case consent_Load tx dir target fs of Inl e \<Rightarrow> Some e | Inr _ \<Rightarrow> None)"

section \<open>Provisioning\<close>

definition remotePluginDir :: string where "remotePluginDir = ''.config/herdr/plugins/herdr-plugin-msb''"
definition remoteBinDir :: string where "remoteBinDir = ''.local/bin''"
definition remoteVersionDir :: string where "remoteVersionDir = ''.local/share/herdr-plugin-msb''"
definition remoteVersionFile :: string where "remoteVersionFile = ''.local/share/herdr-plugin-msb/version''"

text \<open>\<open>pr_stat\<close>: whether \<open>os.Stat\<close> of the local path succeeds.\<close>

record 'w Provisioner =
  pr_target :: string
  pr_bin :: string
  pr_toml :: string
  pr_version :: string
  pr_check :: "string \<Rightarrow> consent_error option"
  pr_run :: "'w runner"
  pr_copy :: "string \<Rightarrow> string \<Rightarrow> ('w, string option) act"
  pr_stat :: "string \<Rightarrow> bool"

datatype provision_error = PvConsent consent_error | ErrNoSourceBinary | PvCopy string

definition remote_sh :: "'w Provisioner \<Rightarrow> string \<Rightarrow> string list" where
  "remote_sh p cmd = [''ssh'', ''-o'', ''BatchMode=yes'', pr_target p, cmd]"

definition ReadRemoteVersion :: "'w Provisioner \<Rightarrow> ('w, string) act" where
  "ReadRemoteVersion p w =
     (case pr_run p (remote_sh p (''cat ~/'' @ remoteVersionFile @ '' 2>/dev/null'')) w of
        (out, w1) \<Rightarrow> (if ro_err out \<noteq> None then [] else trim_space (ro_stdout out), w1))"

text \<open>A remote command whose result is not looked at.\<close>

definition run_blind :: "'w Provisioner \<Rightarrow> string \<Rightarrow> 'w \<Rightarrow> 'w" where
  "run_blind p cmd w = snd (pr_run p (remote_sh p cmd) w)"

text \<open>The copies and commands once the binary is known to exist.\<close>

definition provision_steps :: "'w Provisioner \<Rightarrow> ('w, provision_error option) act" where
  "provision_steps p w =
     (let w1 = run_blind p (''mkdir -p ~/'' @ remotePluginDir @ '' ~/'' @ remoteBinDir @ '' ~/'' @ remoteVersionDir) w in
      case pr_copy p (pr_bin p) (pr_target p @ '':~/'' @ remoteBinDir @ ''/herdr-plugin-msb'') w1 of
        (Some e, w2) \<Rightarrow> (Some (PvCopy e), w2)
      | (None, w2) \<Rightarrow>
          (let w3 = run_blind p ''chmod +x ~/.local/bin/herdr-plugin-msb'' w2 in
           case pr_copy p (pr_toml p) (pr_target p @ '':~/'' @ remotePluginDir @ ''/herdr-plugin.toml'') w3 of
             (Some e, w4) \<Rightarrow> (Some (PvCopy e), w4)
           | (None, w4) \<Rightarrow>
               (let w5 = run_blind p (''herdr plugin link ~/'' @ remotePluginDir) w4;
                    w6 = run_blind p (''echo '' @ pr_version p @ '' > ~/'' @ remoteVersionFile) w5
                in (None, w6))))"

text \<open>The result with the remote version when a mismatch is reported.\<close>

definition EnsureProvisioned :: "'w Provisioner \<Rightarrow> ('w, provision_error option \<times> string option) act" where
  "EnsureProvisioned p w =
     (case pr_check p (pr_target p) of
        Some e \<Rightarrow> ((Some (PvConsent e), None), w)
      | None \<Rightarrow>
          (case ReadRemoteVersion p w of
             (remote, w1) \<Rightarrow>
               if remote = pr_version p then ((None, None), w1)
               else (let said = (if remote \<noteq> [] then Some remote else None) in
                     if \<not> pr_stat p (pr_bin p) then ((Some ErrNoSourceBinary, said), w1)
                     else (case provision_steps p w1 of (e, w2) \<Rightarrow> ((e, said), w2)))))"

definition SCPCopy :: "'w runner \<Rightarrow> string \<Rightarrow> string \<Rightarrow> ('w, string option) act" where
  "SCPCopy run src sshDest w =
     (case run [''scp'', ''-o'', ''BatchMode=yes'', src, sshDest] w of
        (out, w1) \<Rightarrow>
          (case ro_err out of
             Some e \<Rightarrow> (Some e, w1)
           | None \<Rightarrow> (if ro_code out \<noteq> 0 then Some (''scp exited '' @ show_int (ro_code out)) else None, w1)))"

section \<open>Machines\<close>

record Machine =
  mc_profile :: string
  mc_label :: string
  mc_target :: string
  mc_session :: string
  mc_enabled :: bool
  mc_selected :: bool

definition no_machine :: Machine where
  "no_machine = \<lparr>mc_profile = [], mc_label = [], mc_target = [], mc_session = [], mc_enabled = False, mc_selected = False\<rparr>"

definition dec_machine :: "Machine decoder" where
  "dec_machine = dec_struct (\<lambda>k j m.
     if key_is ''id'' k then (let (ok, v) = dec_string j (mc_profile m) in (ok, m\<lparr>mc_profile := v\<rparr>))
     else if key_is ''label'' k then (let (ok, v) = dec_string j (mc_label m) in (ok, m\<lparr>mc_label := v\<rparr>))
     else if key_is ''target'' k then (let (ok, v) = dec_string j (mc_target m) in (ok, m\<lparr>mc_target := v\<rparr>))
     else if key_is ''session'' k then (let (ok, v) = dec_string j (mc_session m) in (ok, m\<lparr>mc_session := v\<rparr>))
     else if key_is ''enabled'' k then (let (ok, v) = dec_bool j (mc_enabled m) in (ok, m\<lparr>mc_enabled := v\<rparr>))
     else if key_is ''selected'' k then (let (ok, v) = dec_bool j (mc_selected m) in (ok, m\<lparr>mc_selected := v\<rparr>))
     else (True, m))"

datatype machine_error = MachineRun string | ErrHerdrFailed int string | ErrBadJSON

definition DiscoverMachines :: "(string \<Rightarrow> jtext) \<Rightarrow> 'w runner \<Rightarrow> ('w, machine_error + Machine list) act" where
  "DiscoverMachines scan run w =
     (case run [''herdr'', ''machine'', ''list'', ''--json''] w of
        (out, w1) \<Rightarrow>
          (case ro_err out of
             Some e \<Rightarrow> (Inl (MachineRun e), w1)
           | None \<Rightarrow>
               if ro_code out \<noteq> 0 then
                 (Inl (ErrHerdrFailed (ro_code out) (if ro_stderr out = [] then ro_stdout out else ro_stderr out)), w1)
               else (case unmarshal (dec_slice dec_machine no_machine) [] (scan (ro_stdout out)) of
                       None \<Rightarrow> (Inl ErrBadJSON, w1) | Some ms \<Rightarrow> (Inr ms, w1))))"

section \<open>The provision command\<close>

record 'w provision_env =
  ve_getenv :: env
  ve_stat :: "string \<Rightarrow> bool"
  ve_run :: "'w runner"
  ve_texts :: texts
  ve_faults :: write_faults
  ve_remove :: "string option"
  ve_now :: gtime

datatype provision_msg =
    VmNoStateDir | VmListed string | VmNoTarget | VmRevoke consent_error | VmRevoked string
  | VmPlan string string string | VmNoInput | VmAborted | VmSave consent_error
  | VmMismatch string | VmFailed provision_error | VmProvisioned string string

type_synonym provision_out = "int \<times> provision_msg list"

definition provision_flags :: flag_set where
  "provision_flags = [(''target'', FlagString), (''revoke'', FlagBool), (''list'', FlagBool), (''bin'', FlagString), (''toml'', FlagString)]"

definition plugin_file :: "env \<Rightarrow> string \<Rightarrow> string \<Rightarrow> string" where
  "plugin_file getenv given name =
     (let root = getenv ''HERDR_PLUGIN_ROOT'' in
      if given = [] \<and> root \<noteq> [] then filepath_Join [root, name] else given)"

definition provisioner_of ::
  "'w provision_env \<Rightarrow> string \<Rightarrow> consent_files \<Rightarrow> string \<Rightarrow> string \<Rightarrow> string \<Rightarrow> 'w Provisioner" where
  "provisioner_of env dir fs target bin toml =
     \<lparr>pr_target = target, pr_bin = bin, pr_toml = toml, pr_version = PluginVersion,
      pr_check = CheckFn (ve_texts env) dir fs, pr_run = ve_run env, pr_copy = SCPCopy (ve_run env), pr_stat = ve_stat env\<rparr>"

text \<open>What follows the confirmation.\<close>

definition provision_confirmed ::
  "'w provision_env \<Rightarrow> string \<Rightarrow> string \<Rightarrow> string \<Rightarrow> string \<Rightarrow> ('w \<times> consent_files, provision_out) act" where
  "provision_confirmed env dir target bin toml s =
     (case consent_Save (ve_texts env) (ve_faults env) dir
             \<lparr>cr_target = target, cr_at = (ve_now env)\<lparr>t_zone := 0\<rparr>, cr_version = PluginVersion\<rparr> (snd s) of
        (Some e, fs1) \<Rightarrow> ((1, [VmSave e]), (fst s, fs1))
      | (None, fs1) \<Rightarrow>
          (case EnsureProvisioned (provisioner_of env dir fs1 target bin toml) (fst s) of
             ((e, said), w1) \<Rightarrow>
               (let ms = (case said of Some v \<Rightarrow> [VmMismatch v] | None \<Rightarrow> []) in
                case e of
                  Some x \<Rightarrow> ((1, ms @ [VmFailed x]), (w1, fs1))
                | None \<Rightarrow> ((0, ms @ [VmProvisioned target PluginVersion]), (w1, fs1)))))"

text \<open>\<open>answer\<close>: the first line of the input, if there is one.\<close>

definition RunProvision ::
  "'w provision_env \<Rightarrow> string list \<Rightarrow> string option \<Rightarrow> ('w \<times> consent_files, provision_out) act" where
  "RunProvision env args answer s =
     (case parse_flags provision_flags args of
        None \<Rightarrow> ((2, []), s)
      | Some (fl, _) \<Rightarrow>
          (case StateDir (ve_getenv env) of
             None \<Rightarrow> ((1, [VmNoStateDir]), s)
           | Some dir \<Rightarrow>
               (let target = flag_string fl ''target'' [] in
                if flag_bool fl ''list'' False then ((0, [VmListed dir]), s)
                else if target = [] then ((2, [VmNoTarget]), s)
                else if flag_bool fl ''revoke'' False then
                  (case Revoke (ve_remove env) dir target (snd s) of
                     (Some e, fs1) \<Rightarrow> ((1, [VmRevoke e]), (fst s, fs1))
                   | (None, fs1) \<Rightarrow> ((0, [VmRevoked target]), (fst s, fs1)))
                else (let bin = plugin_file (ve_getenv env) (flag_string fl ''bin'' []) ''herdr-plugin-msb'';
                          toml = plugin_file (ve_getenv env) (flag_string fl ''toml'' []) ''herdr-plugin.toml'';
                          plan = VmPlan target bin toml
                      in case answer of
                           None \<Rightarrow> ((1, [plan, VmNoInput]), s)
                         | Some l \<Rightarrow>
                             if trim_space (map lower_char l) \<noteq> ''y'' then ((0, [plan, VmAborted]), s)
                             else (case provision_confirmed env dir target bin toml s of
                                     ((c, ms), s1) \<Rightarrow> ((c, plan # ms), s1))))))"

section \<open>Dispatch of the agent binary\<close>

datatype agent_command = ANone | AStartup | ALocalAgent | AProvision | AHelp | AUnknown string

definition agent_table :: "(string \<times> agent_command) list" where
  "agent_table =
     [(''local-agent-startup'', AStartup), (''local-agent'', ALocalAgent), (''provision'', AProvision),
      (''help'', AHelp), (''--help'', AHelp), (''-h'', AHelp)]"

definition AgentRun_dispatch :: "string list \<Rightarrow> agent_command" where
  "AgentRun_dispatch argv =
     (case argv of
        [] \<Rightarrow> ANone
      | c # _ \<Rightarrow> (case map_of agent_table c of Some k \<Rightarrow> k | None \<Rightarrow> AUnknown c))"

text \<open>\<open>local-agent\<close> of the agent binary: the same steps as the command of the plugin binary, under
  another prefix of its messages.\<close>

definition RunLocalAgent ::
  "('w, 'e) plugin_env \<Rightarrow> (u64 list \<Rightarrow> u64 list) \<Rightarrow> (agent_error \<Rightarrow> string) \<Rightarrow> (agent_error \<Rightarrow> bool) \<Rightarrow> int list
     \<Rightarrow> string list \<Rightarrow> ('w, 'e plugin_out) act" where
  "RunLocalAgent = runLocalAgent"

end
