(* ===== verification/AgentProc.thy ===== *)
theory AgentProc
  imports Provision CredRefresh
begin

text \<open>
  The processes of the agents: \<open>internal/clientagent/proc.go\<close> (one agent per target, recorded in a
  pid file), the startup hook of \<open>startup.go\<close> with its watch over the selected machines, and the
  commands of \<open>internal/cli/wrap_attach.go\<close>. What they use of the operating system is the record
  \<open>os_ops\<close> over a state \<open>'w\<close>.
\<close>

text \<open>Open-and-lock, blocking or not; files; a signal-0 probe, SIGTERM, a pause of 100 ms; opening a
  log file and starting a detached process with it.\<close>

datatype lock_result = LockError string | LockBusy | LockHeld

record 'w os_ops =
  os_lock :: "string \<Rightarrow> ('w, string option) act"
  os_try_lock :: "string \<Rightarrow> 'w \<Rightarrow> lock_result"
  os_mkdir :: "string \<Rightarrow> ('w, string option) act"
  os_read :: "string \<Rightarrow> 'w \<Rightarrow> string option"
  os_write :: "string \<Rightarrow> string \<Rightarrow> ('w, string option) act"
  os_remove :: "string \<Rightarrow> 'w \<Rightarrow> 'w"
  os_exists :: "string \<Rightarrow> 'w \<Rightarrow> bool"
  os_alive :: "int \<Rightarrow> 'w \<Rightarrow> bool"
  os_term :: "int \<Rightarrow> 'w \<Rightarrow> 'w"
  os_pause :: "'w \<Rightarrow> 'w"
  os_open_log :: "string \<Rightarrow> ('w, string option) act"
  os_start :: "string list \<Rightarrow> ('w, string + int) act"

section \<open>One agent per target\<close>

definition AgentPidPath :: "string \<Rightarrow> string \<Rightarrow> string" where
  "AgentPidPath stateDir target = filepath_Join [stateDir, target @ ''.agent.pid'']"

definition AgentLogPath :: "string \<Rightarrow> string \<Rightarrow> string" where
  "AgentLogPath stateDir target = filepath_Join [stateDir, target @ ''.agent.log'']"

definition AgentLockPath :: "string \<Rightarrow> string \<Rightarrow> string" where
  "AgentLockPath stateDir target = filepath_Join [stateDir, target @ ''.agent.lock'']"

text \<open>\<open>strconv.Atoi\<close>: a sign and decimal digits.\<close>

definition Atoi :: "string \<Rightarrow> int option" where
  "Atoi s =
     (if s \<noteq> [] \<and> hd s = CHR ''+'' then (if has_prefix (tl s) ''-'' then None else parse_int64 (tl s))
      else parse_int64 s)"

definition readPid :: "'w os_ops \<Rightarrow> string \<Rightarrow> 'w \<Rightarrow> int option" where
  "readPid os path w = (case os_read os path w of None \<Rightarrow> None | Some data \<Rightarrow> Atoi (trim_space data))"

datatype spawn_error = SpLock string | SpOpenLog string | SpStart string | SpWritePid string

definition spawnIfAbsent ::
  "'w os_ops \<Rightarrow> string \<Rightarrow> string \<Rightarrow> (string \<Rightarrow> ('w, spawn_error + int) act) \<Rightarrow> ('w, spawn_error + int) act" where
  "spawnIfAbsent os stateDir target spawn w =
     (case os_lock os (AgentLockPath stateDir target) w of
        (Some e, w1) \<Rightarrow> (Inl (SpLock e), w1)
      | (None, w1) \<Rightarrow>
          (let pidPath = AgentPidPath stateDir target;
               old = (case readPid os pidPath w1 of Some pid \<Rightarrow> if os_alive os pid w1 then Some pid else None | None \<Rightarrow> None)
           in case old of
                Some pid \<Rightarrow> (Inr pid, w1)
              | None \<Rightarrow>
                  (case spawn target w1 of
                     (Inl e, w2) \<Rightarrow> (Inl e, w2)
                   | (Inr pid, w2) \<Rightarrow>
                       (case os_write os pidPath (show_int pid) w2 of
                          (Some e, w3) \<Rightarrow> (Inl (SpWritePid e), w3)
                        | (None, w3) \<Rightarrow> (Inr pid, w3)))))"

definition agent_argv :: "string \<Rightarrow> string \<Rightarrow> string list" where
  "agent_argv selfBin target = [selfBin, ''local-agent'', ''--target'', target]"

definition spawn_agent :: "'w os_ops \<Rightarrow> string \<Rightarrow> string \<Rightarrow> string \<Rightarrow> ('w, spawn_error + int) act" where
  "spawn_agent os stateDir selfBin t w =
     (case os_open_log os (AgentLogPath stateDir t) w of
        (Some e, w1) \<Rightarrow> (Inl (SpOpenLog e), w1)
      | (None, w1) \<Rightarrow>
          (case os_start os (agent_argv selfBin t) w1 of
             (Inl e, w2) \<Rightarrow> (Inl (SpStart e), w2) | (Inr pid, w2) \<Rightarrow> (Inr pid, w2)))"

definition SpawnIfAbsent :: "'w os_ops \<Rightarrow> string \<Rightarrow> string \<Rightarrow> string \<Rightarrow> ('w, spawn_error + int) act" where
  "SpawnIfAbsent os stateDir selfBin target = spawnIfAbsent os stateDir target (spawn_agent os stateDir selfBin)"

text \<open>The waiting loops look at most once per pause of 100 ms, so their rounds are bounded.\<close>

fun wait_socket :: "'w os_ops \<Rightarrow> string \<Rightarrow> nat \<Rightarrow> ('w, bool) act" where
  "wait_socket os path 0 w = (False, w)"
| "wait_socket os path (Suc n) w = (if os_exists os path w then (True, w) else wait_socket os path n (os_pause os w))"

definition WaitForSocket :: "'w os_ops \<Rightarrow> string \<Rightarrow> nat \<Rightarrow> ('w, bool) act" where
  "WaitForSocket os path timeout_ms = wait_socket os path (timeout_ms div 100)"

fun wait_gone :: "'w os_ops \<Rightarrow> int \<Rightarrow> nat \<Rightarrow> 'w \<Rightarrow> 'w" where
  "wait_gone os pid 0 w = w"
| "wait_gone os pid (Suc n) w = (if os_alive os pid w then wait_gone os pid n (os_pause os w) else w)"

definition teardownSession :: "'w os_ops \<Rightarrow> 'w runner \<Rightarrow> int \<Rightarrow> string \<Rightarrow> string \<Rightarrow> string \<Rightarrow> 'w \<Rightarrow> 'w" where
  "teardownSession os run agentPid pidPath target ctlPath w =
     (let w1 = wait_gone os agentPid 100 (os_term os agentPid w);
          w2 = os_remove os pidPath w1
      in snd (run [''ssh'', ''-S'', ctlPath, ''-O'', ''exit'', target] w2))"

section \<open>The startup hook\<close>

text \<open>\<open>ue_provision\<close> is \<open>EnsureProvisioned\<close> for a machine, \<open>ue_discover\<close> \<open>DiscoverMachines\<close>, each on the
  state of the hook.\<close>

record 'w startup_env =
  ue_getenv :: env
  ue_os :: "'w os_ops"
  ue_run :: "'w runner"
  ue_discover :: "('w, machine_error + Machine list) act"
  ue_provision :: "string \<Rightarrow> Machine \<Rightarrow> ('w, provision_error option) act"
  ue_self :: "string option"

datatype startup_msg =
    UmNoStateDir | UmMkdir string | UmLock string | UmDiscover machine_error | UmNoSelf
  | UmProvision string provision_error | UmSpawn string spawn_error

definition startupLockFile :: string where "startupLockFile = ''local-agent-startup.lock''"

definition teardown_machine :: "'w startup_env \<Rightarrow> string \<Rightarrow> Machine \<Rightarrow> 'w \<Rightarrow> 'w" where
  "teardown_machine env stateDir m w =
     (let pidPath = AgentPidPath stateDir (mc_target m); ctlPath = ControlPathFor stateDir (mc_target m) in
      case readPid (ue_os env) pidPath w of
        None \<Rightarrow> w
      | Some pid \<Rightarrow>
          if os_alive (ue_os env) pid w
          then teardownSession (ue_os env) (ue_run env) pid pidPath (mc_target m) ctlPath w else w)"

definition teardown_all :: "'w startup_env \<Rightarrow> string \<Rightarrow> Machine list \<Rightarrow> 'w \<Rightarrow> 'w" where
  "teardown_all env stateDir ms w = fold (teardown_machine env stateDir) ms w"

text \<open>The map from targets to their selection; a later machine of the same target wins.\<close>

definition selection :: "Machine list \<Rightarrow> (string \<times> bool) list" where
  "selection ms = fold (\<lambda>m. AList.update (mc_target m) (mc_selected m)) ms []"

definition selected_in :: "(string \<times> bool) list \<Rightarrow> string \<Rightarrow> bool" where
  "selected_in sel t = (map_of sel t = Some True)"

fun monitor_machines ::
  "'w startup_env \<Rightarrow> string \<Rightarrow> (string \<times> bool) list \<Rightarrow> Machine list \<Rightarrow> (string \<times> bool) list \<Rightarrow> 'w
     \<Rightarrow> (string \<times> bool) list \<times> 'w" where
  "monitor_machines env stateDir current [] sel w = (sel, w)"
| "monitor_machines env stateDir current (m # ms) sel w =
     (let t = mc_target m; was = selected_in sel t; now = selected_in current t in
      if was \<and> \<not> now then monitor_machines env stateDir current ms (AList.update t False sel) (teardown_machine env stateDir m w)
      else if \<not> was \<and> now then monitor_machines env stateDir current ms (AList.update t True sel) w
      else monitor_machines env stateDir current ms sel w)"

definition monitor_tick ::
  "'w startup_env \<Rightarrow> string \<Rightarrow> Machine list \<Rightarrow> (string \<times> bool) list \<Rightarrow> 'w \<Rightarrow> (string \<times> bool) list \<times> 'w" where
  "monitor_tick env stateDir initial sel w =
     (case ue_discover env w of
        (Inl _, w1) \<Rightarrow> (sel, w1)
      | (Inr machines, w1) \<Rightarrow> monitor_machines env stateDir (selection machines) initial sel w1)"

text \<open>\<open>monitorSelection\<close> for a number of ticks before the context is cancelled.\<close>

fun monitorSelection ::
  "'w startup_env \<Rightarrow> string \<Rightarrow> Machine list \<Rightarrow> nat \<Rightarrow> (string \<times> bool) list \<Rightarrow> 'w \<Rightarrow> (string \<times> bool) list \<times> 'w" where
  "monitorSelection env stateDir initial 0 sel w = (sel, w)"
| "monitorSelection env stateDir initial (Suc n) sel w =
     (case monitor_tick env stateDir initial sel w of
        (sel1, w1) \<Rightarrow> monitorSelection env stateDir initial n sel1 w1)"

fun provision_all :: "'w startup_env \<Rightarrow> string \<Rightarrow> Machine list \<Rightarrow> ('w, startup_msg list) act" where
  "provision_all env stateDir [] w = ([], w)"
| "provision_all env stateDir (m # ms) w =
     (case ue_provision env stateDir m w of
        (e, w1) \<Rightarrow>
          (case provision_all env stateDir ms w1 of
             (said, w2) \<Rightarrow>
               ((case e of
                   Some x \<Rightarrow> if x = PvConsent ErrNoConsent then said else UmProvision (mc_target m) x # said
                 | None \<Rightarrow> said), w2)))"

fun spawn_all :: "'w startup_env \<Rightarrow> string \<Rightarrow> string \<Rightarrow> Machine list \<Rightarrow> ('w, startup_msg list) act" where
  "spawn_all env stateDir selfBin [] w = ([], w)"
| "spawn_all env stateDir selfBin (m # ms) w =
     (case SpawnIfAbsent (ue_os env) stateDir selfBin (mc_target m) w of
        (r, w1) \<Rightarrow>
          (case spawn_all env stateDir selfBin ms w1 of
             (said, w2) \<Rightarrow> ((case r of Inl e \<Rightarrow> UmSpawn (mc_target m) e # said | Inr _ \<Rightarrow> said), w2)))"

text \<open>\<open>ticks\<close>: how often the selection is looked at before a signal or the death of the parent
  ends the session.\<close>

definition startup_session ::
  "'w startup_env \<Rightarrow> string \<Rightarrow> string \<Rightarrow> Machine list \<Rightarrow> nat \<Rightarrow> ('w, int \<times> startup_msg list) act" where
  "startup_session env stateDir selfBin enabled ticks w =
     (case provision_all env stateDir enabled w of
        (said1, w1) \<Rightarrow>
          (case spawn_all env stateDir selfBin enabled w1 of
             (said2, w2) \<Rightarrow>
               (case monitorSelection env stateDir enabled ticks (selection enabled) w2 of
                  (_, w3) \<Rightarrow> ((0, said1 @ said2), teardown_all env stateDir enabled w3))))"

definition RunLocalAgentStartup :: "'w startup_env \<Rightarrow> nat \<Rightarrow> ('w, int \<times> startup_msg list) act" where
  "RunLocalAgentStartup env ticks w =
     (case StateDir (ue_getenv env) of
        None \<Rightarrow> ((1, [UmNoStateDir]), w)
      | Some stateDir \<Rightarrow>
          (case os_mkdir (ue_os env) stateDir w of
             (Some e, w1) \<Rightarrow> ((1, [UmMkdir e]), w1)
           | (None, w1) \<Rightarrow>
               (case os_try_lock (ue_os env) (filepath_Join [stateDir, startupLockFile]) w1 of
                  LockError e \<Rightarrow> ((1, [UmLock e]), w1)
                | LockBusy \<Rightarrow> ((0, []), w1)
                | LockHeld \<Rightarrow>
                    (case ue_discover env w1 of
                       (Inl e, w2) \<Rightarrow> ((1, [UmDiscover e]), w2)
                     | (Inr machines, w2) \<Rightarrow>
                         (let enabled = filter mc_enabled machines in
                          if enabled = [] then ((0, []), w2)
                          else (case ue_self env of
                                  None \<Rightarrow> ((1, [UmNoSelf]), w2)
                                | Some selfBin \<Rightarrow> startup_session env stateDir selfBin enabled ticks w2))))))"

text \<open>The provisioning of the hook: the files of the plugin root, if that is set.\<close>

definition startup_provisioner ::
  "'w provision_env \<Rightarrow> string \<Rightarrow> consent_files \<Rightarrow> Machine \<Rightarrow> 'w Provisioner" where
  "startup_provisioner env stateDir fs m =
     provisioner_of env stateDir fs (mc_target m)
       (plugin_file (ve_getenv env) [] ''herdr-plugin-msb'') (plugin_file (ve_getenv env) [] ''herdr-plugin.toml'')"

section \<open>attach and wrap-herdr\<close>

text \<open>\<open>ae_child\<close> runs herdr with arguments and yields its exit code; \<open>ae_exec\<close> is the exec that only
  returns when it fails; \<open>ae_look\<close> is the search for herdr in the path.\<close>

record 'w attach_env =
  ae_getenv :: env
  ae_os :: "'w os_ops"
  ae_run :: "'w runner"
  ae_child :: "string \<Rightarrow> string list \<Rightarrow> ('w, int) act"
  ae_exec :: "string list \<Rightarrow> ('w, string option) act"
  ae_look :: "string option"
  ae_self :: "string option"

datatype attach_msg = AmUsage | AmNoHerdr | AmNoStateDir | AmNoSelf | AmSpawn spawn_error | AmSocket string | AmDeprecated | AmExec string

definition resolveHerdrBin :: "'w attach_env \<Rightarrow> string option" where
  "resolveHerdrBin env =
     (if ae_getenv env ''HERDR_BIN'' \<noteq> [] then Some (ae_getenv env ''HERDR_BIN'')
      else if ae_getenv env ''HERDR_BIN_PATH'' \<noteq> [] then Some (ae_getenv env ''HERDR_BIN_PATH'')
      else ae_look env)"

fun ExtractRemoteTarget :: "string list \<Rightarrow> string option" where
  "ExtractRemoteTarget [] = None"
| "ExtractRemoteTarget (a # as) =
     (if has_prefix a ''--remote='' then Some (drop 9 a)
      else if has_prefix a ''-remote='' then Some (drop 8 a)
      else if (a = ''--remote'' \<or> a = ''-remote'') \<and> as \<noteq> [] then Some (hd as)
      else ExtractRemoteTarget as)"

text \<open>The steps both commands share: an agent with its master, herdr, and the teardown.\<close>

definition attach_open :: "'w attach_env \<Rightarrow> string \<Rightarrow> ('w, (int \<times> attach_msg list) + string \<times> int) act" where
  "attach_open env target w =
     (case StateDir (ae_getenv env) of
        None \<Rightarrow> (Inl (1, [AmNoStateDir]), w)
      | Some stateDir \<Rightarrow>
          (case ae_self env of
             None \<Rightarrow> (Inl (1, [AmNoSelf]), w)
           | Some selfBin \<Rightarrow>
               (case SpawnIfAbsent (ae_os env) stateDir selfBin target w of
                  (Inl e, w1) \<Rightarrow> (Inl (1, [AmSpawn e]), w1)
                | (Inr pid, w1) \<Rightarrow>
                    (case WaitForSocket (ae_os env) (ControlPathFor stateDir target) 15000 w1 of
                       (False, w2) \<Rightarrow> (Inl (1, [AmSocket (ControlPathFor stateDir target)]), w2)
                     | (True, w2) \<Rightarrow> (Inr (stateDir, pid), w2)))))"

definition attach_close :: "'w attach_env \<Rightarrow> string \<Rightarrow> string \<times> int \<Rightarrow> 'w \<Rightarrow> 'w" where
  "attach_close env target session w =
     (case session of
        (stateDir, pid) \<Rightarrow>
          teardownSession (ae_os env) (ae_run env) pid (AgentPidPath stateDir target) target (ControlPathFor stateDir target) w)"

definition attach_session :: "'w attach_env \<Rightarrow> string \<Rightarrow> string \<Rightarrow> string list \<Rightarrow> ('w, int \<times> attach_msg list) act" where
  "attach_session env herdr target args w =
     (case attach_open env target w of
        (Inl r, w1) \<Rightarrow> (r, w1)
      | (Inr session, w1) \<Rightarrow>
          (case ae_child env herdr args w1 of (code, w2) \<Rightarrow> ((code, []), attach_close env target session w2)))"

definition RunAttach :: "'w attach_env \<Rightarrow> string list \<Rightarrow> ('w, int \<times> attach_msg list) act" where
  "RunAttach env args w =
     (case args of
        [] \<Rightarrow> ((2, [AmUsage]), w)
      | target # rest \<Rightarrow>
          (case resolveHerdrBin env of
             None \<Rightarrow> ((1, [AmNoHerdr]), w)
           | Some herdr \<Rightarrow> attach_session env herdr target (''--remote'' # target # rest) w))"

definition RunWrapHerdr :: "'w attach_env \<Rightarrow> string list \<Rightarrow> ('w, int \<times> attach_msg list) act" where
  "RunWrapHerdr env args w =
     (case resolveHerdrBin env of
        None \<Rightarrow> ((1, [AmDeprecated, AmNoHerdr]), w)
      | Some herdr \<Rightarrow>
          (case ExtractRemoteTarget args of
             None \<Rightarrow>
               (case ae_exec env (herdr # args) w of
                  (Some e, w1) \<Rightarrow> ((1, [AmDeprecated, AmExec e]), w1) | (None, w1) \<Rightarrow> ((0, [AmDeprecated]), w1))
           | Some target \<Rightarrow>
               (case attach_session env herdr target args w of ((c, ms), w1) \<Rightarrow> ((c, AmDeprecated # ms), w1))))"

end
