(* ===== verification/AgentHost.thy ===== *)
theory AgentHost
  imports AgentProc
begin

text \<open>
  What the agents' processes rely on of the operating system, as a contract of two locales, the
  lemmas on the pid files proved from it once, and a host that keeps the contract: processes with
  increasing numbers, files by path, and a termination that takes effect at
  the next pause.
\<close>

section \<open>The pid files\<close>

lemma split_on_last: "CHR ''/'' \<notin> set x \<Longrightarrow> \<exists>es y. split_on (CHR ''/'') (s @ x) = es @ [y @ x]"
proof (induction s)
  case Nil
  then have "split_on (CHR ''/'') x = [x]" by (induction x) auto
  then show ?case by (intro exI [of _ "[]"]) simp
next
  case (Cons c s)
  then obtain es y where "split_on (CHR ''/'') (s @ x) = es @ [y @ x]" by blast
  then show ?case
    by (cases es; cases "c = CHR ''/''") (auto intro: exI [of _ "[]"] exI [of _ "_ # _"])
qed

lemma join_with_last: "suffix z (join_with sep (xs @ [z]))"
proof (cases "xs = []")
  case False
  then show ?thesis by (subst join_with_append) (auto simp: suffix_def)
qed simp

lemma Clean_suffix:
  assumes "CHR ''/'' \<notin> set x" "2 < length x"
  shows "suffix x (Clean (s @ x))"
proof -
  obtain es y where split: "split_on (CHR ''/'') (s @ x) = es @ [y @ x]" using split_on_last [OF assms(1)] by blast
  have "length (y @ x) > 2" using assms(2) by simp
  then have long: "y @ x \<noteq> []" "y @ x \<noteq> ''.''" "y @ x \<noteq> ''..''" by (metis list.size(3) not_less_zero,
        metis One_nat_def length_Cons list.size(3) not_less_eq numeral_2_eq_2 zero_less_Suc less_SucI,
        metis length_Cons list.size(3) numeral_2_eq_2 less_irrefl)
  have "clean_elem r z st = z # st" if "z \<noteq> []" "z \<noteq> ''.''" "z \<noteq> ''..''" for r z st
    using that by (simp add: clean_elem_def)
  from this [OF long] obtain xs where "elements (s @ x) = xs @ [y @ x]" by (simp add: elements_def split)
  moreover have "suffix x (y @ x)" by (simp add: suffix_def)
  ultimately have "suffix x (join_with ''/'' (elements (s @ x)))" "elements (s @ x) \<noteq> []"
    using join_with_last suffix_order.trans by (metis, simp)
  then show ?thesis by (auto simp: Clean_def suffix_def)
qed

lemma Join_suffix:
  assumes "CHR ''/'' \<notin> set x" "2 < length x"
  shows "suffix x (filepath_Join [d, t @ x])"
proof -
  have "t @ x \<noteq> []" using assms(2) by auto
  then have "filepath_Join [d, t @ x] = Clean ((if d = [] then t else d @ ''/'' @ t) @ x)"
    by (simp add: filepath_Join_def)
  then show ?thesis using Clean_suffix [OF assms] by simp
qed

abbreviation pid_file :: "string \<Rightarrow> bool" where
  "pid_file p \<equiv> has_suffix p ''.agent.pid''"

lemma agent_paths:
  "pid_file (AgentPidPath d t)" "\<not> pid_file (AgentLockPath d t)" "\<not> pid_file (AgentLogPath d t)"
proof -
  show "pid_file (AgentPidPath d t)" unfolding AgentPidPath_def by (rule Join_suffix) simp_all
  have "suffix ''.agent.lock'' (AgentLockPath d t)" "suffix ''.agent.log'' (AgentLogPath d t)"
    unfolding AgentLockPath_def AgentLogPath_def by (rule Join_suffix; simp)+
  then show "\<not> pid_file (AgentLockPath d t)" "\<not> pid_file (AgentLogPath d t)"
    by (auto simp: suffix_def)
qed

lemma readPid_written:
  assumes "0 < pid" "pid < 2 ^ 31" "os_read os p w = Some (show_int pid)"
  shows "readPid os p w = Some pid"
proof -
  let ?s = "show_nat (nat pid)"
  have int: "show_int pid = ?s" using assms(1) by (simp add: show_int_def)
  have chars: "\<forall>c \<in> set ?s. \<not> is_space c \<and> c \<noteq> CHR ''+'' \<and> c \<noteq> CHR ''-''"
  proof
    fix c
    assume "c \<in> set ?s"
    then obtain d where "d < 10" "c = digit_char d" using show_nat_chars by blast
    then have "48 \<le> (of_char c :: nat)" by (simp add: digit_char_def)
    then have "c \<noteq> CHR ''+''" "c \<noteq> CHR ''-''" by auto
    with \<open>c \<in> set ?s\<close> show "\<not> is_space c \<and> c \<noteq> CHR ''+'' \<and> c \<noteq> CHR ''-''" using show_nat_no_space by blast
  qed
  have drop: "dropWhile is_space t = t" if "\<forall>c \<in> set t. \<not> is_space c" for t using that by (cases t) auto
  have "\<forall>c \<in> set ?s. \<not> is_space c" using chars by blast
  then have trim: "trim_space ?s = ?s"
    using drop [of ?s] drop [of "rev ?s"] by (simp add: trim_space_def trim_by_def trim_right_by_def)
  have "hd ?s \<in> set ?s" by (simp add: show_nat_nonempty)
  then have hd: "hd ?s \<noteq> CHR ''+''" "hd ?s \<noteq> CHR ''-''" using chars by blast+
  have "nat pid < 2 ^ 63" using assms(1,2) by (simp add: nat_less_iff)
  then have "Atoi ?s = Some pid"
    using parse_uint_show_nat [of "nat pid" 63] assms(1) hd by (simp add: Atoi_def parse_int64_def)
  then show ?thesis by (simp add: readPid_def assms(3) int trim)
qed

section \<open>The contract\<close>

text \<open>\<open>procs\<close>: the live processes this program started, with their arguments. A step under which the
  world only fades may end processes but starts none and leaves the pid files alone.\<close>

definition fades :: "('w \<Rightarrow> (int \<times> string list) list) \<Rightarrow> 'w os_ops \<Rightarrow> 'w \<Rightarrow> 'w \<Rightarrow> bool" where
  "fades procs os w w' \<longleftrightarrow>
     (\<exists>P. procs w' = filter P (procs w)) \<and> (\<forall>p. pid_file p \<longrightarrow> os_read os p w' = os_read os p w)"

lemma fades_refl [simp]: "fades procs os w w"
  by (auto simp: fades_def intro: exI [of _ "\<lambda>_. True"])

lemma fades_trans: "fades procs os w w1 \<Longrightarrow> fades procs os w1 w2 \<Longrightarrow> fades procs os w w2"
  by (auto simp: fades_def) 

text \<open>Every live agent is recorded under the pid file of its target, and pids are not shared.\<close>

definition recorded :: "('w \<Rightarrow> (int \<times> string list) list) \<Rightarrow> 'w os_ops \<Rightarrow> string \<Rightarrow> string \<Rightarrow> 'w \<Rightarrow> bool" where
  "recorded procs os dir self w \<longleftrightarrow> distinct (map fst (procs w)) \<and>
     (\<forall>pid t. (pid, agent_argv self t) \<in> set (procs w) \<longrightarrow> readPid os (AgentPidPath dir t) w = Some pid)"

lemma recorded_fades:
  assumes "fades procs os w w'" "recorded procs os dir self w"
  shows "recorded procs os dir self w'"
proof -
  have "readPid os (AgentPidPath dir t) w' = readPid os (AgentPidPath dir t) w" for t
    using assms(1) agent_paths(1) by (simp add: fades_def readPid_def)
  then show ?thesis using assms by (auto simp: recorded_def fades_def distinct_map_filter)
qed

locale process_host =
  fixes os :: "'w os_ops" and procs :: "'w \<Rightarrow> (int \<times> string list) list"
  assumes lock_law: "\<not> pid_file p \<Longrightarrow> os_lock os p w = (e, w') \<Longrightarrow> fades procs os w w'"
    and log_law: "\<not> pid_file p \<Longrightarrow> os_open_log os p w = (e, w') \<Longrightarrow> fades procs os w w'"
    and pause_law: "fades procs os w (os_pause os w)"
    and term_law: "fades procs os w (os_term os pid w)"
    and alive_law: "pid \<in> fst ` set (procs w) \<Longrightarrow> os_alive os pid w"
    and start_law: "os_start os argv w = (r, w') \<Longrightarrow>
      (case r of
         Inl e \<Rightarrow> fades procs os w w'
       | Inr pid \<Rightarrow> procs w' = procs w @ [(pid, argv)] \<and> pid \<notin> fst ` set (procs w) \<and> 0 < pid \<and> pid < 2 ^ 31
           \<and> (\<forall>p. pid_file p \<longrightarrow> os_read os p w' = os_read os p w))"
    and write_law: "os_write os p c w = (None, w') \<Longrightarrow>
      procs w' = procs w \<and> os_read os p w' = Some c \<and> (\<forall>q. q \<noteq> p \<longrightarrow> os_read os q w' = os_read os q w)"
    and remove_law: "procs (os_remove os p w) = procs w \<and> (\<forall>q. q \<noteq> p \<longrightarrow> os_read os q (os_remove os p w) = os_read os q w)"
begin

text \<open>A spawn whose pid file is written keeps every live agent recorded.\<close>

lemma spawn_recorded:
  assumes "recorded procs os dir self w" "SpawnIfAbsent os dir self t w = (r, w')" "\<And>e. r \<noteq> Inl (SpWritePid e)"
  shows "recorded procs os dir self w'"
proof -
  let ?path = "AgentPidPath dir t"
  obtain e w1 where lock: "os_lock os (AgentLockPath dir t) w = (e, w1)" by fastforce
  from recorded_fades [OF lock_law [OF agent_paths(2) lock] assms(1)] have rec: "recorded procs os dir self w1" .
  show ?thesis
  proof (cases "e \<noteq> None \<or> (\<exists>pid. readPid os ?path w1 = Some pid \<and> os_alive os pid w1)")
    case True
    then have "w' = w1" using assms(2) lock by (auto simp: SpawnIfAbsent_def spawnIfAbsent_def split: option.splits)
    with rec show ?thesis by simp
  next
    case False
    then have none: "(q, agent_argv self t') \<notin> set (procs w1)" if "AgentPidPath dir t' = ?path" for q t'
      using rec alive_law that by (force simp: recorded_def)
    obtain x w2 where s: "spawn_agent os dir self t w1 = (x, w2)" by fastforce
    have r: "(case x of Inl e \<Rightarrow> r = Inl e \<and> w' = w2
        | Inr pid \<Rightarrow> \<exists>e. os_write os ?path (show_int pid) w2 = (e, w') \<and> (e = None \<longleftrightarrow> r = Inr pid) \<and> (\<forall>y. e = Some y \<longrightarrow> r = Inl (SpWritePid y)))"
      using assms(2) lock False s
      by (auto simp: SpawnIfAbsent_def spawnIfAbsent_def Let_def split: option.splits sum.splits prod.splits if_splits)
    obtain y w3 where log: "os_open_log os (AgentLogPath dir t) w1 = (y, w3)" by fastforce
    note rec3 = recorded_fades [OF log_law [OF agent_paths(3) log] rec]
    show ?thesis
    proof (cases x)
      case (Inl e)
      then have "fades procs os w3 w2 \<or> w2 = w3"
        using s log start_law by (fastforce simp: spawn_agent_def split: option.splits prod.splits sum.splits)
      with rec3 recorded_fades r Inl show ?thesis by auto
    next
      case (Inr pid)
      then have st: "os_start os (agent_argv self t) w3 = (Inr pid, w2)"
        using s log by (auto simp: spawn_agent_def split: option.splits prod.splits sum.splits)
      have ok: "os_write os ?path (show_int pid) w2 = (None, w')" using r Inr assms(3) by auto
      note start = start_law [OF st, simplified] and wr = write_law [OF ok]
      have gone: "(q, agent_argv self t') \<notin> set (procs w3)" if "AgentPidPath dir t' = ?path" for q t'
        using none [OF that] log_law [OF agent_paths(3) log] by (auto simp: fades_def)
      have "readPid os (AgentPidPath dir t') w' = Some q"
        if "(q, agent_argv self t') \<in> set (procs w')" for q t'
      proof (cases "AgentPidPath dir t' = ?path")
        case True
        with gone that start wr have "q = pid" by auto
        then show ?thesis using True readPid_written start wr by auto
      next
        case False
        then have "t' \<noteq> t" by auto
        then have "(q, agent_argv self t') \<in> set (procs w3)" using that start wr by (auto simp: agent_argv_def)
        moreover have "readPid os (AgentPidPath dir t') w' = readPid os (AgentPidPath dir t') w3"
          using False start wr agent_paths(1) by (simp add: readPid_def)
        ultimately show ?thesis using rec3 by (auto simp: recorded_def)
      qed
      then show ?thesis using start wr rec3 by (auto simp: recorded_def)
    qed
  qed
qed

lemma wait_fades: "fades procs os w (wait_gone os pid n w)"
proof (induction n arbitrary: w)
  case (Suc n)
  then show ?case using fades_trans [OF pause_law Suc] by simp
qed simp

end

text \<open>Beside that: agents obey SIGTERM within the ten seconds they are given, and the command that
  ends the ssh master starts no agent and touches no pid file.\<close>

locale obedient_host = process_host +
  fixes run :: "'w runner"
  assumes dies_law: "pid \<notin> fst ` set (procs (wait_gone os pid 100 (os_term os pid w)))"
    and run_law: "run argv w = (out, w') \<Longrightarrow> fades procs os w w'"
begin

lemma teardown_steps:
  assumes "recorded procs os dir self w" "readPid os (AgentPidPath dir t) w = Some pid"
    and "w' = teardownSession os run pid (AgentPidPath dir t) t ctl w"
  shows "recorded procs os dir self w' \<and> (\<exists>P. procs w' = filter P (procs w)) \<and> pid \<notin> fst ` set (procs w')"
proof -
  let ?path = "AgentPidPath dir t"
  define w1 where "w1 = wait_gone os pid 100 (os_term os pid w)"
  define w2 where "w2 = os_remove os ?path w1"
  have f1: "fades procs os w w1" unfolding w1_def using fades_trans [OF term_law wait_fades] .
  obtain out where "run [''ssh'', ''-S'', ctl, ''-O'', ''exit'', t] w2 = (out, w')"
    using assms(3) by (cases "run [''ssh'', ''-S'', ctl, ''-O'', ''exit'', t] w2")
      (simp add: teardownSession_def w1_def w2_def Let_def)
  from run_law [OF this] have f2: "fades procs os w2 w'" .
  have rm: "procs w2 = procs w1" "\<And>q. q \<noteq> ?path \<Longrightarrow> os_read os q w2 = os_read os q w1"
    using remove_law by (auto simp: w2_def)
  have dead: "pid \<notin> fst ` set (procs w1)" using dies_law by (simp add: w1_def)
  have rec1: "recorded procs os dir self w1" by (rule recorded_fades [OF f1 assms(1)])
  have "readPid os ?path w1 = Some pid"
    using f1 assms(2) agent_paths(1) by (simp add: readPid_def fades_def)
  then have off: "AgentPidPath dir t' \<noteq> ?path" if "(q, agent_argv self t') \<in> set (procs w1)" for q t'
    using rec1 dead that by (force simp: recorded_def)
  then have "recorded procs os dir self w2" using rec1 rm by (auto simp: recorded_def readPid_def)
  then have "recorded procs os dir self w'" by (rule recorded_fades [OF f2])
  moreover have "\<exists>P. procs w' = filter P (procs w)"
    using f1 f2 rm(1) by (auto simp: fades_def)
  moreover have "pid \<notin> fst ` set (procs w')" using f2 rm(1) dead by (auto simp: fades_def)
  ultimately show ?thesis by blast
qed

end

section \<open>A host\<close>

text \<open>Files by path; live processes; those that will have ended after the next pause. The pids grow. The
  faults decide which calls fail, which startup lock another process holds and which sockets exist.\<close>

record host =
  ho_files :: "string \<Rightarrow> string option"
  ho_procs :: "(int \<times> string list) list"
  ho_dying :: "int list"
  ho_next :: int

record host_faults =
  hf_lock :: "string \<Rightarrow> string option"
  hf_busy :: "string \<Rightarrow> bool"
  hf_write :: "string \<Rightarrow> string option"
  hf_start :: "string list \<Rightarrow> string option"
  hf_socket :: "string \<Rightarrow> bool"

definition next_pid :: "host \<Rightarrow> int" where
  "next_pid h = max (ho_next h) (Max (insert 0 (fst ` set (ho_procs h))) + 1)"

definition host_started :: "string list \<Rightarrow> host \<Rightarrow> host" where
  "host_started argv h = h\<lparr>ho_procs := ho_procs h @ [(next_pid h, argv)], ho_next := next_pid h + 1\<rparr>"

definition host_create :: "host_faults \<Rightarrow> string \<Rightarrow> (host, string option) act" where
  "host_create fl p h =
     (case hf_lock fl p of
        Some e \<Rightarrow> (Some e, h)
      | None \<Rightarrow> (None, if ho_files h p = None then h\<lparr>ho_files := (ho_files h)(p := Some [])\<rparr> else h))"

definition host_os :: "host_faults \<Rightarrow> host os_ops" where
  "host_os fl =
     \<lparr>os_lock = host_create fl,
      os_try_lock = (\<lambda>p h. case hf_lock fl p of Some e \<Rightarrow> LockError e | None \<Rightarrow> if hf_busy fl p then LockBusy else LockHeld),
      os_mkdir = (\<lambda>_ h. (None, h)),
      os_read = (\<lambda>p h. ho_files h p),
      os_write = (\<lambda>p c h. case hf_write fl p of Some e \<Rightarrow> (Some e, h)
                    | None \<Rightarrow> (None, h\<lparr>ho_files := (ho_files h)(p := Some c)\<rparr>)),
      os_remove = (\<lambda>p h. h\<lparr>ho_files := (ho_files h)(p := None)\<rparr>),
      os_exists = (\<lambda>p h. ho_files h p \<noteq> None \<or> hf_socket fl p),
      os_alive = (\<lambda>pid h. pid \<in> fst ` set (ho_procs h)),
      os_term = (\<lambda>pid h. h\<lparr>ho_dying := pid # ho_dying h\<rparr>),
      os_pause = (\<lambda>h. h\<lparr>ho_procs := filter (\<lambda>p. fst p \<notin> set (ho_dying h)) (ho_procs h), ho_dying := []\<rparr>),
      os_open_log = host_create fl,
      os_start = (\<lambda>argv h. case hf_start fl argv of
                    Some e \<Rightarrow> (Inl e, h)
                  | None \<Rightarrow> if next_pid h < 2 ^ 31 then (Inr (next_pid h), host_started argv h)
                            else (Inl ''EAGAIN'', h))\<rparr>"

text \<open>Commands that concern neither agents nor pid files.\<close>

definition host_run :: "host runner" where
  "host_run argv h = (\<lparr>ro_stdout = [], ro_stderr = [], ro_code = 0, ro_err = None\<rparr>, h)"

lemma host_os_simps [simp]:
  "os_lock (host_os fl) = host_create fl" "os_open_log (host_os fl) = host_create fl"
  "os_read (host_os fl) p h = ho_files h p" "os_alive (host_os fl) pid h \<longleftrightarrow> pid \<in> fst ` set (ho_procs h)"
  "os_term (host_os fl) pid h = h\<lparr>ho_dying := pid # ho_dying h\<rparr>"
  "os_pause (host_os fl) h = h\<lparr>ho_procs := filter (\<lambda>p. fst p \<notin> set (ho_dying h)) (ho_procs h), ho_dying := []\<rparr>"
  "os_remove (host_os fl) p h = h\<lparr>ho_files := (ho_files h)(p := None)\<rparr>"
  "os_write (host_os fl) p c h = (case hf_write fl p of Some e \<Rightarrow> (Some e, h)
                    | None \<Rightarrow> (None, h\<lparr>ho_files := (ho_files h)(p := Some c)\<rparr>))"
  "os_start (host_os fl) argv h = (case hf_start fl argv of
                    Some e \<Rightarrow> (Inl e, h)
                  | None \<Rightarrow> if next_pid h < 2 ^ 31 then (Inr (next_pid h), host_started argv h)
                            else (Inl ''EAGAIN'', h))"
  "os_exists (host_os fl) p h \<longleftrightarrow> ho_files h p \<noteq> None \<or> hf_socket fl p"
  "os_mkdir (host_os fl) p h = (None, h)"
  by (simp_all add: host_os_def)

lemma next_pid_fresh: "next_pid h \<notin> fst ` set (ho_procs h)" "0 < next_pid h"
proof -
  have fin: "finite (insert 0 (fst ` set (ho_procs h)))" by simp
  have le: "x < next_pid h" if "x \<in> insert 0 (fst ` set (ho_procs h))" for x
    using Max_ge [OF fin that] by (simp add: next_pid_def less_max_iff_disj)
  then show "next_pid h \<notin> fst ` set (ho_procs h)" by blast
  show "0 < next_pid h" by (rule le) simp
qed

lemma host_create_fades:
  "\<not> pid_file p \<Longrightarrow> host_create fl p h = (e, h') \<Longrightarrow> fades ho_procs (host_os fl) h h'"
  by (auto simp: host_create_def fades_def intro: exI [of _ "\<lambda>_. True"] split: option.splits if_splits)

interpretation host: obedient_host "host_os fl" ho_procs host_run for fl
proof unfold_locales
  fix pid h
  show "pid \<notin> fst ` set (ho_procs (wait_gone (host_os fl) pid 100 (os_term (host_os fl) pid h)))"
    using wait_gone.simps(2) [of "host_os fl" pid 99] wait_gone.simps(2) [of "host_os fl" pid 98]
    by (auto simp: eval_nat_numeral)
qed ((rule host_create_fades; simp) | auto simp: host_run_def host_started_def next_pid_fresh fades_def
    split: option.splits if_splits intro: exI [of _ "\<lambda>_. True"])+

end
