(* ===== verification/AgentProps.thy ===== *)
theory AgentProps
  imports AgentHost
begin

text \<open>
  Properties of the agents' processes: one live agent for a target as long as agents are closed by
  their pid file, none left when the startup hook ends, and what overlapping attach sessions do to
  each other.
\<close>

section \<open>Machines\<close>

context obedient_host
begin

lemma teardown_machine_result:
  assumes "ue_os env = os" "ue_run env = run" "recorded procs os dir self w"
  shows "recorded procs os dir self (teardown_machine env dir m w)
    \<and> (\<exists>P. procs (teardown_machine env dir m w) = filter P (procs w))
    \<and> (\<forall>q. (q, agent_argv self (mc_target m)) \<notin> set (procs (teardown_machine env dir m w)))"
proof -
  let ?path = "AgentPidPath dir (mc_target m)"
  have rec: "readPid os ?path w = Some q \<and> os_alive os q w" if "(q, agent_argv self (mc_target m)) \<in> set (procs w)" for q
    using assms(3) that alive_law by (force simp: recorded_def)
  show ?thesis
  proof (cases "\<exists>pid. readPid os ?path w = Some pid \<and> os_alive os pid w")
    case True
    then obtain pid where pid: "readPid os ?path w = Some pid" "os_alive os pid w" by blast
    have step: "teardown_machine env dir m w
        = teardownSession os run pid ?path (mc_target m) (ControlPathFor dir (mc_target m)) w"
      by (simp add: teardown_machine_def assms pid Let_def)
    note t = teardown_steps [OF assms(3) pid(1) step]
    moreover have "(q, agent_argv self (mc_target m)) \<notin> set (procs (teardown_machine env dir m w))" for q
    proof
      assume q: "(q, agent_argv self (mc_target m)) \<in> set (procs (teardown_machine env dir m w))"
      then have "q = pid" using t rec pid(1) by auto
      with q t show False by force
    qed
    ultimately show ?thesis by blast
  next
    case False
    then have "teardown_machine env dir m w = w"
      by (auto simp: teardown_machine_def assms Let_def split: option.splits)
    with False rec assms(3) show ?thesis by (auto intro: exI [of _ "\<lambda>_. True"])
  qed
qed

lemma teardown_all_result:
  assumes "ue_os env = os" "ue_run env = run"
  shows "recorded procs os dir self w \<Longrightarrow> recorded procs os dir self (teardown_all env dir ms w)
    \<and> (\<exists>P. procs (teardown_all env dir ms w) = filter P (procs w))
    \<and> (\<forall>m \<in> set ms. \<forall>q. (q, agent_argv self (mc_target m)) \<notin> set (procs (teardown_all env dir ms w)))"
proof (induction ms arbitrary: w)
  case Nil
  then show ?case by (auto simp: teardown_all_def intro: exI [of _ "\<lambda>_. True"])
next
  case (Cons m ms)
  let ?w1 = "teardown_machine env dir m w"
  note one = teardown_machine_result [OF assms Cons.prems, of m]
  have "teardown_all env dir (m # ms) w = teardown_all env dir ms ?w1" by (simp add: teardown_all_def)
  moreover from one Cons.IH [of ?w1] have
    "recorded procs os dir self (teardown_all env dir ms ?w1)
     \<and> (\<exists>P. procs (teardown_all env dir ms ?w1) = filter P (procs ?w1))
     \<and> (\<forall>m \<in> set ms. \<forall>q. (q, agent_argv self (mc_target m)) \<notin> set (procs (teardown_all env dir ms ?w1)))" by blast
  ultimately show ?case using one by auto
qed

lemma monitor_only_ends:
  assumes "ue_os env = os" "ue_run env = run" "\<And>v x v'. ue_discover env v = (x, v') \<Longrightarrow> fades procs os v v'"
  shows "recorded procs os dir self w \<Longrightarrow> recorded procs os dir self (snd (monitorSelection env dir initial n sel w))
    \<and> set (procs (snd (monitorSelection env dir initial n sel w))) \<subseteq> set (procs w)"
proof (induction n arbitrary: sel w)
  case (Suc n)
  have kept: "recorded procs os d self v \<Longrightarrow> recorded procs os d self (teardown_machine env d m v)
      \<and> set (procs (teardown_machine env d m v)) \<subseteq> set (procs v)" for d m v
    using teardown_machine_result [OF assms(1,2), of d self v m] by (metis filter_is_subset)
  have machines: "recorded procs os dir self v \<Longrightarrow>
      recorded procs os dir self (snd (monitor_machines env dir current ms sel v))
      \<and> set (procs (snd (monitor_machines env dir current ms sel v))) \<subseteq> set (procs v)" for current ms sel v
  proof (induction ms arbitrary: sel v)
    case (Cons m ms)
    note k = kept [OF Cons.prems, of m]
    have "recorded procs os dir self (snd (monitor_machines env dir current ms s u))
        \<and> set (procs (snd (monitor_machines env dir current ms s u))) \<subseteq> set (procs v)"
      if "u = v \<or> u = teardown_machine env dir m v" for s u
      using that k Cons.IH [of v s] Cons.IH [of "teardown_machine env dir m v" s] Cons.prems by blast
    then show ?case by (simp add: Let_def)
  qed simp
  obtain sel1 w1 where tick: "monitor_tick env dir initial sel w = (sel1, w1)" by fastforce
  have "recorded procs os dir self w1 \<and> set (procs w1) \<subseteq> set (procs w)"
  proof -
    obtain x v where d: "ue_discover env w = (x, v)" by fastforce
    have v: "recorded procs os dir self v" "set (procs v) \<subseteq> set (procs w)"
      using recorded_fades [OF assms(3) [OF d] Suc.prems] assms(3) [OF d] by (auto simp: fades_def)
    show ?thesis
    proof (cases x)
      case (Inr current)
      with machines [OF v(1), of "selection current" initial sel] v(2) d tick show ?thesis by (auto simp: monitor_tick_def)
    qed (use v d tick in \<open>simp add: monitor_tick_def\<close>)
  qed
  with Suc.IH [of w1 sel1] tick show ?case by auto
qed simp

lemma provision_fades:
  assumes "\<And>m v x v'. ue_provision env dir m v = (x, v') \<Longrightarrow> fades procs os v v'"
  shows "provision_all env dir ms w = (said, w') \<Longrightarrow> fades procs os w w'"
proof (induction ms arbitrary: w said)
  case (Cons m ms)
  obtain e w1 said1 w2 where s: "ue_provision env dir m w = (e, w1)" "provision_all env dir ms w1 = (said1, w2)"
    by (metis surj_pair)
  with Cons show ?case using fades_trans [OF assms [OF s(1)]] by auto
qed simp

lemma spawn_all_recorded:
  assumes "ue_os env = os" "\<forall>d t v e. fst (SpawnIfAbsent os d self t v) \<noteq> Inl (SpWritePid e)"
  shows "recorded procs os dir self w \<Longrightarrow> spawn_all env dir self ms w = (said, w') \<Longrightarrow> recorded procs os dir self w'"
proof (induction ms arbitrary: w said)
  case (Cons m ms)
  obtain r w1 said1 w2 where s: "SpawnIfAbsent os dir self (mc_target m) w = (r, w1)" "spawn_all env dir self ms w1 = (said1, w2)"
    by (metis surj_pair)
  have "r \<noteq> Inl (SpWritePid e)" for e using assms(2) s(1) by (metis fst_conv)
  from spawn_recorded [OF Cons.prems(1) s(1) this] Cons.IH Cons.prems(2) s
  show ?case by (auto simp: assms(1))
qed simp

lemma session_result:
  assumes "ue_os env = os" "ue_run env = run" "\<And>v x v'. ue_discover env v = (x, v') \<Longrightarrow> fades procs os v v'"
    and "\<And>d m v x v'. ue_provision env d m v = (x, v') \<Longrightarrow> fades procs os v v'"
    and "\<forall>d t v e. fst (SpawnIfAbsent os d self t v) \<noteq> Inl (SpWritePid e)"
    and "recorded procs os dir self w" "startup_session env dir self ms ticks w = (r, w')"
  shows "fst r = 0 \<and> recorded procs os dir self w'
    \<and> (\<forall>m \<in> set ms. \<forall>q. (q, agent_argv self (mc_target m)) \<notin> set (procs w'))"
proof -
  obtain said1 w1 where p: "provision_all env dir ms w = (said1, w1)" by fastforce
  obtain said2 w2 where s: "spawn_all env dir self ms w1 = (said2, w2)" by fastforce
  obtain sel w3 where m: "monitorSelection env dir ms ticks (selection ms) w2 = (sel, w3)" by fastforce
  have "recorded procs os dir self w1" using recorded_fades [OF provision_fades [OF assms(4) p] assms(6)] .
  from spawn_all_recorded [OF assms(1,5) this s] have "recorded procs os dir self w2" .
  from monitor_only_ends [OF assms(1,2,3) this, where initial = ms and n = ticks and sel = "selection ms"] m
  have "recorded procs os dir self w3" by simp
  from teardown_all_result [OF assms(1,2) this, of ms]
  show ?thesis using assms(7) by (auto simp: startup_session_def p s m)
qed

end

section \<open>A machine that is selected again\<close>

text \<open>The watch over the selection starts no agent: whatever the discoveries yield, every process
  afterwards was there before. So a machine that is deselected, which ends its agent, and selected
  again has no agent for the rest of the session.\<close>

lemma monitor_starts_nothing:
  assumes "obedient_host os procs run" "ue_os env = os" "ue_run env = run"
    and "\<And>v x v'. ue_discover env v = (x, v') \<Longrightarrow> fades procs os v v'" "recorded procs os dir self w"
  shows "set (procs (snd (monitorSelection env dir initial n sel w))) \<subseteq> set (procs w)"
  by (rule conjunct2 [OF obedient_host.monitor_only_ends [OF assms(1-3) _ assms(5)]]) (rule assms(4))

section \<open>One agent for a target\<close>

lemma one_with_key:
  "distinct (map fst xs) \<Longrightarrow> \<forall>p \<in> set xs. snd p = a \<longrightarrow> fst p = k \<Longrightarrow> length (filter (\<lambda>p. snd p = a) xs) \<le> 1"
proof (induction xs)
  case (Cons x xs)
  show ?case
  proof (cases "snd x = a")
    case True
    with Cons.prems have "filter (\<lambda>p. snd p = a) xs = []" by (fastforce simp: filter_empty_conv)
    with True show ?thesis by simp
  qed (use Cons in simp)
qed simp

lemma recorded_one:
  assumes "recorded procs os dir self w"
  shows "length (filter (\<lambda>p. snd p = agent_argv self t) (procs w)) \<le> 1"
proof (rule one_with_key)
  show "distinct (map fst (procs w))" using assms by (simp add: recorded_def)
  show "\<forall>p \<in> set (procs w). snd p = agent_argv self t \<longrightarrow> fst p = the (readPid os (AgentPidPath dir t) w)"
    using assms by (force simp: recorded_def)
qed

text \<open>What happens to the agents of a host: somebody asks for one, a machine is torn down, a process
  ends by itself.\<close>

datatype agent_event = EvSpawn string | EvTeardown string | EvEnded int

definition agent_event :: "host startup_env \<Rightarrow> string \<Rightarrow> string \<Rightarrow> agent_event \<Rightarrow> host \<Rightarrow> host" where
  "agent_event env dir self ev h =
     (case ev of
        EvSpawn t \<Rightarrow> snd (SpawnIfAbsent (ue_os env) dir self t h)
      | EvTeardown t \<Rightarrow> teardown_machine env dir (no_machine\<lparr>mc_target := t\<rparr>) h
      | EvEnded pid \<Rightarrow> h\<lparr>ho_procs := filter (\<lambda>p. fst p \<noteq> pid) (ho_procs h)\<rparr>)"

lemma no_write_error:
  assumes "\<And>p. pid_file p \<Longrightarrow> hf_write fl p = None"
  shows "fst (SpawnIfAbsent (host_os fl) d self t v) \<noteq> Inl (SpWritePid e)"
  using assms agent_paths(1)
  by (auto simp: SpawnIfAbsent_def spawnIfAbsent_def spawn_agent_def Let_def
      split: option.splits prod.splits sum.splits if_splits)


text \<open>C13: The startup hook leaves no agent behind. Run to its end with the lock in hand, on a host
  where pid files can be written and agents obey SIGTERM, and with discovery and provisioning
  that start no agent of their own: the hook returns 0 and for no machine it found enabled does an
  agent live, however often the selection was looked at in between.\<close>

theorem startup_leaves_no_agent:
  assumes "\<And>p. pid_file p \<Longrightarrow> hf_write fl p = None" "ue_os env = host_os fl" "ue_run env = host_run"
    and "\<And>v x v'. ue_discover env v = (x, v') \<Longrightarrow> fades ho_procs (host_os fl) v v'"
    and "\<And>d m v x v'. ue_provision env d m v = (x, v') \<Longrightarrow> fades ho_procs (host_os fl) v v'"
    and "StateDir (ue_getenv env) = Some dir" "hf_lock fl (filepath_Join [dir, startupLockFile]) = None"
    and "\<not> hf_busy fl (filepath_Join [dir, startupLockFile])" "ue_self env = Some self"
    and "recorded ho_procs (host_os fl) dir self h" "ue_discover env h = (Inr machines, h1)"
    and "\<exists>m \<in> set machines. mc_enabled m" "RunLocalAgentStartup env ticks h = (r, h')"
  shows "fst r = 0 \<and> (\<forall>m \<in> set machines. mc_enabled m \<longrightarrow> (\<forall>q. (q, agent_argv self (mc_target m)) \<notin> set (ho_procs h')))"
proof -
  have enabled: "filter mc_enabled machines \<noteq> []" using assms(12) by (auto simp: filter_empty_conv)
  have run: "startup_session env dir self (filter mc_enabled machines) ticks h1 = (r, h')"
    using assms(13) enabled
    by (simp add: RunLocalAgentStartup_def assms(2,6,7,8,9,11) Let_def) (simp add: host_os_def assms(7,8,11) Let_def assms(9))
  have "\<forall>d t v e. fst (SpawnIfAbsent (host_os fl) d self t v) \<noteq> Inl (SpWritePid e)"
    using no_write_error [OF assms(1)] by blast
  from host.session_result [OF assms(2,3,4,5) this recorded_fades [OF assms(4) [OF assms(11)] assms(10)] run]
  show ?thesis by auto
qed

section \<open>Overlapping sessions\<close>

lemma open_host:
  assumes "ae_os env = host_os fl" "StateDir (ae_getenv env) = Some dir" "ae_self env = Some self"
    and "hf_socket fl (ControlPathFor dir t)" "attach_open env t h = (Inr s, h')"
  shows "\<exists>pid. s = (dir, pid) \<and> SpawnIfAbsent (host_os fl) dir self t h = (Inr pid, h')"
proof -
  have "wait_socket (host_os fl) (ControlPathFor dir t) (Suc 149) w = (True, w)" for w
    unfolding wait_socket.simps(2) using assms(4) by simp
  then have "WaitForSocket (host_os fl) (ControlPathFor dir t) 15000 w = (True, w)" for w
    by (simp add: WaitForSocket_def)
  then show ?thesis
    using assms(5) by (auto simp: attach_open_def assms(1-3) split: sum.splits prod.splits)
qed

lemma spawn_host:
  assumes "SpawnIfAbsent (host_os fl) dir self t h = (Inr pid, h')"
  shows "readPid (host_os fl) (AgentPidPath dir t) h' = Some pid" (is ?file)
    and "pid \<in> fst ` set (ho_procs h')" (is ?live) and "set (ho_procs h) \<subseteq> set (ho_procs h')" (is ?more)
    and "readPid (host_os fl) (AgentPidPath dir t) h = None \<Longrightarrow>
      pid \<notin> fst ` set (ho_procs h) \<and> ho_procs h' = ho_procs h @ [(pid, agent_argv self t)]"
proof -
  let ?path = "AgentPidPath dir t"
  have create: "ho_procs v' = ho_procs v \<and> ho_files v' ?path = ho_files v ?path"
    if "host_create fl p v = (e, v')" "\<not> pid_file p" for p e v v'
    using that agent_paths(1) by (auto simp: host_create_def split: option.splits if_splits)
  then have same: "readPid (host_os fl) ?path v' = readPid (host_os fl) ?path v" if "host_create fl p v = (e, v')" "\<not> pid_file p" for p e v v'
    using that by (simp add: readPid_def)
  obtain h1 where lock: "host_create fl (AgentLockPath dir t) h = (None, h1)"
    using assms by (auto simp: SpawnIfAbsent_def spawnIfAbsent_def split: prod.splits option.splits)
  note l = create [OF lock agent_paths(2)] same [OF lock agent_paths(2)]
  have "?file \<and> ?live \<and> ?more \<and> (readPid (host_os fl) ?path h = None \<longrightarrow>
      pid \<notin> fst ` set (ho_procs h) \<and> ho_procs h' = ho_procs h @ [(pid, agent_argv self t)])"
  proof (cases "\<exists>q. readPid (host_os fl) ?path h1 = Some q \<and> q \<in> fst ` set (ho_procs h1)")
    case True
    then have "h' = h1" "readPid (host_os fl) ?path h1 = Some pid" "pid \<in> fst ` set (ho_procs h1)"
      using assms lock by (auto simp: SpawnIfAbsent_def spawnIfAbsent_def Let_def split: option.splits)
    with l show ?thesis by (metis option.discI subset_refl)
  next
    case False
    have "(case spawn_agent (host_os fl) dir self t h1 of (Inl e, w2) \<Rightarrow> (Inl e, w2)
        | (Inr q, w2) \<Rightarrow> (case os_write (host_os fl) ?path (show_int q) w2 of
             (Some e, w3) \<Rightarrow> (Inl (SpWritePid e), w3) | (None, w3) \<Rightarrow> (Inr q, w3))) = (Inr pid, h')"
      using assms lock False by (auto simp: SpawnIfAbsent_def spawnIfAbsent_def Let_def split: option.splits)
    then obtain h2 where s: "spawn_agent (host_os fl) dir self t h1 = (Inr pid, h2)"
      and w: "os_write (host_os fl) ?path (show_int pid) h2 = (None, h')"
      by (auto split: prod.splits sum.splits option.splits)
    then obtain h3 where log: "host_create fl (AgentLogPath dir t) h1 = (None, h3)"
      and st: "os_start (host_os fl) (agent_argv self t) h3 = (Inr pid, h2)"
      by (auto simp: spawn_agent_def split: prod.splits sum.splits option.splits)
    note g = create [OF log agent_paths(3)]
    note start = host.start_law [OF st, simplified] and wr = host.write_law [OF w]
    have "?file" by (rule readPid_written) (use start wr in auto)
    moreover have "ho_procs h' = ho_procs h @ [(pid, agent_argv self t)]" "pid \<notin> fst ` set (ho_procs h)"
      using start wr g l by simp_all
    ultimately show ?thesis by (simp add: subset_insertI)
  qed
  then show ?file ?live ?more "readPid (host_os fl) ?path h = None \<Longrightarrow>
      pid \<notin> fst ` set (ho_procs h) \<and> ho_procs h' = ho_procs h @ [(pid, agent_argv self t)]" by blast+
qed

lemma close_host:
  assumes "ae_os env = host_os fl" "ae_run env = host_run" "h' = attach_close env t (dir, pid) h"
  shows "readPid (host_os fl) (AgentPidPath dir t) h' = None" "pid \<notin> fst ` set (ho_procs h')"
    and "pid \<notin> fst ` set (ho_procs h) \<Longrightarrow> ho_procs h' = ho_procs h"
proof -
  let ?w = "wait_gone (host_os fl) pid 100 (os_term (host_os fl) pid h)"
  have h': "h' = os_remove (host_os fl) (AgentPidPath dir t) ?w"
    using assms(3) by (simp add: attach_close_def teardownSession_def assms(1,2) host_run_def Let_def)
  then show "readPid (host_os fl) (AgentPidPath dir t) h' = None" by (simp add: readPid_def)
  show "pid \<notin> fst ` set (ho_procs h')" using host.dies_law [of pid fl h] by (simp add: h')
  have "wait_gone (host_os fl) pid (Suc 99) v = v" if "pid \<notin> fst ` set (ho_procs v)" for v
    unfolding wait_gone.simps(2) using that by simp
  then show "ho_procs h' = ho_procs h" if "pid \<notin> fst ` set (ho_procs h)"
    using that h' by simp
qed

text \<open>C21: Attach sessions to one target end each other's agent and leave a second one running. Two
  sessions opened on a target share one agent. Closing the first ends it while the second is still
  open. If a third session then starts a new agent, closing the second one removes that agent's
  pid file although it lives on, so the next session starts a second agent for the same target.\<close>

theorem overlapping_attaches_leak:
  assumes "ae_os env = host_os fl" "ae_run env = host_run" "StateDir (ae_getenv env) = Some dir" "ae_self env = Some self"
    and "hf_socket fl (ControlPathFor dir t)" "hf_lock fl (AgentLockPath dir t) = None"
    and "attach_open env t h = (Inr s1, h1)" "attach_open env t h1 = (Inr s2, h2)"
    and "attach_open env t (attach_close env t s1 h2) = (Inr s3, h3)" "snd s3 \<noteq> snd s1"
    and "attach_open env t (attach_close env t s2 h3) = (Inr s4, h4)"
  shows "s2 = s1 \<and> snd s2 \<notin> fst ` set (ho_procs (attach_close env t s1 h2)) \<and> snd s4 \<noteq> snd s3
    \<and> (snd s3, agent_argv self t) \<in> set (ho_procs h4) \<and> (snd s4, agent_argv self t) \<in> set (ho_procs h4)"
proof -
  note opened = open_host [OF assms(1,3,4,5)]
  obtain p1 where o1: "s1 = (dir, p1)" "SpawnIfAbsent (host_os fl) dir self t h = (Inr p1, h1)" using opened [OF assms(7)] by blast
  obtain p2 where o2: "s2 = (dir, p2)" "SpawnIfAbsent (host_os fl) dir self t h1 = (Inr p2, h2)" using opened [OF assms(8)] by blast
  obtain p3 where o3: "s3 = (dir, p3)" "SpawnIfAbsent (host_os fl) dir self t (attach_close env t s1 h2) = (Inr p3, h3)"
    using opened [OF assms(9)] by blast
  obtain p4 where o4: "s4 = (dir, p4)" "SpawnIfAbsent (host_os fl) dir self t (attach_close env t s2 h3) = (Inr p4, h4)"
    using opened [OF assms(11)] by blast
  note n1 = spawn_host [OF o1(2)]
  have "p2 = p1"
  proof -
    have "AgentPidPath dir t \<noteq> AgentLockPath dir t" using agent_paths(1,2) by metis
    then obtain v where lock: "host_create fl (AgentLockPath dir t) h1 = (None, v)" "ho_procs v = ho_procs h1"
      "ho_files v (AgentPidPath dir t) = ho_files h1 (AgentPidPath dir t)"
      using assms(6) by (cases "ho_files h1 (AgentLockPath dir t)") (simp_all add: host_create_def)
    then have "readPid (host_os fl) (AgentPidPath dir t) v = Some p1" "p1 \<in> fst ` set (ho_procs v)"
      using n1 by (simp_all add: readPid_def)
    then show ?thesis using o2(2) lock(1) by (simp add: SpawnIfAbsent_def spawnIfAbsent_def Let_def)
  qed
  with o1 o2 have s2: "s2 = s1" by simp
  note c1 = close_host [OF assms(1,2) refl, where t = t and dir = dir and pid = p1 and h = h2]
  note n3 = spawn_host [OF o3(2)]
  have new3: "p3 \<notin> fst ` set (ho_procs (attach_close env t s1 h2))"
    "ho_procs h3 = ho_procs (attach_close env t s1 h2) @ [(p3, agent_argv self t)]"
    using n3(4) c1(1) o1(1) by simp_all
  have dead: "p1 \<notin> fst ` set (ho_procs h3)" using c1(2) new3(2) assms(10) o1(1) o3(1) by auto
  note c2 = close_host [OF assms(1,2) refl, where t = t and dir = dir and pid = p1 and h = h3]
  have same: "ho_procs (attach_close env t s2 h3) = ho_procs h3" using c2(3) [OF dead] s2 o1(1) by simp
  have new4: "p4 \<notin> fst ` set (ho_procs h3)" "ho_procs h4 = ho_procs h3 @ [(p4, agent_argv self t)]"
    using spawn_host(4) [OF o4(2)] c2(1) s2 o1(1) same by simp_all
  have "p4 \<noteq> p3" using new4(1) new3(2) by auto
  with s2 c1(2) new3(2) new4(2) o1(1) o3(1) o4(1) show ?thesis by simp
qed

section \<open>Concrete runs\<close>

definition no_faults :: host_faults where
  "no_faults = \<lparr>hf_lock = (\<lambda>_. None), hf_busy = (\<lambda>_. False), hf_write = (\<lambda>_. None), hf_start = (\<lambda>_. None),
     hf_socket = (\<lambda>_. True)\<rparr>"

definition empty_host :: host where
  "empty_host = \<lparr>ho_files = (\<lambda>_. None), ho_procs = [], ho_dying = [], ho_next = 1\<rparr>"

definition demo_attach :: "host attach_env" where
  "demo_attach = \<lparr>ae_getenv = (\<lambda>k. if k = ''HOME'' then ''/h'' else []), ae_os = host_os no_faults, ae_run = host_run,
     ae_child = (\<lambda>_ _ h. (0, h)), ae_exec = (\<lambda>_ h. (None, h)), ae_look = Some ''herdr'', ae_self = Some ''p''\<rparr>"

text \<open>While there are free numbers, every attach succeeds.\<close>

definition tidy :: "int \<Rightarrow> host \<Rightarrow> bool" where
  "tidy n h \<longleftrightarrow> 0 < ho_next h \<and> ho_next h \<le> n \<and> (\<forall>q a. (q, a) \<in> set (ho_procs h) \<longrightarrow> q < ho_next h)"

lemma tidy_next: "tidy n h \<Longrightarrow> next_pid h = ho_next h"
proof -
  assume t: "tidy n h"
  then have "Max (insert 0 (fst ` set (ho_procs h))) < ho_next h" by (subst Max_less_iff) (auto simp: tidy_def)
  then have "Max (insert 0 (fst ` set (ho_procs h))) + 1 \<le> ho_next h" by linarith
  then show ?thesis unfolding next_pid_def by (rule max_absorb1)
qed

lemma host_create_none:
  assumes "host_create no_faults p h = (None, h')"
  shows "ho_procs h' = ho_procs h" "ho_next h' = ho_next h" "p \<noteq> q \<Longrightarrow> ho_files h' q = ho_files h q"
  using assms by (auto simp: host_create_def no_faults_def split: if_splits)

lemma spawn_tidy:
  assumes "tidy n h" "n < 2 ^ 31" "readPid (host_os no_faults) (AgentPidPath dir t) h = None"
  shows "\<exists>h'. SpawnIfAbsent (host_os no_faults) dir self t h = (Inr (ho_next h), h') \<and> tidy (n + 1) h'"
proof -
  have created: "\<exists>h'. host_create no_faults p h = (None, h')" for p h by (simp add: host_create_def no_faults_def)
  obtain h1 where h1: "host_create no_faults (AgentLockPath dir t) h = (None, h1)" using created by blast
  obtain h2 where h2: "host_create no_faults (AgentLogPath dir t) h1 = (None, h2)" using created by blast
  have ne: "AgentLockPath dir t \<noteq> AgentPidPath dir t" using agent_paths(1,2) by metis
  have none: "readPid (host_os no_faults) (AgentPidPath dir t) h1 = None"
    using host_create_none(3) [OF h1 ne] assms(3) by (simp add: readPid_def)
  have t2: "tidy n h2" "ho_next h2 = ho_next h"
    using assms(1) host_create_none(1,2) [OF h1] host_create_none(1,2) [OF h2] by (simp_all add: tidy_def)
  have next_: "next_pid h2 = ho_next h" using tidy_next [OF t2(1)] t2(2) by simp
  have small: "ho_next h < 2 ^ 31" using assms(1,2) by (simp add: tidy_def)
  let ?h3 = "host_started (agent_argv self t) h2"
  have start: "os_start (host_os no_faults) (agent_argv self t) h2 = (Inr (ho_next h), ?h3)"
    using small by (simp add: next_ no_faults_def)
  have writes: "os_write (host_os no_faults) p c v = (None, v\<lparr>ho_files := (ho_files v)(p := Some c)\<rparr>)" for p c v
    by (simp add: no_faults_def)
  let ?h4 = "?h3\<lparr>ho_files := (ho_files ?h3)(AgentPidPath dir t := Some (show_int (ho_next h)))\<rparr>"
  have "SpawnIfAbsent (host_os no_faults) dir self t h = (Inr (ho_next h), ?h4)"
    using h1 h2 none start writes by (simp add: SpawnIfAbsent_def spawnIfAbsent_def spawn_agent_def del: host_os_simps(8,9))
  moreover have "tidy (n + 1) ?h4" using t2 by (auto simp: tidy_def host_started_def next_)
  ultimately show ?thesis by blast
qed

lemma attach_tidy:
  assumes "tidy n h" "n < 2 ^ 31" "readPid (host_os no_faults) (AgentPidPath dir t) h = None"
    and "StateDir (ae_getenv demo_attach) = Some dir"
  shows "\<exists>h'. attach_open demo_attach t h = (Inr (dir, ho_next h), h') \<and> tidy (n + 1) h'"
proof -
  obtain h' where "SpawnIfAbsent (host_os no_faults) dir ''p'' t h = (Inr (ho_next h), h')" "tidy (n + 1) h'"
    using spawn_tidy [OF assms(1-3)] by blast
  moreover have "wait_socket (host_os no_faults) q (Suc 149) w = (True, w)" for q w
    unfolding wait_socket.simps(2) by (simp add: no_faults_def)
  moreover have "ae_os demo_attach = host_os no_faults" "ae_self demo_attach = Some ''p''" by (simp_all add: demo_attach_def)
  ultimately show ?thesis using assms(4) by (simp add: attach_open_def WaitForSocket_def)
qed

lemma attach_shared:
  assumes "readPid (host_os no_faults) (AgentPidPath dir t) h = Some pid" "pid \<in> fst ` set (ho_procs h)"
    and "StateDir (ae_getenv demo_attach) = Some dir" "tidy n h"
  shows "\<exists>h'. attach_open demo_attach t h = (Inr (dir, pid), h') \<and> tidy n h' \<and> ho_next h' = ho_next h"
proof -
  obtain h1 where lock: "host_create no_faults (AgentLockPath dir t) h = (None, h1)" by (simp add: host_create_def no_faults_def)
  note l = host_create_none [OF lock]
  have "AgentLockPath dir t \<noteq> AgentPidPath dir t" using agent_paths(1,2) by metis
  then have "readPid (host_os no_faults) (AgentPidPath dir t) h1 = Some pid" using l(3) assms(1) by (simp add: readPid_def)
  then have "SpawnIfAbsent (host_os no_faults) dir ''p'' t h = (Inr pid, h1)"
    using lock assms(2) l(1) by (simp add: SpawnIfAbsent_def spawnIfAbsent_def Let_def)
  moreover have "wait_socket (host_os no_faults) q (Suc 149) w = (True, w)" for q w
    unfolding wait_socket.simps(2) by (simp add: no_faults_def)
  moreover have "ae_os demo_attach = host_os no_faults" "ae_self demo_attach = Some ''p''" by (simp_all add: demo_attach_def)
  moreover have "tidy n h1" using assms(4) l by (simp add: tidy_def)
  ultimately show ?thesis using assms(3) l by (simp add: attach_open_def WaitForSocket_def)
qed

lemma close_tidy:
  assumes "tidy n h"
  shows "tidy n (attach_close demo_attach t (dir, pid) h) \<and> ho_next (attach_close demo_attach t (dir, pid) h) = ho_next h"
proof -
  have wait: "tidy n (wait_gone (host_os no_faults) pid k v) \<and> ho_next (wait_gone (host_os no_faults) pid k v) = ho_next v"
    if "tidy n v" for k v
    using that
  proof (induction k arbitrary: v)
    case (Suc k)
    have "tidy n (os_pause (host_os no_faults) v)" "ho_next (os_pause (host_os no_faults) v) = ho_next v"
      using Suc.prems by (simp_all add: tidy_def)
    with Suc.IH [of "os_pause (host_os no_faults) v"] Suc.prems show ?case by simp
  qed simp
  have "tidy n (os_term (host_os no_faults) pid h)" "ho_next (os_term (host_os no_faults) pid h) = ho_next h"
    using assms by (simp_all add: tidy_def)
  moreover have "attach_close demo_attach t (dir, pid) h = os_remove (host_os no_faults) (AgentPidPath dir t)
      (wait_gone (host_os no_faults) pid 100 (os_term (host_os no_faults) pid h))"
    by (simp add: attach_close_def teardownSession_def demo_attach_def host_run_def Let_def)
  moreover have "tidy n (os_remove (host_os no_faults) p v) \<longleftrightarrow> tidy n v" for p v by (simp add: tidy_def)
  ultimately show ?thesis using wait [of "os_term (host_os no_faults) pid h" 100] by simp
qed

lemma empty_tidy: "tidy 1 empty_host" "recorded ho_procs (host_os fl) dir self empty_host"
  "readPid (host_os no_faults) p empty_host = None"
  by (simp_all add: tidy_def recorded_def readPid_def empty_host_def)

lemma demo_dir: "StateDir (ae_getenv demo_attach) = Some ''/h/.local/state/herdr-plugin-msb''"
proof -
  have "filepath_Join [''/h'', ''.local'', ''state'', StateDirNS] = ''/h/.local/state/herdr-plugin-msb''" by code_simp
  then show ?thesis by (simp add: StateDir_def demo_attach_def)
qed

theorem overlapping_attaches_leak_witness:
  "\<exists>s1 h1 h2 s3 h3 s4 h4.
     attach_open demo_attach ''u@m'' empty_host = (Inr s1, h1) \<and> attach_open demo_attach ''u@m'' h1 = (Inr s1, h2)
     \<and> attach_open demo_attach ''u@m'' (attach_close demo_attach ''u@m'' s1 h2) = (Inr s3, h3)
     \<and> attach_open demo_attach ''u@m'' (attach_close demo_attach ''u@m'' s1 h3) = (Inr s4, h4)
     \<and> length (filter (\<lambda>p. snd p = agent_argv ''p'' ''u@m'') (ho_procs h4)) \<ge> 2"
proof -
  let ?t = "''u@m''" and ?dir = "''/h/.local/state/herdr-plugin-msb''"
  let ?open = "attach_open demo_attach ?t" and ?close = "attach_close demo_attach ?t"
  have env: "ae_os demo_attach = host_os no_faults" "ae_run demo_attach = host_run" "ae_self demo_attach = Some ''p''"
    "hf_socket no_faults p" "hf_lock no_faults p = None" for p by (simp_all add: demo_attach_def no_faults_def)
  note gone = close_host(1) [OF env(1,2) refl, where t = ?t and dir = ?dir]
  obtain h1 where o1: "?open empty_host = (Inr (?dir, ho_next empty_host), h1)" "tidy (1 + 1) h1"
    using attach_tidy [OF empty_tidy(1) _ empty_tidy(3) demo_dir] by auto
  let ?p1 = "ho_next empty_host"
  from open_host [OF env(1) demo_dir env(3,4) o1(1)]
  have "SpawnIfAbsent (host_os no_faults) ?dir ''p'' ?t empty_host = (Inr ?p1, h1)" by auto
  note n1 = spawn_host [OF this]
  obtain h2 where o2: "?open h1 = (Inr (?dir, ?p1), h2)" "tidy (1 + 1) h2" "ho_next h2 = ho_next h1"
    using attach_shared [OF n1(1,2) demo_dir o1(2)] by auto
  note c1 = close_tidy [OF o2(2), of ?t ?dir ?p1]
  obtain h3 where o3: "?open (?close (?dir, ?p1) h2) = (Inr (?dir, ho_next h1), h3)" "tidy (1 + 1 + 1) h3"
    using attach_tidy [OF conjunct1 [OF c1] _ gone demo_dir] c1 o2(3) by auto
  note c2 = close_tidy [OF o3(2), of ?t ?dir ?p1]
  obtain h4 s4 where o4: "?open (?close (?dir, ?p1) h3) = (Inr s4, h4)"
    using attach_tidy [OF conjunct1 [OF c2] _ gone demo_dir] by auto
  have "?p1 < ho_next h1" using o1(2) n1(2) by (auto simp: tidy_def)
  then have diff: "snd (?dir, ho_next h1) \<noteq> snd (?dir, ?p1)" by simp
  from overlapping_attaches_leak [OF env(1,2) demo_dir env(3,4,5) o1(1) o2(1) o3(1) diff o4]
  have live: "snd s4 \<noteq> ho_next h1" "(ho_next h1, agent_argv ''p'' ?t) \<in> set (ho_procs h4)"
    "(snd s4, agent_argv ''p'' ?t) \<in> set (ho_procs h4)" by simp_all
  let ?two = "filter (\<lambda>p. snd p = agent_argv ''p'' ?t) (ho_procs h4)"
  have "{ho_next h1, snd s4} \<subseteq> fst ` set ?two" using live by force
  then have "card {ho_next h1, snd s4} \<le> length ?two"
    by (meson List.finite_set card_image_le card_length card_mono finite_imageI le_trans)
  then have "length ?two \<ge> 2" using live(1) by simp
  with o1(1) o2(1) o3(1) o4 show ?thesis by blast
qed

definition demo_startup :: "host startup_env" where
  "demo_startup = \<lparr>ue_getenv = ae_getenv demo_attach, ue_os = host_os no_faults, ue_run = host_run,
     ue_discover = (\<lambda>h. (Inr [no_machine\<lparr>mc_target := ''u@m'', mc_enabled := True\<rparr>, no_machine], h)),
     ue_provision = (\<lambda>_ _ h. (None, h)), ue_self = Some ''p''\<rparr>"

lemma demo_startup_simps:
  "ue_os demo_startup = host_os no_faults" "ue_run demo_startup = host_run" "ue_self demo_startup = Some ''p''"
  "ue_discover demo_startup h = (Inr [no_machine\<lparr>mc_target := ''u@m'', mc_enabled := True\<rparr>, no_machine], h)"
  "ue_provision demo_startup d m h = (None, h)" "hf_write no_faults q = None" "hf_lock no_faults q = None"
  "\<not> hf_busy no_faults q" "StateDir (ue_getenv demo_startup) = Some ''/h/.local/state/herdr-plugin-msb''"
  using demo_dir by (simp_all add: demo_startup_def no_faults_def)


theorem startup_leaves_no_agent_witness:
  "\<exists>r h'. RunLocalAgentStartup demo_startup 3 empty_host = (r, h') \<and> fst r = 0
     \<and> (\<forall>q. (q, agent_argv ''p'' ''u@m'') \<notin> set (ho_procs h'))"
proof -
  let ?m = "no_machine\<lparr>mc_target := ''u@m'', mc_enabled := True\<rparr>"
  obtain r h' where run: "RunLocalAgentStartup demo_startup 3 empty_host = (r, h')" by fastforce
  have "fades ho_procs (host_os no_faults) v v'" if "ue_discover demo_startup v = (x, v')" for x v v'
    using that by (simp add: demo_startup_simps)
  moreover have "fades ho_procs (host_os no_faults) v v'" if "ue_provision demo_startup d m v = (x, v')" for d m x v v'
    using that by (simp add: demo_startup_simps)
  moreover have "\<exists>m \<in> set [?m, no_machine]. mc_enabled m" by simp
  ultimately have "fst r = 0 \<and> (\<forall>m \<in> set [?m, no_machine]. mc_enabled m \<longrightarrow>
      (\<forall>q. (q, agent_argv ''p'' (mc_target m)) \<notin> set (ho_procs h')))"
    by (rule startup_leaves_no_agent [OF demo_startup_simps(6) demo_startup_simps(1,2) _ _ demo_startup_simps(9,7,8,3)
          empty_tidy(2) demo_startup_simps(4) _ run])
  with run show ?thesis by auto
qed

end
