(* ===== verification/AgentPipeline.thy ===== *)
theory AgentPipeline
  imports PortsProps AgentServe "HOL-Library.Countable"
begin

text \<open>
  The way of a request: the panel writes it to the queue file of a host, the agent of a client reads
  that file over ssh, has the ssh master forward the port and marks the request. The two sides share
  nothing but the files and the ssh master, whose contract is a locale.
\<close>

lemma sorted_le_last: "sorted xs \<Longrightarrow> x \<in> set xs \<Longrightarrow> x \<le> last xs"
  by (induction xs) auto

lemma unat_max_u64: "unat (- 1 :: u64) = 2 ^ 64 - 1"
  by (simp add: unsigned_minus_1_eq_mask mask_eq_exp_minus_1)

lemma unat_Suc_le: "unat (m + 1 :: u64) \<le> Suc (unat m)"
  by (metis Suc_eq_plus1 unat_1 unat_add_lem unat_word_ariths(1) mod_less_eq_dividend)

lemma cursor_bounds:
  fixes k :: u64
  assumes "sorted new" "\<forall>i \<in> set new. k < i \<and> unat i \<le> n" "unat k \<le> n" "c = (if new = [] then k else last new)"
  shows "\<forall>i \<in> set new. i \<le> c" "new \<noteq> [] \<Longrightarrow> k < c" "k \<le> c" "unat c \<le> n"
proof -
  have "new = [] \<and> c = k \<or> c \<in> set new" using assms(4) by (cases "new = []") simp_all
  then show "new \<noteq> [] \<Longrightarrow> k < c" "k \<le> c" "unat c \<le> n" using assms(2,3) by (auto intro: less_imp_le)
  show "\<forall>i \<in> set new. i \<le> c" using assms(4) sorted_le_last [OF assms(1)] by auto
qed

section \<open>Requests and polls\<close>

text \<open>The panel asks for a port at a time, the agent polls at a time (in nanoseconds).\<close>

datatype pipe_event = Ask u16 gtime | Poll int

definition sound_disk :: write_faults where
  "sound_disk = \<lparr>wf_mkdir = None, wf_write = None, wf_rename = None\<rparr>"

fun pipe_step ::
  "'w agent_env \<Rightarrow> ('w \<Rightarrow> state_dir) \<Rightarrow> (state_dir \<Rightarrow> 'w \<Rightarrow> 'w) \<Rightarrow> (Request list \<Rightarrow> Request list)
     \<Rightarrow> pipe_event \<Rightarrow> agent \<times> 'w \<Rightarrow> agent \<times> 'w" where
  "pipe_step env dir put srt (Ask p t) (a, w) = (a, put (snd (EnqueueForwardRequest sound_disk srt p t (dir w))) w)"
| "pipe_step env dir put srt (Poll now) (a, w) = (case Tick env srt now a w of ((a', _), w') \<Rightarrow> (a', w'))"

text \<open>No request is older than ten minutes when the queue is read; \<open>since\<close> are the requests since the last
  poll. Times are representable.\<close>

fun timely :: "int list \<Rightarrow> pipe_event list \<Rightarrow> bool" where
  "timely since [] = True"
| "timely since (Ask p t # es) =
     (DefaultTTL \<le> t_ns t \<and> t_ns t < 2 ^ 63 \<and> (\<forall>s \<in> set since. t_ns t - DefaultTTL \<le> s) \<and> timely (t_ns t # since) es)"
| "timely since (Poll t # es) =
     (DefaultTTL \<le> t \<and> t < 2 ^ 63 \<and> (\<forall>s \<in> set since. t - DefaultTTL \<le> s) \<and> timely [] es)"

definition asked :: "pipe_event list \<Rightarrow> u16 set" where
  "asked es = {p. \<exists>t. Ask p t \<in> set es}"

definition port_spec :: "u16 \<Rightarrow> string" where
  "port_spec p = ''127.0.0.1:'' @ show_nat (unat p) @ '':127.0.0.1:'' @ show_nat (unat p)"

lemma unexpired:
  assumes "DefaultTTL \<le> now" "now < 2 ^ 63" "DefaultTTL \<le> s" "s < 2 ^ 63" "now - DefaultTTL \<le> s"
  shows "cutoff_ms now DefaultTTL \<le> word_of_int (s div 1000000)"
proof -
  have le: "(now - DefaultTTL) div 1000000 \<le> s div 1000000" using assms(5) by (rule zdiv_mono1) simp
  have "0 \<le> (now - DefaultTTL) div 1000000" using assms(1) by simp
  moreover have "s div 1000000 < 2 ^ 64"
  proof -
    have "s div 1000000 \<le> s" using assms(3) by (simp add: DefaultTTL_def)
    then show ?thesis using assms(4) by simp
  qed
  ultimately show ?thesis using le by (simp add: cutoff_ms_def word_le_def uint_word_of_int)
qed

section \<open>The host and its ssh master\<close>

text \<open>\<open>dir\<close>: the state directory of the host, which \<open>put\<close> changes; \<open>forwards\<close>: what the master forwards.\<close>

locale ssh_host =
  fixes env :: "'w agent_env" and dir :: "'w \<Rightarrow> state_dir" and put :: "state_dir \<Rightarrow> 'w \<Rightarrow> 'w"
    and forwards :: "'w \<Rightarrow> string set"
  assumes put_dir: "dir (put d w) = d" "forwards (put d w) = forwards w"
    and reads_queue: "LoadQueue (qd_file (sd_queue (dir w))) = Inr q \<Longrightarrow>
      \<exists>out w' q'. ag_run env (ExecArgv (ag_target env) (ag_control env) RemoteReadCommand) w = (out, w')
        \<and> ro_err out = None \<and> ro_code out = 0 \<and> ParseQueueJSON (ag_scan env) (ro_stdout out) = Inr q'
        \<and> q_pending q' = q_pending q \<and> dir w' = dir w \<and> forwards w' = forwards w"
    and reads_ack: "ReadAck (sd_ack (dir w)) = Inr n \<Longrightarrow>
      \<exists>out w'. ag_run env (ExecArgv (ag_target env) (ag_control env) RemoteAckReadCommand) w = (out, w')
        \<and> ReadAck (Contents (ro_stdout out)) = Inr n \<and> dir w' = dir w \<and> forwards w' = forwards w"
    and marks: "ReadAck (sd_ack (dir w)) = Inr n \<Longrightarrow> n < i \<Longrightarrow> i < 2 ^ 63 \<Longrightarrow>
      \<exists>out w'. ag_run env (ExecArgv (ag_target env) (ag_control env) (RemoteMarkCommand i)) w = (out, w')
        \<and> ro_err out = None \<and> ro_code out = 0 \<and> ReadAck (sd_ack (dir w')) = Inr i
        \<and> sd_queue (dir w') = sd_queue (dir w) \<and> forwards w' = forwards w"
    and forwards_port: "\<exists>out w'. ag_run env (ForwardArgv (ag_target env) (ag_control env) s) w = (out, w')
        \<and> ro_err out = None \<and> ro_code out = 0 \<and> dir w' = dir w \<and> forwards w' = insert s (forwards w)"
begin

lemma tick_loop_all:
  assumes "distinct (map req_id rs)"
    and "\<forall>r \<in> set rs. ag_last a < req_id r \<longrightarrow> req_id r \<notin> set (ag_applied a) \<and> IsOurs env r \<and> cutoff \<le> req_created r"
    and "new = map req_id (filter (\<lambda>r. ag_last a < req_id r) rs)"
  shows "\<exists>a' w'. tick_loop env cutoff ttl rs a cursor now w = ((a', (if new = [] then cursor else last new), now @ new, None), w')
    \<and> ag_last a' = ag_last a \<and> ag_applied a' = ag_applied a @ new \<and> ag_seeded a' = ag_seeded a
    \<and> dir w' = dir w \<and> forwards w' = forwards w \<union> ForwardSpec ` {r \<in> set rs. ag_last a < req_id r}"
  using assms
proof (induction rs arbitrary: a cursor now w new)
  case (Cons r rs)
  show ?case
  proof (cases "req_id r \<le> ag_last a")
    case True
    have same: "{x \<in> set (r # rs). ag_last a < req_id x} = {x \<in> set rs. ag_last a < req_id x}" using True by auto
    have new: "new = map req_id (filter (\<lambda>r. ag_last a < req_id r) rs)" using Cons.prems(3) True by simp
    have "distinct (map req_id rs)" "\<forall>x \<in> set rs. ag_last a < req_id x \<longrightarrow>
        req_id x \<notin> set (ag_applied a) \<and> IsOurs env x \<and> cutoff \<le> req_created x"
      using Cons.prems(1,2) by auto
    from Cons.IH [OF this new, of cursor now w] show ?thesis unfolding same using True by simp
  next
    case False
    then have r: "ag_last a < req_id r" "req_id r \<notin> set (ag_applied a)" "IsOurs env r" "cutoff \<le> req_created r"
      using Cons.prems(2) by auto
    obtain out w1 where f: "ag_run env (ForwardArgv (ag_target env) (ag_control env) (ForwardSpec r)) w = (out, w1)"
      "ro_err out = None" "ro_code out = 0" "dir w1 = dir w" "forwards w1 = insert (ForwardSpec r) (forwards w)"
      using forwards_port [of "ForwardSpec r" w] by blast
    let ?a = "a\<lparr>ag_applied := ag_applied a @ [req_id r], ag_specs := AList.update (req_id r) (ForwardSpec r) (ag_specs a)\<rparr>"
    let ?new = "map req_id (filter (\<lambda>x. ag_last a < req_id x) rs)"
    have "distinct (map req_id rs)" "\<forall>x \<in> set rs. ag_last ?a < req_id x \<longrightarrow>
        req_id x \<notin> set (ag_applied ?a) \<and> IsOurs env x \<and> cutoff \<le> req_created x"
      using Cons.prems(1,2) by (auto simp: image_iff)
    from Cons.IH [OF this, of ?new "req_id r" "now @ [req_id r]" w1]
    obtain a' w' where rest: "tick_loop env cutoff ttl rs ?a (req_id r) (now @ [req_id r]) w1
        = ((a', (if ?new = [] then req_id r else last ?new), (now @ [req_id r]) @ ?new, None), w')"
      "ag_last a' = ag_last a" "ag_applied a' = ag_applied a @ req_id r # ?new" "ag_seeded a' = ag_seeded a"
      "dir w' = dir w1" "forwards w' = forwards w1 \<union> ForwardSpec ` {x \<in> set rs. ag_last a < req_id x}" by auto
    have new: "new = req_id r # ?new" using Cons.prems(3) r(1) by simp
    have "tick_loop env cutoff ttl (r # rs) a cursor now w = tick_loop env cutoff ttl rs ?a (req_id r) (now @ [req_id r]) w1"
    proof -
      have "\<not> req_id r \<le> ag_last a" "\<not> req_created r < cutoff" using r(1,4) by (simp_all only: not_le not_less)
      with r(2,3) f(1-3) show ?thesis by (simp add: Let_def)
    qed
    with rest(1) new have "tick_loop env cutoff ttl (r # rs) a cursor now w = ((a', (if new = [] then cursor else last new), now @ new, None), w')"
      by simp
    moreover have "forwards w' = forwards w \<union> ForwardSpec ` {x \<in> set (r # rs). ag_last a < req_id x}"
      using rest(6) f(5) r(1) by auto
    ultimately show ?thesis using rest f(4) new by auto
  qed
qed simp

text \<open>Agent and host agree on what is acknowledged, and ids are at most \<open>n\<close>.\<close>

definition in_step :: "nat \<Rightarrow> agent \<Rightarrow> 'w \<Rightarrow> bool" where
  "in_step n a w \<longleftrightarrow> (\<exists>q. LoadQueue (qd_file (sd_queue (dir w))) = Inr q
     \<and> ReadAck (sd_ack (dir w)) = Inr (ag_last a) \<and> unat (ag_last a) \<le> n \<and> (\<forall>i \<in> set (ag_applied a). i \<le> ag_last a)
     \<and> q_last q \<le> ag_last a \<and> distinct (map req_id (q_pending q))
     \<and> (\<forall>r \<in> set (q_pending q). unat (req_id r) \<le> n \<and> req_host r = []))"

definition waiting :: "agent \<Rightarrow> 'w \<Rightarrow> Request set" where
  "waiting a w = (case LoadQueue (qd_file (sd_queue (dir w))) of
     Inl _ \<Rightarrow> {} | Inr q \<Rightarrow> {r \<in> set (q_pending q). ag_last a < req_id r})"

lemma seed_in_step:
  assumes "ReadAck (sd_ack (dir w)) = Inr (ag_last a)"
  shows "\<exists>w'. seed env a w = (a\<lparr>ag_seeded := True\<rparr>, w') \<and> dir w' = dir w \<and> forwards w' = forwards w"
proof (cases "ag_seeded a")
  case True
  then have "a\<lparr>ag_seeded := True\<rparr> = a" by (cases a) simp
  with True show ?thesis by (simp add: seed_def)
next
  case False
  obtain out w' where r: "ag_run env (ExecArgv (ag_target env) (ag_control env) RemoteAckReadCommand) w = (out, w')"
    "ReadAck (Contents (ro_stdout out)) = Inr (ag_last a)" "dir w' = dir w" "forwards w' = forwards w"
    using reads_ack [OF assms] by blast
  have "(case parse_uint 10 64 (trim_space (ro_stdout out)) of
      Some n \<Rightarrow> a\<lparr>ag_last := word_of_nat n, ag_seeded := True\<rparr> | None \<Rightarrow> a\<lparr>ag_seeded := True\<rparr>) = a\<lparr>ag_seeded := True\<rparr>"
    using r(2) by (cases a) (auto simp: ReadAck_def split: option.splits)
  with False r(1,3,4) show ?thesis by (simp add: seed_def)
qed

text \<open>One poll forwards everything that waits and acknowledges it.\<close>

lemma poll_in_step:
  assumes "id_sort srt" "in_step n a w" "n < 2 ^ 63"
    and "\<forall>r \<in> waiting a w. cutoff_ms now (if ag_ttl env = 0 then default_ttl else ag_ttl env) \<le> req_created r"
  shows "\<exists>a' ids cursor w'. Tick env srt now a w = ((a', Inr (ids, cursor, None)), w') \<and> in_step n a' w' \<and> waiting a' w' = {}
    \<and> forwards w' = forwards w \<union> ForwardSpec ` waiting a w"
proof -
  let ?ttl = "if ag_ttl env = 0 then default_ttl else ag_ttl env"
  obtain q where q: "LoadQueue (qd_file (sd_queue (dir w))) = Inr q" "ReadAck (sd_ack (dir w)) = Inr (ag_last a)"
    "unat (ag_last a) \<le> n" "\<forall>i \<in> set (ag_applied a). i \<le> ag_last a" "q_last q \<le> ag_last a"
    "distinct (map req_id (q_pending q))" "\<forall>r \<in> set (q_pending q). unat (req_id r) \<le> n \<and> req_host r = []"
    using assms(2) by (auto simp: in_step_def)
  have wait: "waiting a w = {r \<in> set (q_pending q). ag_last a < req_id r}" by (simp add: waiting_def q(1))
  obtain out w1 q' where read: "ag_run env (ExecArgv (ag_target env) (ag_control env) RemoteReadCommand) w = (out, w1)"
    "ro_err out = None" "ro_code out = 0" "ParseQueueJSON (ag_scan env) (ro_stdout out) = Inr q'"
    "dir w1 = dir w" "forwards w1 = forwards w" "q_pending q' = q_pending q" using reads_queue [OF q(1)] by blast
  obtain w2 where seeded: "seed env a w1 = (a\<lparr>ag_seeded := True\<rparr>, w2)" "dir w2 = dir w1" "forwards w2 = forwards w1"
    using seed_in_step [of w1 a] q(2) read(5) by auto
  let ?a = "a\<lparr>ag_seeded := True\<rparr>" and ?rs = "srt (q_pending q)"
  note srt = id_sort_facts [OF assms(1), of "q_pending q"]
  let ?new = "map req_id (filter (\<lambda>r. ag_last a < req_id r) ?rs)"
  have "mset (map req_id ?rs) = mset (map req_id (q_pending q))" using srt(3) by simp
  then have "distinct (map req_id ?rs)" using q(6) mset_eq_imp_distinct_iff by blast
  moreover have "\<forall>r \<in> set ?rs. ag_last ?a < req_id r \<longrightarrow>
      req_id r \<notin> set (ag_applied ?a) \<and> IsOurs env r \<and> cutoff_ms now ?ttl \<le> req_created r"
    using q(4,7) assms(4) srt(1) by (fastforce simp: IsOurs_def wait)
  ultimately obtain a3 w3 where loop: "tick_loop env (cutoff_ms now ?ttl) ?ttl ?rs ?a (ag_last a) [] w2
      = ((a3, (if ?new = [] then ag_last a else last ?new), ?new, None), w3)"
    "ag_last a3 = ag_last a" "ag_applied a3 = ag_applied a @ ?new" "dir w3 = dir w2"
    "forwards w3 = forwards w2 \<union> ForwardSpec ` {r \<in> set ?rs. ag_last a < req_id r}"
    using tick_loop_all [of ?rs ?a "cutoff_ms now ?ttl" ?new ?ttl "ag_last a" "[]" w2] by auto
  let ?cursor = "if ?new = [] then ag_last a else last ?new"
  have sorted: "sorted ?new" using srt(2) by (rule sorted_filter)
  have above: "\<forall>i \<in> set ?new. ag_last a < i \<and> unat i \<le> n" using q(7) srt(1) by auto
  note cursor = cursor_bounds [OF sorted above q(3) refl]
  have dirs: "dir w3 = dir w" "forwards w3 = forwards w \<union> ForwardSpec ` waiting a w"
    using loop(4,5) seeded(2,3) read(5,6) srt(1) by (simp_all add: wait)
  obtain a' w' where ack: "acknowledge env ?cursor a3 w3 = (a', w')" "ag_last a' = ?cursor" "ag_applied a' = ag_applied a3"
    "ReadAck (sd_ack (dir w')) = Inr ?cursor" "sd_queue (dir w') = sd_queue (dir w)" "forwards w' = forwards w3"
  proof (cases "?new = []")
    case True
    then show ?thesis using that [of a3 w3] loop(2) dirs(1) q(2) by (simp add: acknowledge_def)
  next
    case False
    have "?cursor < 2 ^ 63" using cursor(4) assms(3) by (simp add: word_less_nat_alt)
    then obtain out w' where m: "ag_run env (ExecArgv (ag_target env) (ag_control env) (RemoteMarkCommand ?cursor)) w3 = (out, w')"
      "ro_err out = None" "ro_code out = 0" "ReadAck (sd_ack (dir w')) = Inr ?cursor"
      "sd_queue (dir w') = sd_queue (dir w3)" "forwards w' = forwards w3"
      using marks [of w3 "ag_last a" ?cursor] cursor(2) [OF False] q(2) dirs(1) by auto
    have "acknowledge env ?cursor a3 w3 = (a3\<lparr>ag_last := ?cursor\<rparr>, w')"
      using cursor(2) [OF False] loop(2) m(1-3) by (simp add: acknowledge_def Let_def)
    then show ?thesis using that m(4-6) dirs(1) by simp
  qed
  have "Tick env srt now a w = ((a', Inr (?new, ?cursor, None)), w')"
    using read(1-4,7) seeded(1) loop(1) ack(1) unfolding Tick_def by (simp add: Let_def)
  moreover have "in_step n a' w'"
  proof -
    have "\<forall>i \<in> set (ag_applied a'). i \<le> ?cursor" using ack(3) loop(3) q(4) cursor(1,3) by (auto intro: order_trans)
    then show ?thesis using q ack(2,4,5) cursor(3,4) by (auto simp: in_step_def intro: order_trans)
  qed
  moreover have "waiting a' w' = {}"
    using cursor(1,3) ack(2,5) q(1) srt(1) by (auto simp: waiting_def not_less intro: order_trans)
  moreover have "forwards w' = forwards w \<union> ForwardSpec ` waiting a w" using ack(6) dirs(2) by simp
  ultimately show ?thesis by blast
qed

text \<open>A port that is asked for waits, with all that waited and has not expired.\<close>

lemma ask_in_step:
  assumes "id_sort srt" "in_step n a w" "Suc n < 2 ^ 63"
    and "EnqueueForwardRequest f srt p t (dir w) = (None, d)"
  shows "in_step (Suc n) a (put d w) \<and> forwards (put d w) = forwards w
    \<and> (\<exists>r. waiting a (put d w) = insert r {r \<in> waiting a w. cutoff_ms (t_ns t) DefaultTTL \<le> req_created r}
        \<and> req_lport r = p \<and> req_rport r = p \<and> req_created r = word_of_int (UnixMilli t))"
proof -
  obtain q where q: "LoadQueue (qd_file (sd_queue (dir w))) = Inr q" "ReadAck (sd_ack (dir w)) = Inr (ag_last a)"
    "unat (ag_last a) \<le> n" "\<forall>i \<in> set (ag_applied a). i \<le> ag_last a" "q_last q \<le> ag_last a"
    "distinct (map req_id (q_pending q))" "\<forall>r \<in> set (q_pending q). unat (req_id r) \<le> n \<and> req_host r = []"
    using assms(2) by (auto simp: in_step_def)
  let ?q = "Prune (ag_last a) (t_ns t) DefaultTTL q"
  obtain x where "with_queue f (t_ns t) DefaultTTL (Enqueue srt (pane_request p t)) (dir w) = (Inr x, d)"
    using assms(4) by (auto simp: EnqueueForwardRequest_def split: prod.splits sum.splits)
  from with_queue_ok [OF this] q(1,2) obtain q1 where d: "Enqueue srt (pane_request p t) ?q = (x, q1)"
    "qd_file (sd_queue d) = Contents (JDoc (enc_queue q1))" "sd_ack d = sd_ack (dir w)" by auto
  have last: "q_last ?q = ag_last a" using q(5) by (auto simp: Prune_def Let_def)
  have kept: "q_pending ?q = filter (\<lambda>r. ag_last a < req_id r \<and> cutoff_ms (t_ns t) DefaultTTL \<le> req_created r) (q_pending q)"
    by (simp add: Prune_def Let_def not_le not_less)
  let ?m = "max_id (q_last ?q) (q_pending ?q)"
  have m: "unat ?m \<le> n"
  proof -
    have "unat (max_id k rs) \<le> n" if "unat k \<le> n" "\<forall>r \<in> set rs. unat (req_id r) \<le> n" for k rs
      using that by (induction rs arbitrary: k) (simp_all add: max_id_def)
    then show ?thesis using q(3,7) by (simp add: last kept)
  qed
  then have "?m \<noteq> - 1" using assms(3) by (auto simp: unat_max_u64)
  note fresh = NextID_fresh [OF this]
  have next_: "unat (NextID ?q) \<le> Suc n" using m unat_Suc_le [of ?m] unfolding NextID_def by linarith
  have x: "x = (pane_request p t)\<lparr>req_id := NextID ?q\<rparr>" "q_pending q1 = srt (q_pending ?q @ [x])" "q_last q1 = ag_last a"
    "q_version q1 = q_version q"
    using d(1) last by (auto simp: Enqueue_def Let_def pane_request_def empty_request_def)
  have set1: "set (q_pending q1) = insert x (set (q_pending ?q))" using id_sort_facts(1) [OF assms(1)] x(2) by simp
  have "mset (map req_id (q_pending q1)) = mset (map req_id (q_pending ?q @ [x]))"
    using id_sort_facts(3) [OF assms(1)] x(2) by simp
  moreover have "distinct (map req_id (q_pending ?q @ [x]))"
    using fresh q(6) by (auto simp: x(1) kept distinct_map_filter)
  ultimately have dist: "distinct (map req_id (q_pending q1))" using mset_eq_imp_distinct_iff by blast
  have load: "LoadQueue (qd_file (sd_queue d)) = Inr q1"
    using d(2) load_written [of q1] x(4) load_version [OF q(1)] by simp
  have "in_step (Suc n) a (put d w)"
    using q load d(3) dist x(3) set1 next_
    by (auto simp: in_step_def put_dir kept x(1) pane_request_def empty_request_def)
  moreover have "waiting a (put d w) = insert x {r \<in> waiting a w. cutoff_ms (t_ns t) DefaultTTL \<le> req_created r}"
    using load set1 fresh last q(1) by (auto simp: waiting_def put_dir kept x(1))
  moreover have "req_lport x = p" "req_rport x = p" "req_created x = word_of_int (UnixMilli t)"
    by (simp_all add: x(1) pane_request_def empty_request_def)
  ultimately show ?thesis by (auto simp: put_dir)
qed

lemma ask_succeeds:
  assumes "in_step n a w"
  shows "fst (EnqueueForwardRequest sound_disk srt p t (dir w)) = None"
  using assms by (auto simp: in_step_def EnqueueForwardRequest_def with_queue_def WriteQueueAtomic_def sound_disk_def Let_def
      split: prod.splits sum.splits)

text \<open>A whole run: what is forwarded or waits is what was there and what was asked for.\<close>

lemma run_in_step:
  assumes "id_sort srt" "ag_ttl env = 0"
  shows "timely since es \<Longrightarrow> in_step n a w \<Longrightarrow> n + length es < 2 ^ 63 \<Longrightarrow>
    \<forall>r \<in> waiting a w. \<exists>s \<in> set since. DefaultTTL \<le> s \<and> s < 2 ^ 63 \<and> req_created r = word_of_int (s div 1000000) \<Longrightarrow>
    fold (pipe_step env dir put srt) es (a, w) = (a', w') \<Longrightarrow>
    in_step (n + length es) a' w'
    \<and> forwards w' \<union> ForwardSpec ` waiting a' w' = forwards w \<union> ForwardSpec ` waiting a w \<union> port_spec ` asked es
    \<and> (es \<noteq> [] \<longrightarrow> (\<exists>t. last es = Poll t) \<longrightarrow> waiting a' w' = {})"
proof (induction since es arbitrary: n a w rule: timely.induct)
  case (1 since)
  then show ?case by (simp add: asked_def)
next
  case (2 since p t es)
  let ?d = "snd (EnqueueForwardRequest sound_disk srt p t (dir w))"
  have "EnqueueForwardRequest sound_disk srt p t (dir w) = (None, ?d)"
    using ask_succeeds [OF 2(3)] by (metis prod.collapse)
  from ask_in_step [OF assms(1) 2(3) _ this] 2(4) obtain r where r: "in_step (Suc n) a (put ?d w)"
    "waiting a (put ?d w) = insert r {r \<in> waiting a w. cutoff_ms (t_ns t) DefaultTTL \<le> req_created r}"
    "req_lport r = p" "req_rport r = p" "req_created r = word_of_int (UnixMilli t)" "forwards (put ?d w) = forwards w"
    by auto
  have clock: "DefaultTTL \<le> t_ns t" "t_ns t < 2 ^ 63" "\<forall>s \<in> set since. t_ns t - DefaultTTL \<le> s" "timely (t_ns t # since) es"
    using 2(2) by simp_all
  have "cutoff_ms (t_ns t) DefaultTTL \<le> req_created x" if "x \<in> waiting a w" for x
    using 2(5) that unexpired [OF clock(1,2)] clock(3) by fastforce
  then have wait: "waiting a (put ?d w) = insert r (waiting a w)" using r(2) by blast
  have "\<forall>x \<in> waiting a (put ?d w). \<exists>s \<in> set (t_ns t # since). DefaultTTL \<le> s \<and> s < 2 ^ 63 \<and> req_created x = word_of_int (s div 1000000)"
    using 2(5) clock(1,2) r(5) by (auto simp: wait UnixMilli_def)
  from 2(1) [OF clock(4) r(1) _ this] 2(4,6)
  have ih: "in_step (Suc n + length es) a' w'"
    "forwards w' \<union> ForwardSpec ` waiting a' w' = forwards (put ?d w) \<union> ForwardSpec ` waiting a (put ?d w) \<union> port_spec ` asked es"
    "es \<noteq> [] \<longrightarrow> (\<exists>t. last es = Poll t) \<longrightarrow> waiting a' w' = {}" by auto
  have "ForwardSpec r = port_spec p" by (simp add: ForwardSpec_def port_spec_def r(3,4))
  moreover have "asked (Ask p t # es) = insert p (asked es)" by (auto simp: asked_def)
  ultimately show ?case using ih r(6) wait by auto
next
  case (3 since t es)
  have clock: "DefaultTTL \<le> t" "t < 2 ^ 63" "\<forall>s \<in> set since. t - DefaultTTL \<le> s" "timely [] es"
    using 3(2) by simp_all
  have "default_ttl = DefaultTTL" by (simp add: default_ttl_def DefaultTTL_def)
  then have "\<forall>r \<in> waiting a w. cutoff_ms t (if ag_ttl env = 0 then default_ttl else ag_ttl env) \<le> req_created r"
    using 3(5) unexpired [OF clock(1,2)] clock(3) assms(2) by fastforce
  from poll_in_step [OF assms(1) 3(3) _ this] 3(4) obtain a1 ids cursor w1 where
    t: "Tick env srt t a w = ((a1, Inr (ids, cursor, None)), w1)" "in_step n a1 w1" "waiting a1 w1 = {}"
    "forwards w1 = forwards w \<union> ForwardSpec ` waiting a w" by auto
  from 3(1) [OF clock(4) t(2), of] 3(4,6) t(1,3)
  have ih: "in_step (n + length es) a' w'"
    "forwards w' \<union> ForwardSpec ` waiting a' w' = forwards w1 \<union> port_spec ` asked es"
    "es \<noteq> [] \<longrightarrow> (\<exists>t. last es = Poll t) \<longrightarrow> waiting a' w' = {}" "es = [] \<longrightarrow> waiting a' w' = {}" by auto
  have "asked (Poll t # es) = asked es" by (auto simp: asked_def)
  moreover have "in_step m a' w' \<Longrightarrow> in_step (Suc m) a' w'" for m unfolding in_step_def by (meson le_SucI)
  ultimately show ?case using ih t(4) by auto
qed

end

text \<open>C6: What the panel asks for is forwarded. From an empty queue and a fresh agent, after any sequence of
  requests and polls in which no request is older than ten minutes when the queue is read, and a
  last poll: the ssh master forwards exactly what it did before and the ports that were asked for,
  and everything in the queue is acknowledged, on the host as in the agent.\<close>

theorem asked_ports_are_forwarded:
  assumes "ssh_host env dir put forwards" "ag_ttl env = 0" "id_sort srt"
    and "qd_file (sd_queue (dir w)) = NoFile" "sd_ack (dir w) = NoFile"
    and "timely [] (es @ [Poll now])" "length es + 1 < 2 ^ 63"
    and "fold (pipe_step env dir put srt) (es @ [Poll now]) (fresh_agent, w) = (a', w')"
  shows "forwards w' = forwards w \<union> port_spec ` asked es
    \<and> ReadAck (sd_ack (dir w')) = Inr (ag_last a')
    \<and> (\<exists>q. LoadQueue (qd_file (sd_queue (dir w'))) = Inr q \<and> (\<forall>r \<in> set (q_pending q). req_id r \<le> ag_last a'))"
proof -
  note host = assms(1)
  have load: "LoadQueue (qd_file (sd_queue (dir w))) = Inr new_queue" by (simp add: LoadQueue_def assms(4))
  have "ssh_host.in_step dir 0 fresh_agent w"
    unfolding ssh_host.in_step_def [OF host] using load by (simp add: assms(5) ReadAck_def fresh_agent_def new_queue_def)
  moreover have none: "ssh_host.waiting dir fresh_agent w = {}"
    unfolding ssh_host.waiting_def [OF host] load by (simp add: new_queue_def)
  ultimately have run: "ssh_host.in_step dir (0 + length (es @ [Poll now])) a' w'"
    "forwards w' \<union> ForwardSpec ` ssh_host.waiting dir a' w'
      = forwards w \<union> ForwardSpec ` ssh_host.waiting dir fresh_agent w \<union> port_spec ` asked (es @ [Poll now])"
    "ssh_host.waiting dir a' w' = {}"
    using ssh_host.run_in_step [OF host assms(3,2,6) _ _ _ assms(8), of 0] assms(7) by auto
  have "asked (es @ [Poll now]) = asked es" by (auto simp: asked_def)
  then have "forwards w' = forwards w \<union> port_spec ` asked es" using run(2) unfolding run(3) none by simp
  moreover obtain q where "LoadQueue (qd_file (sd_queue (dir w'))) = Inr q" "ReadAck (sd_ack (dir w')) = Inr (ag_last a')"
    using run(1) unfolding ssh_host.in_step_def [OF host] by blast
  ultimately show ?thesis using run(3) by (auto simp: ssh_host.waiting_def [OF host] not_less)
qed

section \<open>A host\<close>

text \<open>A host that keeps the contract: its JSON text is the number of the value.\<close>

instance json :: countable
  by countable_datatype

definition json_text :: "json \<Rightarrow> string" where
  "json_text j = show_nat (to_nat j)"

definition text_json :: "string \<Rightarrow> jtext" where
  "text_json s = (case digits_val 10 0 s of None \<Rightarrow> JMalformed | Some n \<Rightarrow> JDoc (from_nat n))"

record wire =
  wi_dir :: state_dir
  wi_fwd :: "string list"

definition mark_head :: string where
  \<open>mark_head = ''if [ -n "$p" ]; then o=$(cat "$p/requests.acked" 2>/dev/null); case "$o" in ''
      @ [quote_char, quote_char] @ ''|*[!0-9]*) o=0;; esac; if [ "$o" -ge ''\<close>

definition is_digit :: "char \<Rightarrow> bool" where
  "is_digit c \<longleftrightarrow> 48 \<le> (of_char c :: nat) \<and> (of_char c :: nat) \<le> 57"

definition mark_of :: "string \<Rightarrow> u64 option" where
  "mark_of cmd =
     (case parse_uint 10 64 (takeWhile is_digit (drop (length (remoteStateScan @ mark_head)) cmd)) of
        None \<Rightarrow> None
      | Some n \<Rightarrow> if RemoteMarkCommand (word_of_nat n) = cmd then Some (word_of_nat n) else None)"

definition done_with :: "string \<Rightarrow> run_out" where
  "done_with out = \<lparr>ro_stdout = out, ro_stderr = [], ro_code = 0, ro_err = None\<rparr>"

definition wire_mark :: "u64 \<Rightarrow> wire \<Rightarrow> wire" where
  "wire_mark i w =
     (case ReadAck (sd_ack (wi_dir w)) of
        Inl _ \<Rightarrow> w
      | Inr n \<Rightarrow> if i \<le> n then w else w\<lparr>wi_dir := (wi_dir w)\<lparr>sd_ack := Contents (show_nat (unat i) @ [CHR 0x0A])\<rparr>\<rparr>)"

definition wire_exec :: "string \<Rightarrow> (wire, run_out) act" where
  "wire_exec cmd w =
     (if cmd = RemoteReadCommand then
        (done_with (case qd_file (sd_queue (wi_dir w)) of Contents (JDoc j) \<Rightarrow> json_text j | _ \<Rightarrow> []), w)
      else if cmd = RemoteAckReadCommand then
        (done_with (case sd_ack (wi_dir w) of Contents s \<Rightarrow> s | _ \<Rightarrow> []), w)
      else (case mark_of cmd of
              Some i \<Rightarrow> (done_with [], wire_mark i w)
            | None \<Rightarrow> (\<lparr>ro_stdout = [], ro_stderr = [], ro_code = 127, ro_err = None\<rparr>, w)))"

definition wire_run :: "wire runner" where
  "wire_run argv w =
     (case argv of
        [_, _, _, _, _, _, cmd] \<Rightarrow> wire_exec cmd w
      | [_, _, _, _, _, _, spec, _] \<Rightarrow> (done_with [], w\<lparr>wi_fwd := spec # wi_fwd w\<rparr>)
      | _ \<Rightarrow> (\<lparr>ro_stdout = [], ro_stderr = [], ro_code = 255, ro_err = None\<rparr>, w))"

definition wire_env :: "wire agent_env" where
  "wire_env = \<lparr>ag_target = ''u@m'', ag_control = ''/c'', ag_hostname = [], ag_ttl = 0, ag_run = wire_run,
     ag_stat = (\<lambda>_ _. True), ag_remove = (\<lambda>_ w. w), ag_scan = text_json\<rparr>"

lemma show_nat_digits: "c \<in> set (show_nat n) \<Longrightarrow> is_digit c"
  using digit_char_props(4,5) show_nat_chars unfolding is_digit_def by blast

lemma mark_of_command: "mark_of (RemoteMarkCommand i) = Some i"
proof -
  have shape: "\<exists>rest. RemoteMarkCommand i = (remoteStateScan @ mark_head) @ show_nat (unat i) @ CHR '' '' # rest"
    unfolding RemoteMarkCommand_def Let_def mark_head_def by simp
  then obtain rest where r: "RemoteMarkCommand i = (remoteStateScan @ mark_head) @ show_nat (unat i) @ CHR '' '' # rest" by blast
  have "takeWhile is_digit (show_nat (unat i) @ CHR '' '' # rest) = show_nat (unat i)"
    by (subst takeWhile_append2) (auto simp: show_nat_digits, simp add: is_digit_def)
  then have "takeWhile is_digit (drop (length (remoteStateScan @ mark_head)) (RemoteMarkCommand i)) = show_nat (unat i)"
    by (simp only: r append_eq_conv_conj drop_append) simp
  then show ?thesis using unat_bounds(3) [of i] by (simp add: mark_of_def)
qed

lemma wire_commands:
  "RemoteReadCommand \<noteq> RemoteAckReadCommand" "RemoteMarkCommand i \<noteq> RemoteReadCommand" "RemoteMarkCommand i \<noteq> RemoteAckReadCommand"
  unfolding RemoteReadCommand_def RemoteAckReadCommand_def RemoteMarkCommand_def Let_def by simp_all

lemma trim_number: "trim_space (show_nat n @ [CHR 0x0A]) = show_nat n"
proof -
  have drop: "dropWhile is_space t = t" if "\<forall>c \<in> set t. \<not> is_space c" for t using that by (cases t) auto
  have n: "\<forall>c \<in> set (show_nat n). \<not> is_space c" using show_nat_no_space by blast
  then have "dropWhile is_space (show_nat n @ [CHR 0x0A]) = show_nat n @ [CHR 0x0A]"
    using show_nat_nonempty [of n] by (cases "show_nat n") auto
  moreover have "dropWhile is_space (rev (show_nat n)) = rev (show_nat n)" using drop [of "rev (show_nat n)"] n by simp
  ultimately show ?thesis by (simp add: trim_space_def trim_by_def trim_right_by_def is_space_def)
qed

lemma trim_plain: "trim_space (show_nat n) = show_nat n"
proof -
  have drop: "dropWhile is_space t = t" if "\<forall>c \<in> set t. \<not> is_space c" for t using that by (cases t) auto
  have n: "\<forall>c \<in> set (show_nat n). \<not> is_space c" using show_nat_no_space by blast
  then show ?thesis using drop [of "show_nat n"] drop [of "rev (show_nat n)"] by (simp add: trim_space_def trim_by_def trim_right_by_def)
qed

lemma text_json_text: "text_json (json_text j) = JDoc j"
  by (simp add: text_json_def json_text_def digits_val_show_nat)

lemma wire_env_simps:
  "ag_run wire_env = wire_run" "ag_scan wire_env = text_json" "ag_target wire_env = ''u@m''" "ag_control wire_env = ''/c''" "ag_ttl wire_env = 0"
  by (simp_all add: wire_env_def)

lemma wire_queue:
  assumes "LoadQueue (qd_file (sd_queue d)) = Inr q"
  shows "\<exists>q'. ParseQueueJSON text_json (case qd_file (sd_queue d) of Contents (JDoc j) \<Rightarrow> json_text j | _ \<Rightarrow> []) = Inr q'
    \<and> q_pending q' = q_pending q"
proof (cases "qd_file (sd_queue d)")
  case NoFile
  moreover have "trim_space [] = []" by (simp add: trim_space_def trim_by_def trim_right_by_def)
  ultimately show ?thesis using assms by (simp add: LoadQueue_def ParseQueueJSON_def)
next
  case (Contents t)
  then obtain j q0 where "t = JDoc j" "unmarshal dec_queue empty_queue (JDoc j) = Some q0" "q_pending q0 = q_pending q"
    using assms by (cases t) (auto simp: LoadQueue_def unmarshal_def split: option.splits if_splits)
  moreover have "trim_space (json_text j) = json_text j" "json_text j \<noteq> []" by (simp_all add: json_text_def trim_plain)
  ultimately show ?thesis using Contents text_json_text [of j] by (simp add: ParseQueueJSON_def Let_def)
qed (use assms in \<open>simp add: LoadQueue_def\<close>)

lemma wire_ack:
  "ReadAck (sd_ack d) = Inr n \<Longrightarrow> ReadAck (Contents (case sd_ack d of Contents s \<Rightarrow> s | _ \<Rightarrow> [])) = Inr n"
  by (cases "sd_ack d") (simp_all add: ReadAck_def trim_space_def trim_by_def trim_right_by_def parse_uint_def)

lemma wire_marked:
  assumes "ReadAck (sd_ack (wi_dir w)) = Inr n" "n < i"
  shows "ReadAck (sd_ack (wi_dir (wire_mark i w))) = Inr i"
proof -
  have "\<not> i \<le> n" using assms(2) by (simp only: not_le)
  then have "sd_ack (wi_dir (wire_mark i w)) = Contents (show_nat (unat i) @ [CHR 0x0A])"
    using assms(1) by (simp add: wire_mark_def)
  then show ?thesis using unat_bounds(3) [of i] by (simp add: ReadAck_def trim_number)
qed

lemma wire_mark_keeps: "sd_queue (wi_dir (wire_mark i w)) = sd_queue (wi_dir w)" "wi_fwd (wire_mark i w) = wi_fwd w"
  by (simp_all add: wire_mark_def split: sum.splits)

interpretation wire: ssh_host wire_env wi_dir "\<lambda>d w. w\<lparr>wi_dir := d\<rparr>" "\<lambda>w. set (wi_fwd w)"
proof
  fix d w q n i s
  let ?exec = "\<lambda>c. ag_run wire_env (ExecArgv (ag_target wire_env) (ag_control wire_env) c) w"
  have exec: "?exec c = wire_exec c w" for c by (simp add: wire_env_simps wire_run_def ExecArgv_def)
  show "wi_dir (w\<lparr>wi_dir := d\<rparr>) = d" "set (wi_fwd (w\<lparr>wi_dir := d\<rparr>)) = set (wi_fwd w)" by simp_all
  show "\<exists>out w' q'. ?exec RemoteReadCommand = (out, w') \<and> ro_err out = None \<and> ro_code out = 0
      \<and> ParseQueueJSON (ag_scan wire_env) (ro_stdout out) = Inr q' \<and> q_pending q' = q_pending q
      \<and> wi_dir w' = wi_dir w \<and> set (wi_fwd w') = set (wi_fwd w)"
    if "LoadQueue (qd_file (sd_queue (wi_dir w))) = Inr q"
    unfolding exec using wire_queue [OF that] by (simp add: wire_exec_def done_with_def wire_env_simps)
  show "\<exists>out w'. ?exec RemoteAckReadCommand = (out, w') \<and> ReadAck (Contents (ro_stdout out)) = Inr n
      \<and> wi_dir w' = wi_dir w \<and> set (wi_fwd w') = set (wi_fwd w)"
    if "ReadAck (sd_ack (wi_dir w)) = Inr n"
    unfolding exec using wire_ack [OF that] wire_commands(1) by (simp add: wire_exec_def done_with_def)
  show "\<exists>out w'. ?exec (RemoteMarkCommand i) = (out, w') \<and> ro_err out = None \<and> ro_code out = 0
      \<and> ReadAck (sd_ack (wi_dir w')) = Inr i \<and> sd_queue (wi_dir w') = sd_queue (wi_dir w) \<and> set (wi_fwd w') = set (wi_fwd w)"
    if "ReadAck (sd_ack (wi_dir w)) = Inr n" "n < i" "i < 2 ^ 63"
    unfolding exec using wire_marked [OF that(1,2)] wire_commands(2,3) [of i] mark_of_command [of i] wire_mark_keeps
    by (simp add: wire_exec_def done_with_def)
  show "\<exists>out w'. ag_run wire_env (ForwardArgv (ag_target wire_env) (ag_control wire_env) s) w = (out, w')
      \<and> ro_err out = None \<and> ro_code out = 0 \<and> wi_dir w' = wi_dir w \<and> set (wi_fwd w') = insert s (set (wi_fwd w))"
    by (simp add: wire_env_simps wire_run_def ForwardArgv_def done_with_def)
qed

text \<open>Two requests and a poll.\<close>

theorem asked_ports_are_forwarded_witness:
  "\<exists>a w. fold (pipe_step wire_env wi_dir (\<lambda>d w. w\<lparr>wi_dir := d\<rparr>) (sort_key req_id))
       [Ask 8080 \<lparr>t_ns = 10 ^ 18, t_zone = 0\<rparr>, Ask 3000 \<lparr>t_ns = 10 ^ 18 + 5, t_zone = 0\<rparr>, Poll (10 ^ 18 + 10)]
       (fresh_agent, \<lparr>wi_dir = \<lparr>sd_queue = \<lparr>qd_file = NoFile, qd_tmp = NoFile\<rparr>, sd_ack = NoFile,
          sd_forwards = \<lparr>qd_file = NoFile, qd_tmp = NoFile\<rparr>\<rparr>, wi_fwd = []\<rparr>) = (a, w)
     \<and> set (wi_fwd w) = {port_spec 8080, port_spec 3000}"
proof -
  let ?es = "[Ask 8080 \<lparr>t_ns = 10 ^ 18, t_zone = 0\<rparr>, Ask 3000 \<lparr>t_ns = 10 ^ 18 + 5, t_zone = 0\<rparr>]"
  let ?w = "\<lparr>wi_dir = \<lparr>sd_queue = \<lparr>qd_file = NoFile, qd_tmp = NoFile\<rparr>, sd_ack = NoFile,
          sd_forwards = \<lparr>qd_file = NoFile, qd_tmp = NoFile\<rparr>\<rparr>, wi_fwd = []\<rparr>"
  obtain a w where run: "fold (pipe_step wire_env wi_dir (\<lambda>d w. w\<lparr>wi_dir := d\<rparr>) (sort_key req_id))
      (?es @ [Poll (10 ^ 18 + 10)]) (fresh_agent, ?w) = (a, w)" by fastforce
  have "timely [] (?es @ [Poll (10 ^ 18 + 10)])" by (simp add: DefaultTTL_def)
  from asked_ports_are_forwarded [OF wire.ssh_host_axioms wire_env_simps(5) id_sort_exists _ _ this _ run]
  have "set (wi_fwd w) = port_spec ` asked ?es" by simp
  moreover have "asked ?es = {8080, 3000}" by (auto simp: asked_def)
  ultimately have "set (wi_fwd w) = {port_spec 8080, port_spec 3000}" by simp
  with run show ?thesis by auto
qed

end
