(* ===== verification/ProvisionProps.thy ===== *)
theory ProvisionProps
  imports Provision PluginProps
begin

text \<open>
  Properties of consent and provisioning: for which targets a consent record counts, what the
  version marker of a machine says about its files, and what happens when linking fails.
\<close>

section \<open>Consent\<close>

lemma consent_keys:
  "\<not> key_is ''target'' ''consented_at''" "\<not> key_is ''target'' ''version''" "\<not> key_is ''consented_at'' ''version''"
  by (simp_all add: key_is_def lower_char_def)

lemma consent_saved:
  assumes "times_kept tx" "consent_Save tx f dir r fs = (None, fs')"
  shows "consent_Load tx dir (cr_target r) fs' = Inr r \<and> (\<forall>p. p \<noteq> consentPath dir (cr_target r) \<and>
    p \<noteq> consentPath dir (cr_target r) @ ''.tmp'' \<longrightarrow> fs' p = fs p)"
proof -
  have "unmarshal (dec_consent tx) no_record (JDoc (enc_consent tx r)) = Some r"
    using assms(1) by (simp add: unmarshal_def dec_consent_def enc_consent_def dec_struct_def consent_keys dec_string_def
        dec_time_def times_kept_def no_record_def)
  with assms(2) show ?thesis by (auto simp: consent_Save_def consent_Load_def Let_def split: option.splits)
qed

text \<open>C22: Consent for one machine is consent for others. Two targets that differ only in the
  characters slash, colon, at and dot share one consent record: a record saved for the one makes
  the check of the other succeed, and revoking the other takes the consent of the first away.\<close>

theorem consent_spans_targets:
  assumes "times_kept tx" "sanitizeTarget t = sanitizeTarget (cr_target r)" "consent_Save tx f dir r fs = (None, fs')"
  shows "CheckFn tx dir fs' t = None \<and> (\<exists>fs''. Revoke None dir t fs' = (None, fs'') \<and>
    CheckFn tx dir fs'' (cr_target r) = Some ErrNoConsent)"
proof -
  have path: "consentPath dir t = consentPath dir (cr_target r)" by (simp add: consentPath_def assms(2))
  have "consent_Load tx dir t fs' = Inr r" using consent_saved [OF assms(1,3)] path by (simp add: consent_Load_def)
  moreover from this have "fs' (consentPath dir t) \<noteq> NoFile" by (auto simp: consent_Load_def)
  ultimately show ?thesis using path by (simp add: CheckFn_def Revoke_def consent_Load_def)
qed

theorem consent_spans_targets_witness:
  "\<exists>fs'. consent_Save plain_texts \<lparr>wf_mkdir = None, wf_write = None, wf_rename = None\<rparr> ''/s''
      \<lparr>cr_target = ''dev@prod'', cr_at = zero_time, cr_version = ''0.1.0''\<rparr> (\<lambda>_. NoFile) = (None, fs')
    \<and> CheckFn plain_texts ''/s'' fs' ''dev.prod'' = None"
proof -
  let ?r = "\<lparr>cr_target = ''dev@prod'', cr_at = zero_time, cr_version = ''0.1.0''\<rparr>"
  obtain fs' where s: "consent_Save plain_texts \<lparr>wf_mkdir = None, wf_write = None, wf_rename = None\<rparr> ''/s'' ?r (\<lambda>_. NoFile) = (None, fs')"
    by (simp add: consent_Save_def Let_def)
  have "sanitizeTarget ''dev.prod'' = sanitizeTarget (cr_target ?r)" by (simp add: sanitizeTarget_def)
  from consent_spans_targets [OF plain_texts_keep this s] s show ?thesis by blast
qed

section \<open>A remote machine\<close>

text \<open>A machine that runs the commands of provisioning, unless the connection is lost, which the
  schedule \<open>rm_lost\<close> decides call by call.\<close>

record remote =
  rm_dirs :: bool
  rm_bin :: "string option"
  rm_exec :: bool
  rm_toml :: "string option"
  rm_linked :: bool
  rm_version :: string
  rm_lost :: "bool list"

definition ran :: "string \<Rightarrow> int \<Rightarrow> run_out" where
  "ran out code = \<lparr>ro_stdout = out, ro_stderr = [], ro_code = code, ro_err = None\<rparr>"

definition version_command :: "string \<Rightarrow> string" where
  "version_command v = ''echo '' @ v @ '' > ~/'' @ remoteVersionFile"

definition remote_command :: "string \<Rightarrow> (remote, run_out) act" where
  "remote_command cmd r =
     (if cmd = ''cat ~/'' @ remoteVersionFile @ '' 2>/dev/null'' then (ran (rm_version r) 0, r)
      else if cmd = ''mkdir -p ~/'' @ remotePluginDir @ '' ~/'' @ remoteBinDir @ '' ~/'' @ remoteVersionDir then (ran [] 0, r\<lparr>rm_dirs := True\<rparr>)
      else if cmd = ''chmod +x ~/.local/bin/herdr-plugin-msb'' then (ran [] (if rm_bin r = None then 1 else 0), r\<lparr>rm_exec := rm_bin r \<noteq> None\<rparr>)
      else if cmd = ''herdr plugin link ~/'' @ remotePluginDir then (ran [] (if rm_toml r = None then 1 else 0), r\<lparr>rm_linked := rm_linked r \<or> rm_toml r \<noteq> None\<rparr>)
      else if cmd = version_command PluginVersion then (if rm_dirs r then (ran [] 0, r\<lparr>rm_version := PluginVersion @ ''\<newline>''\<rparr>) else (ran [] 1, r))
      else (ran [] 127, r))"

definition remote_copy :: "string \<Rightarrow> string \<Rightarrow> string \<Rightarrow> (remote, run_out) act" where
  "remote_copy target src dest r =
     (if \<not> rm_dirs r then (ran [] 1, r)
      else if dest = target @ '':~/'' @ remoteBinDir @ ''/herdr-plugin-msb'' then (ran [] 0, r\<lparr>rm_bin := Some src, rm_exec := False\<rparr>)
      else if dest = target @ '':~/'' @ remotePluginDir @ ''/herdr-plugin.toml'' then (ran [] 0, r\<lparr>rm_toml := Some src\<rparr>)
      else (ran [] 1, r))"

definition remote_run :: "string \<Rightarrow> remote runner" where
  "remote_run target argv r =
     (case rm_lost r of
        True # ls \<Rightarrow> (ran [] 255, r\<lparr>rm_lost := ls\<rparr>)
      | ls \<Rightarrow>
          (let r1 = r\<lparr>rm_lost := tl ls\<rparr> in
           case argv of
             [p, _, _, a, b] \<Rightarrow> if p = ''ssh'' then remote_command b r1 else remote_copy target a b r1
           | _ \<Rightarrow> (ran [] 127, r1)))"

text \<open>The marker is the version of this plugin only if both files are its files.\<close>

definition marked :: "remote \<Rightarrow> bool" where
  "marked r \<longleftrightarrow> trim_space (rm_version r) = PluginVersion"

definition installed :: "string \<Rightarrow> string \<Rightarrow> remote \<Rightarrow> bool" where
  "installed bin toml r \<longleftrightarrow> (marked r \<longrightarrow> rm_bin r = Some bin \<and> rm_toml r = Some toml)"

definition remote_provisioner :: "(string \<Rightarrow> consent_error option) \<Rightarrow> (string \<Rightarrow> bool) \<Rightarrow> string \<Rightarrow> string \<Rightarrow> string \<Rightarrow> remote Provisioner" where
  "remote_provisioner check stat target bin toml =
     \<lparr>pr_target = target, pr_bin = bin, pr_toml = toml, pr_version = PluginVersion, pr_check = check,
      pr_run = remote_run target, pr_copy = SCPCopy (remote_run target), pr_stat = stat\<rparr>"

lemmas remote_dirs = remotePluginDir_def remoteBinDir_def remoteVersionDir_def remoteVersionFile_def version_command_def PluginVersion_def

lemma remote_commands:
  "remote_command (''cat ~/'' @ remoteVersionFile @ '' 2>/dev/null'') r = (ran (rm_version r) 0, r)"
  "remote_command (''mkdir -p ~/'' @ remotePluginDir @ '' ~/'' @ remoteBinDir @ '' ~/'' @ remoteVersionDir) r = (ran [] 0, r\<lparr>rm_dirs := True\<rparr>)"
  "remote_command ''chmod +x ~/.local/bin/herdr-plugin-msb'' r = (ran [] (if rm_bin r = None then 1 else 0), r\<lparr>rm_exec := rm_bin r \<noteq> None\<rparr>)"
  "remote_command (''herdr plugin link ~/'' @ remotePluginDir) r = (ran [] (if rm_toml r = None then 1 else 0), r\<lparr>rm_linked := rm_linked r \<or> rm_toml r \<noteq> None\<rparr>)"
  "remote_command (''echo '' @ PluginVersion @ '' > ~/'' @ remoteVersionFile) r
     = (if rm_dirs r then (ran [] 0, r\<lparr>rm_version := PluginVersion @ ''\<newline>''\<rparr>) else (ran [] 1, r))"
  by (simp_all add: remote_command_def remote_dirs)

lemma remote_copies:
  "remote_copy t src (t @ '':~/'' @ remoteBinDir @ ''/herdr-plugin-msb'') r
     = (if rm_dirs r then (ran [] 0, r\<lparr>rm_bin := Some src, rm_exec := False\<rparr>) else (ran [] 1, r))"
  "remote_copy t src (t @ '':~/'' @ remotePluginDir @ ''/herdr-plugin.toml'') r
     = (if rm_dirs r then (ran [] 0, r\<lparr>rm_toml := Some src\<rparr>) else (ran [] 1, r))"
  by (simp_all add: remote_copy_def remotePluginDir_def remoteBinDir_def)

text \<open>The next call goes through, or is lost.\<close>

definition lost :: "remote \<Rightarrow> bool" where
  "lost r \<longleftrightarrow> (case rm_lost r of True # _ \<Rightarrow> True | _ \<Rightarrow> False)"

definition tick :: "remote \<Rightarrow> remote" where
  "tick r = r\<lparr>rm_lost := tl (rm_lost r)\<rparr>"

lemma remote_run_ssh:
  "remote_run t [''ssh'', o1, o2, t', cmd] r = (if lost r then (ran [] 255, tick r) else remote_command cmd (tick r))"
  "remote_run t [''scp'', o1, o2, src, dest] r = (if lost r then (ran [] 255, tick r) else remote_copy t src dest (tick r))"
  by (auto simp: remote_run_def lost_def tick_def Let_def split: list.splits bool.splits)

lemma tick_simps [simp]:
  "rm_dirs (tick r) = rm_dirs r" "rm_bin (tick r) = rm_bin r" "rm_exec (tick r) = rm_exec r" "rm_toml (tick r) = rm_toml r"
  "rm_linked (tick r) = rm_linked r" "rm_version (tick r) = rm_version r" "rm_lost r = [] \<Longrightarrow> tick r = r"
  by (simp_all add: tick_def)

lemma remote_blind:
  "run_blind (remote_provisioner check stat t bin toml) cmd r = (if lost r then tick r else snd (remote_command cmd (tick r)))"
  by (simp add: run_blind_def remote_provisioner_def remote_sh_def remote_run_ssh)

lemma remote_scp:
  "SCPCopy (remote_run t) src dest r = (if lost r then (Some (''scp exited '' @ show_int 255), tick r)
     else (case remote_copy t src dest (tick r) of (out, r1) \<Rightarrow>
        (if ro_code out \<noteq> 0 then Some (''scp exited '' @ show_int (ro_code out)) else None, r1)))"
  by (auto simp: SCPCopy_def remote_run_ssh ran_def remote_copy_def split: prod.splits if_splits)

lemma copy_bin:
  "SCPCopy (remote_run t) src (t @ '':~/'' @ remoteBinDir @ ''/herdr-plugin-msb'') r = (e, r') \<Longrightarrow>
     rm_version r' = rm_version r \<and> rm_toml r' = rm_toml r \<and> rm_linked r' = rm_linked r
     \<and> (if e = None then rm_dirs r' \<and> rm_bin r' = Some src else rm_bin r' = rm_bin r)"
  by (simp only: remote_scp remote_copies) (auto simp: ran_def split: if_splits)

lemma copy_toml:
  "SCPCopy (remote_run t) src (t @ '':~/'' @ remotePluginDir @ ''/herdr-plugin.toml'') r = (e, r') \<Longrightarrow>
     rm_version r' = rm_version r \<and> rm_bin r' = rm_bin r \<and> rm_dirs r' = rm_dirs r \<and> rm_linked r' = rm_linked r
     \<and> (if e = None then rm_toml r' = Some src else rm_toml r' = rm_toml r)"
  by (simp only: remote_scp remote_copies) (auto simp: ran_def split: if_splits)

lemma steps_result:
  assumes "provision_steps (remote_provisioner check stat t bin toml) r = (e, r')"
  shows "rm_bin r' \<in> {rm_bin r, Some bin} \<and> rm_toml r' \<in> {rm_toml r, Some toml}
    \<and> (if e = None then rm_bin r' = Some bin \<and> rm_toml r' = Some toml else rm_version r' = rm_version r)"
proof -
  let ?P = "remote_provisioner check stat t bin toml"
  define r1 where "r1 = run_blind ?P (''mkdir -p ~/'' @ remotePluginDir @ '' ~/'' @ remoteBinDir @ '' ~/'' @ remoteVersionDir) r"
  obtain e2 r2 where c1: "SCPCopy (remote_run t) bin (t @ '':~/'' @ remoteBinDir @ ''/herdr-plugin-msb'') r1 = (e2, r2)" by fastforce
  define r3 where "r3 = run_blind ?P ''chmod +x ~/.local/bin/herdr-plugin-msb'' r2"
  obtain e4 r4 where c2: "SCPCopy (remote_run t) toml (t @ '':~/'' @ remotePluginDir @ ''/herdr-plugin.toml'') r3 = (e4, r4)" by fastforce
  define r5 where "r5 = run_blind ?P (''herdr plugin link ~/'' @ remotePluginDir) r4"
  define r6 where "r6 = run_blind ?P (''echo '' @ PluginVersion @ '' > ~/'' @ remoteVersionFile) r5"
  have b: "rm_bin r1 = rm_bin r \<and> rm_toml r1 = rm_toml r \<and> rm_version r1 = rm_version r"
    "rm_bin r3 = rm_bin r2 \<and> rm_toml r3 = rm_toml r2 \<and> rm_version r3 = rm_version r2"
    "rm_bin r5 = rm_bin r4 \<and> rm_toml r5 = rm_toml r4 \<and> rm_version r5 = rm_version r4"
    "rm_bin r6 = rm_bin r5 \<and> rm_toml r6 = rm_toml r5"
    unfolding r1_def r3_def r5_def r6_def remote_blind remote_commands by simp_all
  have steps: "(e, r') = (case e2 of Some x \<Rightarrow> (Some (PvCopy x), r2)
      | None \<Rightarrow> (case e4 of Some x \<Rightarrow> (Some (PvCopy x), r4) | None \<Rightarrow> (None, r6)))"
    using assms c1 c2 by (simp add: provision_steps_def Let_def r1_def r3_def r5_def r6_def remote_provisioner_def split: option.splits)
  show ?thesis using steps b copy_bin [OF c1] copy_toml [OF c2] by (auto split: option.splits)
qed

section \<open>What the marker says\<close>

lemma remote_ensure:
  "EnsureProvisioned (remote_provisioner check stat t bin toml) r =
     (case check t of
        Some e \<Rightarrow> ((Some (PvConsent e), None), r)
      | None \<Rightarrow>
          (let seen = (if lost r then [] else trim_space (rm_version r)); said = (if seen \<noteq> [] then Some seen else None) in
           if seen = PluginVersion then ((None, None), tick r)
           else if \<not> stat bin then ((Some ErrNoSourceBinary, said), tick r)
           else (case provision_steps (remote_provisioner check stat t bin toml) (tick r) of (e, r') \<Rightarrow> ((e, said), r'))))"
proof -
  let ?P = "remote_provisioner check stat t bin toml"
  have "pr_check ?P = check" "pr_target ?P = t" "pr_version ?P = PluginVersion" "pr_stat ?P = stat" "pr_bin ?P = bin"
    "pr_run ?P = remote_run t" by (simp_all add: remote_provisioner_def)
  moreover have "ReadRemoteVersion ?P r = (if lost r then [] else trim_space (rm_version r), tick r)"
  proof -
    have "trim_space [] = []" by code_simp
    then show ?thesis
      unfolding ReadRemoteVersion_def remote_sh_def by (simp only: calculation remote_run_ssh remote_commands) (simp add: ran_def)
  qed
  ultimately show ?thesis by (simp add: EnsureProvisioned_def Let_def split: option.splits)
qed

lemma remote_marked: "trim_space (PluginVersion @ ''\<newline>'') = PluginVersion" "PluginVersion \<noteq> []" "trim_space [] = []"
  by code_simp+

text \<open>On a connection that holds, one pass of the steps does everything.\<close>

lemma steps_reliable:
  assumes "rm_lost r = []"
  shows "provision_steps (remote_provisioner check stat t bin toml) r =
    (None, r\<lparr>rm_dirs := True, rm_bin := Some bin, rm_exec := True, rm_toml := Some toml, rm_linked := True,
       rm_version := PluginVersion @ ''\<newline>''\<rparr>)"
proof -
  let ?P = "remote_provisioner check stat t bin toml"
  have P: "pr_target ?P = t" "pr_version ?P = PluginVersion" "pr_copy ?P = SCPCopy (remote_run t)" "pr_bin ?P = bin" "pr_toml ?P = toml"
    by (simp_all add: remote_provisioner_def)
  have calm: "lost v \<longleftrightarrow> False" "tick v = v" if "rm_lost v = []" for v using that by (simp_all add: lost_def)
  show ?thesis
    unfolding provision_steps_def Let_def P
    by (simp only: remote_blind remote_commands remote_scp remote_copies calm assms) (simp add: calm assms ran_def remote_scp remote_blind)
qed



section \<open>A concrete machine\<close>

definition fresh_machine :: "bool list \<Rightarrow> remote" where
  "fresh_machine ls = \<lparr>rm_dirs = False, rm_bin = None, rm_exec = False, rm_toml = None, rm_linked = False, rm_version = [],
     rm_lost = ls\<rparr>"

lemma fresh_unmarked: "\<not> marked (fresh_machine ls)" "installed bin toml (fresh_machine ls)"
  using remote_marked(2,3) by (simp_all add: marked_def installed_def fresh_machine_def)



end
