(* ===== verification/RepoTools.thy ===== *)
theory RepoTools
  imports AgentHost
begin

text \<open>
  The checks that run over the repository itself: the import ban (\<open>tools/importban/checker.go\<close>,
  \<open>main.go\<close>) and the check of the built artifacts (\<open>tools/distcheck/main.go\<close>). Walking, parsing of
  Go imports, git and SHA-256 are outside: a repository is the tree that the walk sees, a Go file its
  import literals.
\<close>

section \<open>The import ban\<close>

text \<open>A file with the literals of its imports (\<open>None\<close>: the parser fails); a directory with its entries
  in the order of the walk (\<open>None\<close>: it cannot be read).\<close>

datatype node = FileNode string "string list option" | DirNode string "node list option"

record Violation =
  vi_file :: string
  vi_package :: string
  vi_import :: string
  vi_reason :: string

definition Violation_String :: "Violation \<Rightarrow> string" where
  "Violation_String v = ''IMPORT-BAN: '' @ vi_file v @ '': package '' @ vi_package v @ '' may not import ''
     @ vi_import v @ '': '' @ vi_reason v"

definition msbSDKPrefix :: string where "msbSDKPrefix = ''github.com/superradcompany/microsandbox''"
definition msbAllowedDir :: string where "msbAllowedDir = ''internal/runtime/msb''"
definition coreDir :: string where "coreDir = ''internal/core''"
definition runtimeImport :: string where "runtimeImport = ''/internal/runtime/''"

definition underDir :: "string \<Rightarrow> string \<Rightarrow> bool" where
  "underDir relDir dir \<longleftrightarrow> relDir = dir \<or> has_prefix relDir (dir @ ''/'')"

definition sdk_reason :: string where
  "sdk_reason = ''only packages under internal/runtime/msb/ may import the microsandbox SDK; ''
     @ ''closures cannot cross its fork+exec boundary, so all SDK contact must sit in one blast site''"

definition core_reason :: string where
  "core_reason = ''internal/core is the substrate-agnostic seam; importing an internal/runtime ''
     @ ''implementation inverts the dependency''"

text \<open>The directories the walk does not enter.\<close>

definition skipped_dir :: "string \<Rightarrow> bool" where
  "skipped_dir name \<longleftrightarrow> name \<in> {''vendor'', ''.git'', ''testdata''} \<or> has_prefix name ''_'' \<or> has_prefix name ''.''"

definition package_path :: "string \<Rightarrow> string \<Rightarrow> string" where
  "package_path modulePath dir = (if dir = ''.'' then modulePath else modulePath @ ''/'' @ dir)"

text \<open>\<open>filepath.Dir\<close> of the relative path of a file in these directories.\<close>

definition rel_dir :: "string list \<Rightarrow> string" where
  "rel_dir ds = (if ds = [] then ''.'' else join_with ''/'' ds)"

definition check_import :: "string \<Rightarrow> string \<Rightarrow> string \<Rightarrow> string \<Rightarrow> Violation list" where
  "check_import modulePath rel relDir lit =
     (let impPath = trim_by (\<lambda>c. c = CHR 0x22) lit;
          v = (\<lambda>why. \<lparr>vi_file = rel, vi_package = package_path modulePath relDir, vi_import = impPath, vi_reason = why\<rparr>)
      in (if has_prefix impPath msbSDKPrefix \<and> \<not> underDir relDir msbAllowedDir then [v sdk_reason] else [])
         @ (if underDir relDir coreDir \<and> str_contains impPath runtimeImport then [v core_reason] else []))"

definition check_file :: "string \<Rightarrow> string list \<Rightarrow> string \<Rightarrow> string list option \<Rightarrow> Violation list" where
  "check_file modulePath ds name imports =
     (let rel = join_with ''/'' (ds @ [name]) in
      if \<not> has_suffix rel ''.go'' then []
      else if has_prefix rel ''tools/importban/testdata'' then []
      else (case imports of
              None \<Rightarrow> []
            | Some lits \<Rightarrow> concat (map (check_import modulePath rel (rel_dir ds)) lits)))"

text \<open>The walk: \<open>None\<close> is its error.\<close>

fun walk_nodes :: "string \<Rightarrow> string list \<Rightarrow> node list \<Rightarrow> Violation list option" where
  "walk_nodes m ds [] = Some []"
| "walk_nodes m ds (FileNode n imports # ns) = map_option ((@) (check_file m ds n imports)) (walk_nodes m ds ns)"
| "walk_nodes m ds (DirNode n cs # ns) =
     (if skipped_dir n then walk_nodes m ds ns
      else (case cs of
              None \<Rightarrow> None
            | Some es \<Rightarrow>
                (case walk_nodes m (ds @ [n]) es of
                   None \<Rightarrow> None
                 | Some vs \<Rightarrow> map_option ((@) vs) (walk_nodes m ds ns))))"

datatype ban_error = ModFile | NoModule | WalkFailed

text \<open>The module line of \<open>go.mod\<close> (\<open>None\<close>: it cannot be opened).\<close>

fun module_line :: "string list \<Rightarrow> string option" where
  "module_line [] = None"
| "module_line (l # ls) =
     (let line = trim_space l in
      if has_prefix line ''module '' then Some (trim_space (trim_prefix line ''module'')) else module_line ls)"

definition readModulePath :: "string option \<Rightarrow> ban_error + string" where
  "readModulePath gomod =
     (case gomod of
        None \<Rightarrow> Inl ModFile
      | Some text \<Rightarrow> (case module_line (split_on (CHR 0x0A) text) of None \<Rightarrow> Inl NoModule | Some m \<Rightarrow> Inr m))"

definition ban_Check :: "string option \<Rightarrow> node list option \<Rightarrow> ban_error + Violation list" where
  "ban_Check gomod tree =
     (case readModulePath gomod of
        Inl e \<Rightarrow> Inl e
      | Inr m \<Rightarrow>
          (case tree of
             None \<Rightarrow> Inl WalkFailed
           | Some ns \<Rightarrow> (case walk_nodes m [] ns of None \<Rightarrow> Inl WalkFailed | Some vs \<Rightarrow> Inr vs)))"

text \<open>The exit code and what is printed; \<open>repo\<close> yields the module file and the tree of a root.\<close>

datatype ban_msg = BanUsage | BanError ban_error | BanLine string

definition importban_main :: "(string \<Rightarrow> string option \<times> node list option) \<Rightarrow> string list \<Rightarrow> int \<times> ban_msg list" where
  "importban_main repo argv =
     (if length argv < 2 then (2, [BanUsage])
      else (case repo (argv ! 1) of
              (gomod, tree) \<Rightarrow>
                (case ban_Check gomod tree of
                   Inl e \<Rightarrow> (2, [BanError e])
                 | Inr vs \<Rightarrow> (if vs = [] then 0 else 1, map (BanLine \<circ> Violation_String) vs))))"

section \<open>The built artifacts\<close>

text \<open>What a file holds: bytes, or the text of a value that was marshalled.\<close>

datatype blob = Blob string | JsonText json

type_synonym blobs = "string \<Rightarrow> blob option"

record Manifest =
  mf_commit :: string
  mf_artifacts :: "(string \<times> string) list"

definition no_manifest :: Manifest where
  "no_manifest = \<lparr>mf_commit = [], mf_artifacts = []\<rparr>"

text \<open>A map of strings, in the order of first insertion.\<close>

definition dec_string_map :: "(string \<times> string) list decoder" where
  "dec_string_map j m =
     (case j of
        JNull \<Rightarrow> (True, [])
      | JObj kvs \<Rightarrow>
          fold (\<lambda>(k, v) (ok, m). case dec_string v [] of (ok1, s) \<Rightarrow> (ok \<and> ok1, AList.update k s m)) kvs (True, m)
      | _ \<Rightarrow> (False, m))"

definition dec_manifest :: "Manifest decoder" where
  "dec_manifest = dec_struct (\<lambda>k j m.
     if key_is ''source_commit'' k then (let (ok, v) = dec_string j (mf_commit m) in (ok, m\<lparr>mf_commit := v\<rparr>))
     else if key_is ''artifacts'' k then (let (ok, v) = dec_string_map j (mf_artifacts m) in (ok, m\<lparr>mf_artifacts := v\<rparr>))
     else (True, m))"

text \<open>The names are listed, and so marshalled, in ascending order.\<close>

definition enc_manifest :: "Manifest \<Rightarrow> json" where
  "enc_manifest m = JObj [(''source_commit'', JStr (mf_commit m)),
     (''artifacts'', JObj (map (\<lambda>(k, v). (k, JStr v)) (mf_artifacts m)))]"

text \<open>\<open>de_git\<close>: the output of git log for the last commit outside \<open>dist\<close>; \<open>de_scan\<close> the JSON scanner on
  bytes; \<open>de_readdir\<close> names and whether they are directories; \<open>de_write\<close> the error of writing.\<close>

record dist_env =
  de_git :: "string \<Rightarrow> string option"
  de_scan :: "string \<Rightarrow> jtext"
  de_sha :: "blob \<Rightarrow> string"
  de_readdir :: "string \<Rightarrow> (string \<times> bool) list option"
  de_write :: "string option"

datatype dist_error =
    NoManifest | BadManifest | GitFailed | BadCommit string | Drifted string string
  | ArtifactUnread string | ArtifactMismatch string | DistUnread | DistWrite string

datatype dist_result = DistOk nat | DistFail dist_error | DistPanic

definition lastSourceCommit :: "dist_env \<Rightarrow> string \<Rightarrow> dist_error + string" where
  "lastSourceCommit env repoRoot =
     (case de_git env repoRoot of
        None \<Rightarrow> Inl GitFailed
      | Some out \<Rightarrow> (let c = trim_space out in if length c \<noteq> 40 then Inl (BadCommit c) else Inr c))"

definition sha256File :: "dist_env \<Rightarrow> blobs \<Rightarrow> string \<Rightarrow> string option" where
  "sha256File env fs path = map_option (de_sha env) (fs path)"

definition blob_text :: "dist_env \<Rightarrow> blob \<Rightarrow> jtext" where
  "blob_text env b = (case b of Blob s \<Rightarrow> de_scan env s | JsonText j \<Rightarrow> JDoc j)"

text \<open>The iteration over the map, in some order; only which failure is reported depends on it.\<close>

fun verify_artifacts :: "dist_env \<Rightarrow> blobs \<Rightarrow> string \<Rightarrow> (string \<times> string) list \<Rightarrow> dist_error option" where
  "verify_artifacts env fs distDir [] = None"
| "verify_artifacts env fs distDir ((name, expected) # as) =
     (case sha256File env fs (filepath_Join [distDir, name]) of
        None \<Rightarrow> Some (ArtifactUnread name)
      | Some actual \<Rightarrow> if actual \<noteq> expected then Some (ArtifactMismatch name) else verify_artifacts env fs distDir as)"

text \<open>Slicing the first eight bytes of a shorter commit panics.\<close>

definition verifyManifest :: "dist_env \<Rightarrow> string \<Rightarrow> blobs \<Rightarrow> dist_result" where
  "verifyManifest env repoRoot fs =
     (case fs (filepath_Join [repoRoot, ''dist'', ''manifest.json'']) of
        None \<Rightarrow> DistFail NoManifest
      | Some b \<Rightarrow>
          (case unmarshal dec_manifest no_manifest (blob_text env b) of
             None \<Rightarrow> DistFail BadManifest
           | Some m \<Rightarrow>
               (case lastSourceCommit env repoRoot of
                  Inl e \<Rightarrow> DistFail e
                | Inr current \<Rightarrow>
                    if mf_commit m \<noteq> current then
                      (if length (mf_commit m) < 8 then DistPanic else DistFail (Drifted (take 8 (mf_commit m)) (take 8 current)))
                    else (case verify_artifacts env fs (filepath_Join [repoRoot, ''dist'']) (mf_artifacts m) of
                            Some e \<Rightarrow> DistFail e
                          | None \<Rightarrow> DistOk (length (mf_artifacts m))))))"

fun digest_entries :: "dist_env \<Rightarrow> blobs \<Rightarrow> string \<Rightarrow> (string \<times> bool) list \<Rightarrow> dist_error + (string \<times> string) list" where
  "digest_entries env fs distDir [] = Inr []"
| "digest_entries env fs distDir ((name, isdir) # es) =
     (if isdir \<or> name = ''manifest.json'' then digest_entries env fs distDir es
      else (case sha256File env fs (filepath_Join [distDir, name]) of
              None \<Rightarrow> Inl (ArtifactUnread name)
            | Some sha \<Rightarrow> (case digest_entries env fs distDir es of Inl e \<Rightarrow> Inl e | Inr as \<Rightarrow> Inr ((name, sha) # as))))"

definition writeManifest :: "dist_env \<Rightarrow> string \<Rightarrow> (blobs, dist_error option) act" where
  "writeManifest env repoRoot fs =
     (case lastSourceCommit env repoRoot of
        Inl e \<Rightarrow> (Some e, fs)
      | Inr commit \<Rightarrow>
          (let distDir = filepath_Join [repoRoot, ''dist''] in
           case de_readdir env distDir of
             None \<Rightarrow> (Some DistUnread, fs)
           | Some entries \<Rightarrow>
               (case digest_entries env fs distDir entries of
                  Inl e \<Rightarrow> (Some e, fs)
                | Inr artifacts \<Rightarrow>
                    (case de_write env of
                       Some e \<Rightarrow> (Some (DistWrite e), fs)
                     | None \<Rightarrow>
                         (None, fs(filepath_Join [distDir, ''manifest.json''] :=
                                  Some (JsonText (enc_manifest \<lparr>mf_commit = commit, mf_artifacts = artifacts\<rparr>))))))))"

text \<open>The exit code; 2 is also the status of a panic.\<close>

definition distcheck_main :: "dist_env \<Rightarrow> string list \<Rightarrow> (blobs, int) act" where
  "distcheck_main env argv fs =
     (if length argv < 2 then (2, fs)
      else if length argv > 2 \<and> argv ! 2 = ''--write'' then
        (case writeManifest env (argv ! 1) fs of (e, fs1) \<Rightarrow> (if e = None then 0 else 1, fs1))
      else ((case verifyManifest env (argv ! 1) fs of DistOk _ \<Rightarrow> 0 | DistFail _ \<Rightarrow> 1 | DistPanic \<Rightarrow> 2), fs))"

end
