(* ===== verification/RepoProps.thy ===== *)
theory RepoProps
  imports RepoTools
begin

text \<open>
  Properties of the checks over the repository: the import ban reports exactly the banned imports,
  and a manifest that was written is accepted as long as commit and artifacts stay the same.
\<close>

section \<open>The import ban\<close>

text \<open>\<open>placed ns ds n i\<close>: below the entries \<open>ns\<close>, the directories \<open>ds\<close> lead to the file \<open>n\<close>.\<close>

inductive placed :: "node list \<Rightarrow> string list \<Rightarrow> string \<Rightarrow> string list option \<Rightarrow> bool" where
  here: "FileNode n i \<in> set ns \<Longrightarrow> placed ns [] n i"
| below: "DirNode d (Some es) \<in> set ns \<Longrightarrow> placed es ds n i \<Longrightarrow> placed ns (d # ds) n i"

inductive_simps placed_simps: "placed ns ds n i"
inductive_simps placed_cases: "placed ns [] n i" "placed ns (d # ds) n i"

lemma placed_Nil [simp]: "\<not> placed [] ds n i"
  by (simp add: placed_simps [of "[]"])

lemma placed_file: "placed (FileNode f j # ns) ds n i \<longleftrightarrow> ds = [] \<and> f = n \<and> j = i \<or> placed ns ds n i"
  by (cases ds) (auto simp: placed_cases)

lemma placed_dir:
  "placed (DirNode d cs # ns) ds n i \<longleftrightarrow> (\<exists>es ds'. cs = Some es \<and> ds = d # ds' \<and> placed es ds' n i) \<or> placed ns ds n i"
  by (cases ds) (auto simp: placed_cases)

definition open_dirs :: "string list \<Rightarrow> bool" where
  "open_dirs ds \<longleftrightarrow> (\<forall>d \<in> set ds. \<not> skipped_dir d)"

lemma open_dirs_simps [simp]: "open_dirs []" "open_dirs (d # ds) \<longleftrightarrow> \<not> skipped_dir d \<and> open_dirs ds"
  by (simp_all add: open_dirs_def)

lemma walk_finds:
  "walk_nodes m pre ns = Some vs \<Longrightarrow>
     v \<in> set vs \<longleftrightarrow> (\<exists>ds n i. placed ns ds n i \<and> open_dirs ds \<and> v \<in> set (check_file m (pre @ ds) n i))"
proof (induction m pre ns arbitrary: vs rule: walk_nodes.induct)
  case (2 m pre f j ns)
  then obtain us where us: "walk_nodes m pre ns = Some us" "vs = check_file m pre f j @ us" by auto
  show ?case using 2(1) [OF us(1)] by (auto simp: us(2) placed_file) (metis append_Nil2 open_dirs_simps(1))+
next
  case (3 m pre d cs ns)
  show ?case
  proof (cases "skipped_dir d")
    case True
    with 3 have "v \<in> set vs \<longleftrightarrow> (\<exists>ds n i. placed ns ds n i \<and> open_dirs ds \<and> v \<in> set (check_file m (pre @ ds) n i))" by simp
    with True show ?thesis by (auto simp: placed_dir)
  next
    case False
    then obtain es ws us where w: "cs = Some es" "walk_nodes m (pre @ [d]) es = Some ws" "walk_nodes m pre ns = Some us"
      "vs = ws @ us" using 3(4) by (auto split: option.splits)
    have "v \<in> set ws \<longleftrightarrow> (\<exists>ds n i. placed es ds n i \<and> open_dirs ds \<and> v \<in> set (check_file m (pre @ d # ds) n i))"
      using 3(2) [OF False w(1,2)] by simp
    moreover have "v \<in> set us \<longleftrightarrow> (\<exists>ds n i. placed ns ds n i \<and> open_dirs ds \<and> v \<in> set (check_file m (pre @ ds) n i))"
      using 3(3) [OF False w(1,2,3)] by simp
    moreover have "(\<exists>ds n i. placed (DirNode d cs # ns) ds n i \<and> open_dirs ds \<and> v \<in> set (check_file m (pre @ ds) n i))
      \<longleftrightarrow> (\<exists>ds n i. placed es ds n i \<and> open_dirs ds \<and> v \<in> set (check_file m (pre @ d # ds) n i))
        \<or> (\<exists>ds n i. placed ns ds n i \<and> open_dirs ds \<and> v \<in> set (check_file m (pre @ ds) n i))"
      using False by (simp only: placed_dir w(1) option.inject) fastforce
    ultimately show ?thesis by (simp add: w(4))
  qed
qed simp

text \<open>What the two rules ban, for an import literal in a file of these directories.\<close>

definition unquoted :: "string \<Rightarrow> string" where
  "unquoted lit = trim_by (\<lambda>c. c = CHR 0x22) lit"

definition in_dir :: "string list \<Rightarrow> string list \<Rightarrow> bool" where
  "in_dir dir ds \<longleftrightarrow> prefix dir ds"

lemma joined_no_dot:
  assumes "\<forall>d \<in> set ds. proper d" "ds \<noteq> []"
  shows "join_with ''/'' ds \<noteq> ''.''"
proof
  assume "join_with ''/'' ds = ''.''"
  then have "ds = [''.'']" using split_on_clean [OF assms] by simp
  with assms(1) show False by (simp add: proper_def)
qed

lemma under_dir:
  assumes "\<forall>d \<in> set ds. proper d" "\<forall>d \<in> set dir. proper d" "dir \<noteq> []"
  shows "underDir (rel_dir ds) (join_with ''/'' dir) \<longleftrightarrow> in_dir dir ds"
proof (cases "ds = []")
  case True
  have "''.'' \<noteq> join_with ''/'' dir" using joined_no_dot [OF assms(2,3)] by simp
  moreover have "\<not> prefix (join_with ''/'' dir @ ''/'') ''.''"
  proof
    assume p: "prefix (join_with ''/'' dir @ ''/'') ''.''"
    then have "length (join_with ''/'' dir @ ''/'') \<le> 1" using prefix_length_le by fastforce
    then have "join_with ''/'' dir = []" by simp
    with p show False by (simp add: prefix_def)
  qed
  ultimately show ?thesis using True assms(3) by (simp add: underDir_def rel_dir_def in_dir_def)
next
  case False
  have "underDir (rel_dir ds) (join_with ''/'' dir) \<longleftrightarrow> inside (''/'' @ join_with ''/'' dir) (''/'' @ join_with ''/'' ds)"
    using False by (simp add: underDir_def rel_dir_def inside_def)
  then show ?thesis using join_prefix [OF assms] by (simp add: in_dir_def)
qed

definition banned :: "string \<Rightarrow> string list \<Rightarrow> string \<Rightarrow> string \<Rightarrow> Violation \<Rightarrow> bool" where
  "banned m ds n lit v \<longleftrightarrow>
     (let rel = join_with ''/'' (ds @ [n]) in
      has_suffix rel ''.go'' \<and> \<not> has_prefix rel ''tools/importban/testdata''
      \<and> vi_file v = rel \<and> vi_package v = join_with ''/'' (m # ds) \<and> vi_import v = unquoted lit
      \<and> (vi_reason v = sdk_reason \<and> has_prefix (unquoted lit) ''github.com/superradcompany/microsandbox''
            \<and> \<not> in_dir [''internal'', ''runtime'', ''msb''] ds
         \<or> vi_reason v = core_reason \<and> in_dir [''internal'', ''core''] ds
            \<and> str_contains (unquoted lit) ''/internal/runtime/''))"

lemma rel_dirs: "msbAllowedDir = join_with ''/'' [''internal'', ''runtime'', ''msb'']" "coreDir = join_with ''/'' [''internal'', ''core'']"
  "\<forall>d \<in> set [''internal'', ''runtime'', ''msb'']. proper d" "\<forall>d \<in> set [''internal'', ''core'']. proper d"
  by (simp_all add: msbAllowedDir_def coreDir_def proper_def)

lemma package_joined: "\<forall>d \<in> set ds. proper d \<Longrightarrow> package_path m (rel_dir ds) = join_with ''/'' (m # ds)"
  using joined_no_dot [of ds] by (cases ds) (auto simp: package_path_def rel_dir_def)

lemma check_file_banned:
  assumes "\<forall>d \<in> set ds. proper d"
  shows "v \<in> set (check_file m ds n i) \<longleftrightarrow> (\<exists>lits lit. i = Some lits \<and> lit \<in> set lits \<and> banned m ds n lit v)"
proof -
  have under: "underDir (rel_dir ds) msbAllowedDir \<longleftrightarrow> in_dir [''internal'', ''runtime'', ''msb''] ds"
    "underDir (rel_dir ds) coreDir \<longleftrightarrow> in_dir [''internal'', ''core''] ds"
    unfolding rel_dirs(1,2) using under_dir [OF assms rel_dirs(3)] under_dir [OF assms rel_dirs(4)] by simp_all
  have "v \<in> set (check_import m rel (rel_dir ds) lit) \<longleftrightarrow>
      vi_file v = rel \<and> vi_package v = join_with ''/'' (m # ds) \<and> vi_import v = unquoted lit
      \<and> (vi_reason v = sdk_reason \<and> has_prefix (unquoted lit) ''github.com/superradcompany/microsandbox''
            \<and> \<not> in_dir [''internal'', ''runtime'', ''msb''] ds
         \<or> vi_reason v = core_reason \<and> in_dir [''internal'', ''core''] ds
            \<and> str_contains (unquoted lit) ''/internal/runtime/'')" for rel lit
    using package_joined [OF assms, of m]
    by (cases v) (auto simp: check_import_def Let_def under unquoted_def msbSDKPrefix_def runtimeImport_def)
  then show ?thesis by (auto simp: check_file_def Let_def banned_def split: option.splits)
qed


definition one_file :: "string list \<Rightarrow> node list" where
  "one_file lits = [DirNode ''.git'' None, DirNode ''internal'' (Some [DirNode ''cli'' (Some [FileNode ''x.go'' (Some lits)])])]"

lemma one_file_placed: "placed (one_file lits) ds n i \<longleftrightarrow> ds = [''internal'', ''cli''] \<and> n = ''x.go'' \<and> i = Some lits"
  by (auto simp: one_file_def placed_dir placed_file)

definition mod_text :: string where
  "mod_text = ''module m'' @ [CHR 0x0A] @ ''go 1.25''"

lemma mod_text_module: "readModulePath (Some mod_text) = Inr ''m''"
  by code_simp

lemma one_file_walk:
  "\<exists>vs. ban_Check (Some mod_text) (Some (one_file lits)) = Inr vs"
  by (simp add: ban_Check_def mod_text_module one_file_def skipped_dir_def)


text \<open>A raw-string import escapes the ban on the SDK. Between double quotes an import path of the SDK is
  reported for a file outside the allowed directory; between back quotes, which Go accepts as well,
  it is not, whatever the file.\<close>

theorem backquoted_import_escapes:
  assumes "has_prefix path msbSDKPrefix" "\<not> underDir relDir msbAllowedDir" "last path \<noteq> CHR 0x22"
  shows "(\<exists>v \<in> set (check_import m rel relDir ([CHR 0x22] @ path @ [CHR 0x22])). vi_reason v = sdk_reason \<and> vi_import v = path)
    \<and> (\<forall>v \<in> set (check_import m rel' dir' (''`'' @ path @ ''`'')). vi_reason v = core_reason \<and> underDir dir' coreDir)"
proof -
  have path: "path \<noteq> []" "hd path = CHR ''g''" using assms(1) by (auto simp: prefix_def msbSDKPrefix_def)
  have right: "trim_right_by (\<lambda>c. c = CHR 0x22) path = path"
  proof -
    have "rev path \<noteq> []" "hd (rev path) \<noteq> CHR 0x22" using path(1) assms(3) by (simp_all add: hd_rev)
    then show ?thesis by (cases "rev path") (auto simp: trim_right_by_def)
  qed
  have left: "dropWhile (\<lambda>c. c = CHR 0x22) (path @ ys) = path @ ys" for ys using path by (cases path) simp_all
  have "trim_by (\<lambda>c. c = CHR 0x22) ([CHR 0x22] @ path @ [CHR 0x22]) = path"
    using left right by (simp add: trim_by_def trim_right_by_def)
  moreover have "trim_by (\<lambda>c. c = CHR 0x22) (''`'' @ path @ ''`'') = ''`'' @ path @ ''`''"
    by (simp add: trim_by_def trim_right_by_def)
  moreover have "\<not> has_prefix (''`'' @ path @ ''`'') msbSDKPrefix" by (simp add: msbSDKPrefix_def)
  ultimately show ?thesis using assms(1,2) by (simp add: check_import_def Let_def)
qed

theorem backquoted_import_escapes_witness:
  "check_import ''m'' ''internal/cli/x.go'' ''internal/cli'' (''`'' @ msbSDKPrefix @ ''/sdk/go'' @ ''`'') = []"
proof -
  let ?p = "msbSDKPrefix @ ''/sdk/go''" and ?d = "''internal/cli''"
  have "has_prefix ?p msbSDKPrefix" "\<not> underDir ?d msbAllowedDir" "last ?p \<noteq> CHR 0x22"
    by (simp, simp add: underDir_def msbAllowedDir_def, simp)
  from backquoted_import_escapes [OF this, where rel' = "''internal/cli/x.go''" and dir' = ?d and m = "''m''"]
  have "\<forall>v \<in> set (check_import ''m'' ''internal/cli/x.go'' ?d (''`'' @ ?p @ ''`'')). underDir ?d coreDir" by blast
  moreover have "\<not> underDir ?d coreDir" by (simp add: underDir_def coreDir_def)
  ultimately show ?thesis by (cases "check_import ''m'' ''internal/cli/x.go'' ?d (''`'' @ ?p @ ''`'')") auto
qed

section \<open>The manifest\<close>

lemma dist_path:
  assumes "IsAbs d" "proper name"
  shows "filepath_Join [d, name] = ''/'' @ join_with ''/'' (elements d @ [name])"
proof -
  have ne: "d \<noteq> []" "name \<noteq> []" using assms by (auto simp: IsAbs_def proper_def)
  have abs: "IsAbs (d @ ''/'' @ name)" using assms(1) by (auto simp: IsAbs_def prefix_def)
  have "CHR ''/'' \<notin> set name" using assms(2) by (simp add: proper_def)
  then have "split_on (CHR ''/'') (d @ ''/'' @ name) = split_on (CHR ''/'') d @ [name]"
    using split_on_append2 [of "CHR ''/''" d name] split_on_absent by fastforce
  then have "elements (d @ ''/'' @ name) = elements d @ [name]"
    using abs assms by (simp add: elements_def clean_elem_def proper_def)
  with abs ne show ?thesis by (simp add: filepath_Join_def Clean_def)
qed

lemma proper_names: "proper ''dist''" "proper ''manifest.json''"
  by (simp_all add: proper_def)

lemma dist_dir:
  assumes "IsAbs r"
  shows "IsAbs (filepath_Join [r, ''dist''])" "elements (filepath_Join [r, ''dist'']) = elements r @ [''dist'']"
    "filepath_Join [r, ''dist'', ''manifest.json''] = filepath_Join [filepath_Join [r, ''dist''], ''manifest.json'']"
proof -
  have path: "filepath_Join [r, ''dist''] = ''/'' @ join_with ''/'' (elements r @ [''dist''])"
    using dist_path [OF assms proper_names(1)] .
  show abs: "IsAbs (filepath_Join [r, ''dist''])" by (simp add: path IsAbs_def)
  have "\<forall>e \<in> set (elements r @ [''dist'']). proper e" using elements_proper [OF assms] proper_names by auto
  from elements_of_clean [OF this] show el: "elements (filepath_Join [r, ''dist'']) = elements r @ [''dist'']" by (simp add: path)
  have ne: "r \<noteq> []" and abs2: "IsAbs (r @ ''/dist/manifest.json'')" using assms by (auto simp: IsAbs_def prefix_def)
  have "split_on (CHR ''/'') (r @ ''/dist/manifest.json'') = split_on (CHR ''/'') r @ [''dist'', ''manifest.json'']"
    using split_on_append2 [of "CHR ''/''" r "''dist/manifest.json''"] by simp
  then have "elements (r @ ''/dist/manifest.json'') = elements r @ [''dist'', ''manifest.json'']"
    using abs2 assms by (simp add: elements_def clean_elem_def)
  moreover have "filepath_Join [r, ''dist'', ''manifest.json''] = Clean (r @ ''/dist/manifest.json'')"
    using ne by (simp add: filepath_Join_def)
  ultimately have "filepath_Join [r, ''dist'', ''manifest.json''] = ''/'' @ join_with ''/'' ((elements r @ [''dist'']) @ [''manifest.json''])"
    using abs2 by (simp add: Clean_def)
  then show "filepath_Join [r, ''dist'', ''manifest.json''] = filepath_Join [filepath_Join [r, ''dist''], ''manifest.json'']"
    using dist_path [OF abs proper_names(2)] by (simp add: el)
qed

lemma manifest_decodes:
  assumes "distinct (map fst as)"
  shows "unmarshal dec_manifest no_manifest (JDoc (enc_manifest \<lparr>mf_commit = c, mf_artifacts = as\<rparr>))
    = Some \<lparr>mf_commit = c, mf_artifacts = as\<rparr>"
proof -
  have upd: "AList.update k v m = m @ [(k, v)]" if "k \<notin> fst ` set m" for k and v :: string and m
    using that by (induction m) auto
  have "fold (\<lambda>(k, v) (ok, m). case dec_string v [] of (ok1, s) \<Rightarrow> (ok \<and> ok1, AList.update k s m))
      (map (\<lambda>(k, v). (k, JStr v)) bs) (True, m) = (True, m @ bs)"
    if "distinct (map fst (m @ bs))" for bs m
    using that
  proof (induction bs arbitrary: m)
    case (Cons b bs)
    obtain k v where b: "b = (k, v)" by fastforce
    have "k \<notin> fst ` set m" using Cons.prems b by auto
    then show ?case using Cons.IH [of "m @ [(k, v)]"] Cons.prems by (simp add: b upd dec_string_def)
  qed simp
  from this [of "[]" as] assms show ?thesis
    by (simp add: unmarshal_def dec_manifest_def enc_manifest_def dec_struct_def dec_string_def dec_string_map_def
        key_is_def lower_char_def no_manifest_def Let_def)
qed

lemma dist_path_inj:
  assumes "IsAbs d" "proper m" "proper n" "filepath_Join [d, m] = filepath_Join [d, n]"
  shows "m = n"
proof -
  have "\<forall>e \<in> set (elements d @ [k]). proper e" if "proper k" for k using elements_proper [OF assms(1)] that by auto
  from split_on_clean [OF this]
  have inj: "split_on (CHR ''/'') (join_with ''/'' (elements d @ [k])) = elements d @ [k]" if "proper k" for k using that by simp
  have "join_with ''/'' (elements d @ [m]) = join_with ''/'' (elements d @ [n])"
    using assms(4) dist_path [OF assms(1,2)] dist_path [OF assms(1,3)] by simp
  then have "elements d @ [m] = elements d @ [n]" using inj [OF assms(2)] inj [OF assms(3)] by metis
  then show ?thesis by simp
qed

lemma digests:
  assumes "digest_entries env fs d es = Inr as"
  shows "map fst as = map fst (filter (\<lambda>(n, isdir). \<not> isdir \<and> n \<noteq> ''manifest.json'') es)"
    "\<forall>(n, x) \<in> set as. sha256File env fs (filepath_Join [d, n]) = Some x"
  using assms
  by (induction env fs d es arbitrary: as rule: digest_entries.induct) (fastforce split: if_splits option.splits sum.splits)+

lemma verified:
  "verify_artifacts env fs d as = None \<longleftrightarrow> (\<forall>(n, x) \<in> set as. sha256File env fs (filepath_Join [d, n]) = Some x)"
  by (induction env fs d as rule: verify_artifacts.induct) (auto split: option.splits)

text \<open>When the check accepts a manifest of these artifacts.\<close>

lemma verify_accepts:
  assumes "IsAbs r" "d = filepath_Join [r, ''dist'']" "distinct (map fst as)"
    and "\<forall>(n, x) \<in> set as. sha256File env fs (filepath_Join [d, n]) = Some x"
    and "v (filepath_Join [d, ''manifest.json'']) = Some (JsonText (enc_manifest \<lparr>mf_commit = c, mf_artifacts = as\<rparr>))"
  shows "(\<exists>n. verifyManifest (env\<lparr>de_git := g\<rparr>) r v = DistOk n) \<longleftrightarrow>
      lastSourceCommit (env\<lparr>de_git := g\<rparr>) r = Inr c
      \<and> (\<forall>n \<in> fst ` set as. sha256File env v (filepath_Join [d, n]) = sha256File env fs (filepath_Join [d, n]))"
proof -
  note dec = manifest_decodes [OF assms(3)]
  have sha: "sha256File (env\<lparr>de_git := g\<rparr>) v p = sha256File env v p" for p by (simp add: sha256File_def)
  have "verify_artifacts (env\<lparr>de_git := g\<rparr>) v d as = None \<longleftrightarrow>
      (\<forall>n \<in> fst ` set as. sha256File env v (filepath_Join [d, n]) = sha256File env fs (filepath_Join [d, n]))"
    unfolding verified sha using assms(4) by fastforce
  moreover have "v (filepath_Join [r, ''dist'', ''manifest.json'']) = Some (JsonText (enc_manifest \<lparr>mf_commit = c, mf_artifacts = as\<rparr>))"
    using assms(5) dist_dir(3) [OF assms(1)] assms(2) by simp
  moreover from this have "verifyManifest (env\<lparr>de_git := g\<rparr>) r v =
      (case lastSourceCommit (env\<lparr>de_git := g\<rparr>) r of
         Inl e \<Rightarrow> DistFail e
       | Inr current \<Rightarrow>
           if c \<noteq> current then (if length c < 8 then DistPanic else DistFail (Drifted (take 8 c) (take 8 current)))
           else (case verify_artifacts (env\<lparr>de_git := g\<rparr>) v d as of Some e \<Rightarrow> DistFail e | None \<Rightarrow> DistOk (length as)))"
    unfolding verifyManifest_def assms(2) by (simp add: blob_text_def dec) (simp only: Manifest.select_convs)
  ultimately show ?thesis by (cases "lastSourceCommit (env\<lparr>de_git := g\<rparr>) r") (simp_all split: option.splits)
qed

text \<open>C27: A written manifest accepts exactly the state it describes. After a successful write, a later check
  of the same manifest succeeds just when the last source commit is the same and every artifact
  that was listed has the same digest; so the check right after the write succeeds. An artifact that
  was not there when the manifest was written is not looked at.\<close>

theorem written_manifest_verifies:
  assumes "IsAbs r" "d = filepath_Join [r, ''dist'']" "de_readdir env d = Some es" "distinct (map fst es)"
    and "\<forall>e \<in> set es. proper (fst e)" "writeManifest env r fs = (None, fs')"
    and "later (filepath_Join [d, ''manifest.json'']) = fs' (filepath_Join [d, ''manifest.json''])"
  shows "((\<exists>n. verifyManifest (env\<lparr>de_git := git\<rparr>) r later = DistOk n) \<longleftrightarrow>
      lastSourceCommit (env\<lparr>de_git := git\<rparr>) r = lastSourceCommit env r
      \<and> (\<forall>name. (name, False) \<in> set es \<and> name \<noteq> ''manifest.json'' \<longrightarrow>
           sha256File env later (filepath_Join [d, name]) = sha256File env fs (filepath_Join [d, name])))
    \<and> (\<exists>n. verifyManifest env r fs' = DistOk n)"
proof -
  obtain c as where w: "lastSourceCommit env r = Inr c" "digest_entries env fs d es = Inr as"
    "fs' = fs(filepath_Join [d, ''manifest.json''] := Some (JsonText (enc_manifest \<lparr>mf_commit = c, mf_artifacts = as\<rparr>)))"
    using assms(2,3,6) by (auto simp: writeManifest_def Let_def split: sum.splits option.splits)
  note as = digests [OF w(2)]
  have dist: "distinct (map fst as)" unfolding as(1) using assms(4) by (simp add: distinct_map_filter)
  have listed: "fst ` set as = {n. (n, False) \<in> set es \<and> n \<noteq> ''manifest.json''}"
  proof -
    have "fst ` set as = fst ` set (filter (\<lambda>(n, isdir). \<not> isdir \<and> n \<noteq> ''manifest.json'') es)"
      using as(1) by (metis set_map)
    then show ?thesis by (force simp: image_iff)
  qed
  note accept = verify_accepts [OF assms(1,2) dist as(2), where c = c]
  have kept: "fs' (filepath_Join [d, n]) = fs (filepath_Join [d, n])" if "n \<in> fst ` set as" for n
  proof -
    have es: "(n, False) \<in> set es" "n \<noteq> ''manifest.json''" using that unfolding listed by simp_all
    then have "proper n" using assms(5) by (metis fst_conv)
    moreover have "IsAbs d" using dist_dir(1) [OF assms(1)] assms(2) by simp
    ultimately have "filepath_Join [d, n] \<noteq> filepath_Join [d, ''manifest.json'']"
      using dist_path_inj [OF _ _ proper_names(2)] es(2) by blast
    then show ?thesis by (simp add: w(3))
  qed
  have "later (filepath_Join [d, ''manifest.json'']) = Some (JsonText (enc_manifest \<lparr>mf_commit = c, mf_artifacts = as\<rparr>))"
    using assms(7) by (simp add: w(3))
  note accept_later = accept [of later, OF this, of git]
  have "fs' (filepath_Join [d, ''manifest.json'']) = Some (JsonText (enc_manifest \<lparr>mf_commit = c, mf_artifacts = as\<rparr>))"
    by (simp add: w(3))
  note accept_now = accept [of fs', OF this, of "de_git env"]
  have "env\<lparr>de_git := de_git env\<rparr> = env" by simp
  then have "\<exists>n. verifyManifest env r fs' = DistOk n" using accept_now w(1) kept by (simp add: sha256File_def)
  then show ?thesis unfolding accept_later w(1) listed by blast
qed

definition demo_dist :: dist_env where
  "demo_dist = \<lparr>de_git = (\<lambda>_. Some (replicate 40 (CHR ''a'') @ [CHR 0x0A])), de_scan = (\<lambda>_. JMalformed),
     de_sha = (\<lambda>b. case b of Blob s \<Rightarrow> s | JsonText _ \<Rightarrow> []),
     de_readdir = (\<lambda>_. Some [(''agent'', False), (''manifest.json'', False), (''tmp'', True)]), de_write = None\<rparr>"

lemma demo_commit: "lastSourceCommit demo_dist r = Inr (replicate 40 (CHR ''a''))"
proof -
  have "trim_space (replicate 40 (CHR ''a'') @ [CHR 0x0A]) = replicate 40 (CHR ''a'')" by code_simp
  then show ?thesis by (simp add: lastSourceCommit_def demo_dist_def Let_def)
qed

theorem written_manifest_verifies_witness:
  "\<exists>fs' n. writeManifest demo_dist ''/r'' (\<lambda>_. Some (Blob ''x'')) = (None, fs') \<and> verifyManifest demo_dist ''/r'' fs' = DistOk n"
proof -
  obtain fs' where w: "writeManifest demo_dist ''/r'' (\<lambda>_. Some (Blob ''x'')) = (None, fs')"
    unfolding writeManifest_def demo_commit by (simp add: demo_dist_def sha256File_def Let_def)
  have "IsAbs ''/r''" by (simp add: IsAbs_def)
  moreover have "de_readdir demo_dist d = Some [(''agent'', False), (''manifest.json'', False), (''tmp'', True)]" for d
    by (simp add: demo_dist_def)
  moreover have "\<forall>e \<in> set [(''agent'', False), (''manifest.json'', False), (''tmp'', True)]. proper (fst e)" by (simp add: proper_def)
  ultimately have "\<exists>n. verifyManifest demo_dist ''/r'' fs' = DistOk n"
    using written_manifest_verifies [OF _ refl _ _ _ w, where later = fs'] by simp
  with w show ?thesis by blast
qed

text \<open>A manifest without a commit, such as an empty object, makes the check panic.\<close>

lemma empty_manifest_panics:
  assumes "lastSourceCommit env r = Inr c" "fs (filepath_Join [r, ''dist'', ''manifest.json'']) = Some (JsonText (JObj []))"
  shows "verifyManifest env r fs = DistPanic"
proof -
  have "c \<noteq> []" using assms(1) by (auto simp: lastSourceCommit_def Let_def split: option.splits if_splits)
  with assms show ?thesis
    by (simp add: verifyManifest_def blob_text_def unmarshal_def dec_manifest_def dec_struct_def no_manifest_def)
qed

end
