(* ===== verification/Terminal.thy ===== *)
theory Terminal
  imports MsbExec
begin

text \<open>
  Raw mode of the terminal (\<open>internal/cli/terminal_linux.go\<close>, and \<open>terminal_other.go\<close> where there is
  none): the settings it makes, the window sizes that the goroutine passes on after SIGWINCH, and the
  cleanup. The ioctls are the parameter \<open>tty_ops\<close> over a state \<open>'w\<close>.
\<close>

unbundle bit_operations_syntax

section \<open>Settings\<close>

text \<open>\<open>syscall.Termios\<close>, and its constants on Linux.\<close>

record termios =
  tm_iflag :: u32
  tm_oflag :: u32
  tm_cflag :: u32
  tm_lflag :: u32
  tm_line :: "8 word"
  tm_cc :: "8 word list"
  tm_ispeed :: u32
  tm_ospeed :: u32

record 'w tty_ops =
  tt_get :: "int \<Rightarrow> 'w \<Rightarrow> termios option"
  tt_set :: "int \<Rightarrow> termios \<Rightarrow> ('w, bool) act"
  tt_size :: "int \<Rightarrow> 'w \<Rightarrow> (u16 \<times> u16) option"

record termState =
  ts_fd :: int
  ts_saved :: termios

definition isTerminal :: "'w tty_ops \<Rightarrow> int \<Rightarrow> 'w \<Rightarrow> bool" where
  "isTerminal ops fd w = (tt_get ops fd w \<noteq> None)"

definition terminalSize :: "'w tty_ops \<Rightarrow> int \<Rightarrow> 'w \<Rightarrow> WinSize option" where
  "terminalSize ops fd w =
     (case tt_size ops fd w of
        None \<Rightarrow> None
      | Some (r, c) \<Rightarrow> if r = 0 \<and> c = 0 then None else Some \<lparr>ws_rows = r, ws_cols = c\<rparr>)"

text \<open>IGNBRK, BRKINT, PARMRK, ISTRIP, INLCR, IGNCR, ICRNL, IXON; OPOST; ECHO, ECHONL, ICANON, ISIG,
  IEXTEN; CSIZE and PARENB; CS8; VMIN and VTIME.\<close>

definition iflags_cleared :: u32 where "iflags_cleared = 0x1 OR 0x2 OR 0x8 OR 0x20 OR 0x40 OR 0x80 OR 0x100 OR 0x400"
definition oflags_cleared :: u32 where "oflags_cleared = 0x1"
definition lflags_cleared :: u32 where "lflags_cleared = 0x8 OR 0x40 OR 0x2 OR 0x1 OR 0x8000"
definition cflags_cleared :: u32 where "cflags_cleared = 0x30 OR 0x100"
definition cflags_set :: u32 where "cflags_set = 0x30"

definition raw_of :: "termios \<Rightarrow> termios" where
  "raw_of t = t\<lparr>tm_iflag := tm_iflag t AND NOT iflags_cleared,
     tm_oflag := tm_oflag t AND NOT oflags_cleared,
     tm_lflag := tm_lflag t AND NOT lflags_cleared,
     tm_cflag := (tm_cflag t AND NOT cflags_cleared) OR cflags_set,
     tm_cc := (tm_cc t)[6 := 1, 5 := 0]\<rparr>"

definition makeRaw :: "'w tty_ops \<Rightarrow> int \<Rightarrow> ('w, termState option) act" where
  "makeRaw ops fd w =
     (case tt_get ops fd w of
        None \<Rightarrow> (None, w)
      | Some old \<Rightarrow>
          (case tt_set ops fd (raw_of old) w of
             (True, w1) \<Rightarrow> (Some \<lparr>ts_fd = fd, ts_saved = old\<rparr>, w1)
           | (False, w1) \<Rightarrow> (None, w1)))"

definition restore :: "'w tty_ops \<Rightarrow> termState \<Rightarrow> 'w \<Rightarrow> 'w" where
  "restore ops s w = snd (tt_set ops (ts_fd s) (ts_saved s) w)"

section \<open>Raw mode with window sizes\<close>

text \<open>\<open>rs_out\<close> is the channel of four sizes, \<open>rs_taken\<close> what its reader received so far; \<open>rs_signal\<close>
  the one signal that \<open>sigCh\<close> holds.\<close>

record raw_session =
  rs_state :: termState
  rs_out :: "WinSize list"
  rs_taken :: "WinSize list"
  rs_signal :: bool
  rs_open :: bool

definition enterRawMode :: "'w tty_ops \<Rightarrow> int \<Rightarrow> ('w, raw_session option) act" where
  "enterRawMode ops fd w =
     (if \<not> isTerminal ops fd w then (None, w)
      else (case makeRaw ops fd w of
              (None, w1) \<Rightarrow> (None, w1)
            | (Some st, w1) \<Rightarrow> (Some \<lparr>rs_state = st, rs_out = [], rs_taken = [], rs_signal = False, rs_open = True\<rparr>, w1)))"

text \<open>The goroutine takes the signal, reads the size, and sends it unless the channel is full.\<close>

definition handle_winch :: "'w tty_ops \<Rightarrow> int \<Rightarrow> 'w \<Rightarrow> raw_session \<Rightarrow> raw_session" where
  "handle_winch ops fd w s =
     (let s1 = s\<lparr>rs_signal := False\<rparr> in
      case terminalSize ops fd w of
        None \<Rightarrow> s1
      | Some ws \<Rightarrow> if length (rs_out s1) < 4 then s1\<lparr>rs_out := rs_out s1 @ [ws]\<rparr> else s1)"

definition cleanup :: "'w tty_ops \<Rightarrow> 'w \<times> raw_session \<Rightarrow> 'w \<times> raw_session" where
  "cleanup ops c =
     (case c of (w, s) \<Rightarrow> if rs_open s then (restore ops (rs_state s) w, s\<lparr>rs_open := False, rs_signal := False\<rparr>) else (w, s))"

text \<open>The steps of a session: the window changes and a signal arrives (the settings stay), the goroutine
  handles the signal, the reader takes a size, the cleanup is called.\<close>

inductive win_step :: "'w tty_ops \<Rightarrow> int \<Rightarrow> 'w \<times> raw_session \<Rightarrow> 'w \<times> raw_session \<Rightarrow> bool" for ops fd where
  winch: "rs_open s \<Longrightarrow> tt_get ops fd w' = tt_get ops fd w \<Longrightarrow> win_step ops fd (w, s) (w', s\<lparr>rs_signal := True\<rparr>)"
| handle: "rs_open s \<Longrightarrow> rs_signal s \<Longrightarrow> win_step ops fd (w, s) (w, handle_winch ops fd w s)"
| receive: "rs_out s = x # xs \<Longrightarrow> win_step ops fd (w, s) (w, s\<lparr>rs_out := xs, rs_taken := rs_taken s @ [x]\<rparr>)"
| close: "win_step ops fd c (cleanup ops c)"

inductive_cases win_stepE: "win_step ops fd (w, s) c"

text \<open>Where the operating system is not Linux there is no raw mode.\<close>

definition enterRawMode_other :: "int \<Rightarrow> raw_session option" where
  "enterRawMode_other fd = None"

section \<open>The terminal\<close>

text \<open>What raw mode relies on: settings that were set are read back, and a failed ioctl changes nothing.\<close>

locale tty_device =
  fixes ops :: "'w tty_ops" and fd :: int
  assumes set_get: "tt_set ops fd t w = (True, w') \<Longrightarrow> tt_get ops fd w' = Some t"
    and set_fails: "tt_set ops fd t w = (False, w') \<Longrightarrow> w' = w"
begin

lemma enter_result:
  "enterRawMode ops fd w = (r, w1) \<Longrightarrow>
     (case r of
        None \<Rightarrow> w1 = w
      | Some s \<Rightarrow> (\<exists>t. tt_get ops fd w = Some t \<and> tt_get ops fd w1 = Some (raw_of t)
          \<and> s = \<lparr>rs_state = \<lparr>ts_fd = fd, ts_saved = t\<rparr>, rs_out = [], rs_taken = [], rs_signal = False, rs_open = True\<rparr>))"
  using set_get set_fails
  by (auto simp: enterRawMode_def makeRaw_def split: if_splits option.splits prod.splits bool.splits)

text \<open>While open, the settings are the raw ones; after the cleanup the saved ones, if it could set them.\<close>

definition settings_kept :: "termios \<Rightarrow> 'w \<times> raw_session \<Rightarrow> bool" where
  "settings_kept t c \<longleftrightarrow> rs_state (snd c) = \<lparr>ts_fd = fd, ts_saved = t\<rparr>
     \<and> tt_get ops fd (fst c) = Some (if rs_open (snd c) then raw_of t else t)"

lemma step_settings:
  assumes "win_step ops fd c c'" "settings_kept t c" "\<And>v. tt_get ops fd v \<noteq> None \<Longrightarrow> fst (tt_set ops fd t v)"
  shows "settings_kept t c'"
  using assms(1,2)
proof cases
  case close
  obtain w s where c: "c = (w, s)" by fastforce
  have "tt_get ops fd (restore ops (rs_state s) w) = Some t"
  proof -
    have "tt_get ops fd w \<noteq> None" using assms(2) by (simp add: c settings_kept_def)
    then obtain w' where "tt_set ops fd t w = (True, w')" using assms(3) [of w] by (cases "tt_set ops fd t w") auto
    then show ?thesis using set_get assms(2) by (simp add: c settings_kept_def restore_def)
  qed
  with assms(2) show ?thesis by (simp add: local.close c settings_kept_def cleanup_def)
next
  case (handle s w)
  then show ?thesis using assms(2) by (auto simp: settings_kept_def handle_winch_def Let_def split: option.splits)
qed (use assms(2) in \<open>simp_all add: settings_kept_def\<close>)

lemma session_settings:
  assumes "(win_step ops fd)\<^sup>*\<^sup>* c c'" "settings_kept t c" "\<And>v. tt_get ops fd v \<noteq> None \<Longrightarrow> fst (tt_set ops fd t v)"
  shows "settings_kept t c'"
  using assms(1,2) by (induction rule: rtranclp_induct) (use step_settings [OF _ _ assms(3)] in auto)

end

section \<open>A terminal\<close>

text \<open>File descriptor 0 of a process with or without a terminal.\<close>

record tty =
  ty_attrs :: "termios option"
  ty_size :: "u16 \<times> u16"

definition std_tty :: "tty tty_ops" where
  "std_tty = \<lparr>tt_get = (\<lambda>fd w. if fd = 0 then ty_attrs w else None),
     tt_set = (\<lambda>fd t w. if fd = 0 \<and> ty_attrs w \<noteq> None then (True, w\<lparr>ty_attrs := Some t\<rparr>) else (False, w)),
     tt_size = (\<lambda>fd w. if fd = 0 \<and> ty_attrs w \<noteq> None then Some (ty_size w) else None)\<rparr>"

interpretation stdin: tty_device std_tty fd for fd
  by unfold_locales (auto simp: std_tty_def split: if_splits)

section \<open>Properties\<close>

text \<open>C25: Raw mode is undone. If entering raw mode reports failure nothing changed; otherwise, after any
  sequence of resizes, handled signals, reads and cleanup calls, the terminal has exactly its former
  settings if a cleanup was among them, and the raw ones, in which no signal key, no echo and no line
  editing is left, if none was.\<close>

theorem raw_mode_is_undone:
  assumes "\<forall>t w w'. tt_set ops fd t w = (True, w') \<longrightarrow> tt_get ops fd w' = Some t"
    and "\<forall>t w w'. tt_set ops fd t w = (False, w') \<longrightarrow> w' = w"
    and "\<forall>t v. tt_get ops fd v \<noteq> None \<longrightarrow> fst (tt_set ops fd t v)"
    and "enterRawMode ops fd w = (r, w1)"
  shows "(case r of
      None \<Rightarrow> w1 = w
    | Some s0 \<Rightarrow> (\<exists>t. tt_get ops fd w = Some t \<and> tm_lflag (raw_of t) AND 0xB = 0
        \<and> (\<forall>w2 s. (win_step ops fd)\<^sup>*\<^sup>* (w1, s0) (w2, s) \<longrightarrow> tt_get ops fd w2 = Some (if rs_open s then raw_of t else t))))"
proof -
  have dev: "tty_device ops fd" using assms(1,2) by unfold_locales blast+
  have bits: "(x AND NOT lflags_cleared) AND 0xB = 0" for x
  proof -
    have "(NOT lflags_cleared) AND 0xB = 0" by (simp add: lflags_cleared_def)
    then show ?thesis by (simp add: and.assoc)
  qed
  show ?thesis
  proof (cases r)
    case None
    then show ?thesis using tty_device.enter_result [OF dev assms(4)] by simp
  next
    case (Some s0)
    then obtain t where t: "tt_get ops fd w = Some t" "tt_get ops fd w1 = Some (raw_of t)"
      "s0 = \<lparr>rs_state = \<lparr>ts_fd = fd, ts_saved = t\<rparr>, rs_out = [], rs_taken = [], rs_signal = False, rs_open = True\<rparr>"
      using tty_device.enter_result [OF dev assms(4)] by auto
    have "tty_device.settings_kept ops fd t (w1, s0)" by (simp add: tty_device.settings_kept_def [OF dev] t)
    note kept = tty_device.session_settings [OF dev _ this]
    have "tt_get ops fd w2 = Some (if rs_open s then raw_of t else t)" if run: "(win_step ops fd)\<^sup>*\<^sup>* (w1, s0) (w2, s)" for w2 s
    proof -
      have "tty_device.settings_kept ops fd t (w2, s)" by (rule kept [OF run]) (use assms(3) in blast)
      then show ?thesis by (simp add: tty_device.settings_kept_def [OF dev])
    qed
    moreover have "tm_lflag (raw_of t) AND 0xB = 0" by (simp add: raw_of_def bits)
    ultimately show ?thesis unfolding Some option.case using t(1) by blast
  qed
qed

lemma std_tty_laws:
  "\<forall>t w w'. tt_set std_tty fd t w = (True, w') \<longrightarrow> tt_get std_tty fd w' = Some t"
  "\<forall>t w w'. tt_set std_tty fd t w = (False, w') \<longrightarrow> w' = w"
  "\<forall>t v. tt_get std_tty fd v \<noteq> None \<longrightarrow> fst (tt_set std_tty fd t v)"
  by (blast intro: stdin.set_get, blast dest: stdin.set_fails, auto simp: std_tty_def split: if_splits)

definition cooked :: termios where
  "cooked = \<lparr>tm_iflag = 0x500, tm_oflag = 5, tm_cflag = 0xBF, tm_lflag = 0x8A3B, tm_line = 0, tm_cc = replicate 32 0,
     tm_ispeed = 15, tm_ospeed = 15\<rparr>"

definition raw_session0 :: "termios \<Rightarrow> raw_session" where
  "raw_session0 t = \<lparr>rs_state = \<lparr>ts_fd = 0, ts_saved = t\<rparr>, rs_out = [], rs_taken = [], rs_signal = False, rs_open = True\<rparr>"

lemma std_tty_enter:
  "enterRawMode std_tty 0 \<lparr>ty_attrs = Some t, ty_size = z\<rparr> = (Some (raw_session0 t), \<lparr>ty_attrs = Some (raw_of t), ty_size = z\<rparr>)"
  by (simp add: enterRawMode_def isTerminal_def makeRaw_def std_tty_def raw_session0_def)

theorem raw_mode_is_undone_witness:
  "\<exists>s0 w1. enterRawMode std_tty 0 \<lparr>ty_attrs = Some cooked, ty_size = (24, 80)\<rparr> = (Some s0, w1)
     \<and> ty_attrs w1 = Some (raw_of cooked) \<and> ty_attrs (fst (cleanup std_tty (cleanup std_tty (w1, s0)))) = Some cooked"
proof -
  let ?w = "\<lparr>ty_attrs = Some cooked, ty_size = (24, 80)\<rparr>" and ?w1 = "\<lparr>ty_attrs = Some (raw_of cooked), ty_size = (24, 80)\<rparr>"
  let ?s0 = "raw_session0 cooked"
  let ?fin = "cleanup std_tty (cleanup std_tty (?w1, ?s0))"
  note undone = raw_mode_is_undone [OF std_tty_laws std_tty_enter [of cooked "(24, 80)"]]
  have get: "tt_get std_tty 0 w = ty_attrs w" for w by (simp add: std_tty_def)
  have run: "(win_step std_tty 0)\<^sup>*\<^sup>* (?w1, ?s0) (fst ?fin, snd ?fin)"
    unfolding prod.collapse
    by (rule rtranclp.rtrancl_into_rtrancl, rule r_into_rtranclp, rule win_step.close, rule win_step.close)
  have closed: "\<not> rs_open (snd ?fin)" by (simp add: cleanup_def split: prod.splits)
  obtain t where t: "tt_get std_tty 0 ?w = Some t"
      "\<And>w2 s. (win_step std_tty 0)\<^sup>*\<^sup>* (?w1, ?s0) (w2, s) \<Longrightarrow> tt_get std_tty 0 w2 = Some (if rs_open s then raw_of t else t)"
    using undone unfolding option.case by blast
  have "tt_get std_tty 0 (fst ?fin) = Some cooked" using t(2) [OF run] closed t(1) by (simp add: get)
  then have "ty_attrs (fst ?fin) = Some cooked" by (simp add: get)
  then show ?thesis using std_tty_enter [of cooked "(24, 80)"] by auto
qed

text \<open>Every resize reaches the reader as long as the channel has room. In a run of an open session in
  whose states the channel is never full, whenever no signal is left to be handled and the window
  differs from what it was at the start, the last size sent is the size of the window.\<close>

theorem resize_reaches_reader:
  assumes "enterRawMode ops fd w = (Some s0, w1)"
    and "(\<lambda>c c'. win_step ops fd c c' \<and> length (rs_out (snd c)) < 4)\<^sup>*\<^sup>* (w1, s0) (w2, s)"
    and "rs_open s" "\<not> rs_signal s" "terminalSize ops fd w2 = Some ws" "terminalSize ops fd w1 \<noteq> Some ws"
  shows "rs_taken s @ rs_out s \<noteq> [] \<and> last (rs_taken s @ rs_out s) = ws"
proof -
  let ?size = "terminalSize ops fd"
  define known where "known = (\<lambda>c :: _ \<times> raw_session. rs_open (snd c) \<longrightarrow> rs_signal (snd c) \<or> ?size (fst c) = None \<or> ?size (fst c) = ?size w1
     \<or> (\<exists>xs x. rs_taken (snd c) @ rs_out (snd c) = xs @ [x] \<and> ?size (fst c) = Some x))"
  have start: "known (w1, s0)" by (simp add: known_def)
  have step: "known c'" if "win_step ops fd c c'" "known c" "length (rs_out (snd c)) < 4" for c c'
    using that(1)
  proof cases
    case (handle s w)
    then show ?thesis using that(3) by (auto simp: known_def handle_winch_def Let_def split: option.splits)
  next
    case close
    then show ?thesis using that(2) by (auto simp: known_def cleanup_def split: prod.splits)
  qed (use that(2) in \<open>auto simp: known_def\<close>)
  have "known (w2, s)" using assms(2) by (induction rule: rtranclp_induct) (use start step in auto)
  then obtain xs where "rs_taken s @ rs_out s = xs @ [ws]" using assms(3-6) by (auto simp: known_def)
  then show ?thesis by simp
qed

lemma resize_run:
  assumes "rs_open s" "\<not> rs_signal s" "tt_get ops fd w' = tt_get ops fd w" "terminalSize ops fd w' = Some x"
  shows "(win_step ops fd)\<^sup>*\<^sup>* (w, s) (w', s\<lparr>rs_out := if length (rs_out s) < 4 then rs_out s @ [x] else rs_out s\<rparr>)"
proof -
  have "win_step ops fd (w, s) (w', s\<lparr>rs_signal := True\<rparr>)" using assms(1,3) by (rule win_step.winch)
  moreover have "win_step ops fd (w', s\<lparr>rs_signal := True\<rparr>) (w', handle_winch ops fd w' (s\<lparr>rs_signal := True\<rparr>))"
    using assms(1) by (intro win_step.handle) simp_all
  moreover have "handle_winch ops fd w' (s\<lparr>rs_signal := True\<rparr>)
      = s\<lparr>rs_out := if length (rs_out s) < 4 then rs_out s @ [x] else rs_out s\<rparr>"
    using assms(2,4) by (simp add: handle_winch_def)
  ultimately show ?thesis by (metis converse_rtranclp_into_rtranclp r_into_rtranclp)
qed

lemma drain_run:
  "rs_out s = xs \<Longrightarrow> (win_step ops fd)\<^sup>*\<^sup>* (w, s) (w, s\<lparr>rs_out := [], rs_taken := rs_taken s @ xs\<rparr>)"
proof (induction xs arbitrary: s)
  case Nil
  then show ?case by (cases s) simp
next
  case (Cons x xs)
  let ?s = "s\<lparr>rs_out := xs, rs_taken := rs_taken s @ [x]\<rparr>"
  have "win_step ops fd (w, s) (w, ?s)" using Cons.prems by (rule win_step.receive)
  with Cons.IH [of ?s] show ?case by (simp add: converse_rtranclp_into_rtranclp)
qed

text \<open>The last size of a burst is lost. When the window changes five times before the reader takes a
  size, there is a run after which nothing is left to handle or to take and the reader has the
  first four sizes only: the guest keeps the fourth size although the window has the fifth.\<close>

theorem fifth_resize_is_lost:
  assumes "enterRawMode ops fd w = (Some s0, w1)"
    and "map (tt_get ops fd) [v1, v2, v3, v4, v5] = replicate 5 (tt_get ops fd w1)"
    and "map (terminalSize ops fd) [v1, v2, v3, v4, v5] = map Some [x1, x2, x3, x4, x5]"
  shows "\<exists>s. (win_step ops fd)\<^sup>*\<^sup>* (w1, s0) (v5, s) \<and> rs_open s \<and> \<not> rs_signal s \<and> rs_out s = []
    \<and> rs_taken s = [x1, x2, x3, x4] \<and> terminalSize ops fd v5 = Some x5"
proof -
  have same: "\<forall>v \<in> {v1, v2, v3, v4, v5}. tt_get ops fd v = tt_get ops fd w1" using assms(2) by (simp add: numeral_eq_Suc)
  have s0: "rs_open s0" "\<not> rs_signal s0" "rs_out s0 = []" "rs_taken s0 = []"
    using assms(1) by (auto simp: enterRawMode_def makeRaw_def split: if_splits option.splits prod.splits bool.splits)
  have run: "(win_step ops fd)\<^sup>*\<^sup>* (v, s0\<lparr>rs_out := xs\<rparr>) (v', s0\<lparr>rs_out := if length xs < 4 then xs @ [x] else xs\<rparr>)"
    if "terminalSize ops fd v' = Some x" "tt_get ops fd v' = tt_get ops fd v" for v v' xs x
    using resize_run [of "s0\<lparr>rs_out := xs\<rparr>" ops fd v' v x] s0 that by (cases "length xs < 4") simp_all
  have start: "s0 = s0\<lparr>rs_out := []\<rparr>" using s0(3) by (cases s0) simp
  have "(win_step ops fd)\<^sup>*\<^sup>* (w1, s0) (v5, s0\<lparr>rs_out := [x1, x2, x3, x4]\<rparr>)"
  proof -
    have "(win_step ops fd)\<^sup>*\<^sup>* (w1, s0) (v1, s0\<lparr>rs_out := [x1]\<rparr>)" using run [of v1 x1 w1 "[]"] start [symmetric] same assms(3) by simp
    moreover have "(win_step ops fd)\<^sup>*\<^sup>* (v1, s0\<lparr>rs_out := [x1]\<rparr>) (v2, s0\<lparr>rs_out := [x1, x2]\<rparr>)"
      using run [of v2 x2 v1 "[x1]"] same assms(3) by simp
    moreover have "(win_step ops fd)\<^sup>*\<^sup>* (v2, s0\<lparr>rs_out := [x1, x2]\<rparr>) (v3, s0\<lparr>rs_out := [x1, x2, x3]\<rparr>)"
      using run [of v3 x3 v2 "[x1, x2]"] same assms(3) by simp
    moreover have "(win_step ops fd)\<^sup>*\<^sup>* (v3, s0\<lparr>rs_out := [x1, x2, x3]\<rparr>) (v4, s0\<lparr>rs_out := [x1, x2, x3, x4]\<rparr>)"
      using run [of v4 x4 v3 "[x1, x2, x3]"] same assms(3) by simp
    moreover have "(win_step ops fd)\<^sup>*\<^sup>* (v4, s0\<lparr>rs_out := [x1, x2, x3, x4]\<rparr>) (v5, s0\<lparr>rs_out := [x1, x2, x3, x4]\<rparr>)"
      using run [of v5 x5 v4 "[x1, x2, x3, x4]"] same assms(3) by simp
    ultimately show ?thesis by (metis rtranclp_trans)
  qed
  also have "(win_step ops fd)\<^sup>*\<^sup>* (v5, s0\<lparr>rs_out := [x1, x2, x3, x4]\<rparr>)
      (v5, s0\<lparr>rs_out := [], rs_taken := [x1, x2, x3, x4]\<rparr>)"
    using drain_run [of "s0\<lparr>rs_out := [x1, x2, x3, x4]\<rparr>" "[x1, x2, x3, x4]" ops fd v5] s0 by simp
  finally show ?thesis using s0 assms(3) by (intro exI [of _ "s0\<lparr>rs_out := [], rs_taken := [x1, x2, x3, x4]\<rparr>"]) simp
qed

lemma tall_size: "r \<noteq> 0 \<Longrightarrow> terminalSize std_tty 0 \<lparr>ty_attrs = Some t, ty_size = (r, c)\<rparr> = Some \<lparr>ws_rows = r, ws_cols = c\<rparr>"
  by (simp add: terminalSize_def std_tty_def)

theorem resize_reaches_reader_witness:
  "rs_taken (raw_session0 cooked\<lparr>rs_out := [\<lparr>ws_rows = 30, ws_cols = 80\<rparr>]\<rparr>) @ [\<lparr>ws_rows = 30, ws_cols = 80\<rparr>] \<noteq> []
   \<and> last [\<lparr>ws_rows = 30, ws_cols = 80\<rparr>] = (\<lparr>ws_rows = 30, ws_cols = 80\<rparr> :: WinSize)"
proof -
  let ?at = "\<lambda>r. \<lparr>ty_attrs = Some (raw_of cooked), ty_size = (r :: u16, 80)\<rparr>" and ?x = "\<lparr>ws_rows = 30, ws_cols = 80\<rparr>"
  let ?s0 = "raw_session0 cooked" and ?step = "\<lambda>c c'. win_step std_tty 0 c c' \<and> length (rs_out (snd c)) < 4"
  have "win_step std_tty 0 (?at 24, ?s0) (?at 30, ?s0\<lparr>rs_signal := True\<rparr>)"
    by (intro win_step.winch) (simp_all add: raw_session0_def std_tty_def)
  then have 1: "?step (?at 24, ?s0) (?at 30, ?s0\<lparr>rs_signal := True\<rparr>)" by (simp add: raw_session0_def)
  have "handle_winch std_tty 0 (?at 30) (?s0\<lparr>rs_signal := True\<rparr>) = ?s0\<lparr>rs_out := [?x]\<rparr>"
    by (simp add: handle_winch_def tall_size raw_session0_def)
  moreover have "win_step std_tty 0 (?at 30, ?s0\<lparr>rs_signal := True\<rparr>)
      (?at 30, handle_winch std_tty 0 (?at 30) (?s0\<lparr>rs_signal := True\<rparr>))"
    by (intro win_step.handle) (simp_all add: raw_session0_def)
  ultimately have 2: "?step (?at 30, ?s0\<lparr>rs_signal := True\<rparr>) (?at 30, ?s0\<lparr>rs_out := [?x]\<rparr>)" by (simp add: raw_session0_def)
  have "?step\<^sup>*\<^sup>* (?at 24, ?s0) (?at 30, ?s0\<lparr>rs_out := [?x]\<rparr>)" using 1 2 by (rule converse_rtranclp_into_rtranclp [OF _ r_into_rtranclp])
  from resize_reaches_reader [OF std_tty_enter this, of ?x] show ?thesis by (simp add: raw_session0_def tall_size)
qed

theorem fifth_resize_is_lost_witness:
  "\<exists>w s. (win_step std_tty 0)\<^sup>*\<^sup>* (\<lparr>ty_attrs = Some (raw_of cooked), ty_size = (24, 80)\<rparr>, raw_session0 cooked) (w, s)
     \<and> \<not> rs_signal s \<and> rs_out s = [] \<and> last (rs_taken s) = \<lparr>ws_rows = 4, ws_cols = 80\<rparr> \<and> ty_size w = (5, 80)"
proof -
  let ?at = "\<lambda>r. \<lparr>ty_attrs = Some (raw_of cooked), ty_size = (r :: u16, 80)\<rparr>" and ?x = "\<lambda>r. \<lparr>ws_rows = r, ws_cols = 80\<rparr>"
  have same: "map (tt_get std_tty 0) [?at 1, ?at 2, ?at 3, ?at 4, ?at 5] = replicate 5 (tt_get std_tty 0 (?at 24))"
    by (simp add: std_tty_def numeral_eq_Suc)
  have "map (terminalSize std_tty 0) [?at 1, ?at 2, ?at 3, ?at 4, ?at 5] = map Some [?x 1, ?x 2, ?x 3, ?x 4, ?x 5]"
    by (simp add: tall_size)
  from fifth_resize_is_lost [OF std_tty_enter same this]
  obtain s where "(win_step std_tty 0)\<^sup>*\<^sup>* (?at 24, raw_session0 cooked) (?at 5, s)" "\<not> rs_signal s" "rs_out s = []"
      "rs_taken s = [?x 1, ?x 2, ?x 3, ?x 4]"
    by blast
  then show ?thesis by (intro exI [of _ "?at 5"] exI [of _ s]) simp
qed

end
