(* ===== verification/Spec2Isabelle.thy ===== *)
theory Spec2Isabelle
  imports NetProfile RuntimeProps RangeRace MsbExec PortDiscovery PortManager CredMount HerdrSpace
    McpProps PruneProps SpaceProps CredProps PluginProps AgentProps AgentPipeline ProvisionProps RepoProps
    Terminal
begin

text \<open>
  herdr-plugin-msb puts microsandbox sandboxes behind herdr workspaces. This development models its Go
  code, \<open>internal/\<close> and \<open>tools/\<close>, and proves what its parts promise. Definitions carry the names of
  the Go functions; where a name is taken in Isabelle or used by two packages it has a prefix or a
  suffix (\<open>rt_List\<close>, \<open>space_Delete\<close>, \<open>consent_Save\<close>, \<open>Apply_profile\<close>).

  Conventions. An operation on a state \<open>'s\<close> that returns a value is an \<open>act\<close>, a function from the
  state to value and new state (theory \<open>Prelude\<close>). Errors are values, \<open>Inl\<close> of an error datatype or
  \<open>Some\<close> error; every early return of the code is a branch. Integers of a fixed width are words, so
  conversions truncate and sums wrap as in Go; Go's \<open>int\<close> is \<open>int\<close> where it cannot overflow. JSON is a
  tree; the scanner from bytes to a tree, and the formatting of times, are parameters (theory \<open>GoJson\<close>
  models decoding into structs with its case-insensitive keys, \<open>GoTime\<close> instants, \<open>GoFlag\<close> flag
  parsing, \<open>GoStrings\<close> strings, numbers and paths). What is outside the repository (the
  microsandbox SDK, ssh and herdr processes, the file system calls, ioctls, git, SHA-256) is an argument
  of the definitions that use it: a record of operations, a runner from an argument vector to output
  and exit code, or an outcome.

  Parts and theories.
  \<^item> The seam \<open>internal/core/runtime\<close>: \<open>CoreRuntime\<close> (sandbox references, specs, port lists). The
    service \<open>internal/core/service\<close>: \<open>CoreService\<close>, over any runtime that keeps the locale
    \<open>sandbox_runtime\<close>.
  \<^item> The runtime \<open>internal/runtime/msb\<close>: \<open>MsbSdk\<close> (the SDK as a record of operations and a concrete daemon),
    \<open>MsbPaging\<close> (\<open>admission.go\<close>: committed memory), \<open>RangeAlloc\<close> (\<open>rangealloc.go\<close>), \<open>MsbRuntime\<close>
    (\<open>runtime.go\<close>, \<open>lifecycle.go\<close>, \<open>network.go\<close>, \<open>publish.go\<close>), \<open>MsbExec\<close> (\<open>exec.go\<close>). With
    \<open>Admission\<close> (\<open>internal/core/admission\<close>) and \<open>NetProfile\<close> (\<open>internal/core/netprofile\<close>). \<open>RuntimeSafety\<close>
    proves the guarantees over any daemon that keeps the laws of its locales, \<open>RuntimeProps\<close> states
    them, \<open>RangeRace\<close> interleaves the steps of concurrent creates, and \<open>MsbService\<close> shows that the
    runtime on the daemon is a \<open>sandbox_runtime\<close>.
  \<^item> Port forwarding: \<open>PortDiscovery\<close>, \<open>Forwarder\<close>, \<open>PortManager\<close> (\<open>internal/core/portfwd\<close>); \<open>ClientQueue\<close>,
    \<open>ClientAgent\<close>, \<open>AgentServe\<close> (\<open>internal/clientagent\<close>: queue file, ticks, the whole loop with its
    back-off; \<open>AgentPipeline\<close>: panel, queue file, agent and ssh master together); \<open>PortsState\<close>,
    \<open>PortsPane\<close>, \<open>PluginCommands\<close> (the panel, link toggle and plugin commands of \<open>internal/cli\<close>), with \<open>PortsProps\<close> and \<open>PluginProps\<close>.
  \<^item> The agents themselves: \<open>Provision\<close> (\<open>consent.go\<close>, \<open>provision.go\<close>, \<open>agentrun.go\<close>,
    \<open>internal/portfwd/machines.go\<close>), \<open>AgentProc\<close> (\<open>proc.go\<close>, \<open>startup.go\<close>, \<open>wrap_attach.go\<close>), \<open>AgentHost\<close>
    (the contract of the host and one that keeps it), with \<open>AgentProps\<close> and \<open>ProvisionProps\<close>.
  \<^item> Credentials: \<open>CredMount\<close>, \<open>CredStore\<close>, \<open>CredRefresh\<close>, \<open>CredProps\<close> (\<open>internal/core/credmount\<close>).
  \<^item> Workspaces: \<open>HerdrSpace\<close> (\<open>internal/core/herdrspace\<close>), \<open>CliCommon\<close>, \<open>SandboxCommands\<close>,
    \<open>SpaceCommands\<close>, \<open>SpaceConvert\<close>, \<open>SpacePrune\<close> (the commands of \<open>internal/cli\<close>), with \<open>SpaceProps\<close>
    and \<open>PruneProps\<close>; \<open>Terminal\<close> (raw mode of the terminal).
  \<^item> \<open>McpServer\<close>, \<open>McpProps\<close>: the JSON-RPC server \<open>internal/mcp\<close>. \<open>RepoTools\<close>, \<open>RepoProps\<close>: the import ban and
    the check of the built artifacts (\<open>tools/\<close>).

  How they interact. A command of \<open>internal/cli\<close> parses its flags, loads the store of bindings, and calls
  the service; the service checks that a name belongs to its project and calls the runtime; the
  runtime asks admission for memory, allocates a block of host ports, creates through the SDK, and
  checks for a collision afterwards. The MCP server calls the runtime directly. Forwarding requests go
  through the queue file: the panel, \<open>declare\<close> and the link toggle enqueue, an agent on the client
  reads the file over ssh, applies it through the ssh master and acknowledges. Agents are started by
  the startup hook or by an attach, one per target by a pid file, on machines that were provisioned.

  What the lemmas show. Over any sequence of operations the committed memory stays in the budget; a
  sandbox refused after it was created is removed; egress is denied by default; the blocks of booted
  sandboxes are disjoint in every interleaving; the service touches only sandboxes of its project.
  What the panel asks for is forwarded; the manager reaches the desired forwards and refines the
  table of the ssh master; an agent
  acknowledges only what was applied and cancels everything when it ends; a target never has two
  agents as long as agents are closed by the hook. Bindings stay one to one and concurrent writers lose
  none; pruning spares running sandboxes and live workspaces and is complete. Credential directories
  are not mounted; refreshed credentials load again; the version marker of a machine follows its files.
  Raw mode is undone; the import ban is exact; a written manifest accepts exactly what it describes.
  Other theorems prove where the code does less than it means to; the manifest lists them as
  findings. Each claim with hypotheses has a witness at a concrete state.

  Interfaces. \<open>accountant\<close> (committed memory), \<open>sdk_listing\<close>, \<open>sdk_daemon\<close>, \<open>sdk_removal\<close> (the SDK's
  daemon; interpreted on the daemon of \<open>MsbSdk\<close>), \<open>sandbox_runtime\<close> (interpreted on the msb
  runtime), \<open>forwarding\<close> (on the ssh master), \<open>binding_store\<close> (on the store of \<open>HerdrSpace\<close>), \<open>process_host\<close>
  and \<open>obedient_host\<close> (on the host of \<open>AgentHost\<close>), \<open>ssh_host\<close> (on the host of \<open>AgentPipeline\<close>),
  \<open>tty_device\<close> (on standard input).

  Bounds. Page loops run at most 1000 pages, the limit of the code. The loops that may run forever,
  \<open>rt_List\<close> over a daemon that repeats a cursor and \<open>recv_loop\<close> over the events of an exec, are partial
  functions whose value is \<open>None\<close> when they do not return; that they return is proved as such. The polling loops of the agents look at most once per pause of
  100 ms, so 150 rounds cover the 15 seconds of \<open>WaitForSocket\<close> and 100 rounds the 10 seconds of
  \<open>teardownSession\<close>. Loops that serve until they are cancelled take the list of what happens to them:
  ticks, bytes, requests.

  Not modelled. \<open>internal/core/credmount/livemsb\<close> is support of the live tests. \<open>cmd/*/main.go\<close> set up signals
  and call the modelled dispatch; \<open>internal/cli/compat.go\<close> holds aliases. The wording of messages that
  only a person reads is modelled by constructors that carry their data. Wall-clock time is a
  parameter or a count of rounds; goroutines are modelled where their interleaving matters (creates,
  writers of the store, window sizes) and by their effect elsewhere.
\<close>

end
